(* ===== verification/Go_Prelude.thy ===== *)
theory Go_Prelude
  imports Main "HOL-Library.Word" "HOL-Library.Finite_Map" "HOL-Library.Multiset"
    "HOL-Library.List_Lexorder" "HOL-Library.Char_ord"
begin

section \<open>Prelude: the parts of Go the sources use\<close>

text \<open>
  What every component shares: the effect type of a Go function that talks to the cluster
  (\<open>io\<close>: a world goes in, an outcome and a world come out; the outcome is a value, an error or a
  panic), Go's error values with their wrapping, the functions of the packages \<open>strings\<close>, \<open>fmt\<close>,
  \<open>slices\<close> and \<open>sort\<close> that the sources call, and the generic lemmas on them.

  Strings are byte strings (\<open>string\<close>); the functions that look at letter case or at white
  space treat ASCII, which is what Kubernetes names, protocols and host names are made of.  A Go map
  is an \<open>fmap\<close>; a map that may be \<open>nil\<close> is an option of one.  \<open>int32\<close> is \<open>32 word\<close> and \<open>int\<close> is
  \<open>64 word\<close>, both read with \<open>sint\<close>.  Log output is not modelled.
\<close>

named_theorems io_simps \<open>evaluation of io programs\<close>
named_theorems go_strings \<open>laws of the string functions\<close>

type_synonym strmap = "(string, string) fmap"
type_synonym int32 = "32 word"
type_synonym int64 = "64 word"

subsection \<open>Errors\<close>

text \<open>
  \<open>Api\<close> is the status error of the API server, \<open>Msg\<close> a plain \<open>fmt.Errorf\<close>, \<open>Wrap m e\<close> a
  \<open>fmt.Errorf\<close> with \<open>%w\<close> (the text \<open>m: e\<close>), \<open>Joined\<close> an \<open>errors.Join\<close>.
\<close>

datatype reason = NotFound | AlreadyExists | Conflict | OtherReason string

datatype error = Api reason | Msg string | Wrap string error | Joined "error list"

text \<open>
  \<open>apierrors.ReasonForError\<close> looks for a status error anywhere below the wrapping
  (\<open>errors.As\<close>, depth first).
\<close>

fun reasonForError :: "error \<Rightarrow> reason option"
  and reasonForErrors :: "error list \<Rightarrow> reason option" where
  "reasonForError (Api r) = Some r"
| "reasonForError (Msg m) = None"
| "reasonForError (Wrap m e) = reasonForError e"
| "reasonForError (Joined es) = reasonForErrors es"
| "reasonForErrors [] = None"
| "reasonForErrors (e # es) =
     (case reasonForError e of Some r \<Rightarrow> Some r | None \<Rightarrow> reasonForErrors es)"

definition isNotFound :: "error \<Rightarrow> bool" where
  "isNotFound e \<longleftrightarrow> reasonForError e = Some NotFound"

definition isAlreadyExists :: "error \<Rightarrow> bool" where
  "isAlreadyExists e \<longleftrightarrow> reasonForError e = Some AlreadyExists"

definition isConflict :: "error \<Rightarrow> bool" where
  "isConflict e \<longleftrightarrow> reasonForError e = Some Conflict"

lemma is_reason_simps [simp]:
  "isNotFound (Api r) \<longleftrightarrow> r = NotFound"
  "isNotFound (Msg m) \<longleftrightarrow> False"
  "isNotFound (Wrap m e) \<longleftrightarrow> isNotFound e"
  "isAlreadyExists (Api r) \<longleftrightarrow> r = AlreadyExists"
  "isAlreadyExists (Msg m) \<longleftrightarrow> False"
  "isAlreadyExists (Wrap m e) \<longleftrightarrow> isAlreadyExists e"
  "isConflict (Api r) \<longleftrightarrow> r = Conflict"
  "isConflict (Msg m) \<longleftrightarrow> False"
  "isConflict (Wrap m e) \<longleftrightarrow> isConflict e"
  by (simp_all add: isNotFound_def isAlreadyExists_def isConflict_def)

subsection \<open>Effects\<close>

datatype 'a outcome = Ret 'a | Fail error | Panic

type_synonym ('w, 'a) io = "'w \<Rightarrow> 'a outcome \<times> 'w"

definition ret :: "'a \<Rightarrow> ('w, 'a) io" where
  "ret x w = (Ret x, w)"

definition fail :: "error \<Rightarrow> ('w, 'a) io" where
  "fail e w = (Fail e, w)"

definition panic :: "('w, 'a) io" where
  "panic w = (Panic, w)"

text \<open>
  \<open>x, err := m; if err != nil { h }; k\<close> is \<open>onErr m h k\<close>; \<open>bind\<close> returns the error as it
  is, \<open>wrapErr\<close> wraps it.
\<close>

definition onErr :: "('w, 'a) io \<Rightarrow> (error \<Rightarrow> ('w, 'b) io) \<Rightarrow> ('a \<Rightarrow> ('w, 'b) io) \<Rightarrow> ('w, 'b) io"
  where
  "onErr m h k w =
     (case m w of
        (Ret x, w') \<Rightarrow> k x w'
      | (Fail e, w') \<Rightarrow> h e w'
      | (Panic, w') \<Rightarrow> (Panic, w'))"

definition bindIO :: "('w, 'a) io \<Rightarrow> ('a \<Rightarrow> ('w, 'b) io) \<Rightarrow> ('w, 'b) io" where
  "bindIO m k = onErr m fail k"

definition wrapErr :: "string \<Rightarrow> ('w, 'a) io \<Rightarrow> ('w, 'a) io" where
  "wrapErr s m = onErr m (\<lambda>e. fail (Wrap s e)) ret"

definition liftSum :: "error + 'a \<Rightarrow> ('w, 'a) io" where
  "liftSum r = (case r of Inl e \<Rightarrow> fail e | Inr x \<Rightarrow> ret x)"

lemma ret_run [io_simps]: "ret x w = (Ret x, w)"
  by (simp add: ret_def)

lemma fail_run [io_simps]: "fail e w = (Fail e, w)"
  by (simp add: fail_def)

lemma panic_run [io_simps]: "panic w = (Panic, w)"
  by (simp add: panic_def)

lemma onErr_run [io_simps]:
  "m w = (Ret x, w') \<Longrightarrow> onErr m h k w = k x w'"
  "m w = (Fail e, w') \<Longrightarrow> onErr m h k w = h e w'"
  "m w = (Panic, w') \<Longrightarrow> onErr m h k w = (Panic, w')"
  by (simp_all add: onErr_def)

lemma onErr_ret [simp]: "onErr (ret x) h k = k x"
  by (rule ext) (simp add: onErr_def ret_def)

lemma onErr_fail [simp]: "onErr (fail e) h k = h e"
  by (rule ext) (simp add: onErr_def fail_def)

lemma onErr_panic [simp]: "onErr panic h k = panic"
  by (rule ext) (simp add: onErr_def panic_def)

lemma bindIO_run [io_simps]:
  "m w = (Ret x, w') \<Longrightarrow> bindIO m k w = k x w'"
  "m w = (Fail e, w') \<Longrightarrow> bindIO m k w = (Fail e, w')"
  "m w = (Panic, w') \<Longrightarrow> bindIO m k w = (Panic, w')"
  by (simp_all add: bindIO_def onErr_def fail_def)

lemma bindIO_ret [simp]: "bindIO (ret x) k = k x"
  by (simp add: bindIO_def)

lemma bindIO_ret_right [simp]: "bindIO m ret = m"
  by (rule ext) (auto simp: bindIO_def onErr_def ret_def fail_def split: prod.split outcome.split)

lemma bindIO_fail [simp]: "bindIO (fail e) k = fail e"
  by (simp add: bindIO_def)

lemma bindIO_panic [simp]: "bindIO panic k = panic"
  by (simp add: bindIO_def)

lemma wrapErr_run [io_simps]:
  "m w = (Ret x, w') \<Longrightarrow> wrapErr s m w = (Ret x, w')"
  "m w = (Fail e, w') \<Longrightarrow> wrapErr s m w = (Fail (Wrap s e), w')"
  "m w = (Panic, w') \<Longrightarrow> wrapErr s m w = (Panic, w')"
  by (simp_all add: wrapErr_def onErr_def fail_def ret_def)

lemma wrapErr_ret [simp]: "wrapErr s (ret x) = ret x"
  by (simp add: wrapErr_def)

lemma wrapErr_fail [simp]: "wrapErr s (fail e) = fail (Wrap s e)"
  by (simp add: wrapErr_def)

lemma liftSum_simps [simp]:
  "liftSum (Inl e) = fail e"
  "liftSum (Inr x) = ret x"
  by (simp_all add: liftSum_def)

text \<open>The inversions: how a sequence can have returned.\<close>

lemma bindIO_Ret:
  assumes "bindIO m k w = (Ret y, w'')"
  obtains x w' where "m w = (Ret x, w')" and "k x w' = (Ret y, w'')"
  using assms
  by (auto simp: bindIO_def onErr_def fail_def split: prod.splits outcome.splits)

lemma wrapErr_Ret [simp]: "wrapErr s m w = (Ret x, w') \<longleftrightarrow> m w = (Ret x, w')"
  by (auto simp: wrapErr_def onErr_def fail_def ret_def split: prod.splits outcome.splits)

lemma snd_wrapErr [simp]: "snd (wrapErr s m w) = snd (m w)"
  by (auto simp: wrapErr_def onErr_def fail_def ret_def split: prod.splits outcome.splits)

lemma liftSum_Ret [simp]: "liftSum r w = (Ret x, w') \<longleftrightarrow> r = Inr x \<and> w' = w"
  by (cases r) (auto simp: ret_def fail_def)

text \<open>A loop over a slice whose body may fail: the first error ends it.\<close>

fun forEach :: "('a \<Rightarrow> ('w, unit) io) \<Rightarrow> 'a list \<Rightarrow> ('w, unit) io" where
  "forEach body [] = ret ()"
| "forEach body (x # xs) = bindIO (body x) (\<lambda>_. forEach body xs)"

lemma forEach_invariant:
  assumes step: "\<And>x w. x \<in> set xs \<Longrightarrow> P w \<Longrightarrow> P (snd (body x w))"
    and "P w"
  shows "P (snd (forEach body xs w))"
  using assms
proof (induction xs arbitrary: w)
  case Nil
  then show ?case by (simp add: ret_run)
next
  case (Cons x xs)
  have "P (snd (body x w))" using Cons.prems by simp
  moreover obtain r w' where "body x w = (r, w')" by (cases "body x w")
  ultimately show ?case
    using Cons.prems Cons.IH [of w'] by (cases r) (simp_all add: io_simps)
qed


subsection \<open>Retrying on conflicts\<close>

text \<open>
  \<open>retry.OnConflict\<close> runs its argument again as long as it fails with a conflict, up to a number
  of tries.  What the callers rely on: a run that does not end in a conflict is the result.
\<close>

definition retriesConflicts :: "(('w, unit) io \<Rightarrow> ('w, unit) io) \<Rightarrow> bool" where
  "retriesConflicts onConflict \<longleftrightarrow>
     (\<forall>body w. (\<forall>e w'. body w = (Fail e, w') \<longrightarrow> \<not> isConflict e) \<longrightarrow> onConflict body w = body w)"

fun retryTimes :: "nat \<Rightarrow> ('w, unit) io \<Rightarrow> ('w, unit) io" where
  "retryTimes 0 body w = body w"
| "retryTimes (Suc n) body w =
     (case body w of
        (Fail e, w') \<Rightarrow> if isConflict e then retryTimes n body w' else (Fail e, w')
      | r \<Rightarrow> r)"

lemma retriesConflicts_apply:
  "retriesConflicts onConflict \<Longrightarrow> (\<And>e w'. body w = (Fail e, w') \<Longrightarrow> \<not> isConflict e) \<Longrightarrow>
     onConflict body w = body w"
  unfolding retriesConflicts_def by blast

lemma retriesConflicts_Ret:
  "retriesConflicts onConflict \<Longrightarrow> body w = (Ret x, w') \<Longrightarrow> onConflict body w = (Ret x, w')"
  unfolding retriesConflicts_def by (metis outcome.distinct(1) prod.inject)

lemma retriesConflicts_Fail:
  "retriesConflicts onConflict \<Longrightarrow> body w = (Fail e, w') \<Longrightarrow> \<not> isConflict e \<Longrightarrow>
     onConflict body w = (Fail e, w')"
  unfolding retriesConflicts_def by (metis outcome.inject(2) prod.inject)

lemma retriesConflicts_retryTimes: "retriesConflicts (retryTimes n)"
  unfolding retriesConflicts_def
proof (intro allI impI)
  fix body :: "('w, unit) io" and w
  assume "\<forall>e w'. body w = (Fail e, w') \<longrightarrow> \<not> isConflict e"
  then show "retryTimes n body w = body w"
    by (cases n; cases "body w"; cases "fst (body w)") auto
qed

subsection \<open>Programs that never panic\<close>

named_theorems no_panic \<open>closure of the programs that never panic\<close>

definition noPanic :: "('w, 'a) io \<Rightarrow> bool" where
  "noPanic m \<longleftrightarrow> (\<forall>w. fst (m w) \<noteq> Panic)"

lemma noPanic_ret [no_panic]: "noPanic (ret x)"
  by (simp add: noPanic_def ret_run)

lemma noPanic_fail [no_panic]: "noPanic (fail e)"
  by (simp add: noPanic_def fail_run)

lemma noPanic_onErr [no_panic]:
  assumes "noPanic m" and "\<And>e. noPanic (h e)" and "\<And>x. noPanic (k x)"
  shows "noPanic (onErr m h k)"
  unfolding noPanic_def
proof
  fix w
  obtain r w' where "m w = (r, w')" by (cases "m w")
  with assms show "fst (onErr m h k w) \<noteq> Panic"
    unfolding noPanic_def by (cases r) (auto simp: io_simps dest: spec [of _ w])
qed

lemma noPanic_bindIO [no_panic]: "noPanic m \<Longrightarrow> (\<And>x. noPanic (k x)) \<Longrightarrow> noPanic (bindIO m k)"
  unfolding bindIO_def by (intro no_panic)

lemma noPanic_wrapErr [no_panic]: "noPanic m \<Longrightarrow> noPanic (wrapErr s m)"
  unfolding wrapErr_def by (intro no_panic)

lemma noPanic_liftSum [no_panic]: "noPanic (liftSum r)"
  by (cases r) (simp_all add: no_panic)

lemma noPanic_read: "(\<And>v. noPanic (m v)) \<Longrightarrow> noPanic (\<lambda>w. m w w)"
  by (simp add: noPanic_def)

end
