(* ===== verification/Go_Strings.thy ===== *)
theory Go_Strings
  imports Go_Prelude
begin

section \<open>The packages strings, strconv, fmt, slices and sort\<close>

text \<open>
  The library functions the sources call, as executable definitions, with the laws the components
  use: splitting and joining, trimming, case mapping, decimal numerals, \<open>path.Join\<close>,
  \<open>slices.DeleteFunc\<close> with its effect on the backing array, and the contract of \<open>sort.Slice\<close>.
\<close>

subsection \<open>Splitting and joining\<close>

text \<open>\<open>strings.Split(s, sep)\<close> for a separator of one byte.\<close>

fun splitStr :: "char \<Rightarrow> string \<Rightarrow> string list" where
  "splitStr c [] = [[]]"
| "splitStr c (x # xs) =
     (if x = c then [] # splitStr c xs
      else (case splitStr c xs of [] \<Rightarrow> [[x]] | y # ys \<Rightarrow> (x # y) # ys))"

text \<open>\<open>strings.Join(elems, sep)\<close>\<close>

fun joinStr :: "string \<Rightarrow> string list \<Rightarrow> string" where
  "joinStr sep [] = []"
| "joinStr sep [x] = x"
| "joinStr sep (x # y # ys) = x @ sep @ joinStr sep (y # ys)"

lemma splitStr_nonempty [simp]: "splitStr c s \<noteq> []"
  by (induction s) (auto split: list.splits)

lemma joinStr_Cons: "ys \<noteq> [] \<Longrightarrow> joinStr sep (x # ys) = x @ sep @ joinStr sep ys"
  by (cases ys) simp_all

lemma joinStr_splitStr [go_strings]: "joinStr [c] (splitStr c s) = s"
proof (induction s)
  case Nil
  then show ?case by simp
next
  case (Cons x s)
  obtain y ys where sp: "splitStr c s = y # ys" by (cases "splitStr c s") auto
  with Cons show ?case by (cases ys) auto
qed

lemma splitStr_no_sep: "c \<notin> set s \<Longrightarrow> splitStr c s = [s]"
  by (induction s) auto

lemma splitStr_append:
  "c \<notin> set s \<Longrightarrow> splitStr c (s @ c # t) = s # splitStr c t"
  by (induction s) auto

lemma splitStr_joinStr [go_strings]:
  assumes "xs \<noteq> []" and "\<forall>x\<in>set xs. c \<notin> set x"
  shows "splitStr c (joinStr [c] xs) = xs"
  using assms
proof (induction xs rule: list_nonempty_induct)
  case (single x)
  then show ?case by (simp add: splitStr_no_sep)
next
  case (cons x xs)
  then show ?case by (simp add: joinStr_Cons splitStr_append)
qed

lemma splitStr_no_sep_inside: "x \<in> set (splitStr c s) \<Longrightarrow> c \<notin> set x"
proof (induction s arbitrary: x)
  case Nil
  then show ?case by simp
next
  case (Cons a s)
  obtain y ys where sp: "splitStr c s = y # ys" by (cases "splitStr c s") auto
  with Cons show ?case by (auto split: if_splits)
qed

subsection \<open>Trimming, prefixes and replacement\<close>

definition isSpace :: "char \<Rightarrow> bool" where
  "isSpace c \<longleftrightarrow> c \<in> {CHR '' '', CHR 0x09, CHR 0x0A, CHR 0x0B, CHR 0x0C, CHR 0x0D}"

definition trimSpace :: "string \<Rightarrow> string" where
  "trimSpace s = rev (dropWhile isSpace (rev (dropWhile isSpace s)))"

text \<open>\<open>strings.TrimRight(s, cutset)\<close> for a cutset of one byte.\<close>

definition trimRight :: "string \<Rightarrow> char \<Rightarrow> string" where
  "trimRight s c = rev (dropWhile (\<lambda>x. x = c) (rev s))"

text \<open>\<open>strings.ReplaceAll(s, old, new)\<close> for an old string of one byte.\<close>

definition replaceAll :: "string \<Rightarrow> char \<Rightarrow> string \<Rightarrow> string" where
  "replaceAll s c new = concat (map (\<lambda>x. if x = c then new else [x]) s)"

definition hasPrefix :: "string \<Rightarrow> string \<Rightarrow> bool" where
  "hasPrefix s p \<longleftrightarrow> take (length p) s = p"

lemma hasPrefix_iff: "hasPrefix s p \<longleftrightarrow> (\<exists>r. s = p @ r)"
proof
  assume "hasPrefix s p"
  then have "s = p @ drop (length p) s"
    unfolding hasPrefix_def by (metis append_take_drop_id)
  then show "\<exists>r. s = p @ r" ..
qed (auto simp: hasPrefix_def)

lemma trimSpace_Nil [simp]: "trimSpace [] = []"
  by (simp add: trimSpace_def)

lemma trimSpace_id:
  "(\<forall>c\<in>set s. \<not> isSpace c) \<Longrightarrow> trimSpace s = s"
  by (simp add: trimSpace_def)
    (metis dropWhile_eq_self_iff hd_in_set rev_is_Nil_conv rev_rev_ident set_rev)

lemma trimSpace_blank: "(\<forall>c\<in>set s. isSpace c) \<Longrightarrow> trimSpace s = []"
  by (simp add: trimSpace_def dropWhile_eq_Nil_conv [THEN iffD2])

lemma trimSpace_eq_Nil_iff: "trimSpace s = [] \<longleftrightarrow> (\<forall>c\<in>set s. isSpace c)"
proof
  assume "trimSpace s = []"
  then have "\<forall>c\<in>set (dropWhile isSpace s). isSpace c"
    by (simp add: trimSpace_def dropWhile_eq_Nil_conv)
  then have "dropWhile isSpace s = []"
    by (metis hd_dropWhile list.set_sel(1))
  then show "\<forall>c\<in>set s. isSpace c"
    by (simp add: dropWhile_eq_Nil_conv)
qed (rule trimSpace_blank)

text \<open>Blanks around a text without blanks are dropped.\<close>

lemma trimSpace_pad:
  assumes "\<forall>c\<in>set l. isSpace c" and "\<forall>c\<in>set r. isSpace c" and "\<forall>c\<in>set s. \<not> isSpace c"
  shows "trimSpace (l @ s @ r) = s"
proof (cases "s = []")
  case True
  with assms show ?thesis using trimSpace_blank [of "l @ r"] by auto
next
  case False
  with assms have front: "dropWhile isSpace (l @ s @ r) = s @ r"
    by (cases s) (auto simp: dropWhile_append2)
  have "dropWhile isSpace (rev r @ rev s) = dropWhile isSpace (rev s)"
    using assms(2) by (intro dropWhile_append2) simp
  also have "\<dots> = rev s"
    using assms(3) False by (cases "rev s") (auto simp: rev_eq_Cons_iff)
  finally have "dropWhile isSpace (rev r @ rev s) = rev s" .
  with front show ?thesis by (simp add: trimSpace_def)
qed

subsection \<open>Letter case\<close>

definition toUpperChar :: "char \<Rightarrow> char" where
  "toUpperChar c =
     (let n = (of_char c :: nat) in if 97 \<le> n \<and> n \<le> 122 then char_of (n - 32) else c)"

definition toUpper :: "string \<Rightarrow> string" where
  "toUpper s = map toUpperChar s"

definition equalFold :: "string \<Rightarrow> string \<Rightarrow> bool" where
  "equalFold s t \<longleftrightarrow> toUpper s = toUpper t"

lemma toUpperChar_idem [simp]: "toUpperChar (toUpperChar c) = toUpperChar c"
proof (cases "97 \<le> (of_char c :: nat) \<and> (of_char c :: nat) \<le> 122")
  case True
  then have "of_char (char_of ((of_char c :: nat) - 32) :: char) = (of_char c :: nat) - 32"
    by (subst of_char_of) (rule mod_less, arith)
  with True show ?thesis by (auto simp: toUpperChar_def Let_def)
next
  case False
  then show ?thesis by (auto simp: toUpperChar_def Let_def)
qed

lemma toUpper_idem [simp]: "toUpper (toUpper s) = toUpper s"
  by (simp add: toUpper_def comp_def)

lemma equalFold_refl [simp]: "equalFold s s"
  by (simp add: equalFold_def)

lemma equalFold_sym: "equalFold s t \<longleftrightarrow> equalFold t s"
  by (auto simp: equalFold_def)

lemma equalFold_toUpper [simp]:
  "equalFold (toUpper s) t \<longleftrightarrow> equalFold s t"
  "equalFold s (toUpper t) \<longleftrightarrow> equalFold s t"
  by (simp_all add: equalFold_def)

subsection \<open>Decimal numerals\<close>

definition digitChar :: "nat \<Rightarrow> char" where
  "digitChar d = char_of (48 + d)"

fun showNat :: "nat \<Rightarrow> string" where
  "showNat n = (if n < 10 then [digitChar n] else showNat (n div 10) @ [digitChar (n mod 10)])"

declare showNat.simps [simp del]

text \<open>\<open>fmt.Sprintf("%d", i)\<close>\<close>

definition showInt :: "int \<Rightarrow> string" where
  "showInt i = (if i < 0 then CHR ''-'' # showNat (nat (- i)) else showNat (nat i))"

fun readNat :: "nat \<Rightarrow> string \<Rightarrow> nat" where
  "readNat acc [] = acc"
| "readNat acc (c # cs) = readNat (10 * acc + (of_char c - 48)) cs"

lemma of_char_digitChar: "d < 10 \<Longrightarrow> of_char (digitChar d) = 48 + d"
  unfolding digitChar_def by (subst of_char_of) simp

lemma readNat_append: "readNat acc (s @ t) = readNat (readNat acc s) t"
  by (induction acc s rule: readNat.induct) simp_all

lemma readNat_showNat [simp]: "readNat 0 (showNat n) = n"
proof (induction n rule: showNat.induct)
  case (1 n)
  show ?case
  proof (cases "n < 10")
    case True
    then show ?thesis by (simp add: showNat.simps [of n] of_char_digitChar)
  next
    case False
    with 1 have "readNat 0 (showNat (n div 10)) = n div 10" by simp
    with False show ?thesis
      by (simp add: showNat.simps [of n] readNat_append of_char_digitChar)
  qed
qed

lemma showNat_inj: "showNat m = showNat n \<longleftrightarrow> m = n"
  by (metis readNat_showNat)

lemma showNat_digits: "c \<in> set (showNat n) \<Longrightarrow> \<exists>d<10. c = digitChar d"
proof (induction n rule: showNat.induct)
  case (1 n)
  show ?case
  proof (cases "n < 10")
    case True
    with 1 show ?thesis by (auto simp: showNat.simps [of n])
  next
    case False
    then have "c \<in> set (showNat (n div 10)) \<or> c = digitChar (n mod 10)"
      using "1.prems" by (auto simp: showNat.simps [of n])
    moreover have "n mod 10 < 10" by simp
    ultimately show ?thesis using "1.IH" [OF False] by blast
  qed
qed

lemma showNat_no_minus: "CHR ''-'' \<notin> set (showNat n)"
proof
  assume "CHR ''-'' \<in> set (showNat n)"
  then obtain d where "d < 10" and "CHR ''-'' = digitChar d"
    using showNat_digits by blast
  then have "of_char (CHR ''-'') = 48 + d" using of_char_digitChar by metis
  then show False by simp
qed

lemma showNat_nonempty [simp]: "showNat n \<noteq> []"
  by (subst showNat.simps) simp

lemma showInt_inj [simp]: "showInt i = showInt j \<longleftrightarrow> i = j"
proof -
  have neq: "CHR ''-'' # showNat m \<noteq> showNat n" for m n
    using showNat_no_minus [of n] by (metis list.set_intros(1))
  then show ?thesis
    by (auto simp: showInt_def showNat_inj neq neq [symmetric] split: if_splits)
qed

lemma showInt_nonneg_no_minus: "0 \<le> i \<Longrightarrow> CHR ''-'' \<notin> set (showInt i)"
  by (simp add: showInt_def showNat_no_minus)

text \<open>A name and a number joined by a dash are read back from the last dash.\<close>

lemma takeWhile_no_dash:
  "CHR ''-'' \<notin> set a \<Longrightarrow> takeWhile (\<lambda>c. c \<noteq> CHR ''-'') (rev a) = rev a"
  by (auto simp: takeWhile_eq_all_conv)

lemma dash_suffix_unique:
  assumes eq: "s @ CHR ''-'' # a = t @ CHR ''-'' # b"
    and "CHR ''-'' \<notin> set a" and "CHR ''-'' \<notin> set b"
  shows "s = t \<and> a = b"
proof -
  have "rev a @ CHR ''-'' # rev s = rev b @ CHR ''-'' # rev t"
    using arg_cong [OF eq, of rev] by simp
  then have "takeWhile (\<lambda>c. c \<noteq> CHR ''-'') (rev a @ CHR ''-'' # rev s)
           = takeWhile (\<lambda>c. c \<noteq> CHR ''-'') (rev b @ CHR ''-'' # rev t)"
    by simp
  then have "rev a = rev b"
    using takeWhile_no_dash [of a] takeWhile_no_dash [of b] assms(2,3)
    by (simp add: takeWhile_tail)
  with eq show ?thesis by simp
qed

subsection \<open>Slices\<close>

lemma sort_eq_iff: "sort xs = sort ys \<longleftrightarrow> mset xs = mset ys"
  by (metis mset_sort sorted_list_of_multiset_mset)

lemma find_SomeD: "find P xs = Some x \<Longrightarrow> x \<in> set xs \<and> P x"
  by (auto simp: find_Some_iff)

text \<open>
  \<open>slices.DeleteFunc(s, del)\<close> compacts \<open>s\<close> in place: the result is a prefix of the same
  backing array, whose freed tail is filled with zero values.  The second component is what a
  caller that kept the whole slice sees afterwards.
\<close>

definition deleteFunc :: "'a \<Rightarrow> 'a list \<Rightarrow> ('a \<Rightarrow> bool) \<Rightarrow> 'a list \<times> 'a list" where
  "deleteFunc zero s del =
     (let kept = filter (\<lambda>x. \<not> del x) s
      in (kept, kept @ replicate (length s - length kept) zero))"

lemma deleteFunc_length: "length (snd (deleteFunc z s del)) = length s"
  by (simp add: deleteFunc_def Let_def length_filter_le)

text \<open>
  The contract of \<open>sort.Slice\<close>, whose argument must be a strict weak order: the result is a permutation of the input
  and no element is less than an earlier one.  Equal elements may come in any order (the sort is
  not stable).
\<close>

type_synonym 'a sorter = "('a \<Rightarrow> 'a \<Rightarrow> bool) \<Rightarrow> 'a list \<Rightarrow> 'a list"

definition strictWeak :: "('a \<Rightarrow> 'a \<Rightarrow> bool) \<Rightarrow> bool" where
  "strictWeak lt \<longleftrightarrow> (\<forall>a b. lt a b \<longrightarrow> \<not> lt b a) \<and>
     (\<forall>a b c. \<not> lt b a \<longrightarrow> \<not> lt c b \<longrightarrow> \<not> lt c a)"

locale slice_sort =
  fixes sortSlice :: "'a sorter"
  assumes perm: "mset (sortSlice lt xs) = mset xs"
    and ordered: "strictWeak lt \<Longrightarrow> sorted_wrt (\<lambda>a b. \<not> lt b a) (sortSlice lt xs)"
begin

lemma set_sort [simp]: "set (sortSlice lt xs) = set xs"
  using perm by (metis set_mset_mset)

lemma length_sort [simp]: "length (sortSlice lt xs) = length xs"
  using perm by (metis size_mset)

lemma sorted_key:
  fixes key :: "'a \<Rightarrow> 'k::linorder"
  shows "sorted (map key (sortSlice (\<lambda>a b. key a < key b) xs))"
proof -
  have "sorted_wrt (\<lambda>a b. \<not> key b < key a) (sortSlice (\<lambda>a b. key a < key b) xs)"
    by (rule ordered) (auto simp: strictWeak_def)
  then show ?thesis by (simp add: sorted_wrt_map not_less)
qed

text \<open>When no two elements have the same key, the order is determined.\<close>

lemma sort_unique:
  fixes key :: "'a \<Rightarrow> 'k::linorder"
  assumes "mset ys = mset xs" and "sorted (map key ys)" and "distinct (map key xs)"
  shows "sortSlice (\<lambda>a b. key a < key b) xs = ys"
proof -
  let ?zs = "sortSlice (\<lambda>a b. key a < key b) xs"
  have m: "mset ?zs = mset ys" using perm assms(1) by simp
  then have "mset (map key ?zs) = mset (map key ys)" by simp
  moreover have "sorted (map key ?zs)" by (rule sorted_key)
  ultimately have keys: "map key ?zs = map key ys"
    using assms(2) by (metis properties_for_sort sorted_sort_id)
  have "inj_on key (set xs)" using assms(3) by (simp add: distinct_map)
  then have "inj_on key (set ?zs \<union> set ys)"
    using m assms(1) by (metis mset_eq_setD sup.idem)
  with keys show ?thesis by (rule map_inj_on)
qed

end

text \<open>
  The routine \<open>sort.Slice\<close> runs on slices of up to twelve elements (insertion sort); it meets
  the contract for every length.
\<close>

fun insertLess :: "('a \<Rightarrow> 'a \<Rightarrow> bool) \<Rightarrow> 'a \<Rightarrow> 'a list \<Rightarrow> 'a list" where
  "insertLess lt x [] = [x]"
| "insertLess lt x (y # ys) = (if lt y x then y # insertLess lt x ys else x # y # ys)"

fun insertionSort :: "'a sorter" where
  "insertionSort lt [] = []"
| "insertionSort lt (x # xs) = insertLess lt x (insertionSort lt xs)"

lemma mset_insertLess: "mset (insertLess lt x xs) = add_mset x (mset xs)"
  by (induction lt x xs rule: insertLess.induct) simp_all

lemma mset_insertionSort: "mset (insertionSort lt xs) = mset xs"
  by (induction xs) (simp_all add: mset_insertLess)

lemma set_insertLess: "set (insertLess lt x xs) = insert x (set xs)"
  by (metis mset_insertLess set_mset_add_mset_insert set_mset_mset)

lemma sorted_insertLess:
  assumes lt: "strictWeak lt" and "sorted_wrt (\<lambda>a b. \<not> lt b a) xs"
  shows "sorted_wrt (\<lambda>a b. \<not> lt b a) (insertLess lt x xs)"
  using assms(2)
proof (induction xs)
  case Nil
  then show ?case by simp
next
  case (Cons y ys)
  show ?case
  proof (cases "lt y x")
    case True
    with lt have "\<not> lt x y" unfolding strictWeak_def by blast
    with True Cons show ?thesis by (simp add: set_insertLess)
  next
    case False
    moreover have "\<not> lt z x" if "z \<in> set ys" for z
    proof -
      have "\<not> lt z y" using Cons.prems that by simp
      with False lt show ?thesis unfolding strictWeak_def by blast
    qed
    ultimately show ?thesis using Cons.prems by auto
  qed
qed

lemma sorted_insertionSort:
  "strictWeak lt \<Longrightarrow> sorted_wrt (\<lambda>a b. \<not> lt b a) (insertionSort lt xs)"
  by (induction xs) (simp_all add: sorted_insertLess)

interpretation ins: slice_sort insertionSort
  by unfold_locales (simp_all add: mset_insertionSort sorted_insertionSort)

text \<open>Lists of numbers as text, for the example codecs.\<close>

definition encodeNats :: "nat list \<Rightarrow> string" where
  "encodeNats ns = joinStr '','' (map showNat ns)"

definition decodeNats :: "string \<Rightarrow> nat list" where
  "decodeNats s = map (readNat 0) (splitStr (CHR '','') s)"

lemma showNat_no_comma: "CHR '','' \<notin> set (showNat n)"
proof
  assume "CHR '','' \<in> set (showNat n)"
  then obtain d where "d < 10" and "CHR '','' = digitChar d" using showNat_digits by blast
  then have "(of_char (CHR '','') :: nat) = 48 + d" by (metis of_char_digitChar)
  then show False by simp
qed

lemma decodeNats_encodeNats [simp]:
  assumes "ns \<noteq> []"
  shows "decodeNats (encodeNats ns) = ns"
proof -
  have "splitStr (CHR '','') (encodeNats ns) = map showNat ns"
    unfolding encodeNats_def by (rule splitStr_joinStr) (auto simp: showNat_no_comma assms)
  then show ?thesis by (simp add: decodeNats_def comp_def)
qed

end
