(* ===== verification/Kube.thy ===== *)
theory Kube
  imports Go_Strings
begin

section \<open>Kubernetes objects and API clients\<close>

text \<open>
  The objects of the Kubernetes API that the sources read and write, restricted to the fields they
  touch, and the typed clients through which they do it.  The API server is not part of the
  repository: a client is a record of functions, an argument of every definition that uses it.

  The locale \<open>object_store\<close> states the documented behaviour of a client: \<open>Get\<close> returns the stored
  object or \<open>NotFound\<close>, \<open>Create\<close> refuses a name that is taken with \<open>AlreadyExists\<close>, \<open>Update\<close>
  needs the object to exist and refuses a stale resource version with \<open>Conflict\<close>, \<open>Delete\<close> removes
  the object; what is stored is what was sent after admission (\<open>adm\<close>: defaulting, resource versions,
  node ports).
\<close>

subsection \<open>Metadata and shared values\<close>

record OwnerReference =
  or_APIVersion :: string
  or_Kind :: string
  or_Name :: string
  or_UID :: string
  or_Controller :: "bool option"
  or_BlockOwnerDeletion :: "bool option"

record ObjectMeta =
  om_Name :: string
  om_Namespace :: string
  om_Labels :: strmap
  om_Annotations :: "strmap option"
  om_OwnerReferences :: "OwnerReference list"
  om_ResourceVersion :: string
  om_UID :: string

definition emptyMeta :: ObjectMeta where
  "emptyMeta = \<lparr>om_Name = [], om_Namespace = [], om_Labels = fmempty, om_Annotations = None,
     om_OwnerReferences = [], om_ResourceVersion = [], om_UID = []\<rparr>"

text \<open>A Go map index of a map that may be \<open>nil\<close>: a missing key reads as absent.\<close>

definition lookupNil :: "strmap option \<Rightarrow> string \<Rightarrow> string option" where
  "lookupNil m k = Option.bind m (\<lambda>f. fmlookup f k)"

lemma lookupNil_simps [simp]:
  "lookupNil None k = None"
  "lookupNil (Some f) k = fmlookup f k"
  by (simp_all add: lookupNil_def)

text \<open>\<open>intstr.IntOrString\<close> with its \<open>String\<close> and \<open>IntValue\<close> methods.\<close>

datatype IntOrString = IntVal int32 | StrVal string

definition isDigit :: "char \<Rightarrow> bool" where
  "isDigit c \<longleftrightarrow> 48 \<le> (of_char c :: nat) \<and> (of_char c :: nat) \<le> 57"

definition clamp64 :: "int \<Rightarrow> int" where
  "clamp64 i = max (- (2 ^ 63)) (min (2 ^ 63 - 1) i)"

text \<open>The value \<open>strconv.Atoi\<close> returns, 0 for a text that is not a numeral.\<close>

definition atoi :: "string \<Rightarrow> int" where
  "atoi s =
     (case s of
        [] \<Rightarrow> 0
      | c # cs \<Rightarrow>
          let digits = (if c = CHR ''-'' \<or> c = CHR ''+'' then cs else s);
              sgn = (if c = CHR ''-'' then - 1 else (1 :: int))
          in if digits \<noteq> [] \<and> list_all isDigit digits
             then clamp64 (sgn * int (readNat 0 digits)) else 0)"

fun intOrStringString :: "IntOrString \<Rightarrow> string" where
  "intOrStringString (IntVal i) = showInt (sint i)"
| "intOrStringString (StrVal s) = s"

fun intValue :: "IntOrString \<Rightarrow> int" where
  "intValue (IntVal i) = sint i"
| "intValue (StrVal s) = atoi s"

text \<open>
  A pointer is an address with the value it points to: two pointers are the same when their
  addresses are.  Only comparisons of pointers depend on the address.
\<close>

datatype 'a ptr = Ptr (addr: nat) (deref: 'a)

subsection \<open>Services\<close>

record ServicePort =
  sp_Name :: string
  sp_Protocol :: string
  sp_Port :: int32
  sp_TargetPort :: IntOrString
  sp_NodePort :: int32

record ServiceSpec =
  ss_Type :: string
  ss_Ports :: "ServicePort list"
  ss_Selector :: strmap
  ss_ExternalTrafficPolicy :: string
  ss_InternalTrafficPolicy :: "string ptr option"
  ss_IPFamilyPolicy :: "string option"
  ss_IPFamilies :: "string list"

record Service =
  svc_APIVersion :: string
  svc_Kind :: string
  svc_meta :: ObjectMeta
  svc_spec :: ServiceSpec

definition emptyService :: Service where
  "emptyService = \<lparr>svc_APIVersion = [], svc_Kind = [], svc_meta = emptyMeta,
     svc_spec = \<lparr>ss_Type = [], ss_Ports = [], ss_Selector = fmempty,
       ss_ExternalTrafficPolicy = [], ss_InternalTrafficPolicy = None,
       ss_IPFamilyPolicy = None, ss_IPFamilies = []\<rparr>\<rparr>"

text \<open>What of a service goes over the wire: everything but the identity of its pointers.\<close>

definition wireService :: "Service \<Rightarrow> Service" where
  "wireService s = s\<lparr>svc_spec := (svc_spec s)
     \<lparr>ss_InternalTrafficPolicy :=
        map_option (\<lambda>p. Ptr 0 (deref p)) (ss_InternalTrafficPolicy (svc_spec s))\<rparr>\<rparr>"

lemma wireService_meta [simp]: "svc_meta (wireService s) = svc_meta s"
  by (simp add: wireService_def)

text \<open>
  The string constants of \<open>k8s.io/api/core/v1\<close> and the dogu label of \<open>k8s-dogu-lib\<close>, whose
  values the repository's comments, tests and chart spell out.
\<close>

definition ProtocolTCP :: string where "ProtocolTCP = ''TCP''"
definition ProtocolUDP :: string where "ProtocolUDP = ''UDP''"
definition ProtocolSCTP :: string where "ProtocolSCTP = ''SCTP''"
definition ServiceTypeClusterIP :: string where "ServiceTypeClusterIP = ''ClusterIP''"
definition ServiceTypeLoadBalancer :: string where "ServiceTypeLoadBalancer = ''LoadBalancer''"
definition TrafficPolicyCluster :: string where "TrafficPolicyCluster = ''Cluster''"
definition TrafficPolicyLocal :: string where "TrafficPolicyLocal = ''Local''"
definition IPFamilyPolicySingleStack :: string where "IPFamilyPolicySingleStack = ''SingleStack''"
definition IPv4Protocol :: string where "IPv4Protocol = ''IPv4''"
definition DoguLabelName :: string where "DoguLabelName = ''dogu.name''"

lemmas kube_constants = ProtocolTCP_def ProtocolUDP_def ProtocolSCTP_def ServiceTypeClusterIP_def
  ServiceTypeLoadBalancer_def TrafficPolicyCluster_def TrafficPolicyLocal_def
  IPFamilyPolicySingleStack_def IPv4Protocol_def DoguLabelName_def

lemma protocols_distinct [simp]:
  "ProtocolTCP \<noteq> ProtocolUDP" "ProtocolTCP \<noteq> ProtocolSCTP" "ProtocolUDP \<noteq> ProtocolSCTP"
  "ProtocolUDP \<noteq> ProtocolTCP" "ProtocolSCTP \<noteq> ProtocolTCP" "ProtocolSCTP \<noteq> ProtocolUDP"
  by (simp_all add: kube_constants)

lemma toUpper_protocols [simp]:
  "toUpper ProtocolTCP = ProtocolTCP" "toUpper ProtocolUDP = ProtocolUDP"
  "toUpper ProtocolSCTP = ProtocolSCTP"
  by (simp_all add: kube_constants toUpper_def toUpperChar_def Let_def)

subsection \<open>Config maps and secrets\<close>

record ConfigMap =
  cm_meta :: ObjectMeta
  cm_Data :: strmap

record Secret =
  sec_meta :: ObjectMeta
  sec_Data :: strmap

subsection \<open>Ingresses and network policies\<close>

record IngressTLS =
  tls_Hosts :: "string list"
  tls_SecretName :: string

record HTTPIngressPath =
  path_Path :: string
  path_PathType :: string
  path_ServiceName :: string
  path_ServicePort :: int32

record IngressRule =
  rule_Host :: string
  rule_Paths :: "HTTPIngressPath list"

record IngressSpec =
  is_IngressClassName :: "string option"
  is_TLS :: "IngressTLS list"
  is_Rules :: "IngressRule list"

record Ingress =
  ing_meta :: ObjectMeta
  ing_spec :: IngressSpec

record NetworkPolicyPort =
  npp_Protocol :: "string option"
  npp_Port :: "IntOrString option"
  npp_EndPort :: "int32 option"

record IPBlock =
  ipb_CIDR :: string
  ipb_Except :: "string list"

record NetworkPolicyIngressRule =
  npi_Ports :: "NetworkPolicyPort list"
  npi_From :: "IPBlock option list"

record NetworkPolicy =
  np_meta :: ObjectMeta
  np_PodSelector :: strmap
  np_PolicyTypes :: "string list"
  np_Ingress :: "NetworkPolicyIngressRule list"

definition PathTypePrefix :: string where "PathTypePrefix = ''Prefix''"

subsection \<open>Deployments and dogus\<close>

record Deployment =
  dpl_meta :: ObjectMeta
  dpl_ReadyReplicas :: int32

record Dogu =
  dogu_meta :: ObjectMeta

subsection \<open>Objects of any kind\<close>

datatype k8sObject = ServiceObject Service | IngressObject Ingress | OtherObject ObjectMeta

fun objectMeta :: "k8sObject \<Rightarrow> ObjectMeta" where
  "objectMeta (ServiceObject s) = svc_meta s"
| "objectMeta (IngressObject i) = ing_meta i"
| "objectMeta (OtherObject m) = m"

abbreviation getName :: "k8sObject \<Rightarrow> string" where
  "getName obj \<equiv> om_Name (objectMeta obj)"

subsection \<open>API clients\<close>

record ('w, 'o) client =
  c_get :: "string \<Rightarrow> ('w, 'o) io"
  c_create :: "'o \<Rightarrow> ('w, 'o) io"
  c_update :: "'o \<Rightarrow> ('w, 'o) io"
  c_delete :: "string \<Rightarrow> ('w, unit) io"

text \<open>
  The interfaces of the packages that embed a typed client of a library (\<open>ingressInterface\<close> and the
  like) are the clients themselves.  An event recorder takes the object an event is about and the
  event: its type, its reason and its message, formatted.
\<close>

type_synonym 'w ingressInterface = "('w, Ingress) client"
type_synonym 'w networkPolicyInterface = "('w, NetworkPolicy) client"
type_synonym 'w secretInterface = "('w, Secret) client"
type_synonym 'w serviceInterface = "('w, Service) client"

record event =
  ev_type :: string
  ev_reason :: string
  ev_message :: string

type_synonym ('w, 'o) eventRecorder = "'o \<Rightarrow> event \<Rightarrow> ('w, unit) io"

definition normalEvent :: "string \<Rightarrow> string \<Rightarrow> event" where
  "normalEvent reason message = \<lparr>ev_type = ''Normal'', ev_reason = reason, ev_message = message\<rparr>"

locale object_store =
  fixes cl :: "('w, 'o) client"
    and view :: "'w \<Rightarrow> string \<Rightarrow> 'o option"
    and put :: "string \<Rightarrow> 'o option \<Rightarrow> 'w \<Rightarrow> 'w"
    and meta :: "'o \<Rightarrow> ObjectMeta"
    and adm :: "'w \<Rightarrow> 'o \<Rightarrow> 'o"
  assumes view_put: "view (put n v w) = (view w)(n := v)"
    and get_law: "c_get cl n w =
      (case view w n of None \<Rightarrow> (Fail (Api NotFound), w) | Some x \<Rightarrow> (Ret x, w))"
    and create_law: "c_create cl x w =
      (case view w (om_Name (meta x)) of
         None \<Rightarrow> (Ret (adm w x), put (om_Name (meta x)) (Some (adm w x)) w)
       | Some _ \<Rightarrow> (Fail (Api AlreadyExists), w))"
    and update_law: "c_update cl x w =
      (case view w (om_Name (meta x)) of
         None \<Rightarrow> (Fail (Api NotFound), w)
       | Some old \<Rightarrow>
           if om_ResourceVersion (meta x) \<in> {[], om_ResourceVersion (meta old)}
           then (Ret (adm w x), put (om_Name (meta x)) (Some (adm w x)) w)
           else (Fail (Api Conflict), w))"
    and delete_law: "c_delete cl n w =
      (case view w n of None \<Rightarrow> (Fail (Api NotFound), w) | Some _ \<Rightarrow> (Ret (), put n None w))"
    and adm_name: "om_Name (meta (adm w x)) = om_Name (meta x)"
begin

lemma get_keeps_world [simp]: "snd (c_get cl n w) = w"
  by (simp add: get_law split: option.split)

lemma get_found: "view w n = Some x \<Longrightarrow> c_get cl n w = (Ret x, w)"
  by (simp add: get_law)

lemma get_missing: "view w n = None \<Longrightarrow> c_get cl n w = (Fail (Api NotFound), w)"
  by (simp add: get_law)

lemma create_free:
  "view w (om_Name (meta x)) = None \<Longrightarrow>
     c_create cl x w = (Ret (adm w x), put (om_Name (meta x)) (Some (adm w x)) w)"
  by (simp add: create_law)

lemma create_taken:
  "view w (om_Name (meta x)) = Some old \<Longrightarrow> c_create cl x w = (Fail (Api AlreadyExists), w)"
  by (simp add: create_law)

lemma update_missing:
  "view w (om_Name (meta x)) = None \<Longrightarrow> c_update cl x w = (Fail (Api NotFound), w)"
  by (simp add: update_law)

lemma update_fresh:
  "view w (om_Name (meta x)) = Some old \<Longrightarrow>
     om_ResourceVersion (meta x) = [] \<or> om_ResourceVersion (meta x) = om_ResourceVersion (meta old) \<Longrightarrow>
     c_update cl x w = (Ret (adm w x), put (om_Name (meta x)) (Some (adm w x)) w)"
  by (simp add: update_law)

lemma delete_found: "view w n = Some x \<Longrightarrow> c_delete cl n w = (Ret (), put n None w)"
  by (simp add: delete_law)

lemma delete_missing: "view w n = None \<Longrightarrow> c_delete cl n w = (Fail (Api NotFound), w)"
  by (simp add: delete_law)

lemmas store_runs = get_found get_missing create_free create_taken update_missing update_fresh
  delete_found delete_missing

end

text \<open>
  A client that keeps its objects in the world, as the laws say: the reference API server of the
  examples.
\<close>

definition memClient ::
  "('w \<Rightarrow> string \<Rightarrow> 'o option) \<Rightarrow> (string \<Rightarrow> 'o option \<Rightarrow> 'w \<Rightarrow> 'w) \<Rightarrow> ('o \<Rightarrow> ObjectMeta)
     \<Rightarrow> ('w \<Rightarrow> 'o \<Rightarrow> 'o) \<Rightarrow> ('w, 'o) client" where
  "memClient view put meta adm =
     \<lparr>c_get = (\<lambda>n w. case view w n of None \<Rightarrow> (Fail (Api NotFound), w) | Some x \<Rightarrow> (Ret x, w)),
      c_create = (\<lambda>x w.
        case view w (om_Name (meta x)) of
          None \<Rightarrow> (Ret (adm w x), put (om_Name (meta x)) (Some (adm w x)) w)
        | Some _ \<Rightarrow> (Fail (Api AlreadyExists), w)),
      c_update = (\<lambda>x w.
        case view w (om_Name (meta x)) of
          None \<Rightarrow> (Fail (Api NotFound), w)
        | Some old \<Rightarrow>
            if om_ResourceVersion (meta x) = [] \<or>
               om_ResourceVersion (meta x) = om_ResourceVersion (meta old)
            then (Ret (adm w x), put (om_Name (meta x)) (Some (adm w x)) w)
            else (Fail (Api Conflict), w)),
      c_delete = (\<lambda>n w.
        case view w n of None \<Rightarrow> (Fail (Api NotFound), w) | Some _ \<Rightarrow> (Ret (), put n None w))\<rparr>"

lemma object_store_memClient:
  assumes "\<And>n v w. view (put n v w) = (view w)(n := v)"
    and "\<And>w x. om_Name (meta (adm w x)) = om_Name (meta x)"
  shows "object_store (memClient view put meta adm) view put meta adm"
  by unfold_locales (auto simp: memClient_def assms split: option.split)

lemma find_append: "find P (xs @ ys) = (case find P xs of None \<Rightarrow> find P ys | Some x \<Rightarrow> Some x)"
  by (induction xs) auto

end
