(* ===== verification/Util_Pkg.thy ===== *)
theory Util_Pkg
  imports Kube
begin

section \<open>Shared helpers (controllers/util/util.go)\<close>

text \<open>The labels of the objects the service discovery creates, the exposed port of the JSON
  annotations, and the tests for blank strings and dogu labels.\<close>

definition K8sCesServiceDiscoveryLabels :: strmap where
  "K8sCesServiceDiscoveryLabels =
     fmap_of_list [(''app'', ''ces''), (''app.kubernetes.io/name'', ''k8s-service-discovery'')]"

definition appLabelKey :: string where "appLabelKey = ''app''"
definition appLabelValueCes :: string where "appLabelValueCes = ''ces''"
definition legacyDoguLabel :: string where "legacyDoguLabel = ''dogu''"

record utilExposedPort =
  xp_Protocol :: string
  xp_Port :: int32
  xp_TargetPort :: int32

definition utilExposedPortString :: "utilExposedPort \<Rightarrow> string" where
  "utilExposedPortString ep =
     ''{Port: '' @ showInt (sint (xp_Port ep)) @ '', TargetPort: '' @
     showInt (sint (xp_TargetPort ep)) @ '', Protocol: '' @ xp_Protocol ep @ ''}''"

definition ContainsChars :: "string \<Rightarrow> bool" where
  "ContainsChars s \<longleftrightarrow> length (trimSpace s) \<noteq> 0"

text \<open>The loop over the labels finds a dogu label whatever the iteration order.\<close>

definition HasDoguLabel :: "ObjectMeta \<Rightarrow> bool" where
  "HasDoguLabel m \<longleftrightarrow>
     fBex (fmdom (om_Labels m)) (\<lambda>label. label = legacyDoguLabel \<or> label = DoguLabelName)"

definition GetAppLabel :: strmap where
  "GetAppLabel = fmap_of_list [(appLabelKey, appLabelValueCes)]"

lemma ContainsChars_iff: "ContainsChars s \<longleftrightarrow> (\<exists>c\<in>set s. \<not> isSpace c)"
  by (simp add: ContainsChars_def trimSpace_eq_Nil_iff)

lemma HasDoguLabel_iff:
  "HasDoguLabel m \<longleftrightarrow>
     fmlookup (om_Labels m) legacyDoguLabel \<noteq> None \<or> fmlookup (om_Labels m) DoguLabelName \<noteq> None"
  by (auto simp: HasDoguLabel_def fmlookup_dom_iff)

end
