(* ===== verification/Network_Policy.thy ===== *)
theory Network_Policy
  imports Util_Pkg
begin

section \<open>The network policy of the exposed ports (controllers/expose/networkPolicyHandler.go)\<close>

text \<open>
  One network policy opens the exposed ports of all services on the ingress controller.  Its first
  ingress rule lists the ports; its annotations map every service to the ports it asked for, so that
  they can be taken back.

  Indexing an empty rule list and following a \<open>nil\<close> pointer panic: the functions on ports return
  \<open>None\<close> there.  The JSON encoder and decoder are the arguments \<open>json\<close>, \<open>retry.OnConflict\<close> is the
  argument \<open>onConflict\<close>.  The texts of errors end before values that are printed with \<open>%q\<close>.
\<close>

subsection \<open>Model\<close>

definition cesExposedPortsAnnotation :: string where
  "cesExposedPortsAnnotation = ''k8s-dogu-operator.cloudogu.com/ces-exposed-ports''"
definition mappingAnnotationServicePortDNSKeyPrefix :: string where
  "mappingAnnotationServicePortDNSKeyPrefix = ''k8s.cloudogu.com''"
definition mappingAnnotationServicePortNameKeyPrefix :: string where
  "mappingAnnotationServicePortNameKeyPrefix = ''ces-exposed-ports-''"
definition maxLengthAnnotationName :: nat where "maxLengthAnnotationName = 63"

type_synonym utilExposedPorts = "utilExposedPort list"

record portsJson =
  js_marshal :: "utilExposedPorts \<Rightarrow> error + string"
  js_unmarshal :: "string \<Rightarrow> error + utilExposedPorts"

record 'w networkPolicyHandler =
  nph_ingressControllerName :: string
  nph_networkPolicyInterface :: "'w networkPolicyInterface"
  nph_allowedCIDR :: string

definition NewNetworkPolicyHandler ::
  "('w, NetworkPolicy) client \<Rightarrow> string \<Rightarrow> string \<Rightarrow> 'w networkPolicyHandler" where
  "NewNetworkPolicyHandler policyInterface controllerName allowedCIDR =
     \<lparr>nph_ingressControllerName = controllerName, nph_networkPolicyInterface = policyInterface,
      nph_allowedCIDR = allowedCIDR\<rparr>"

definition equalsServicePortExposedPort :: "ServicePort \<Rightarrow> utilExposedPort \<Rightarrow> bool" where
  "equalsServicePortExposedPort servicePort exposedPort =
     (if \<not> equalFold (sp_Protocol servicePort) (xp_Protocol exposedPort) then False
      else if sp_Port servicePort \<noteq> xp_Port exposedPort then False
      else True)"

text \<open>The validation loop: every port of the annotation is a port of the service.\<close>

fun validatePorts :: "ServicePort list \<Rightarrow> utilExposedPorts \<Rightarrow> error option" where
  "validatePorts servicePorts [] = None"
| "validatePorts servicePorts (port # ports) =
     (if \<not> list_ex (\<lambda>sp. equalsServicePortExposedPort sp port) servicePorts
      then Some (Msg ''invalid service annotation '')
      else validatePorts servicePorts ports)"

definition parseExposedPortsFromService ::
  "portsJson \<Rightarrow> Service \<Rightarrow> error + utilExposedPorts" where
  "parseExposedPortsFromService json service =
     (case lookupNil (om_Annotations (svc_meta service)) cesExposedPortsAnnotation of
        None \<Rightarrow> Inr []
      | Some str \<Rightarrow>
          (case js_unmarshal json str of
             Inl err \<Rightarrow> Inl (Wrap ''failed to unmarshal ces exposed ports annotation '' err)
           | Inr ports \<Rightarrow>
               (case validatePorts (ss_Ports (svc_spec service)) ports of
                  Some err \<Rightarrow> Inl err
                | None \<Rightarrow> Inr ports)))"

definition getExposedNetworkPolicyName :: "string \<Rightarrow> string" where
  "getExposedNetworkPolicyName ingressControllerName = ingressControllerName @ ''-exposed''"

definition getServicePortMappingAnnotationKey :: "string \<Rightarrow> string" where
  "getServicePortMappingAnnotationKey serviceName =
     (let name = mappingAnnotationServicePortNameKeyPrefix @ serviceName;
          name' = (if length name > maxLengthAnnotationName then take maxLengthAnnotationName name else name)
      in mappingAnnotationServicePortDNSKeyPrefix @ ''/'' @ name')"

definition getNetworkPolicyPort :: "utilExposedPort \<Rightarrow> NetworkPolicyPort" where
  "getNetworkPolicyPort exposedPort =
     \<lparr>npp_Protocol = Some (toUpper (xp_Protocol exposedPort)),
      npp_Port = Some (IntVal (xp_Port exposedPort)), npp_EndPort = None\<rparr>"

definition getNetworkPolicyPortsFromExposedPorts :: "utilExposedPorts \<Rightarrow> NetworkPolicyPort list" where
  "getNetworkPolicyPortsFromExposedPorts ports = map getNetworkPolicyPort ports"

definition createMappingAnnotation ::
  "portsJson \<Rightarrow> string \<Rightarrow> utilExposedPorts \<Rightarrow> error + strmap" where
  "createMappingAnnotation json serviceName exposedPorts =
     (let key = getServicePortMappingAnnotationKey serviceName
      in case js_marshal json exposedPorts of
           Inl err \<Rightarrow> Inl (Wrap ''failed to marschal ports '' err)
         | Inr out \<Rightarrow> Inr (fmap_of_list [(key, out)]))"

definition unmarshalCesExposedPorts ::
  "portsJson \<Rightarrow> string \<Rightarrow> string \<Rightarrow> error + utilExposedPorts" where
  "unmarshalCesExposedPorts json serviceName exposedPortStr =
     (case js_unmarshal json exposedPortStr of
        Inl err \<Rightarrow> Inl (Wrap (''failed to unmarshal service port mapping '' @ exposedPortStr @
                             '' for service '' @ serviceName) err)
      | Inr result \<Rightarrow> Inr result)"

definition equalsNetpolPortExposedPort :: "NetworkPolicyPort \<Rightarrow> utilExposedPort \<Rightarrow> bool option" where
  "equalsNetpolPortExposedPort netpolPort exposedPort =
     (case npp_Protocol netpolPort of
        None \<Rightarrow> None
      | Some protocol \<Rightarrow>
          if \<not> equalFold protocol (xp_Protocol exposedPort) then Some False
          else (case npp_Port netpolPort of
                  None \<Rightarrow> None
                | Some port \<Rightarrow> Some (intValue port = sint (xp_Port exposedPort))))"

text \<open>The inner loop of \<open>addIngressPorts\<close> stops at the first hit, that of \<open>deleteIngressPorts\<close> runs on.\<close>

fun containsPort :: "NetworkPolicyPort list \<Rightarrow> utilExposedPort \<Rightarrow> bool option" where
  "containsPort [] portToAdd = Some False"
| "containsPort (actualPort # ports) portToAdd =
     (case equalsNetpolPortExposedPort actualPort portToAdd of
        None \<Rightarrow> None
      | Some True \<Rightarrow> Some True
      | Some False \<Rightarrow> containsPort ports portToAdd)"

fun addIngressPorts ::
  "NetworkPolicyPort list \<Rightarrow> utilExposedPorts \<Rightarrow> NetworkPolicyPort list option" where
  "addIngressPorts ports [] = Some ports"
| "addIngressPorts ports (portToAdd # portsToAdd) =
     (case containsPort ports portToAdd of
        None \<Rightarrow> None
      | Some found \<Rightarrow>
          addIngressPorts (if \<not> found then ports @ [getNetworkPolicyPort portToAdd] else ports) portsToAdd)"

fun isToDelete :: "NetworkPolicyPort \<Rightarrow> utilExposedPorts \<Rightarrow> bool option" where
  "isToDelete port [] = Some False"
| "isToDelete port (toDelete # portsToDelete) =
     (case equalsNetpolPortExposedPort port toDelete of
        None \<Rightarrow> None
      | Some hit \<Rightarrow> map_option (\<lambda>found. hit \<or> found) (isToDelete port portsToDelete))"

fun deleteIngressPorts ::
  "NetworkPolicyPort list \<Rightarrow> utilExposedPorts \<Rightarrow> NetworkPolicyPort list option" where
  "deleteIngressPorts [] portsToDelete = Some []"
| "deleteIngressPorts (port # ports) portsToDelete =
     (case isToDelete port portsToDelete of
        None \<Rightarrow> None
      | Some found \<Rightarrow>
          map_option (\<lambda>result. if \<not> found then port # result else result)
            (deleteIngressPorts ports portsToDelete))"

definition subtractSlice :: "utilExposedPorts \<Rightarrow> utilExposedPorts \<Rightarrow> utilExposedPorts" where
  "subtractSlice s1 s2 = filter (\<lambda>x. \<not> list_ex (\<lambda>y. x = y) s2) s1"

definition getPortsToDelete :: "utilExposedPorts \<Rightarrow> utilExposedPorts \<Rightarrow> utilExposedPorts" where
  "getPortsToDelete actual want = subtractSlice actual want"

text \<open>Writing the ports of the first ingress rule, and the CIDR of its first peer.\<close>

definition setFirstRulePorts :: "NetworkPolicyPort list \<Rightarrow> NetworkPolicy \<Rightarrow> NetworkPolicy" where
  "setFirstRulePorts ports policy =
     (case np_Ingress policy of
        [] \<Rightarrow> policy
      | rule # rules \<Rightarrow> policy\<lparr>np_Ingress := rule\<lparr>npi_Ports := ports\<rparr> # rules\<rparr>)"

definition updateCIDR :: "'w networkPolicyHandler \<Rightarrow> NetworkPolicy \<Rightarrow> NetworkPolicy option" where
  "updateCIDR nph policy =
     (case np_Ingress policy of
        [] \<Rightarrow> None
      | rule # rules \<Rightarrow>
          (case npi_From rule of
             [] \<Rightarrow> None
           | None # peers \<Rightarrow> None
           | Some ipBlock # peers \<Rightarrow>
               Some (policy\<lparr>np_Ingress :=
                 rule\<lparr>npi_From := Some (ipBlock\<lparr>ipb_CIDR := nph_allowedCIDR nph\<rparr>) # peers\<rparr> # rules\<rparr>)))"

definition getNetworkPolicy :: "'w networkPolicyHandler \<Rightarrow> ('w, NetworkPolicy) io" where
  "getNetworkPolicy nph =
     c_get (nph_networkPolicyInterface nph) (getExposedNetworkPolicyName (nph_ingressControllerName nph))"

definition createNetworkPolicy ::
  "portsJson \<Rightarrow> 'w networkPolicyHandler \<Rightarrow> string \<Rightarrow> string \<Rightarrow> utilExposedPorts \<Rightarrow> string \<Rightarrow> ('w, unit) io" where
  "createNetworkPolicy json nph serviceName ingressControllerName ports namespace =
     (if length ports = 0 then ret ()
      else case createMappingAnnotation json serviceName ports of
             Inl err \<Rightarrow> fail err
           | Inr mappingAnnotations \<Rightarrow>
               let policyName = getExposedNetworkPolicyName ingressControllerName;
                   networkPolicy =
                     \<lparr>np_meta = emptyMeta\<lparr>om_Name := policyName, om_Namespace := namespace,
                        om_Labels := K8sCesServiceDiscoveryLabels,
                        om_Annotations := Some mappingAnnotations\<rparr>,
                      np_PodSelector = fmap_of_list [(DoguLabelName, ingressControllerName)],
                      np_PolicyTypes = [''Ingress''],
                      np_Ingress = [\<lparr>npi_Ports = getNetworkPolicyPortsFromExposedPorts ports,
                        npi_From = [Some \<lparr>ipb_CIDR = nph_allowedCIDR nph, ipb_Except = []\<rparr>]\<rparr>]\<rparr>
               in onErr (c_create (nph_networkPolicyInterface nph) networkPolicy)
                    (\<lambda>err. fail (Wrap (''failed to create networkpolicy '' @ policyName) err))
                    (\<lambda>_. ret ()))"

definition sendUpdate ::
  "'w networkPolicyHandler \<Rightarrow> NetworkPolicy option \<Rightarrow> ('w, unit) io" where
  "sendUpdate nph policy =
     (case policy of
        None \<Rightarrow> panic
      | Some get \<Rightarrow> bindIO (c_update (nph_networkPolicyInterface nph) get) (\<lambda>_. ret ()))"

definition copyAnnotations :: "strmap \<Rightarrow> NetworkPolicy \<Rightarrow> NetworkPolicy" where
  "copyAnnotations new policy =
     policy\<lparr>np_meta := (np_meta policy)\<lparr>om_Annotations :=
       Some ((case om_Annotations (np_meta policy) of None \<Rightarrow> fmempty | Some m \<Rightarrow> m) ++\<^sub>f new)\<rparr>\<rparr>"

text \<open>The function that \<open>updateNetworkPolicy\<close> passes to \<open>retry.OnConflict\<close>.\<close>

definition updateNetworkPolicyOnce ::
  "portsJson \<Rightarrow> 'w networkPolicyHandler \<Rightarrow> string \<Rightarrow> utilExposedPorts \<Rightarrow> ('w, unit) io" where
  "updateNetworkPolicyOnce json nph serviceName exposedPorts =
     bindIO (getNetworkPolicy nph) (\<lambda>get.
       case createMappingAnnotation json serviceName exposedPorts of
         Inl err \<Rightarrow> fail err
       | Inr newServicePortMappingAnnotation \<Rightarrow>
           (case lookupNil (om_Annotations (np_meta get)) (getServicePortMappingAnnotationKey serviceName) of
              None \<Rightarrow>
                if length exposedPorts = 0 then ret ()
                else (case np_Ingress get of
                        [] \<Rightarrow> panic
                      | rule # _ \<Rightarrow>
                          sendUpdate nph (updateCIDR nph
                            (setFirstRulePorts
                               (npi_Ports rule @ getNetworkPolicyPortsFromExposedPorts exposedPorts)
                               (copyAnnotations newServicePortMappingAnnotation get))))
            | Some actualPortsStr \<Rightarrow>
                (case unmarshalCesExposedPorts json serviceName actualPortsStr of
                   Inl err \<Rightarrow> fail err
                 | Inr actualPorts \<Rightarrow>
                     (case np_Ingress get of
                        [] \<Rightarrow> panic
                      | rule # _ \<Rightarrow>
                          (case Option.bind
                                  (deleteIngressPorts (npi_Ports rule) (getPortsToDelete actualPorts exposedPorts))
                                  (\<lambda>deletedPortList. addIngressPorts deletedPortList exposedPorts) of
                             None \<Rightarrow> panic
                           | Some ports \<Rightarrow>
                               sendUpdate nph (updateCIDR nph
                                 (copyAnnotations newServicePortMappingAnnotation
                                    (setFirstRulePorts ports get))))))))"

definition updateNetworkPolicy ::
  "portsJson \<Rightarrow> (('w, unit) io \<Rightarrow> ('w, unit) io) \<Rightarrow> 'w networkPolicyHandler \<Rightarrow> string \<Rightarrow> utilExposedPorts
     \<Rightarrow> ('w, unit) io" where
  "updateNetworkPolicy json onConflict nph serviceName exposedPorts =
     wrapErr ''failed to update networkpolicy''
       (onConflict (updateNetworkPolicyOnce json nph serviceName exposedPorts))"

definition UpsertNetworkPoliciesForService ::
  "portsJson \<Rightarrow> (('w, unit) io \<Rightarrow> ('w, unit) io) \<Rightarrow> 'w networkPolicyHandler \<Rightarrow> Service \<Rightarrow> ('w, unit) io" where
  "UpsertNetworkPoliciesForService json onConflict nph service =
     (case parseExposedPortsFromService json service of
        Inl err \<Rightarrow> fail err
      | Inr cesServiceExposedPorts \<Rightarrow>
          onErr (getNetworkPolicy nph)
            (\<lambda>err. if isNotFound err then
                     createNetworkPolicy json nph (om_Name (svc_meta service))
                       (nph_ingressControllerName nph) cesServiceExposedPorts
                       (om_Namespace (svc_meta service))
                   else fail (Wrap (''failed to get networkpolicy '' @
                          getExposedNetworkPolicyName (nph_ingressControllerName nph)) err))
            (\<lambda>_. wrapErr (''failed to update networkpolicy '' @
                     getExposedNetworkPolicyName (nph_ingressControllerName nph))
                   (updateNetworkPolicy json onConflict nph (om_Name (svc_meta service))
                      cesServiceExposedPorts)))"

definition removeExposedPortsOnce ::
  "portsJson \<Rightarrow> 'w networkPolicyHandler \<Rightarrow> string \<Rightarrow> ('w, unit) io" where
  "removeExposedPortsOnce json nph serviceName =
     onErr (getNetworkPolicy nph)
       (\<lambda>err. if isNotFound err then ret ()
              else fail (Wrap (''failed to get networkpolicy '' @
                     getExposedNetworkPolicyName (nph_ingressControllerName nph)) err))
       (\<lambda>get.
          case lookupNil (om_Annotations (np_meta get)) (getServicePortMappingAnnotationKey serviceName) of
            None \<Rightarrow> ret ()
          | Some actualPortsStr \<Rightarrow>
              (case unmarshalCesExposedPorts json serviceName actualPortsStr of
                 Inl err \<Rightarrow> fail err
               | Inr portsToDelete \<Rightarrow>
                   (case np_Ingress get of
                      [] \<Rightarrow> panic
                    | rule # _ \<Rightarrow>
                        (case deleteIngressPorts (npi_Ports rule) portsToDelete of
                           None \<Rightarrow> panic
                         | Some ports \<Rightarrow>
                             let get1 = setFirstRulePorts ports get;
                                 get2 = get1\<lparr>np_meta := (np_meta get1)\<lparr>om_Annotations :=
                                   map_option (fmdrop (getServicePortMappingAnnotationKey serviceName))
                                     (om_Annotations (np_meta get1))\<rparr>\<rparr>
                             in bindIO (c_update (nph_networkPolicyInterface nph) get2) (\<lambda>_. ret ())))))"

definition RemoveExposedPorts ::
  "portsJson \<Rightarrow> (('w, unit) io \<Rightarrow> ('w, unit) io) \<Rightarrow> 'w networkPolicyHandler \<Rightarrow> string \<Rightarrow> ('w, unit) io" where
  "RemoveExposedPorts json onConflict nph serviceName =
     wrapErr (''failed to delete networkpolicy exposed ports for service '' @ serviceName)
       (onConflict (removeExposedPortsOnce json nph serviceName))"

definition RemoveNetworkPolicy :: "'w networkPolicyHandler \<Rightarrow> ('w, unit) io" where
  "RemoveNetworkPolicy nph =
     onErr (getNetworkPolicy nph)
       (\<lambda>err. if isNotFound err then ret () else fail err)
       (\<lambda>policy.
          onErr (c_delete (nph_networkPolicyInterface nph) (om_Name (np_meta policy)))
            (\<lambda>err. fail (Wrap (''failed to delete network policy '' @
                     getExposedNetworkPolicyName (nph_ingressControllerName nph)) err))
            (\<lambda>_. ret ()))"

end
