(* ===== verification/Exposed_Port.thy ===== *)
theory Exposed_Port
  imports Kube
begin

section \<open>Exposed ports (internal/types/exposedPort.go)\<close>

text \<open>
  The list of ports a load balancer exposes.  Slices are sorted and updated in place; an operation
  that does so returns the slice as its caller sees it afterwards.  The function \<open>sort.Slice\<close> is the
  argument \<open>sortSlice\<close> (locale \<open>slice_sort\<close>): it is not stable, so the order of ports with the same
  name is left open.
\<close>

subsection \<open>Model\<close>

definition httpPort :: int32 where "httpPort = 80"
definition httpsPort :: int32 where "httpsPort = 443"

record ExposedPort =
  ep_Name :: string
  ep_ServiceName :: string
  ep_Protocol :: string
  ep_Port :: int32
  ep_TargetPort :: int32
  ep_nodePort :: int32

type_synonym ExposedPorts = "ExposedPort list"

text \<open>The zero value of the struct.\<close>

definition zeroExposedPort :: ExposedPort where
  "zeroExposedPort = \<lparr>ep_Name = [], ep_ServiceName = [], ep_Protocol = [], ep_Port = 0,
     ep_TargetPort = 0, ep_nodePort = 0\<rparr>"

record indexKey =
  ik_name :: string
  ik_protocol :: string
  ik_port :: string
  ik_targetPort :: string

definition indexKeyOfServicePort :: "ServicePort \<Rightarrow> indexKey" where
  "indexKeyOfServicePort p =
     \<lparr>ik_name = sp_Name p, ik_protocol = sp_Protocol p, ik_port = showInt (sint (sp_Port p)),
      ik_targetPort = intOrStringString (sp_TargetPort p)\<rparr>"

definition indexKeyOfExposedPort :: "ExposedPort \<Rightarrow> indexKey" where
  "indexKeyOfExposedPort p =
     \<lparr>ik_name = ep_Name p, ik_protocol = ep_Protocol p, ik_port = showInt (sint (ep_Port p)),
      ik_targetPort = showInt (sint (ep_TargetPort p))\<rparr>"

definition SortByName :: "ExposedPort sorter \<Rightarrow> ExposedPorts \<Rightarrow> ExposedPorts" where
  "SortByName sortSlice eps = sortSlice (\<lambda>a b. ep_Name a < ep_Name b) eps"

definition ToServicePort :: "ExposedPort \<Rightarrow> ServicePort" where
  "ToServicePort ep =
     \<lparr>sp_Name = ep_Name ep, sp_Protocol = ep_Protocol ep, sp_Port = ep_Port ep,
      sp_TargetPort = IntVal (ep_TargetPort ep), sp_NodePort = ep_nodePort ep\<rparr>"

definition ToServicePorts ::
  "ExposedPort sorter \<Rightarrow> ExposedPorts \<Rightarrow> ServicePort list \<times> ExposedPorts" where
  "ToServicePorts sortSlice eps =
     (let eps' = SortByName sortSlice eps in (map ToServicePort eps', eps'))"

definition Equals_ExposedPorts ::
  "ExposedPort sorter \<Rightarrow> ExposedPorts \<Rightarrow> ExposedPorts \<Rightarrow> bool \<times> ExposedPorts \<times> ExposedPorts" where
  "Equals_ExposedPorts sortSlice eps o1 =
     (let eps' = SortByName sortSlice eps; o' = SortByName sortSlice o1
      in (eps' = o', eps', o'))"

text \<open>The index of node ports, filled in the order of the service's ports: a later entry wins.\<close>

fun nodePortIndex :: "ServicePort list \<Rightarrow> (indexKey, int32) fmap \<Rightarrow> (indexKey, int32) fmap" where
  "nodePortIndex [] m = m"
| "nodePortIndex (p # ps) m = nodePortIndex ps (fmupd (indexKeyOfServicePort p) (sp_NodePort p) m)"

definition SetNodePorts :: "ExposedPorts \<Rightarrow> ServicePort list \<Rightarrow> ExposedPorts" where
  "SetNodePorts eps servicePorts =
     (let idx = nodePortIndex servicePorts fmempty
      in map (\<lambda>ep. case fmlookup idx (indexKeyOfExposedPort ep) of
                      Some np \<Rightarrow> ep\<lparr>ep_nodePort := np\<rparr>
                    | None \<Rightarrow> ep) eps)"

definition PortString :: "ExposedPort \<Rightarrow> string" where
  "PortString ep = showInt (sint (ep_Port ep))"

definition CreateDefaultPorts :: ExposedPorts where
  "CreateDefaultPorts =
     [zeroExposedPort\<lparr>ep_Name := ''http'', ep_Protocol := ProtocolTCP,
        ep_Port := httpPort, ep_TargetPort := httpPort\<rparr>,
      zeroExposedPort\<lparr>ep_Name := ''https'', ep_Protocol := ProtocolTCP,
        ep_Port := httpsPort, ep_TargetPort := httpsPort\<rparr>]"

subsection \<open>Index keys\<close>

text \<open>The key of an exposed port is the key of the service port it is translated to.\<close>

lemma indexKey_ToServicePort [simp]:
  "indexKeyOfServicePort (ToServicePort ep) = indexKeyOfExposedPort ep"
  by (simp add: indexKeyOfServicePort_def indexKeyOfExposedPort_def ToServicePort_def)

lemma sint_inj32 [simp]: "sint (a :: int32) = sint b \<longleftrightarrow> a = b"
  using word_eq_iff_signed by metis

lemma indexKeyOfExposedPort_eq_iff:
  "indexKeyOfExposedPort a = indexKeyOfExposedPort b \<longleftrightarrow>
     ep_Name a = ep_Name b \<and> ep_Protocol a = ep_Protocol b \<and>
     ep_Port a = ep_Port b \<and> ep_TargetPort a = ep_TargetPort b"
  by (auto simp: indexKeyOfExposedPort_def)

lemma indexKey_match_iff:
  "indexKeyOfServicePort p = indexKeyOfExposedPort ep \<longleftrightarrow>
     sp_Name p = ep_Name ep \<and> sp_Protocol p = ep_Protocol ep \<and> sp_Port p = ep_Port ep \<and>
     (sp_TargetPort p = IntVal (ep_TargetPort ep) \<or>
      sp_TargetPort p = StrVal (showInt (sint (ep_TargetPort ep))))"
  by (cases "sp_TargetPort p") (auto simp: indexKeyOfServicePort_def indexKeyOfExposedPort_def)

lemma indexKey_nodePort [simp]:
  "indexKeyOfExposedPort (ep\<lparr>ep_nodePort := n\<rparr>) = indexKeyOfExposedPort ep"
  by (simp add: indexKeyOfExposedPort_def)

subsection \<open>Sorting by name\<close>

lemma SortByName_spec:
  assumes "slice_sort sortSlice"
  shows "mset (SortByName sortSlice eps) = mset eps"
    and "sorted (map ep_Name (SortByName sortSlice eps))"
  using slice_sort.perm [OF assms] slice_sort.sorted_key [OF assms]
  by (simp_all add: SortByName_def)

lemma set_SortByName [simp]:
  "slice_sort sortSlice \<Longrightarrow> set (SortByName sortSlice eps) = set eps"
  by (simp add: SortByName_def slice_sort.set_sort)

lemma SortByName_unique:
  assumes "slice_sort sortSlice" and "distinct (map ep_Name eps)"
    and "mset ys = mset eps" and "sorted (map ep_Name ys)"
  shows "SortByName sortSlice eps = ys"
  using slice_sort.sort_unique [OF assms(1,3,4,2)] by (simp add: SortByName_def)

lemma SortByName_sorted:
  assumes "slice_sort sortSlice" and "distinct (map ep_Name eps)" and "sorted (map ep_Name eps)"
  shows "SortByName sortSlice eps = eps"
  by (rule SortByName_unique [OF assms(1,2) refl assms(3)])

lemma distinct_names_SortByName:
  assumes "slice_sort sortSlice"
  shows "distinct (map ep_Name (SortByName sortSlice eps)) \<longleftrightarrow> distinct (map ep_Name eps)"
  by (metis SortByName_spec(1) [OF assms] mset_eq_imp_distinct_iff mset_map)

subsection \<open>Node ports\<close>

lemma nodePortIndex_append:
  "nodePortIndex (ps @ qs) m = nodePortIndex qs (nodePortIndex ps m)"
  by (induction ps m rule: nodePortIndex.induct) simp_all

lemma nodePortIndex_lookup:
  "fmlookup (nodePortIndex ps m) k =
     (case find (\<lambda>p. indexKeyOfServicePort p = k) (rev ps) of
        Some p \<Rightarrow> Some (sp_NodePort p)
      | None \<Rightarrow> fmlookup m k)"
proof (induction ps arbitrary: m rule: rev_induct)
  case Nil
  then show ?case by simp
next
  case (snoc p ps)
  then show ?case by (simp add: nodePortIndex_append)
qed

lemma nodePortIndex_none:
  "fmlookup (nodePortIndex ps fmempty) k = None \<longleftrightarrow> k \<notin> indexKeyOfServicePort ` set ps"
  by (auto simp: nodePortIndex_lookup find_None_iff split: option.split dest!: find_SomeD)

lemma nodePortIndex_distinct:
  assumes "distinct (map indexKeyOfServicePort ps)" and "p \<in> set ps"
  shows "fmlookup (nodePortIndex ps fmempty) (indexKeyOfServicePort p) = Some (sp_NodePort p)"
proof -
  obtain q where q: "find (\<lambda>q. indexKeyOfServicePort q = indexKeyOfServicePort p) (rev ps) = Some q"
    using assms(2) by (cases "find (\<lambda>q. indexKeyOfServicePort q = indexKeyOfServicePort p) (rev ps)")
      (auto simp: find_None_iff)
  then have "q \<in> set ps" and "indexKeyOfServicePort q = indexKeyOfServicePort p"
    by (auto dest!: find_SomeD)
  then have "q = p" using assms by (meson distinct_map inj_onD)
  with q show ?thesis by (simp add: nodePortIndex_lookup)
qed

lemma SetNodePorts_keeps [simp]:
  "map ep_Name (SetNodePorts eps ps) = map ep_Name eps"
  "map indexKeyOfExposedPort (SetNodePorts eps ps) = map indexKeyOfExposedPort eps"
  by (auto simp: SetNodePorts_def Let_def split: option.splits)

lemma length_SetNodePorts [simp]: "length (SetNodePorts eps ps) = length eps"
  by (simp add: SetNodePorts_def Let_def)

lemma SetNodePorts_elem:
  "SetNodePorts eps ps =
     map (\<lambda>ep. ep\<lparr>ep_nodePort :=
       (case fmlookup (nodePortIndex ps fmempty) (indexKeyOfExposedPort ep) of
          Some np \<Rightarrow> np | None \<Rightarrow> ep_nodePort ep)\<rparr>) eps"
  by (auto simp: SetNodePorts_def Let_def split: option.split)

text \<open>
  Ports that were already translated to service ports, each with some node port, get exactly those
  node ports back.
\<close>

lemma SetNodePorts_restores:
  assumes "distinct (map indexKeyOfExposedPort eps)"
  shows "map ToServicePort (SetNodePorts eps (map (\<lambda>ep. (ToServicePort ep)\<lparr>sp_NodePort := f ep\<rparr>) eps))
       = map (\<lambda>ep. (ToServicePort ep)\<lparr>sp_NodePort := f ep\<rparr>) eps"
proof -
  let ?port = "\<lambda>ep. (ToServicePort ep)\<lparr>sp_NodePort := f ep\<rparr>"
  have key: "indexKeyOfServicePort (?port ep) = indexKeyOfExposedPort ep" for ep
    by (simp add: indexKeyOfServicePort_def indexKeyOfExposedPort_def ToServicePort_def)
  have "fmlookup (nodePortIndex (map ?port eps) fmempty) (indexKeyOfExposedPort ep) = Some (f ep)"
    if "ep \<in> set eps" for ep
    using nodePortIndex_distinct [of "map ?port eps" "?port ep"] assms that
    by (simp add: key comp_def)
  then show ?thesis
    by (simp add: SetNodePorts_elem ToServicePort_def)
qed

lemma distinct_names_keys:
  "distinct (map ep_Name eps) \<Longrightarrow> distinct (map indexKeyOfExposedPort eps)"
  by (auto simp: distinct_map inj_on_def indexKeyOfExposedPort_eq_iff)

end
