(* ===== verification/Alternative_FQDN.thy ===== *)
theory Alternative_FQDN
  imports Go_Strings
begin

section \<open>Alternative FQDNs (internal/types/alternativeFQDN.go)\<close>

text \<open>
  The global configuration lists alternative host names, separated by commas; an entry may name the
  secret of its certificate after a colon.  The parser is modelled as it is written; the lemmas give
  its round trip with the printed form, with any blanks around the parts.
\<close>

subsection \<open>Model\<close>

record AlternativeFQDN =
  af_FQDN :: string
  af_CertificateSecretName :: string

definition HasCertificate :: "AlternativeFQDN \<Rightarrow> bool" where
  "HasCertificate a \<longleftrightarrow> af_CertificateSecretName a \<noteq> []"

text \<open>What one entry of the list appends to the result: nothing or one host name.\<close>

definition altFQDNOfEntry :: "string \<Rightarrow> AlternativeFQDN list" where
  "altFQDNOfEntry altFQDNCert =
     (case splitStr (CHR '':'') altFQDNCert of
        [fqdn, cert] \<Rightarrow>
          if fqdn \<noteq> [] then
            [\<lparr>af_FQDN = trimSpace fqdn, af_CertificateSecretName = trimSpace cert\<rparr>] else []
      | [fqdn] \<Rightarrow>
          if fqdn \<noteq> [] then [\<lparr>af_FQDN = trimSpace fqdn, af_CertificateSecretName = []\<rparr>] else []
      | _ \<Rightarrow> [])"

fun appendAltFQDNs :: "AlternativeFQDN list \<Rightarrow> string list \<Rightarrow> AlternativeFQDN list" where
  "appendAltFQDNs altFQDNs [] = altFQDNs"
| "appendAltFQDNs altFQDNs (e # es) = appendAltFQDNs (altFQDNs @ altFQDNOfEntry e) es"

definition ParseAlternativeFQDNsFromConfigString :: "string \<Rightarrow> AlternativeFQDN list" where
  "ParseAlternativeFQDNsFromConfigString configString =
     appendAltFQDNs [] (splitStr (CHR '','') configString)"

subsection \<open>Round trip\<close>

lemma appendAltFQDNs_concat: "appendAltFQDNs acc es = acc @ concat (map altFQDNOfEntry es)"
  by (induction es arbitrary: acc) simp_all

text \<open>A part of an entry that survives printing and parsing.\<close>

definition plainPart :: "string \<Rightarrow> bool" where
  "plainPart s \<longleftrightarrow> (\<forall>c\<in>set s. \<not> isSpace c \<and> c \<noteq> CHR '','' \<and> c \<noteq> CHR '':'')"

definition plainFQDN :: "AlternativeFQDN \<Rightarrow> bool" where
  "plainFQDN a \<longleftrightarrow> af_FQDN a \<noteq> [] \<and> plainPart (af_FQDN a) \<and> plainPart (af_CertificateSecretName a)"

definition blank :: "string \<Rightarrow> bool" where
  "blank s \<longleftrightarrow> (\<forall>c\<in>set s. isSpace c)"

text \<open>The printed form of an entry, with blanks before and after each part.\<close>

definition printEntry :: "string \<Rightarrow> string \<Rightarrow> AlternativeFQDN \<Rightarrow> string" where
  "printEntry l r a =
     l @ af_FQDN a @ r @
     (if HasCertificate a then CHR '':'' # l @ af_CertificateSecretName a @ r else [])"

lemma isSpace_separators [simp]: "\<not> isSpace (CHR '','')" "\<not> isSpace (CHR '':'')"
  by (simp_all add: isSpace_def)

lemma padded_no_sep:
  assumes "blank l" and "blank r" and "plainPart s"
  shows "CHR '':'' \<notin> set (l @ s @ r)" and "CHR '','' \<notin> set (l @ s @ r)"
  using assms by (auto simp: blank_def plainPart_def)

lemma trimSpace_padded: "blank l \<Longrightarrow> blank r \<Longrightarrow> plainPart s \<Longrightarrow> trimSpace (l @ s @ r) = s"
  by (rule trimSpace_pad) (auto simp: blank_def plainPart_def)

lemma altFQDNOfEntry_printEntry:
  assumes "blank l" and "blank r" and "plainFQDN a"
  shows "altFQDNOfEntry (printEntry l r a) = [a]"
proof (cases "HasCertificate a")
  case True
  let ?f = "l @ af_FQDN a @ r" and ?c = "l @ af_CertificateSecretName a @ r"
  have "CHR '':'' \<notin> set ?f" and "CHR '':'' \<notin> set ?c"
    using assms padded_no_sep(1) [OF assms(1,2)] unfolding plainFQDN_def by blast+
  then have "splitStr (CHR '':'') (?f @ CHR '':'' # ?c) = [?f, ?c]"
    by (metis splitStr_append splitStr_no_sep)
  with True assms show ?thesis
    by (auto simp: altFQDNOfEntry_def printEntry_def plainFQDN_def trimSpace_padded)
next
  case False
  let ?f = "l @ af_FQDN a @ r"
  have "splitStr (CHR '':'') ?f = [?f]"
    using assms padded_no_sep(1) [OF assms(1,2)] unfolding plainFQDN_def
    by (intro splitStr_no_sep) blast
  with False assms show ?thesis
    by (auto simp: altFQDNOfEntry_def printEntry_def plainFQDN_def trimSpace_padded HasCertificate_def)
qed

lemma printEntry_no_comma:
  assumes "blank l" and "blank r" and "plainFQDN a"
  shows "CHR '','' \<notin> set (printEntry l r a)"
  using padded_no_sep(2) [OF assms(1,2)] assms(3) by (auto simp: printEntry_def plainFQDN_def)

text \<open>
  Property C37. Parsing the printed list of alternative FQDNs gives the list back, whatever blanks
  stand around the host names and the secret names ("spaces around entries are tolerated").
\<close>

theorem parse_print_alternative_fqdns:
  assumes "blank l" and "blank r" and "list_all plainFQDN xs"
  shows "ParseAlternativeFQDNsFromConfigString (joinStr '','' (map (printEntry l r) xs)) = xs"
proof (cases "xs = []")
  case True
  then show ?thesis
    by (simp add: ParseAlternativeFQDNsFromConfigString_def altFQDNOfEntry_def)
next
  case False
  have "splitStr (CHR '','') (joinStr '','' (map (printEntry l r) xs)) = map (printEntry l r) xs"
    using False assms printEntry_no_comma [OF assms(1,2)]
    by (intro splitStr_joinStr) (auto simp: list_all_iff)
  moreover have "concat (map altFQDNOfEntry (map (printEntry l r) xs)) = xs"
    using assms(3) altFQDNOfEntry_printEntry [OF assms(1,2)] by (induction xs) simp_all
  ultimately show ?thesis
    by (simp only: ParseAlternativeFQDNsFromConfigString_def appendAltFQDNs_concat) simp
qed

theorem parse_print_alternative_fqdns_witness:
  "ParseAlternativeFQDNsFromConfigString '' a.org , b.org : s '' =
     [\<lparr>af_FQDN = ''a.org'', af_CertificateSecretName = []\<rparr>,
      \<lparr>af_FQDN = ''b.org'', af_CertificateSecretName = ''s''\<rparr>]"
  using parse_print_alternative_fqdns [of "'' ''" "'' ''"
      "[\<lparr>af_FQDN = ''a.org'', af_CertificateSecretName = []\<rparr>,
        \<lparr>af_FQDN = ''b.org'', af_CertificateSecretName = ''s''\<rparr>]"]
  by (simp add: blank_def plainFQDN_def plainPart_def isSpace_def printEntry_def HasCertificate_def)

text \<open>
  The parser returns an alternative FQDN that is the empty string exactly when some
  entry with at most one colon has a host part that is not empty but blank, such as the end of
  a list that closes with a comma and a space.
\<close>

lemma parse_alternative_fqdns_empty_host:
  "[] \<in> af_FQDN ` set (ParseAlternativeFQDNsFromConfigString s) \<longleftrightarrow>
     (\<exists>e\<in>set (splitStr (CHR '','') s).
        length (splitStr (CHR '':'') e) \<le> 2 \<and> hd (splitStr (CHR '':'') e) \<noteq> [] \<and>
        blank (hd (splitStr (CHR '':'') e)))"
proof -
  have entry: "[] \<in> af_FQDN ` set (altFQDNOfEntry e) \<longleftrightarrow>
      length (splitStr (CHR '':'') e) \<le> 2 \<and> hd (splitStr (CHR '':'') e) \<noteq> [] \<and>
      blank (hd (splitStr (CHR '':'') e))" for e
  proof -
    obtain f ps where sp: "splitStr (CHR '':'') e = f # ps"
      by (cases "splitStr (CHR '':'') e") auto
    have t: "[] = trimSpace f \<longleftrightarrow> blank f"
      using trimSpace_eq_Nil_iff [of f] unfolding blank_def by metis
    show ?thesis
    proof (cases ps)
      case Nil
      then show ?thesis by (cases "f = []") (simp_all add: altFQDNOfEntry_def sp t)
    next
      case (Cons c qs)
      then show ?thesis by (cases qs; cases "f = []") (simp_all add: altFQDNOfEntry_def sp t)
    qed
  qed
  have "[] \<in> af_FQDN ` set (ParseAlternativeFQDNsFromConfigString s) \<longleftrightarrow>
      (\<exists>e\<in>set (splitStr (CHR '','') s). [] \<in> af_FQDN ` set (altFQDNOfEntry e))"
    by (auto simp: ParseAlternativeFQDNsFromConfigString_def appendAltFQDNs_concat)
  then show ?thesis by (simp only: entry)
qed

end
