(* ===== verification/Middleware_Manager.thy ===== *)
theory Middleware_Manager
  imports Util_Pkg
begin

section \<open>Traefik middlewares (controllers/expose/middleware_manager.go)\<close>

text \<open>
  The manager creates or updates two kinds of Traefik middleware: one per ces service that rewrites
  the request path, and one that redirects every alternative FQDN to the primary one.  The record
  \<open>CesService\<close> (controllers/expose/ingressUpdater.go) is the data of one exposed ces service.
\<close>

subsection \<open>Model\<close>

record CesService =
  cs_Name :: string
  cs_Port :: int64
  cs_Location :: string
  cs_Pass :: string
  cs_Rewrite :: string

record RegexRewrite =
  rx_Regex :: string
  rx_Replacement :: string

record Middleware =
  mw_meta :: ObjectMeta
  mw_ReplacePathRegex :: "RegexRewrite option"
  mw_RedirectRegex :: "RegexRewrite option"

text \<open>\<open>path.Join(a, b)\<close> with the lexical clean-up of \<open>path.Clean\<close>.\<close>

fun cleanElems :: "bool \<Rightarrow> string list \<Rightarrow> string list \<Rightarrow> string list" where
  "cleanElems rooted [] out = rev out"
| "cleanElems rooted (e # es) out =
     (if e = [] \<or> e = ''.'' then cleanElems rooted es out
      else if e = ''..'' then
        (case out of
           [] \<Rightarrow> cleanElems rooted es (if rooted then [] else [''..''])
         | x # out' \<Rightarrow> if x = ''..'' then cleanElems rooted es (''..'' # out)
                      else cleanElems rooted es out')
      else cleanElems rooted es (e # out))"

definition pathClean :: "string \<Rightarrow> string" where
  "pathClean p =
     (case p of
        [] \<Rightarrow> ''.''
      | c # _ \<Rightarrow>
          let rooted = (c = CHR ''/'');
              body = joinStr ''/'' (cleanElems rooted (splitStr (CHR ''/'') p) [])
          in if rooted then CHR ''/'' # body else if body = [] then ''.'' else body)"

definition pathJoin :: "string \<Rightarrow> string \<Rightarrow> string" where
  "pathJoin a b =
     (case filter (\<lambda>e. e \<noteq> []) [a, b] of [] \<Rightarrow> [] | es \<Rightarrow> pathClean (joinStr ''/'' es))"

type_synonym 'w middlewareInterface = "('w, Middleware) client"

record 'w MiddlewareManager =
  mm_client :: "'w middlewareInterface"
  mm_namespace :: string

text \<open>The common tail of both operations: get, then create or update under the resource version.\<close>

definition upsertMiddleware ::
  "'w MiddlewareManager \<Rightarrow> string \<Rightarrow> string \<Rightarrow> Middleware \<Rightarrow> ('w, string) io" where
  "upsertMiddleware m createMsg updateMsg middleware =
     (let middlewareName = om_Name (mw_meta middleware) in
      onErr (c_get (mm_client m) middlewareName)
        (\<lambda>err. if isNotFound err then
                 onErr (c_create (mm_client m) middleware)
                   (\<lambda>createErr. fail (Wrap createMsg createErr))
                   (\<lambda>_. ret middlewareName)
               else fail (Wrap ''failed to get middleware'' err))
        (\<lambda>existing.
           onErr (c_update (mm_client m)
                    (middleware\<lparr>mw_meta := (mw_meta middleware)
                       \<lparr>om_ResourceVersion := om_ResourceVersion (mw_meta existing)\<rparr>\<rparr>))
             (\<lambda>updateErr. fail (Wrap updateMsg updateErr))
             (\<lambda>_. ret middlewareName)))"

definition replacePathMiddleware ::
  "string \<Rightarrow> string \<Rightarrow> CesService \<Rightarrow> OwnerReference list \<Rightarrow> Middleware" where
  "replacePathMiddleware namespace serviceName cesService ownerReferences =
     \<lparr>mw_meta = emptyMeta
        \<lparr>om_Name := serviceName @ ''-'' @ cs_Name cesService @ ''-rewrite'',
         om_Namespace := namespace, om_OwnerReferences := ownerReferences\<rparr>,
      mw_ReplacePathRegex = Some
        \<lparr>rx_Regex = ''^'' @ trimRight (cs_Location cesService) (CHR ''/'') @ ''(/|$)(.*)'',
         rx_Replacement = pathJoin (cs_Pass cesService) ''$2''\<rparr>,
      mw_RedirectRegex = None\<rparr>"

definition createOrUpdateReplacePathMiddleware ::
  "'w MiddlewareManager \<Rightarrow> string \<Rightarrow> CesService \<Rightarrow> OwnerReference list \<Rightarrow> ('w, string) io" where
  "createOrUpdateReplacePathMiddleware m serviceName cesService ownerReferences =
     upsertMiddleware m ''failed to create middleware'' ''failed to update middleware''
       (replacePathMiddleware (mm_namespace m) serviceName cesService ownerReferences)"

definition escapeFQDN :: "string \<Rightarrow> string" where
  "escapeFQDN fqdn = replaceAll fqdn (CHR ''.'') [CHR 0x5C, CHR ''.'']"

definition redirectMiddleware ::
  "string \<Rightarrow> string list \<Rightarrow> string \<Rightarrow> OwnerReference list \<Rightarrow> Middleware" where
  "redirectMiddleware namespace alternativeFQDNs primaryFQDN ownerReferences =
     \<lparr>mw_meta = emptyMeta
        \<lparr>om_Name := ''alternative-fqdn'', om_Namespace := namespace,
         om_OwnerReferences := ownerReferences\<rparr>,
      mw_ReplacePathRegex = None,
      mw_RedirectRegex = Some
        \<lparr>rx_Regex = ''^https?://('' @ joinStr ''|'' (map escapeFQDN alternativeFQDNs) @ '')(.*)'',
         rx_Replacement = ''https://'' @ primaryFQDN @ ''${2}''\<rparr>\<rparr>"

definition CreateOrUpdateAlternativeFQDNRedirectMiddleware ::
  "'w MiddlewareManager \<Rightarrow> string list \<Rightarrow> string \<Rightarrow> OwnerReference list \<Rightarrow> ('w, string) io" where
  "CreateOrUpdateAlternativeFQDNRedirectMiddleware m alternativeFQDNs primaryFQDN ownerReferences =
     upsertMiddleware m ''failed to create alternative FQDN redirect middleware''
       ''failed to update alternative FQDN redirect middleware''
       (redirectMiddleware (mm_namespace m) alternativeFQDNs primaryFQDN ownerReferences)"

subsection \<open>Lemmas\<close>

text \<open>With a well-behaved API server both operations store the middleware and touch nothing else.\<close>

definition withResourceVersion :: "string \<Rightarrow> Middleware \<Rightarrow> Middleware" where
  "withResourceVersion rv x = x\<lparr>mw_meta := (mw_meta x)\<lparr>om_ResourceVersion := rv\<rparr>\<rparr>"

lemma upsertMiddleware_stores:
  assumes "object_store (mm_client m) view put mw_meta adm"
    and "om_ResourceVersion (mw_meta x) = []"
  shows "\<exists>rv. upsertMiddleware m cm um x w =
    (Ret (om_Name (mw_meta x)),
     put (om_Name (mw_meta x)) (Some (adm w (withResourceVersion rv x))) w)"
proof (cases "view w (om_Name (mw_meta x))")
  case None
  have "withResourceVersion [] x = x"
    using assms(2) by (simp add: withResourceVersion_def)
  with None have "upsertMiddleware m cm um x w =
      (Ret (om_Name (mw_meta x)),
       put (om_Name (mw_meta x)) (Some (adm w (withResourceVersion [] x))) w)"
    by (simp add: upsertMiddleware_def Let_def io_simps object_store.store_runs [OF assms(1)])
  then show ?thesis ..
next
  case (Some old)
  let ?rv = "om_ResourceVersion (mw_meta old)"
  have "c_update (mm_client m) (withResourceVersion ?rv x) w =
     (Ret (adm w (withResourceVersion ?rv x)),
      put (om_Name (mw_meta x)) (Some (adm w (withResourceVersion ?rv x))) w)"
    using object_store.update_fresh [OF assms(1), of w "withResourceVersion ?rv x" old] Some
    by (simp add: withResourceVersion_def)
  then have "upsertMiddleware m cm um x w =
      (Ret (om_Name (mw_meta x)),
       put (om_Name (mw_meta x)) (Some (adm w (withResourceVersion ?rv x))) w)"
    using Some
    by (simp add: upsertMiddleware_def Let_def io_simps object_store.get_found [OF assms(1)]
        withResourceVersion_def)
  then show ?thesis ..
qed

lemma redirect_middleware_stores:
  assumes "object_store (mm_client m) view put mw_meta adm"
  shows "\<exists>rv. CreateOrUpdateAlternativeFQDNRedirectMiddleware m fqdns primary refs w =
    (Ret ''alternative-fqdn'', put ''alternative-fqdn''
       (Some (adm w (withResourceVersion rv (redirectMiddleware (mm_namespace m) fqdns primary refs)))) w)"
  using upsertMiddleware_stores [OF assms, of "redirectMiddleware (mm_namespace m) fqdns primary refs"]
  by (simp add: CreateOrUpdateAlternativeFQDNRedirectMiddleware_def redirectMiddleware_def emptyMeta_def)

lemma replace_path_middleware_stores:
  assumes "object_store (mm_client m) view put mw_meta adm"
  shows "\<exists>rv. createOrUpdateReplacePathMiddleware m serviceName ces refs w =
    (Ret (serviceName @ ''-'' @ cs_Name ces @ ''-rewrite''),
     put (serviceName @ ''-'' @ cs_Name ces @ ''-rewrite'')
       (Some (adm w (withResourceVersion rv (replacePathMiddleware (mm_namespace m) serviceName ces refs)))) w)"
  using upsertMiddleware_stores [OF assms, of "replacePathMiddleware (mm_namespace m) serviceName ces refs"]
  by (simp add: createOrUpdateReplacePathMiddleware_def replacePathMiddleware_def emptyMeta_def)

end
