(* ===== verification/Traefik.thy ===== *)
theory Traefik
  imports Exposed_Port Alternative_FQDN Middleware_Manager
begin

section \<open>The Traefik ingress controller (controllers/expose/ingressController)\<close>

text \<open>
  The controller object (traefikcontroller.go, controller.go), the port exposer (portExposer.go) that
  keeps one \<open>IngressRouteTCP\<close> or \<open>IngressRouteUDP\<close> per exposed port, and the redirector
  (redirector.go) that keeps the ingress and the middleware for the alternative FQDNs.

  The order in which Go ranges over a map is not determined: the argument \<open>ord\<close> gives the keys of
  a map in the order of one iteration (\<open>iterationOrder\<close>).
\<close>

subsection \<open>The port exposer\<close>

record TraefikService =
  ts_Name :: string
  ts_Namespace :: string
  ts_Port :: IntOrString

record RouteTCP =
  rt_Match :: string
  rt_Services :: "TraefikService list"

record IngressRouteTCP =
  irt_meta :: ObjectMeta
  irt_EntryPoints :: "string list"
  irt_Routes :: "RouteTCP list"

record RouteUDP =
  ru_Services :: "TraefikService list"

record IngressRouteUDP =
  iru_meta :: ObjectMeta
  iru_EntryPoints :: "string list"
  iru_Routes :: "RouteUDP list"

type_synonym 'w ingressrouteTcpInterface = "('w, IngressRouteTCP) client"
type_synonym 'w ingressrouteUdpInterface = "('w, IngressRouteUDP) client"

text \<open>The Traefik client gives a typed client for each namespace.\<close>

record 'w traefikInterface =
  tk_IngressRouteTCPs :: "string \<Rightarrow> 'w ingressrouteTcpInterface"
  tk_IngressRouteUDPs :: "string \<Rightarrow> 'w ingressrouteUdpInterface"
  tk_Middlewares :: "string \<Rightarrow> 'w middlewareInterface"

record 'w PortExposer =
  pe_IngressRouteTCPs :: "string \<Rightarrow> 'w ingressrouteTcpInterface"
  pe_IngressRouteUDPs :: "string \<Rightarrow> 'w ingressrouteUdpInterface"
  pe_ingressInterface :: "'w ingressInterface"
  pe_namespace :: string

definition createIngressRouteTCP ::
  "string \<Rightarrow> ExposedPort \<Rightarrow> OwnerReference list option \<Rightarrow> IngressRouteTCP" where
  "createIngressRouteTCP namespace port ownerReferences =
     (let route =
        \<lparr>irt_meta = emptyMeta
           \<lparr>om_Name := ep_ServiceName port @ ''-'' @ PortString port @ ''-tcp'',
            om_Namespace := namespace, om_Labels := K8sCesServiceDiscoveryLabels\<rparr>,
         irt_EntryPoints = [''tcp-'' @ PortString port],
         irt_Routes = [\<lparr>rt_Match = ''HostSNI(`*`)'',
           rt_Services = [\<lparr>ts_Name = ep_ServiceName port, ts_Namespace = namespace,
             ts_Port = IntVal (ep_TargetPort port)\<rparr>]\<rparr>]\<rparr>
      in case ownerReferences of
           None \<Rightarrow> route
         | Some refs \<Rightarrow> route\<lparr>irt_meta := (irt_meta route)\<lparr>om_OwnerReferences := refs\<rparr>\<rparr>)"

definition createIngressRouteUDP ::
  "string \<Rightarrow> ExposedPort \<Rightarrow> OwnerReference list option \<Rightarrow> IngressRouteUDP" where
  "createIngressRouteUDP namespace port ownerReferences =
     (let route =
        \<lparr>iru_meta = emptyMeta
           \<lparr>om_Name := ep_ServiceName port @ ''-'' @ PortString port @ ''-udp'',
            om_Namespace := namespace, om_Labels := K8sCesServiceDiscoveryLabels\<rparr>,
         iru_EntryPoints = [''udp-'' @ PortString port],
         iru_Routes = [\<lparr>ru_Services = [\<lparr>ts_Name = ep_ServiceName port, ts_Namespace = namespace,
           ts_Port = IntVal (ep_TargetPort port)\<rparr>]\<rparr>]\<rparr>
      in case ownerReferences of
           None \<Rightarrow> route
         | Some refs \<Rightarrow> route\<lparr>iru_meta := (iru_meta route)\<lparr>om_OwnerReferences := refs\<rparr>\<rparr>)"

definition upsertIngressRouteTCP ::
  "IngressRouteTCP \<Rightarrow> ('w, IngressRouteTCP) client \<Rightarrow> ('w, unit) io" where
  "upsertIngressRouteTCP route client =
     onErr (c_create client route)
       (\<lambda>err. if \<not> isAlreadyExists err then fail (Wrap ''failed to create IngressRouteTCP'' err)
              else onErr (c_get client (om_Name (irt_meta route)))
                (\<lambda>gErr. fail (Wrap ''failed to get existing IngressRouteTCP'' gErr))
                (\<lambda>existing.
                   onErr (c_update client
                            (route\<lparr>irt_meta := (irt_meta route)
                               \<lparr>om_ResourceVersion := om_ResourceVersion (irt_meta existing)\<rparr>\<rparr>))
                     (\<lambda>uErr. fail (Wrap ''failed to update IngressRouteTCP'' uErr))
                     (\<lambda>_. ret ())))
       (\<lambda>_. ret ())"

definition upsertIngressRouteUDP ::
  "IngressRouteUDP \<Rightarrow> ('w, IngressRouteUDP) client \<Rightarrow> ('w, unit) io" where
  "upsertIngressRouteUDP route client =
     onErr (c_create client route)
       (\<lambda>err. if \<not> isAlreadyExists err then fail (Wrap ''failed to create IngressRouteUDP'' err)
              else onErr (c_get client (om_Name (iru_meta route)))
                (\<lambda>gErr. fail (Wrap ''failed to get existing IngressRouteUDP'' gErr))
                (\<lambda>existing.
                   onErr (c_update client
                            (route\<lparr>iru_meta := (iru_meta route)
                               \<lparr>om_ResourceVersion := om_ResourceVersion (iru_meta existing)\<rparr>\<rparr>))
                     (\<lambda>uErr. fail (Wrap ''failed to update IngressRouteUDP'' uErr))
                     (\<lambda>_. ret ())))
       (\<lambda>_. ret ())"

definition getIngressRouteOwner ::
  "('w, Ingress) client \<Rightarrow> ExposedPort \<Rightarrow> ('w, OwnerReference list option) io" where
  "getIngressRouteOwner ingressInterface port =
     onErr (c_get ingressInterface (ep_ServiceName port))
       (\<lambda>_. ret None)
       (\<lambda>owner. ret (Some (om_OwnerReferences (ing_meta owner))))"

definition exposePort :: "'w PortExposer \<Rightarrow> string \<Rightarrow> ExposedPort \<Rightarrow> ('w, unit) io" where
  "exposePort p namespace port =
     bindIO (getIngressRouteOwner (pe_ingressInterface p) port) (\<lambda>owner.
       if ep_Protocol port = ProtocolTCP then
         wrapErr (''failed to expose tcp port '' @ PortString port)
           (upsertIngressRouteTCP (createIngressRouteTCP namespace port owner)
              (pe_IngressRouteTCPs p namespace))
       else if ep_Protocol port = ProtocolUDP then
         wrapErr (''failed to expose udp port '' @ PortString port)
           (upsertIngressRouteUDP (createIngressRouteUDP namespace port owner)
              (pe_IngressRouteUDPs p namespace))
       else ret ())"

definition ExposePorts :: "'w PortExposer \<Rightarrow> string \<Rightarrow> ExposedPorts \<Rightarrow> ('w, unit) io" where
  "ExposePorts p namespace exposedPorts = forEach (exposePort p namespace) exposedPorts"

subsection \<open>The redirector\<close>

definition traefikMiddlewareAnnotation :: string where
  "traefikMiddlewareAnnotation = ''traefik.ingress.kubernetes.io/router.middlewares''"
definition redirectMiddlewareName :: string where
  "redirectMiddlewareName = ''alternative-fqdn@kubernetescrd''"
definition redirectIngressPath :: string where "redirectIngressPath = ''/''"
definition redirectEndpointName :: string where "redirectEndpointName = ''ces-loadbalancer''"
definition redirectEndpointPort :: int32 where "redirectEndpointPort = 443"

record 'w IngressRedirector =
  rd_ingressClassName :: string
  rd_ingressInterface :: "'w ingressInterface"
  rd_Middlewares :: "string \<Rightarrow> 'w middlewareInterface"
  rd_namespace :: string

type_synonym mapOrder = "(string, string list) fmap \<Rightarrow> string list"

definition iterationOrder :: "mapOrder \<Rightarrow> bool" where
  "iterationOrder ord \<longleftrightarrow> (\<forall>m. distinct (ord m) \<and> set (ord m) = fmdom' m)"

text \<open>An iteration over a map: keys with their values, in the given order.\<close>

definition rangeMap :: "mapOrder \<Rightarrow> (string, string list) fmap \<Rightarrow> (string \<times> string list) list" where
  "rangeMap ord m = map (\<lambda>k. (k, case fmlookup m k of None \<Rightarrow> [] | Some v \<Rightarrow> v)) (ord m)"

fun groupFQDNs ::
  "AlternativeFQDN list \<Rightarrow> (string, string list) fmap \<Rightarrow> (string, string list) fmap" where
  "groupFQDNs [] result = result"
| "groupFQDNs (a # as) result =
     groupFQDNs as
       (fmupd (af_CertificateSecretName a)
          ((case fmlookup result (af_CertificateSecretName a) of None \<Rightarrow> [] | Some l \<Rightarrow> l) @ [af_FQDN a])
          result)"

definition groupFQDNsBySecretName :: "AlternativeFQDN list \<Rightarrow> (string, string list) fmap" where
  "groupFQDNsBySecretName altFQDNList = groupFQDNs altFQDNList fmempty"

definition createIngressRule :: "string \<Rightarrow> IngressRule" where
  "createIngressRule host =
     \<lparr>rule_Host = host,
      rule_Paths = [\<lparr>path_Path = redirectIngressPath, path_PathType = PathTypePrefix,
        path_ServiceName = redirectEndpointName, path_ServicePort = redirectEndpointPort\<rparr>]\<rparr>"

definition createIngressRules :: "string list \<Rightarrow> IngressRule list" where
  "createIngressRules hostList = map createIngressRule hostList"

definition createRedirectIngress ::
  "mapOrder \<Rightarrow> 'w IngressRedirector \<Rightarrow> string \<Rightarrow> string \<Rightarrow> (string, string list) fmap \<Rightarrow> Ingress" where
  "createRedirectIngress ord i namespace objectName altFQDNMap =
     (let entries = rangeMap ord altFQDNMap;
          fdns = concat (map snd entries);
          tlsList = map (\<lambda>(certificateName, fqdnList).
            \<lparr>tls_Hosts = fqdnList, tls_SecretName = certificateName\<rparr>) entries
      in \<lparr>ing_meta = emptyMeta
            \<lparr>om_Name := objectName, om_Namespace := namespace,
             om_Annotations := Some (fmap_of_list [(traefikMiddlewareAnnotation, redirectMiddlewareName)]),
             om_Labels := K8sCesServiceDiscoveryLabels\<rparr>,
          ing_spec = \<lparr>is_IngressClassName = Some (rd_ingressClassName i), is_TLS = tlsList,
            is_Rules = createIngressRules fdns\<rparr>\<rparr>)"

definition upsertIngress :: "'w IngressRedirector \<Rightarrow> Ingress \<Rightarrow> ('w, Ingress) io" where
  "upsertIngress i ingress =
     onErr (c_create (rd_ingressInterface i) ingress)
       (\<lambda>cErr. if \<not> isAlreadyExists cErr then fail (Wrap ''failed to create redirect ingress'' cErr)
               else wrapErr ''failed to update redirect ingress''
                      (c_update (rd_ingressInterface i) ingress))
       ret"

definition createRedirectMiddleware ::
  "string \<Rightarrow> AlternativeFQDN list \<Rightarrow> Ingress \<Rightarrow> 'w MiddlewareManager \<Rightarrow> ('w, unit) io" where
  "createRedirectMiddleware primaryFqdn fqdnList owner middlewareManager =
     (let ownerReferences =
        [\<lparr>or_APIVersion = ''networking.k8s.io/v1'', or_Kind = ''Ingress'',
          or_Name = om_Name (ing_meta owner), or_UID = om_UID (ing_meta owner),
          or_Controller = None, or_BlockOwnerDeletion = None\<rparr>]
      in bindIO
           (wrapErr ''failed to create or update traefik alternative-fqdn middleware''
              (CreateOrUpdateAlternativeFQDNRedirectMiddleware middlewareManager
                 (map af_FQDN fqdnList) primaryFqdn ownerReferences))
           (\<lambda>_. ret ()))"

text \<open>The owner setter works on the metadata of the object it is given, or reports an error.\<close>

type_synonym ownerSetter = "ObjectMeta \<Rightarrow> error + ObjectMeta"

definition RedirectAlternativeFQDN ::
  "mapOrder \<Rightarrow> 'w IngressRedirector \<Rightarrow> string \<Rightarrow> string \<Rightarrow> string \<Rightarrow> AlternativeFQDN list \<Rightarrow> ownerSetter
     \<Rightarrow> ('w, unit) io" where
  "RedirectAlternativeFQDN ord i namespace redirectObjectName fqdn altFQDNList setOwner =
     (if altFQDNList = [] then
        onErr (c_delete (rd_ingressInterface i) redirectObjectName)
          (\<lambda>dErr. if isNotFound dErr then ret ()
                  else fail (Wrap ''failed to delete redirect ingress'' dErr))
          (\<lambda>_. ret ())
      else
        let redirectIngress = createRedirectIngress ord i namespace redirectObjectName
              (groupFQDNsBySecretName altFQDNList)
        in case setOwner (ing_meta redirectIngress) of
             Inl oErr \<Rightarrow> fail (Wrap ''failed to set owner for redirect ingress'' oErr)
           | Inr m \<Rightarrow>
               bindIO (wrapErr ''failed to upsert redirect ingress''
                         (upsertIngress i (redirectIngress\<lparr>ing_meta := m\<rparr>)))
                 (\<lambda>upsertedIngress.
                    wrapErr ''failed to create alternative fqdn redirect middleware''
                      (createRedirectMiddleware fqdn altFQDNList upsertedIngress
                         \<lparr>mm_client = rd_Middlewares i (rd_namespace i), mm_namespace = rd_namespace i\<rparr>)))"

subsection \<open>The controller\<close>

definition ingressRewriteTargetAnnotation :: string where
  "ingressRewriteTargetAnnotation = ''traefik.ingress.kubernetes.io/router.middlewares''"
definition IngressControllerName :: string where "IngressControllerName = ''traefik''"
definition GatewayControllerName :: string where "GatewayControllerName = ''k8s-ces-gateway''"
definition componentLabelKey :: string where "componentLabelKey = ''k8s.cloudogu.com/component.name''"

type_synonym controllerType = "8 word"

definition gateway :: controllerType where "gateway = 0"
definition ingress :: controllerType where "ingress = 1"

definition controllerTypeString :: "controllerType \<Rightarrow> string" where
  "controllerTypeString c =
     (if c = gateway then GatewayControllerName
      else if c = ingress then IngressControllerName
      else ''unknown'')"

definition selectorMap :: "(controllerType, strmap) fmap" where
  "selectorMap = fmap_of_list
     [(gateway, fmap_of_list [(componentLabelKey, GatewayControllerName)]),
      (ingress, fmap_of_list [(DoguLabelName, IngressControllerName)])]"

record 'w TraefikController =
  tc_controllerType :: controllerType
  tc_PortExposer :: "'w PortExposer"
  tc_IngressRedirector :: "'w IngressRedirector"

record 'w IngressControllerDependencies =
  icd_IngressInterface :: "'w ingressInterface"
  icd_IngressClassName :: string
  icd_ControllerType :: string
  icd_TraefikInterface :: "'w traefikInterface"
  icd_Namespace :: string

record 'w Dependencies =
  dep_Controller :: string
  dep_IngressInterface :: "'w ingressInterface"
  dep_IngressClassName :: string
  dep_TraefikInterface :: "'w traefikInterface"
  dep_Namespace :: string

definition mapStringToControllerType :: "string \<Rightarrow> controllerType" where
  "mapStringToControllerType s =
     (if s = GatewayControllerName then gateway
      else if s = IngressControllerName then ingress
      else 0)"

text \<open>Of the Traefik client the port exposer calls the routes, the redirector the middlewares.\<close>

definition NewTraefikController :: "'w IngressControllerDependencies \<Rightarrow> 'w TraefikController" where
  "NewTraefikController deps =
     \<lparr>tc_controllerType = mapStringToControllerType (icd_ControllerType deps),
      tc_PortExposer =
        \<lparr>pe_IngressRouteTCPs = tk_IngressRouteTCPs (icd_TraefikInterface deps),
         pe_IngressRouteUDPs = tk_IngressRouteUDPs (icd_TraefikInterface deps),
         pe_ingressInterface = icd_IngressInterface deps, pe_namespace = icd_Namespace deps\<rparr>,
      tc_IngressRedirector =
        \<lparr>rd_ingressClassName = icd_IngressClassName deps, rd_ingressInterface = icd_IngressInterface deps,
         rd_Middlewares = tk_Middlewares (icd_TraefikInterface deps), rd_namespace = icd_Namespace deps\<rparr>\<rparr>"

definition GetName :: "'w TraefikController \<Rightarrow> string" where
  "GetName c = controllerTypeString (tc_controllerType c)"

definition GetRewriteAnnotationKey :: "'w TraefikController \<Rightarrow> string" where
  "GetRewriteAnnotationKey c = ingressRewriteTargetAnnotation"

definition GetSelector :: "'w TraefikController \<Rightarrow> strmap" where
  "GetSelector c =
     (case fmlookup selectorMap (tc_controllerType c) of None \<Rightarrow> fmempty | Some m \<Rightarrow> m)"

definition DefaultIngressController :: string where
  "DefaultIngressController = GatewayControllerName"

definition ParseIngressController :: "'w Dependencies \<Rightarrow> 'w TraefikController" where
  "ParseIngressController deps =
     (if dep_Controller deps = GatewayControllerName then
        NewTraefikController
          \<lparr>icd_IngressInterface = dep_IngressInterface deps, icd_IngressClassName = dep_IngressClassName deps,
           icd_ControllerType = GatewayControllerName, icd_TraefikInterface = dep_TraefikInterface deps,
           icd_Namespace = dep_Namespace deps\<rparr>
      else if dep_Controller deps = IngressControllerName then
        NewTraefikController
          \<lparr>icd_IngressInterface = dep_IngressInterface deps, icd_IngressClassName = dep_IngressClassName deps,
           icd_ControllerType = IngressControllerName, icd_TraefikInterface = dep_TraefikInterface deps,
           icd_Namespace = dep_Namespace deps\<rparr>
      else
        NewTraefikController
          \<lparr>icd_IngressInterface = dep_IngressInterface deps, icd_IngressClassName = dep_IngressClassName deps,
           icd_ControllerType = DefaultIngressController, icd_TraefikInterface = dep_TraefikInterface deps,
           icd_Namespace = dep_Namespace deps\<rparr>)"


subsection \<open>Exposing ports\<close>

definition tcpRouteName :: "ExposedPort \<Rightarrow> string" where
  "tcpRouteName port = ep_ServiceName port @ ''-'' @ PortString port @ ''-tcp''"

definition udpRouteName :: "ExposedPort \<Rightarrow> string" where
  "udpRouteName port = ep_ServiceName port @ ''-'' @ PortString port @ ''-udp''"

definition tcpContent :: "IngressRouteTCP \<Rightarrow> string list \<times> RouteTCP list" where
  "tcpContent r = (irt_EntryPoints r, irt_Routes r)"

definition udpContent :: "IngressRouteUDP \<Rightarrow> string list \<times> RouteUDP list" where
  "udpContent r = (iru_EntryPoints r, iru_Routes r)"

lemma createIngressRouteTCP_props [simp]:
  "om_Name (irt_meta (createIngressRouteTCP ns port owner)) = tcpRouteName port"
  "om_ResourceVersion (irt_meta (createIngressRouteTCP ns port owner)) = []"
  by (auto simp: createIngressRouteTCP_def tcpRouteName_def emptyMeta_def Let_def split: option.split)

lemma tcpContent_owner:
  "tcpContent (createIngressRouteTCP ns port owner) = tcpContent (createIngressRouteTCP ns port None)"
  by (simp add: createIngressRouteTCP_def tcpContent_def Let_def split: option.split)

lemma createIngressRouteUDP_props [simp]:
  "om_Name (iru_meta (createIngressRouteUDP ns port owner)) = udpRouteName port"
  "om_ResourceVersion (iru_meta (createIngressRouteUDP ns port owner)) = []"
  by (auto simp: createIngressRouteUDP_def udpRouteName_def emptyMeta_def Let_def split: option.split)

lemma udpContent_owner:
  "udpContent (createIngressRouteUDP ns port owner) = udpContent (createIngressRouteUDP ns port None)"
  by (simp add: createIngressRouteUDP_def udpContent_def Let_def split: option.split)

text \<open>
  The clients of the port exposer together: lawful stores of routes and of ingresses, an admission
  that keeps what the routes say, and no interference between the two kinds of route.
\<close>

locale exposer_stores =
  fixes p :: "'w PortExposer" and namespace :: string
    and viewT :: "'w \<Rightarrow> string \<Rightarrow> IngressRouteTCP option" and putT admT
    and viewU :: "'w \<Rightarrow> string \<Rightarrow> IngressRouteUDP option" and putU admU
    and viewI :: "'w \<Rightarrow> string \<Rightarrow> Ingress option" and putI admI
  assumes tcp: "object_store (pe_IngressRouteTCPs p namespace) viewT putT irt_meta admT"
    and udp: "object_store (pe_IngressRouteUDPs p namespace) viewU putU iru_meta admU"
    and ing: "object_store (pe_ingressInterface p) viewI putI ing_meta admI"
    and keepsT: "tcpContent (admT w r) = tcpContent r"
    and keepsU: "udpContent (admU w s) = udpContent s"
    and frameT: "viewU (putT n x w) = viewU w"
    and frameU: "viewT (putU n y w) = viewT w"
begin

lemma upsertIngressRouteTCP_stores:
  assumes "om_ResourceVersion (irt_meta route) = []"
  shows "\<exists>r. upsertIngressRouteTCP route (pe_IngressRouteTCPs p namespace) w =
      (Ret (), putT (om_Name (irt_meta route)) (Some r) w) \<and> tcpContent r = tcpContent route"
proof (cases "viewT w (om_Name (irt_meta route))")
  case None
  then show ?thesis
    by (intro exI [of _ "admT w route"])
      (simp add: upsertIngressRouteTCP_def io_simps object_store.store_runs [OF tcp] keepsT)
next
  case (Some old)
  define route' where "route' = route\<lparr>irt_meta := (irt_meta route)
    \<lparr>om_ResourceVersion := om_ResourceVersion (irt_meta old)\<rparr>\<rparr>"
  have "c_update (pe_IngressRouteTCPs p namespace) route' w =
      (Ret (admT w route'), putT (om_Name (irt_meta route)) (Some (admT w route')) w)"
    using object_store.update_fresh [OF tcp, of w route' old] Some by (simp add: route'_def)
  moreover have "tcpContent route' = tcpContent route" by (simp add: route'_def tcpContent_def)
  ultimately show ?thesis
    using Some
    by (intro exI [of _ "admT w route'"])
      (simp add: upsertIngressRouteTCP_def io_simps object_store.get_found [OF tcp]
        object_store.create_taken [OF tcp] keepsT route'_def)
qed

lemma upsertIngressRouteUDP_stores:
  assumes "om_ResourceVersion (iru_meta route) = []"
  shows "\<exists>r. upsertIngressRouteUDP route (pe_IngressRouteUDPs p namespace) w =
      (Ret (), putU (om_Name (iru_meta route)) (Some r) w) \<and> udpContent r = udpContent route"
proof (cases "viewU w (om_Name (iru_meta route))")
  case None
  then show ?thesis
    by (intro exI [of _ "admU w route"])
      (simp add: upsertIngressRouteUDP_def io_simps object_store.store_runs [OF udp] keepsU)
next
  case (Some old)
  define route' where "route' = route\<lparr>iru_meta := (iru_meta route)
    \<lparr>om_ResourceVersion := om_ResourceVersion (iru_meta old)\<rparr>\<rparr>"
  have "c_update (pe_IngressRouteUDPs p namespace) route' w =
      (Ret (admU w route'), putU (om_Name (iru_meta route)) (Some (admU w route')) w)"
    using object_store.update_fresh [OF udp, of w route' old] Some by (simp add: route'_def)
  moreover have "udpContent route' = udpContent route" by (simp add: route'_def udpContent_def)
  ultimately show ?thesis
    using Some
    by (intro exI [of _ "admU w route'"])
      (simp add: upsertIngressRouteUDP_def io_simps object_store.get_found [OF udp]
        object_store.create_taken [OF udp] keepsU route'_def)
qed

lemma getIngressRouteOwner_run:
  "\<exists>owner. getIngressRouteOwner (pe_ingressInterface p) port w = (Ret owner, w)"
  by (cases "viewI w (ep_ServiceName port)")
    (simp_all add: getIngressRouteOwner_def io_simps object_store.store_runs [OF ing])

text \<open>One port: the route of its protocol is stored, everything else stays.\<close>

lemma exposePort_run:
  "\<exists>w'. exposePort p namespace port w = (Ret (), w') \<and>
     (\<forall>n. map_option tcpContent (viewT w' n) =
        (if ep_Protocol port = ProtocolTCP \<and> n = tcpRouteName port
         then Some (tcpContent (createIngressRouteTCP namespace port None))
         else map_option tcpContent (viewT w n))) \<and>
     (\<forall>n. map_option udpContent (viewU w' n) =
        (if ep_Protocol port = ProtocolUDP \<and> n = udpRouteName port
         then Some (udpContent (createIngressRouteUDP namespace port None))
         else map_option udpContent (viewU w n)))"
proof -
  obtain owner where o1: "getIngressRouteOwner (pe_ingressInterface p) port w = (Ret owner, w)"
    using getIngressRouteOwner_run by blast
  obtain r where r: "upsertIngressRouteTCP (createIngressRouteTCP namespace port owner)
      (pe_IngressRouteTCPs p namespace) w = (Ret (), putT (tcpRouteName port) (Some r) w)"
    "tcpContent r = tcpContent (createIngressRouteTCP namespace port None)"
    using upsertIngressRouteTCP_stores [of "createIngressRouteTCP namespace port owner" w]
      tcpContent_owner [of namespace port owner] by auto
  obtain s where s: "upsertIngressRouteUDP (createIngressRouteUDP namespace port owner)
      (pe_IngressRouteUDPs p namespace) w = (Ret (), putU (udpRouteName port) (Some s) w)"
    "udpContent s = udpContent (createIngressRouteUDP namespace port None)"
    using upsertIngressRouteUDP_stores [of "createIngressRouteUDP namespace port owner" w]
      udpContent_owner [of namespace port owner] by auto
  show ?thesis
    using r s frameT frameU object_store.view_put [OF tcp] object_store.view_put [OF udp]
    by (auto simp: exposePort_def io_simps o1)
qed

lemma ExposePorts_run:
  "\<exists>w'. ExposePorts p namespace ports w = (Ret (), w') \<and>
     (\<forall>n. map_option tcpContent (viewT w' n) =
        (case find (\<lambda>q. ep_Protocol q = ProtocolTCP \<and> tcpRouteName q = n) (rev ports) of
           Some q \<Rightarrow> Some (tcpContent (createIngressRouteTCP namespace q None))
         | None \<Rightarrow> map_option tcpContent (viewT w n))) \<and>
     (\<forall>n. map_option udpContent (viewU w' n) =
        (case find (\<lambda>q. ep_Protocol q = ProtocolUDP \<and> udpRouteName q = n) (rev ports) of
           Some q \<Rightarrow> Some (udpContent (createIngressRouteUDP namespace q None))
         | None \<Rightarrow> map_option udpContent (viewU w n)))"
proof (induction ports arbitrary: w)
  case Nil
  then show ?case by (simp add: ExposePorts_def ret_run)
next
  case (Cons q ports)
  obtain w1 where w1: "exposePort p namespace q w = (Ret (), w1)"
    "\<forall>n. map_option tcpContent (viewT w1 n) =
        (if ep_Protocol q = ProtocolTCP \<and> n = tcpRouteName q
         then Some (tcpContent (createIngressRouteTCP namespace q None))
         else map_option tcpContent (viewT w n))"
    "\<forall>n. map_option udpContent (viewU w1 n) =
        (if ep_Protocol q = ProtocolUDP \<and> n = udpRouteName q
         then Some (udpContent (createIngressRouteUDP namespace q None))
         else map_option udpContent (viewU w n))"
    using exposePort_run [of q w] by blast
  have "ExposePorts p namespace (q # ports) w = ExposePorts p namespace ports w1"
    using w1(1) by (simp add: ExposePorts_def io_simps)
  with Cons [of w1] show ?case
    using w1(2,3) by (fastforce simp: find_append split: option.splits if_splits)
qed

text \<open>What the route stores do not hold stays as it is.\<close>

lemma ExposePorts_frame:
  assumes "\<And>n x w. Q (putT n x w) = Q w" and "\<And>n x w. Q (putU n x w) = Q w"
  shows "Q (snd (ExposePorts p namespace ports w)) = Q w"
proof -
  have "Q (snd (exposePort p namespace port v)) = Q v" for port v
  proof -
    obtain owner where "getIngressRouteOwner (pe_ingressInterface p) port v = (Ret owner, v)"
      using getIngressRouteOwner_run by blast
    moreover obtain r s where
      "upsertIngressRouteTCP (createIngressRouteTCP namespace port owner)
        (pe_IngressRouteTCPs p namespace) v = (Ret (), putT (tcpRouteName port) (Some r) v)"
      "upsertIngressRouteUDP (createIngressRouteUDP namespace port owner)
        (pe_IngressRouteUDPs p namespace) v = (Ret (), putU (udpRouteName port) (Some s) v)"
      using upsertIngressRouteTCP_stores [of "createIngressRouteTCP namespace port owner" v]
        upsertIngressRouteUDP_stores [of "createIngressRouteUDP namespace port owner" v] by auto
    ultimately show ?thesis by (simp add: exposePort_def io_simps assms)
  qed
  then show ?thesis
    unfolding ExposePorts_def by (intro forEach_invariant [where P = "\<lambda>v. Q v = Q w"]) simp_all
qed

end


subsection \<open>Redirecting alternative FQDNs\<close>

lemma groupFQDNs_lookup:
  "fmlookup (groupFQDNs as m) k =
     (let new = map af_FQDN (filter (\<lambda>a. af_CertificateSecretName a = k) as)
      in if new = [] then fmlookup m k
         else Some ((case fmlookup m k of None \<Rightarrow> [] | Some l \<Rightarrow> l) @ new))"
proof (induction as m rule: groupFQDNs.induct)
  case (1 result)
  then show ?case by simp
next
  case (2 a as result)
  then show ?case
    by (cases "af_CertificateSecretName a = k"; cases "fmlookup result k") (auto simp: Let_def)
qed

lemma group_lookup:
  "fmlookup (groupFQDNsBySecretName as) k =
     (if \<exists>a\<in>set as. af_CertificateSecretName a = k
      then Some (map af_FQDN (filter (\<lambda>a. af_CertificateSecretName a = k) as)) else None)"
  by (auto simp: groupFQDNsBySecretName_def groupFQDNs_lookup Let_def filter_empty_conv)

lemma group_dom: "fmdom' (groupFQDNsBySecretName as) = af_CertificateSecretName ` set as"
proof (rule set_eqI)
  fix k
  show "k \<in> fmdom' (groupFQDNsBySecretName as) \<longleftrightarrow> k \<in> af_CertificateSecretName ` set as"
    by (auto simp: fmlookup_dom'_iff group_lookup)
qed

text \<open>The groups of one iteration, in its order.\<close>

lemma rangeMap_group:
  assumes "iterationOrder ord"
  shows "rangeMap ord (groupFQDNsBySecretName as) =
    map (\<lambda>k. (k, map af_FQDN (filter (\<lambda>a. af_CertificateSecretName a = k) as)))
      (ord (groupFQDNsBySecretName as))"
proof -
  have "set (ord (groupFQDNsBySecretName as)) = af_CertificateSecretName ` set as"
    using assms group_dom unfolding iterationOrder_def by metis
  then show ?thesis by (auto simp: rangeMap_def group_lookup)
qed

lemma mset_concat_groups:
  assumes "distinct ks"
  shows "mset (concat (map (\<lambda>k. filter (\<lambda>a. f a = k) xs) ks)) = mset (filter (\<lambda>a. f a \<in> set ks) xs)"
  using assms
proof (induction ks)
  case Nil
  then show ?case by simp
next
  case (Cons k ks)
  have "mset (filter (\<lambda>a. f a \<in> set (k # ks)) xs) =
      mset (filter (\<lambda>a. f a = k) xs) + mset (filter (\<lambda>a. f a \<in> set ks) xs)"
    using Cons.prems by (induction xs) auto
  with Cons show ?case by simp
qed

lemma redirect_hosts:
  assumes "iterationOrder ord"
  shows "mset (concat (map snd (rangeMap ord (groupFQDNsBySecretName as)))) = mset (map af_FQDN as)"
proof -
  let ?ks = "ord (groupFQDNsBySecretName as)"
  have ks: "distinct ?ks" "set ?ks = af_CertificateSecretName ` set as"
    using assms group_dom unfolding iterationOrder_def by metis+
  have "concat (map snd (rangeMap ord (groupFQDNsBySecretName as))) =
      map af_FQDN (concat (map (\<lambda>k. filter (\<lambda>a. af_CertificateSecretName a = k) as) ?ks))"
    by (simp add: rangeMap_group [OF assms] map_concat comp_def)
  then have "mset (concat (map snd (rangeMap ord (groupFQDNsBySecretName as)))) =
      image_mset af_FQDN (mset (filter (\<lambda>a. af_CertificateSecretName a \<in> set ?ks) as))"
    by (simp only: mset_map mset_concat_groups [OF ks(1)])
  also have "filter (\<lambda>a. af_CertificateSecretName a \<in> set ?ks) as = as"
    using ks(2) by (simp add: filter_id_conv)
  finally show ?thesis by simp
qed

text \<open>The clients of the redirector together.\<close>

locale redirector_stores =
  fixes i :: "'w IngressRedirector"
    and viewI :: "'w \<Rightarrow> string \<Rightarrow> Ingress option" and putI admI
    and viewM :: "'w \<Rightarrow> string \<Rightarrow> Middleware option" and putM admM
  assumes ing: "object_store (rd_ingressInterface i) viewI putI ing_meta admI"
    and mid: "object_store (rd_Middlewares i (rd_namespace i)) viewM putM mw_meta admM"
    and keepsI: "ing_spec (admI w x) = ing_spec x"
    and keepsM: "mw_RedirectRegex (admM w y) = mw_RedirectRegex y"
    and frameI: "viewM (putI n u w) = viewM w"
    and frameM: "viewI (putM n v w) = viewI w"
begin

lemma redirect_clears:
  "\<exists>w'. RedirectAlternativeFQDN ord i ns name fqdn [] setOwner w = (Ret (), w') \<and>
     viewI w' = (viewI w)(name := None) \<and> viewM w' = viewM w"
proof (cases "viewI w name")
  case None
  then have "(viewI w)(name := None) = viewI w" by auto
  with None show ?thesis
    by (simp add: RedirectAlternativeFQDN_def io_simps object_store.store_runs [OF ing])
next
  case (Some x)
  then show ?thesis
    by (simp add: RedirectAlternativeFQDN_def io_simps object_store.store_runs [OF ing]
        object_store.view_put [OF ing] frameI)
qed

lemma upsertIngress_stores:
  assumes "om_ResourceVersion (ing_meta x) = []"
  shows "upsertIngress i x w = (Ret (admI w x), putI (om_Name (ing_meta x)) (Some (admI w x)) w)"
proof (cases "viewI w (om_Name (ing_meta x))")
  case None
  then show ?thesis
    by (simp add: upsertIngress_def io_simps object_store.store_runs [OF ing])
next
  case (Some old)
  then show ?thesis
    using object_store.update_fresh [OF ing Some] assms
    by (simp add: upsertIngress_def io_simps object_store.create_taken [OF ing])
qed

lemma redirect_stores_both:
  assumes "as \<noteq> []"
    and owner: "setOwner (ing_meta (createRedirectIngress ord i ns name (groupFQDNsBySecretName as))) = Inr m"
    and "om_Name m = name" and "om_ResourceVersion m = []"
  shows "\<exists>w' x y. RedirectAlternativeFQDN ord i ns name fqdn as setOwner w = (Ret (), w') \<and>
     viewI w' = (viewI w)(name \<mapsto> x) \<and>
     ing_spec x = ing_spec (createRedirectIngress ord i ns name (groupFQDNsBySecretName as)) \<and>
     viewM w' = (viewM w)(''alternative-fqdn'' \<mapsto> y) \<and>
     mw_RedirectRegex y = mw_RedirectRegex (redirectMiddleware (rd_namespace i) (map af_FQDN as) fqdn [])"
proof -
  define x0 where "x0 = (createRedirectIngress ord i ns name (groupFQDNsBySecretName as))\<lparr>ing_meta := m\<rparr>"
  let ?mm = "\<lparr>mm_client = rd_Middlewares i (rd_namespace i), mm_namespace = rd_namespace i\<rparr>"
  let ?x = "admI w x0" and ?w1 = "putI name (Some (admI w x0)) w"
  have up: "upsertIngress i x0 w = (Ret ?x, ?w1)"
    using upsertIngress_stores [of x0 w] assms by (simp add: x0_def)
  define refs where "refs = [\<lparr>or_APIVersion = ''networking.k8s.io/v1'', or_Kind = ''Ingress'',
    or_Name = om_Name (ing_meta ?x), or_UID = om_UID (ing_meta ?x), or_Controller = None,
    or_BlockOwnerDeletion = None\<rparr>]"
  obtain rv where rv: "CreateOrUpdateAlternativeFQDNRedirectMiddleware ?mm (map af_FQDN as) fqdn refs ?w1 =
      (Ret ''alternative-fqdn'', putM ''alternative-fqdn'' (Some (admM ?w1 (withResourceVersion rv
         (redirectMiddleware (rd_namespace i) (map af_FQDN as) fqdn refs)))) ?w1)"
    using redirect_middleware_stores [of ?mm viewM putM admM "map af_FQDN as" fqdn refs ?w1] mid
    by auto
  let ?y = "admM ?w1 (withResourceVersion rv (redirectMiddleware (rd_namespace i) (map af_FQDN as) fqdn refs))"
  have "RedirectAlternativeFQDN ord i ns name fqdn as setOwner w =
      (Ret (), putM ''alternative-fqdn'' (Some ?y) ?w1)"
    using assms(1) owner up rv
    by (simp add: RedirectAlternativeFQDN_def createRedirectMiddleware_def Let_def io_simps
        x0_def [symmetric] refs_def [symmetric])
  moreover have "mw_RedirectRegex ?y =
      mw_RedirectRegex (redirectMiddleware (rd_namespace i) (map af_FQDN as) fqdn [])"
    by (simp add: keepsM withResourceVersion_def redirectMiddleware_def)
  moreover have "ing_spec ?x = ing_spec (createRedirectIngress ord i ns name (groupFQDNsBySecretName as))"
    by (simp add: keepsI x0_def)
  ultimately show ?thesis
    using object_store.view_put [OF ing] object_store.view_put [OF mid] frameI frameM by auto
qed

end

end
