(* ===== verification/Cluster.thy ===== *)
theory Cluster
  imports Traefik
begin

section \<open>A reference cluster\<close>

text \<open>
  A concrete world for the examples: one store per kind of object and a revision counter, with the
  clients of \<open>Kube\<close> on top.  Every write takes a new revision as the object's resource version;
  services also get a node port for every port that has none and lose the identity of their
  pointers, as objects that go over the wire do.  The interpretations show that these clients meet
  the laws the theorems assume of an API server.
\<close>

record cluster =
  k_services :: "(string, Service) fmap"
  k_configMaps :: "string \<Rightarrow> ConfigMap option"
  k_secrets :: "string \<Rightarrow> Secret option"
  k_ingresses :: "string \<Rightarrow> Ingress option"
  k_networkPolicies :: "string \<Rightarrow> NetworkPolicy option"
  k_middlewares :: "string \<Rightarrow> Middleware option"
  k_routesTCP :: "string \<Rightarrow> IngressRouteTCP option"
  k_routesUDP :: "string \<Rightarrow> IngressRouteUDP option"
  k_deployments :: "string \<Rightarrow> Deployment option"
  k_dogus :: "string \<Rightarrow> Dogu option"
  k_events :: "string list"
  k_maintenance :: bool
  k_globalConfig :: strmap
  k_revision :: nat

definition emptyCluster :: cluster where
  "emptyCluster = \<lparr>k_services = fmempty, k_configMaps = Map.empty, k_secrets = Map.empty,
     k_ingresses = Map.empty, k_networkPolicies = Map.empty, k_middlewares = Map.empty,
     k_routesTCP = Map.empty, k_routesUDP = Map.empty, k_deployments = Map.empty,
     k_dogus = Map.empty, k_events = [], k_maintenance = False,
     k_globalConfig = fmempty, k_revision = 1\<rparr>"

definition stamp :: "cluster \<Rightarrow> ObjectMeta \<Rightarrow> ObjectMeta" where
  "stamp w m = m\<lparr>om_ResourceVersion := showNat (k_revision w)\<rparr>"

definition bump :: "cluster \<Rightarrow> cluster" where
  "bump w = w\<lparr>k_revision := Suc (k_revision w)\<rparr>"

lemma stamp_name [simp]: "om_Name (stamp w m) = om_Name m"
  by (simp add: stamp_def)

subsection \<open>Services\<close>

fun assignNodePorts :: "int32 \<Rightarrow> ServicePort list \<Rightarrow> ServicePort list" where
  "assignNodePorts n [] = []"
| "assignNodePorts n (p # ps) =
     (if sp_NodePort p = 0 then p\<lparr>sp_NodePort := n\<rparr> else p) # assignNodePorts (n + 1) ps"

definition serviceView :: "cluster \<Rightarrow> string \<Rightarrow> Service option" where
  "serviceView w = fmlookup (k_services w)"

definition freshService :: "cluster \<Rightarrow> Service \<Rightarrow> Service" where
  "freshService w s =
     (let t = wireService s
      in t\<lparr>svc_meta := stamp w (svc_meta t),
           svc_spec := (svc_spec t)\<lparr>ss_Ports := assignNodePorts 30000 (ss_Ports (svc_spec t))\<rparr>\<rparr>)"

definition admService :: "cluster \<Rightarrow> Service \<Rightarrow> Service" where
  "admService w s =
     (case serviceView w (om_Name (svc_meta s)) of
        Some old \<Rightarrow> if wireService s = wireService old then old else freshService w s
      | None \<Rightarrow> freshService w s)"

definition setService :: "string \<Rightarrow> Service option \<Rightarrow> (string, Service) fmap \<Rightarrow> (string, Service) fmap" where
  "setService n x m = (case x of None \<Rightarrow> fmdrop n m | Some s \<Rightarrow> fmupd n s m)"

definition putService :: "string \<Rightarrow> Service option \<Rightarrow> cluster \<Rightarrow> cluster" where
  "putService n x w = bump (w\<lparr>k_services := setService n x (k_services w)\<rparr>)"

definition serviceClient :: "(cluster, Service) client" where
  "serviceClient = memClient serviceView putService svc_meta admService"

lemma serviceView_put: "serviceView (putService n x w) = (serviceView w)(n := x)"
  by (auto simp: serviceView_def putService_def setService_def bump_def split: option.split)

lemma admService_name: "om_Name (svc_meta (admService w s)) = om_Name (svc_meta s)"
  by (auto simp: admService_def freshService_def Let_def split: option.split
      dest: arg_cong [where f = "\<lambda>t. om_Name (svc_meta t)"])

interpretation svcs: object_store serviceClient serviceView putService svc_meta admService
  unfolding serviceClient_def
  by (rule object_store_memClient) (simp_all add: serviceView_put admService_name)

definition configMapView :: "cluster \<Rightarrow> string \<times> string \<Rightarrow> ConfigMap option" where
  "configMapView w k = k_configMaps w (snd k)"

definition getConfigMap :: "string \<times> string \<Rightarrow> (cluster, ConfigMap) io" where
  "getConfigMap k w =
     (case configMapView w k of None \<Rightarrow> (Fail (Api NotFound), w) | Some cm \<Rightarrow> (Ret cm, w))"

definition listServices :: "(k8sObject \<Rightarrow> string list) \<Rightarrow> string \<Rightarrow> (cluster, Service list) io" where
  "listServices idx v w =
     (Ret (filter (\<lambda>s. v \<in> set (idx (ServiceObject s)))
        (remdups (map (\<lambda>n. the (fmlookup (k_services w) n)) (sorted_list_of_fset (fmdom (k_services w)))))), w)"

subsection \<open>Ingresses, middlewares and routes\<close>

definition admIngress :: "cluster \<Rightarrow> Ingress \<Rightarrow> Ingress" where
  "admIngress w x = x\<lparr>ing_meta := stamp w (ing_meta x)\<rparr>"

definition putIngress :: "string \<Rightarrow> Ingress option \<Rightarrow> cluster \<Rightarrow> cluster" where
  "putIngress n x w = bump (w\<lparr>k_ingresses := (k_ingresses w)(n := x)\<rparr>)"

definition ingressClient :: "(cluster, Ingress) client" where
  "ingressClient = memClient k_ingresses putIngress ing_meta admIngress"

interpretation ings: object_store ingressClient k_ingresses putIngress ing_meta admIngress
  unfolding ingressClient_def
  by (rule object_store_memClient) (simp_all add: putIngress_def bump_def admIngress_def)

definition admMiddleware :: "cluster \<Rightarrow> Middleware \<Rightarrow> Middleware" where
  "admMiddleware w x = x\<lparr>mw_meta := stamp w (mw_meta x)\<rparr>"

definition putMiddleware :: "string \<Rightarrow> Middleware option \<Rightarrow> cluster \<Rightarrow> cluster" where
  "putMiddleware n x w = bump (w\<lparr>k_middlewares := (k_middlewares w)(n := x)\<rparr>)"

definition middlewareClient :: "(cluster, Middleware) client" where
  "middlewareClient = memClient k_middlewares putMiddleware mw_meta admMiddleware"

interpretation mws: object_store middlewareClient k_middlewares putMiddleware mw_meta admMiddleware
  unfolding middlewareClient_def
  by (rule object_store_memClient) (simp_all add: putMiddleware_def bump_def admMiddleware_def)

definition admRouteTCP :: "cluster \<Rightarrow> IngressRouteTCP \<Rightarrow> IngressRouteTCP" where
  "admRouteTCP w x = x\<lparr>irt_meta := stamp w (irt_meta x)\<rparr>"

definition putRouteTCP :: "string \<Rightarrow> IngressRouteTCP option \<Rightarrow> cluster \<Rightarrow> cluster" where
  "putRouteTCP n x w = bump (w\<lparr>k_routesTCP := (k_routesTCP w)(n := x)\<rparr>)"

definition routeTCPClient :: "(cluster, IngressRouteTCP) client" where
  "routeTCPClient = memClient k_routesTCP putRouteTCP irt_meta admRouteTCP"

interpretation tcps: object_store routeTCPClient k_routesTCP putRouteTCP irt_meta admRouteTCP
  unfolding routeTCPClient_def
  by (rule object_store_memClient) (simp_all add: putRouteTCP_def bump_def admRouteTCP_def)

definition admRouteUDP :: "cluster \<Rightarrow> IngressRouteUDP \<Rightarrow> IngressRouteUDP" where
  "admRouteUDP w x = x\<lparr>iru_meta := stamp w (iru_meta x)\<rparr>"

definition putRouteUDP :: "string \<Rightarrow> IngressRouteUDP option \<Rightarrow> cluster \<Rightarrow> cluster" where
  "putRouteUDP n x w = bump (w\<lparr>k_routesUDP := (k_routesUDP w)(n := x)\<rparr>)"

definition routeUDPClient :: "(cluster, IngressRouteUDP) client" where
  "routeUDPClient = memClient k_routesUDP putRouteUDP iru_meta admRouteUDP"

interpretation udps: object_store routeUDPClient k_routesUDP putRouteUDP iru_meta admRouteUDP
  unfolding routeUDPClient_def
  by (rule object_store_memClient) (simp_all add: putRouteUDP_def bump_def admRouteUDP_def)

subsection \<open>The other kinds\<close>

definition admNetworkPolicy :: "cluster \<Rightarrow> NetworkPolicy \<Rightarrow> NetworkPolicy" where
  "admNetworkPolicy w x = x\<lparr>np_meta := stamp w (np_meta x)\<rparr>"

definition putNetworkPolicy :: "string \<Rightarrow> NetworkPolicy option \<Rightarrow> cluster \<Rightarrow> cluster" where
  "putNetworkPolicy n x w = bump (w\<lparr>k_networkPolicies := (k_networkPolicies w)(n := x)\<rparr>)"

definition networkPolicyClient :: "(cluster, NetworkPolicy) client" where
  "networkPolicyClient = memClient k_networkPolicies putNetworkPolicy np_meta admNetworkPolicy"

interpretation nps: object_store networkPolicyClient k_networkPolicies putNetworkPolicy np_meta
    admNetworkPolicy
  unfolding networkPolicyClient_def
  by (rule object_store_memClient) (simp_all add: putNetworkPolicy_def bump_def admNetworkPolicy_def)

definition admSecret :: "cluster \<Rightarrow> Secret \<Rightarrow> Secret" where
  "admSecret w x = x\<lparr>sec_meta := stamp w (sec_meta x)\<rparr>"

definition putSecret :: "string \<Rightarrow> Secret option \<Rightarrow> cluster \<Rightarrow> cluster" where
  "putSecret n x w = bump (w\<lparr>k_secrets := (k_secrets w)(n := x)\<rparr>)"

definition secretClient :: "(cluster, Secret) client" where
  "secretClient = memClient k_secrets putSecret sec_meta admSecret"

interpretation secs: object_store secretClient k_secrets putSecret sec_meta admSecret
  unfolding secretClient_def
  by (rule object_store_memClient) (simp_all add: putSecret_def bump_def admSecret_def)

lemmas cluster_ops = putIngress_def putMiddleware_def putRouteTCP_def putRouteUDP_def
  putNetworkPolicy_def putSecret_def bump_def stamp_def admIngress_def
  admMiddleware_def admRouteTCP_def admRouteUDP_def admNetworkPolicy_def admSecret_def

text \<open>Readers, the event recorder and the maintenance adapter.\<close>

definition readObject :: "(cluster \<Rightarrow> string \<Rightarrow> 'o option) \<Rightarrow> string \<Rightarrow> (cluster, 'o) io" where
  "readObject view n w = (case view w n of None \<Rightarrow> (Fail (Api NotFound), w) | Some x \<Rightarrow> (Ret x, w))"

definition recordEvent :: "string \<Rightarrow> (cluster, unit) io" where
  "recordEvent msg w = (Ret (), w\<lparr>k_events := msg # k_events w\<rparr>)"

definition maintenanceStatus :: "(cluster, string \<times> bool) io" where
  "maintenanceStatus w = (Ret ([], k_maintenance w), w)"

subsection \<open>The Traefik controller on the reference cluster\<close>

definition clusterTraefik :: "cluster traefikInterface" where
  "clusterTraefik =
     \<lparr>tk_IngressRouteTCPs = (\<lambda>_. routeTCPClient), tk_IngressRouteUDPs = (\<lambda>_. routeUDPClient),
      tk_Middlewares = (\<lambda>_. middlewareClient)\<rparr>"

definition exampleDependencies :: "string \<Rightarrow> cluster Dependencies" where
  "exampleDependencies controller =
     \<lparr>dep_Controller = controller, dep_IngressInterface = ingressClient,
      dep_IngressClassName = ''k8s-ecosystem-ces-service'',
      dep_TraefikInterface = clusterTraefik, dep_Namespace = ''ecosystem''\<rparr>"

definition exampleController :: "cluster TraefikController" where
  "exampleController = ParseIngressController (exampleDependencies ''k8s-ces-gateway'')"

lemma exampleController_parts [simp]:
  "pe_IngressRouteTCPs (tc_PortExposer exampleController) ns = routeTCPClient"
  "pe_IngressRouteUDPs (tc_PortExposer exampleController) ns = routeUDPClient"
  "pe_ingressInterface (tc_PortExposer exampleController) = ingressClient"
  "rd_ingressInterface (tc_IngressRedirector exampleController) = ingressClient"
  "rd_Middlewares (tc_IngressRedirector exampleController) ns = middlewareClient"
  "rd_namespace (tc_IngressRedirector exampleController) = ''ecosystem''"
  "rd_ingressClassName (tc_IngressRedirector exampleController) = ''k8s-ecosystem-ces-service''"
  by (simp_all add: exampleController_def ParseIngressController_def NewTraefikController_def
      exampleDependencies_def clusterTraefik_def GatewayControllerName_def)

interpretation exposer: exposer_stores "tc_PortExposer exampleController" namespace
    k_routesTCP putRouteTCP admRouteTCP k_routesUDP putRouteUDP admRouteUDP
    k_ingresses putIngress admIngress
  by (rule exposer_stores.intro)
    (simp_all add: tcps.object_store_axioms udps.object_store_axioms ings.object_store_axioms
      tcpContent_def udpContent_def cluster_ops)

interpretation redirector: redirector_stores "tc_IngressRedirector exampleController"
    k_ingresses putIngress admIngress k_middlewares putMiddleware admMiddleware
  by (rule redirector_stores.intro)
    (simp_all add: ings.object_store_axioms mws.object_store_axioms cluster_ops)

end
