(* ===== verification/Network_Policy_Correct.thy ===== *)
theory Network_Policy_Correct
  imports Network_Policy Cluster
begin

section \<open>Correctness of the network policy handler\<close>

text \<open>
  The policy is read as an abstract state: the set of open keys (protocol and port number) of its
  first rule, and for every mapping annotation the set of keys it stands for.  The handler keeps the
  two in step: the open keys are the union of the mapped ones (\<open>coherent\<close>), as long as no two
  services share a port.
\<close>

subsection \<open>Ports\<close>

type_synonym portKey = "string \<times> int"

definition wfPort :: "NetworkPolicyPort \<Rightarrow> bool" where
  "wfPort p \<longleftrightarrow> npp_Protocol p \<noteq> None \<and> npp_Port p \<noteq> None"

definition npKey :: "NetworkPolicyPort \<Rightarrow> portKey" where
  "npKey p = (toUpper (the (npp_Protocol p)), intValue (the (npp_Port p)))"

definition portKey :: "utilExposedPort \<Rightarrow> portKey" where
  "portKey e = (toUpper (xp_Protocol e), sint (xp_Port e))"

lemma equalsNetpol_wf:
  "wfPort p \<Longrightarrow> equalsNetpolPortExposedPort p e = Some (npKey p = portKey e)"
  by (auto simp: wfPort_def equalsNetpolPortExposedPort_def npKey_def portKey_def equalFold_def)

lemma getNetworkPolicyPort_wf [simp]:
  "wfPort (getNetworkPolicyPort e)" "npKey (getNetworkPolicyPort e) = portKey e"
  by (simp_all add: wfPort_def npKey_def portKey_def getNetworkPolicyPort_def)

lemma containsPort_wf:
  "list_all wfPort ps \<Longrightarrow> containsPort ps e = Some (portKey e \<in> npKey ` set ps)"
  by (induction ps) (auto simp: equalsNetpol_wf split: bool.split)

lemma addIngressPorts_wf:
  assumes "list_all wfPort ps"
  shows "\<exists>qs. addIngressPorts ps es = Some qs \<and> list_all wfPort qs \<and>
    npKey ` set qs = npKey ` set ps \<union> portKey ` set es"
  using assms
proof (induction es arbitrary: ps)
  case Nil
  then show ?case by simp
next
  case (Cons e es)
  let ?ps = "if portKey e \<notin> npKey ` set ps then ps @ [getNetworkPolicyPort e] else ps"
  have "list_all wfPort ?ps" using Cons.prems by simp
  then obtain qs where "addIngressPorts ?ps es = Some qs" "list_all wfPort qs"
    "npKey ` set qs = npKey ` set ?ps \<union> portKey ` set es" using Cons.IH by blast
  then show ?case using Cons.prems by (auto simp: containsPort_wf split: if_splits)
qed

lemma isToDelete_wf:
  "wfPort p \<Longrightarrow> isToDelete p ds = Some (npKey p \<in> portKey ` set ds)"
  by (induction ds) (auto simp: equalsNetpol_wf)

lemma deleteIngressPorts_wf:
  "list_all wfPort ps \<Longrightarrow>
     deleteIngressPorts ps ds = Some (filter (\<lambda>p. npKey p \<notin> portKey ` set ds) ps)"
  by (induction ps) (auto simp: isToDelete_wf)

lemma image_filter_notin: "f ` set (filter (\<lambda>x. f x \<notin> A) xs) = f ` set xs - A"
  by auto

lemma set_getPortsToDelete [simp]: "set (getPortsToDelete actual want) = set actual - set want"
  by (auto simp: getPortsToDelete_def subtractSlice_def list_ex_iff)

subsection \<open>Policies\<close>

definition wfPolicy :: "NetworkPolicy \<Rightarrow> bool" where
  "wfPolicy P \<longleftrightarrow>
     (\<exists>rule rules b peers. np_Ingress P = rule # rules \<and> list_all wfPort (npi_Ports rule) \<and>
        npi_From rule = Some b # peers)"

definition rulePorts :: "NetworkPolicy \<Rightarrow> NetworkPolicyPort list" where
  "rulePorts P = npi_Ports (hd (np_Ingress P))"

definition openKeys :: "NetworkPolicy \<Rightarrow> portKey set" where
  "openKeys P = npKey ` set (rulePorts P)"

definition firstCIDR :: "NetworkPolicy \<Rightarrow> string option" where
  "firstCIDR P = map_option ipb_CIDR (hd (npi_From (hd (np_Ingress P))))"

abbreviation annotation :: "NetworkPolicy \<Rightarrow> string \<Rightarrow> string option" where
  "annotation P k \<equiv> lookupNil (om_Annotations (np_meta P)) k"

lemma setFirstRulePorts_wf:
  assumes "wfPolicy P" and "list_all wfPort ports"
  shows "wfPolicy (setFirstRulePorts ports P)" and "rulePorts (setFirstRulePorts ports P) = ports"
    and "np_meta (setFirstRulePorts ports P) = np_meta P"
  using assms by (auto simp: wfPolicy_def setFirstRulePorts_def rulePorts_def)

lemma updateCIDR_wf:
  assumes "wfPolicy P"
  shows "\<exists>Q. updateCIDR nph P = Some Q \<and> wfPolicy Q \<and> rulePorts Q = rulePorts P \<and>
    np_meta Q = np_meta P \<and> firstCIDR Q = Some (nph_allowedCIDR nph)"
  using assms by (auto simp: wfPolicy_def updateCIDR_def rulePorts_def firstCIDR_def)

lemma copyAnnotations_simps [simp]:
  "annotation (copyAnnotations (fmupd k v fmempty) P) k' = (if k' = k then Some v else annotation P k')"
  "np_Ingress (copyAnnotations new P) = np_Ingress P"
  "om_Name (np_meta (copyAnnotations new P)) = om_Name (np_meta P)"
  "om_ResourceVersion (np_meta (copyAnnotations new P)) = om_ResourceVersion (np_meta P)"
  by (auto simp: copyAnnotations_def split: option.split)

lemma copyAnnotations_wf [simp]:
  "wfPolicy (copyAnnotations new P) = wfPolicy P"
  "rulePorts (copyAnnotations new P) = rulePorts P"
  by (simp_all add: wfPolicy_def rulePorts_def)

subsection \<open>The mapping annotations\<close>

definition portsOfAnnotation :: "portsJson \<Rightarrow> NetworkPolicy \<Rightarrow> string \<Rightarrow> utilExposedPorts" where
  "portsOfAnnotation json P k =
     (case annotation P k of
        None \<Rightarrow> []
      | Some s \<Rightarrow> (case js_unmarshal json s of Inl _ \<Rightarrow> [] | Inr ps \<Rightarrow> ps))"

definition isMappingKey :: "string \<Rightarrow> bool" where
  "isMappingKey k \<longleftrightarrow> hasPrefix k (mappingAnnotationServicePortDNSKeyPrefix @ ''/'' @
     mappingAnnotationServicePortNameKeyPrefix)"

lemma isMappingKey_key [simp]: "isMappingKey (getServicePortMappingAnnotationKey serviceName)"
proof -
  have "length mappingAnnotationServicePortNameKeyPrefix \<le> maxLengthAnnotationName"
    by (simp add: mappingAnnotationServicePortNameKeyPrefix_def maxLengthAnnotationName_def)
  then show ?thesis
    by (auto simp: isMappingKey_def getServicePortMappingAnnotationKey_def hasPrefix_iff Let_def)
qed

definition decodable :: "portsJson \<Rightarrow> NetworkPolicy \<Rightarrow> bool" where
  "decodable json P \<longleftrightarrow>
     (\<forall>k s. isMappingKey k \<longrightarrow> annotation P k = Some s \<longrightarrow> \<not> isl (js_unmarshal json s))"

lemma decodableD:
  "decodable json P \<Longrightarrow> annotation P (getServicePortMappingAnnotationKey serviceName) = Some s \<Longrightarrow>
     \<not> isl (js_unmarshal json s)"
  using isMappingKey_key unfolding decodable_def by blast

definition coherent :: "portsJson \<Rightarrow> NetworkPolicy \<Rightarrow> bool" where
  "coherent json P \<longleftrightarrow> decodable json P \<and>
     openKeys P = (\<Union>k\<in>{k. isMappingKey k}. portKey ` set (portsOfAnnotation json P k))"

text \<open>The keys that some service is mapped to.\<close>

definition mappedKeys :: "portsJson \<Rightarrow> NetworkPolicy \<Rightarrow> portKey set" where
  "mappedKeys json P = (\<Union>k\<in>{k. isMappingKey k}. portKey ` set (portsOfAnnotation json P k))"

lemma coherent_mapped: "coherent json P \<longleftrightarrow> decodable json P \<and> openKeys P = mappedKeys json P"
  by (simp add: coherent_def mappedKeys_def)

text \<open>No other service is mapped to a port that \<open>serviceName\<close> gives up.\<close>

definition unshared :: "portsJson \<Rightarrow> NetworkPolicy \<Rightarrow> string \<Rightarrow> utilExposedPorts \<Rightarrow> bool" where
  "unshared json P serviceName ports \<longleftrightarrow>
     (let key = getServicePortMappingAnnotationKey serviceName
      in \<forall>k. isMappingKey k \<and> k \<noteq> key \<longrightarrow>
           portKey ` set (portsOfAnnotation json P k) \<inter>
           portKey ` (set (portsOfAnnotation json P key) - set ports) = {})"

text \<open>
  The abstract step: service \<open>key\<close> is now mapped to \<open>ports\<close>, the keys it gave up are closed and its
  new keys are open.
\<close>

definition remapped :: "portsJson \<Rightarrow> string \<Rightarrow> utilExposedPorts \<Rightarrow> NetworkPolicy \<Rightarrow> NetworkPolicy \<Rightarrow> bool" where
  "remapped json key ports P P' \<longleftrightarrow>
     openKeys P' = (openKeys P - portKey ` (set (portsOfAnnotation json P key) - set ports)) \<union>
       portKey ` set ports \<and>
     portsOfAnnotation json P' key = ports \<and>
     (\<forall>k. k \<noteq> key \<longrightarrow> annotation P' k = annotation P k)"

lemma remapped_coherent:
  assumes "coherent json P" and "unshared json P serviceName ports"
    and "remapped json (getServicePortMappingAnnotationKey serviceName) ports P P'"
    and "\<And>s. annotation P' (getServicePortMappingAnnotationKey serviceName) = Some s \<Longrightarrow>
      \<not> isl (js_unmarshal json s)"
  shows "coherent json P'"
proof -
  let ?key = "getServicePortMappingAnnotationKey serviceName"
  let ?old = "portsOfAnnotation json P ?key" and ?M = "\<lambda>P k. portKey ` set (portsOfAnnotation json P k)"
  have other: "portsOfAnnotation json P' k = portsOfAnnotation json P k" if "k \<noteq> ?key" for k
    using assms(3) that by (simp add: remapped_def portsOfAnnotation_def)
  define rest where "rest = (\<Union>k\<in>{k. isMappingKey k} - {?key}. ?M P k)"
  have split: "(\<Union>k\<in>{k. isMappingKey k}. ?M P k) = ?M P ?key \<union> rest"
    unfolding rest_def by (auto intro: isMappingKey_key)
  have "(\<Union>k\<in>{k. isMappingKey k}. ?M P' k) = ?M P' ?key \<union> (\<Union>k\<in>{k. isMappingKey k} - {?key}. ?M P' k)"
    by (auto intro: isMappingKey_key)
  also have "\<dots> = portKey ` set ports \<union> rest"
    using assms(3) other unfolding rest_def remapped_def by simp
  finally have new: "(\<Union>k\<in>{k. isMappingKey k}. ?M P' k) = portKey ` set ports \<union> rest" .
  have "rest \<inter> portKey ` (set ?old - set ports) = {}"
    using assms(2) unfolding rest_def unshared_def Let_def by blast
  moreover have "portKey ` set ?old - portKey ` (set ?old - set ports) \<subseteq> portKey ` set ports" by blast
  moreover have "openKeys P' = (?M P ?key \<union> rest - portKey ` (set ?old - set ports)) \<union> portKey ` set ports"
    using assms(1,3) split by (simp add: coherent_def remapped_def)
  ultimately have "openKeys P' = (\<Union>k\<in>{k. isMappingKey k}. ?M P' k)"
    unfolding new by blast
  moreover have "decodable json P'"
    using assms unfolding decodable_def coherent_def remapped_def by metis
  ultimately show ?thesis by (simp add: coherent_def)
qed

subsection \<open>What a try decides\<close>

text \<open>A change of one mapping never opens a port that no service is mapped to.\<close>

lemma remapped_opens_mapped:
  assumes "openKeys P \<subseteq> mappedKeys json P" and "remapped json key ports P P'" and "isMappingKey key"
  shows "openKeys P' \<subseteq> mappedKeys json P'"
proof
  fix q assume q: "q \<in> openKeys P'"
  have own: "portsOfAnnotation json P' key = ports" using assms(2) by (simp add: remapped_def)
  have other: "portsOfAnnotation json P' k = portsOfAnnotation json P k" if "k \<noteq> key" for k
    using assms(2) that by (simp add: remapped_def portsOfAnnotation_def)
  show "q \<in> mappedKeys json P'"
  proof (cases "q \<in> portKey ` set ports")
    case True
    with own assms(3) show ?thesis unfolding mappedKeys_def by blast
  next
    case False
    with q assms(2) have "q \<in> openKeys P" "q \<notin> portKey ` set (portsOfAnnotation json P key)"
      by (auto simp: remapped_def)
    then obtain k where "isMappingKey k" "q \<in> portKey ` set (portsOfAnnotation json P k)" "k \<noteq> key"
      using assms(1) unfolding mappedKeys_def by blast
    with other show ?thesis unfolding mappedKeys_def by auto
  qed
qed

text \<open>
  A try of an update or of a removal reads the policy and then either leaves it or writes another
  version of it under the same name and resource version.  What it decides depends on the policy it
  read only, whatever happens to the cluster in between.
\<close>

definition revises :: "NetworkPolicy \<Rightarrow> NetworkPolicy \<Rightarrow> bool" where
  "revises P Q \<longleftrightarrow> om_Name (np_meta Q) = om_Name (np_meta P) \<and>
     om_ResourceVersion (np_meta Q) = om_ResourceVersion (np_meta P) \<and> wfPolicy Q"

definition portsCodec :: "portsJson \<Rightarrow> bool" where
  "portsCodec json \<longleftrightarrow> (\<forall>ps. \<exists>s. js_marshal json ps = Inr s \<and> js_unmarshal json s = Inr ps)"

lemma portsCodecD: "portsCodec json \<Longrightarrow> \<exists>s. js_marshal json ps = Inr s \<and> js_unmarshal json s = Inr ps"
  by (simp add: portsCodec_def)

lemma update_tail:
  assumes P: "wfPolicy P" and out: "js_unmarshal json out = Inr ports"
    and qs: "list_all wfPort qs"
      "npKey ` set qs = (openKeys P - portKey ` (set (portsOfAnnotation json P key) - set ports)) \<union> portKey ` set ports"
    and Q: "Q = copyAnnotations (fmap_of_list [(key, out)]) (setFirstRulePorts qs P)"
  shows "\<exists>R. updateCIDR nph Q = Some R \<and> revises P R \<and> remapped json key ports P R \<and> annotation R key = Some out \<and>
    firstCIDR R = Some (nph_allowedCIDR nph)"
proof -
  note set1 = setFirstRulePorts_wf [OF P qs(1)]
  have "wfPolicy Q" using set1 by (simp add: Q)
  then obtain R where R: "updateCIDR nph Q = Some R" "wfPolicy R" "rulePorts R = rulePorts Q"
    "np_meta R = np_meta Q" "firstCIDR R = Some (nph_allowedCIDR nph)"
    using updateCIDR_wf by blast
  have ann: "annotation R k = (if k = key then Some out else annotation P k)" for k
    using R(4) set1(3) by (simp add: Q)
  have "remapped json key ports P R"
    using R(3) set1(2) qs(2) out by (simp add: remapped_def openKeys_def portsOfAnnotation_def ann) (simp add: Q)
  moreover have "revises P R" using R(2,4) set1(3) by (simp add: revises_def Q)
  ultimately show ?thesis using ann R by simp
qed

lemma updateOnce_decides:
  assumes codec: "portsCodec json" and P: "wfPolicy P"
    and dec: "\<forall>s. annotation P (getServicePortMappingAnnotationKey serviceName) = Some s \<longrightarrow> \<not> isl (js_unmarshal json s)"
  obtains
    (leave) "remapped json (getServicePortMappingAnnotationKey serviceName) ports P P"
      "annotation P (getServicePortMappingAnnotationKey serviceName) = None"
      "\<And>w v. getNetworkPolicy nph w = (Ret P, v) \<Longrightarrow> updateNetworkPolicyOnce json nph serviceName ports w = (Ret (), v)"
  | (revise) Q s where "remapped json (getServicePortMappingAnnotationKey serviceName) ports P Q" "revises P Q"
      "annotation Q (getServicePortMappingAnnotationKey serviceName) = Some s" "\<not> isl (js_unmarshal json s)"
      "\<And>w v. getNetworkPolicy nph w = (Ret P, v) \<Longrightarrow>
        updateNetworkPolicyOnce json nph serviceName ports w = sendUpdate nph (Some Q) v"
proof -
  let ?key = "getServicePortMappingAnnotationKey serviceName"
  obtain out where out: "js_marshal json ports = Inr out" "js_unmarshal json out = Inr ports"
    using portsCodecD [OF codec] by blast
  obtain rule rules where rule: "np_Ingress P = rule # rules" "list_all wfPort (npi_Ports rule)"
    using P by (auto simp: wfPolicy_def)
  then have open_rule: "npKey ` set (npi_Ports rule) = openKeys P"
    by (simp add: openKeys_def rulePorts_def)
  have ann: "createMappingAnnotation json serviceName ports = Inr (fmap_of_list [(?key, out)])"
    using out by (simp add: createMappingAnnotation_def Let_def)
  have finish: thesis
    if step: "\<And>w v. getNetworkPolicy nph w = (Ret P, v) \<Longrightarrow> updateNetworkPolicyOnce json nph serviceName ports w =
        sendUpdate nph (updateCIDR nph (copyAnnotations (fmap_of_list [(?key, out)]) (setFirstRulePorts qs P))) v"
      and qs: "list_all wfPort qs"
      "npKey ` set qs = (openKeys P - portKey ` (set (portsOfAnnotation json P ?key) - set ports)) \<union> portKey ` set ports"
    for qs
  proof -
    obtain R where R: "updateCIDR nph (copyAnnotations (fmap_of_list [(?key, out)]) (setFirstRulePorts qs P)) = Some R"
      "revises P R" "remapped json ?key ports P R" "annotation R ?key = Some out"
      using update_tail [OF P out(2) qs refl, of nph] by blast
    show thesis by (rule revise [OF R(3,2,4)]) (use out(2) step R(1) in simp_all)
  qed
  show thesis
  proof (cases "annotation P ?key")
    case None
    then have old: "portsOfAnnotation json P ?key = []" by (simp add: portsOfAnnotation_def)
    show thesis
    proof (cases "ports = []")
      case True
      show thesis
        by (rule leave) (use True old None ann in \<open>simp_all add: remapped_def updateNetworkPolicyOnce_def io_simps\<close>)
    next
      case False
      have "copyAnnotations m (setFirstRulePorts qs P) = setFirstRulePorts qs (copyAnnotations m P)" for m qs
        by (simp add: copyAnnotations_def setFirstRulePorts_def rule(1))
      moreover have "npKey ` set (npi_Ports rule @ getNetworkPolicyPortsFromExposedPorts ports) =
          openKeys P \<union> portKey ` set ports"
        by (simp add: getNetworkPolicyPortsFromExposedPorts_def image_image image_Un open_rule)
      moreover have "list_all wfPort (npi_Ports rule @ getNetworkPolicyPortsFromExposedPorts ports)"
        using rule(2) by (auto simp: list_all_iff getNetworkPolicyPortsFromExposedPorts_def)
      ultimately show thesis
        using False None rule
        by (intro finish [of "npi_Ports rule @ getNetworkPolicyPortsFromExposedPorts ports"])
          (simp_all add: updateNetworkPolicyOnce_def io_simps ann old)
    qed
  next
    case (Some str)
    then obtain actual where actual: "js_unmarshal json str = Inr actual"
      using dec by (cases "js_unmarshal json str") auto
    then have old: "portsOfAnnotation json P ?key = actual" using Some by (simp add: portsOfAnnotation_def)
    let ?del = "filter (\<lambda>p. npKey p \<notin> portKey ` set (getPortsToDelete actual ports)) (npi_Ports rule)"
    have "list_all wfPort ?del" using rule(2) by (simp add: list_all_iff)
    then obtain qs where qs: "addIngressPorts ?del ports = Some qs" "list_all wfPort qs"
      "npKey ` set qs = npKey ` set ?del \<union> portKey ` set ports" using addIngressPorts_wf by blast
    have "npKey ` set ?del = openKeys P - portKey ` (set actual - set ports)"
      by (simp only: image_filter_notin open_rule set_getPortsToDelete)
    with qs show thesis
      using Some actual rule
      by (intro finish [of qs])
        (simp_all add: updateNetworkPolicyOnce_def io_simps ann unmarshalCesExposedPorts_def deleteIngressPorts_wf old)
  qed
qed

lemma removeOnce_decides:
  assumes P: "wfPolicy P"
    and dec: "\<forall>s. annotation P (getServicePortMappingAnnotationKey serviceName) = Some s \<longrightarrow> \<not> isl (js_unmarshal json s)"
  obtains
    (leave) "remapped json (getServicePortMappingAnnotationKey serviceName) [] P P"
      "annotation P (getServicePortMappingAnnotationKey serviceName) = None"
      "\<And>w v. getNetworkPolicy nph w = (Ret P, v) \<Longrightarrow> removeExposedPortsOnce json nph serviceName w = (Ret (), v)"
  | (revise) Q where "remapped json (getServicePortMappingAnnotationKey serviceName) [] P Q" "revises P Q"
      "annotation Q (getServicePortMappingAnnotationKey serviceName) = None"
      "\<And>w v. getNetworkPolicy nph w = (Ret P, v) \<Longrightarrow>
        removeExposedPortsOnce json nph serviceName w = sendUpdate nph (Some Q) v"
proof (cases "annotation P (getServicePortMappingAnnotationKey serviceName)")
  case None
  show thesis
    by (rule leave) (use None in \<open>simp_all add: remapped_def portsOfAnnotation_def removeExposedPortsOnce_def io_simps\<close>)
next
  case (Some str)
  let ?key = "getServicePortMappingAnnotationKey serviceName"
  from Some obtain actual where actual: "js_unmarshal json str = Inr actual"
    using dec by (cases "js_unmarshal json str") auto
  then have old: "portsOfAnnotation json P ?key = actual" using Some by (simp add: portsOfAnnotation_def)
  obtain rule rules where rule: "np_Ingress P = rule # rules" "list_all wfPort (npi_Ports rule)"
    using P by (auto simp: wfPolicy_def)
  let ?qs = "filter (\<lambda>p. npKey p \<notin> portKey ` set actual) (npi_Ports rule)"
  have "list_all wfPort ?qs" using rule(2) by (simp add: list_all_iff)
  note set1 = setFirstRulePorts_wf [OF P this]
  define Q where "Q = (setFirstRulePorts ?qs P)\<lparr>np_meta := (np_meta (setFirstRulePorts ?qs P))
    \<lparr>om_Annotations := map_option (fmdrop ?key) (om_Annotations (np_meta (setFirstRulePorts ?qs P)))\<rparr>\<rparr>"
  have ann: "annotation Q k = (if k = ?key then None else annotation P k)" for k
    using set1(3) by (cases "om_Annotations (np_meta P)") (simp_all add: Q_def)
  have Q: "wfPolicy Q" "rulePorts Q = ?qs"
    using set1(1,2) by (simp_all add: Q_def wfPolicy_def rulePorts_def)
  have "npKey ` set ?qs = openKeys P - portKey ` set actual"
    using rule(1) by (simp only: image_filter_notin openKeys_def rulePorts_def list.sel)
  then have "openKeys Q = openKeys P - portKey ` set actual" by (simp only: openKeys_def Q(2))
  moreover have "portsOfAnnotation json Q ?key = []" by (simp add: portsOfAnnotation_def ann)
  ultimately have remapped: "remapped json ?key [] P Q" by (simp add: remapped_def old ann)
  have "revises P Q" using Q(1) set1(3) by (simp add: revises_def Q_def)
  moreover have "removeExposedPortsOnce json nph serviceName w = sendUpdate nph (Some Q) v"
    if "getNetworkPolicy nph w = (Ret P, v)" for w v
    using that Some actual rule
    by (simp add: removeExposedPortsOnce_def sendUpdate_def io_simps unmarshalCesExposedPorts_def deleteIngressPorts_wf
        Let_def flip: Q_def)
  ultimately show thesis using remapped ann by (intro revise) simp_all
qed

subsection \<open>The handler on a lawful API server\<close>

abbreviation policyName :: "'w networkPolicyHandler \<Rightarrow> string" where
  "policyName nph \<equiv> getExposedNetworkPolicyName (nph_ingressControllerName nph)"

text \<open>What is stored: no policy, or a well-formed one whose mappings and rule agree.\<close>

definition policyOK :: "portsJson \<Rightarrow> 'w networkPolicyHandler \<Rightarrow> (string \<Rightarrow> NetworkPolicy option) \<Rightarrow> bool" where
  "policyOK json nph policies \<longleftrightarrow>
     (case policies (policyName nph) of
        None \<Rightarrow> True
      | Some P \<Rightarrow> om_Name (np_meta P) = policyName nph \<and> wfPolicy P \<and> coherent json P)"

text \<open>The same without the exactness: the rule opens only ports that services are mapped to.\<close>

definition policySound :: "portsJson \<Rightarrow> 'w networkPolicyHandler \<Rightarrow> (string \<Rightarrow> NetworkPolicy option) \<Rightarrow> bool" where
  "policySound json nph policies \<longleftrightarrow>
     (case policies (policyName nph) of
        None \<Rightarrow> True
      | Some P \<Rightarrow> om_Name (np_meta P) = policyName nph \<and> wfPolicy P \<and> decodable json P \<and>
          openKeys P \<subseteq> mappedKeys json P)"

lemma policyOK_sound: "policyOK json nph policies \<Longrightarrow> policySound json nph policies"
  by (auto simp: policyOK_def policySound_def coherent_mapped split: option.splits)

lemma policySound_name:
  "policySound json nph policies \<Longrightarrow> \<forall>P. policies (policyName nph) = Some P \<longrightarrow> om_Name (np_meta P) = policyName nph"
  by (cases "policies (policyName nph)") (simp_all add: policySound_def)

lemmas policyOK_name = policySound_name [OF policyOK_sound]

locale policy_store =
  fixes json :: portsJson and onConflict :: "('w, unit) io \<Rightarrow> ('w, unit) io"
    and nph :: "'w networkPolicyHandler"
    and view :: "'w \<Rightarrow> string \<Rightarrow> NetworkPolicy option" and put adm
  assumes store: "object_store (nph_networkPolicyInterface nph) view put np_meta adm"
    and retry: "retriesConflicts onConflict"
    and codec: "portsCodec json"
    and keeps: "np_Ingress (adm w p) = np_Ingress p"
      "om_Annotations (np_meta (adm w p)) = om_Annotations (np_meta p)"
begin

lemma adm_simps [simp]:
  "wfPolicy (adm w p) = wfPolicy p" "rulePorts (adm w p) = rulePorts p" "openKeys (adm w p) = openKeys p"
  "firstCIDR (adm w p) = firstCIDR p" "annotation (adm w p) k = annotation p k"
  "portsOfAnnotation json (adm w p) k = portsOfAnnotation json p k"
  "om_Name (np_meta (adm w p)) = om_Name (np_meta p)"
  by (simp_all add: wfPolicy_def rulePorts_def openKeys_def firstCIDR_def portsOfAnnotation_def keeps
      object_store.adm_name [OF store])

lemma sendUpdate_run:
  assumes "view w (policyName nph) = Some P" and "om_Name (np_meta Q) = policyName nph"
    and "om_ResourceVersion (np_meta Q) = om_ResourceVersion (np_meta P)"
  shows "sendUpdate nph (Some Q) w = (Ret (), put (policyName nph) (Some (adm w Q)) w)"
  using object_store.update_fresh [OF store, of w Q P] assms by (simp add: sendUpdate_def io_simps)

lemma remapped_adm [simp]: "remapped json key ports P (adm w Q) = remapped json key ports P Q"
  by (simp add: remapped_def)

lemma getNetworkPolicy_run: "view w (policyName nph) = Some P \<Longrightarrow> getNetworkPolicy nph w = (Ret P, w)"
  by (simp add: getNetworkPolicy_def object_store.get_found [OF store])

lemma revise_run:
  assumes "view w (policyName nph) = Some P" "om_Name (np_meta P) = policyName nph" "revises P Q"
  shows "sendUpdate nph (Some Q) w = (Ret (), put (policyName nph) (Some (adm w Q)) w)"
    and "om_Name (np_meta (adm w Q)) = policyName nph" and "wfPolicy (adm w Q)"
  using sendUpdate_run [OF assms(1), of Q] assms(2,3) by (simp_all add: revises_def)

lemma updateOnce_run:
  assumes P: "view w (policyName nph) = Some P" "om_Name (np_meta P) = policyName nph" "wfPolicy P"
    and dec: "\<forall>s. annotation P (getServicePortMappingAnnotationKey serviceName) = Some s \<longrightarrow>
      \<not> isl (js_unmarshal json s)"
  shows "\<exists>w' P'. updateNetworkPolicyOnce json nph serviceName ports w = (Ret (), w') \<and>
    (w' = w \<or> w' = put (policyName nph) (Some P') w) \<and> view w' = (view w)(policyName nph \<mapsto> P') \<and> om_Name (np_meta P') = policyName nph \<and> wfPolicy P' \<and>
    remapped json (getServicePortMappingAnnotationKey serviceName) ports P P' \<and>
    (\<forall>s. annotation P' (getServicePortMappingAnnotationKey serviceName) = Some s \<longrightarrow>
       \<not> isl (js_unmarshal json s))"
proof (cases rule: updateOnce_decides [OF codec P(3) dec, of ports nph])
  case 1
  moreover have "(view w)(policyName nph \<mapsto> P) = view w" using P(1) by auto
  ultimately show ?thesis using P getNetworkPolicy_run [OF P(1)] by (intro exI [of _ w] exI [of _ P]) simp
next
  case (2 Q s)
  with revise_run [OF P(1,2) 2(2)] getNetworkPolicy_run [OF P(1)] show ?thesis
    by (intro exI [of _ "put (policyName nph) (Some (adm w Q)) w"] exI [of _ "adm w Q"])
      (simp add: object_store.view_put [OF store])
qed

lemma removeOnce_run:
  assumes P: "view w (policyName nph) = Some P" "om_Name (np_meta P) = policyName nph" "wfPolicy P"
    and dec: "\<forall>s. annotation P (getServicePortMappingAnnotationKey serviceName) = Some s \<longrightarrow>
      \<not> isl (js_unmarshal json s)"
  shows "\<exists>w' P'. removeExposedPortsOnce json nph serviceName w = (Ret (), w') \<and>
    (w' = w \<or> w' = put (policyName nph) (Some P') w) \<and> view w' = (view w)(policyName nph \<mapsto> P') \<and> om_Name (np_meta P') = policyName nph \<and> wfPolicy P' \<and>
    remapped json (getServicePortMappingAnnotationKey serviceName) [] P P' \<and>
    annotation P' (getServicePortMappingAnnotationKey serviceName) = None"
proof (cases rule: removeOnce_decides [OF P(3) dec, of nph])
  case 1
  moreover have "(view w)(policyName nph \<mapsto> P) = view w" using P(1) by auto
  ultimately show ?thesis using P getNetworkPolicy_run [OF P(1)] by (intro exI [of _ w] exI [of _ P]) simp
next
  case (2 Q)
  with revise_run [OF P(1,2) 2(2)] getNetworkPolicy_run [OF P(1)] show ?thesis
    by (intro exI [of _ "put (policyName nph) (Some (adm w Q)) w"] exI [of _ "adm w Q"])
      (simp add: object_store.view_put [OF store])
qed

lemma create_run:
  assumes "view w (policyName nph) = None"
  shows "\<exists>w'. createNetworkPolicy json nph serviceName (nph_ingressControllerName nph) ports ns w = (Ret (), w') \<and>
    (if ports = [] then w' = w
     else \<exists>P. w' = put (policyName nph) (Some P) w \<and> view w' = (view w)(policyName nph \<mapsto> P) \<and>
       om_Name (np_meta P) = policyName nph \<and> wfPolicy P \<and> firstCIDR P = Some (nph_allowedCIDR nph) \<and> openKeys P = portKey ` set ports \<and>
       portsOfAnnotation json P (getServicePortMappingAnnotationKey serviceName) = ports \<and>
       (\<forall>k s. annotation P k = Some s \<longrightarrow> k = getServicePortMappingAnnotationKey serviceName \<and>
          \<not> isl (js_unmarshal json s)))"
proof (cases "ports = []")
  case True
  then show ?thesis by (simp add: createNetworkPolicy_def ret_run)
next
  case False
  let ?key = "getServicePortMappingAnnotationKey serviceName"
  obtain out where out: "js_marshal json ports = Inr out" "js_unmarshal json out = Inr ports"
    using portsCodecD [OF codec] by blast
  define P where "P = \<lparr>np_meta = emptyMeta\<lparr>om_Name := policyName nph, om_Namespace := ns,
      om_Labels := K8sCesServiceDiscoveryLabels, om_Annotations := Some (fmap_of_list [(?key, out)])\<rparr>,
    np_PodSelector = fmap_of_list [(DoguLabelName, nph_ingressControllerName nph)],
    np_PolicyTypes = [''Ingress''],
    np_Ingress = [\<lparr>npi_Ports = getNetworkPolicyPortsFromExposedPorts ports,
      npi_From = [Some \<lparr>ipb_CIDR = nph_allowedCIDR nph, ipb_Except = []\<rparr>]\<rparr>]\<rparr>"
  have "createNetworkPolicy json nph serviceName (nph_ingressControllerName nph) ports ns w =
      (Ret (), put (policyName nph) (Some (adm w P)) w)"
    using False out assms object_store.create_free [OF store, of w P]
    by (simp add: createNetworkPolicy_def createMappingAnnotation_def Let_def io_simps P_def)
  moreover have "wfPolicy P" "openKeys P = portKey ` set ports" "firstCIDR P = Some (nph_allowedCIDR nph)"
    "om_Name (np_meta P) = policyName nph" "annotation P k = (if k = ?key then Some out else None)" for k
    by (simp_all add: P_def wfPolicy_def openKeys_def rulePorts_def firstCIDR_def list_all_iff
        getNetworkPolicyPortsFromExposedPorts_def image_image)
  ultimately show ?thesis
    using False out
    by (intro exI [of _ "put (policyName nph) (Some (adm w P)) w"] conjI)
      (auto simp: object_store.view_put [OF store] portsOfAnnotation_def split: if_splits
        intro!: exI [of _ "adm w P"])
qed

text \<open>Upserting the policy for a service, from a state that is in order.\<close>

lemma upsert_existing:
  assumes "parseExposedPortsFromService json service = Inr ports"
    and "view w (policyName nph) = Some P" "om_Name (np_meta P) = policyName nph" "wfPolicy P" "decodable json P"
  shows "\<exists>w' P'. UpsertNetworkPoliciesForService json onConflict nph service w = (Ret (), w') \<and>
    (w' = w \<or> w' = put (policyName nph) (Some P') w) \<and> 
    view w' = (view w)(policyName nph \<mapsto> P') \<and> om_Name (np_meta P') = policyName nph \<and> wfPolicy P' \<and>
    remapped json (getServicePortMappingAnnotationKey (om_Name (svc_meta service))) ports P P' \<and>
    decodable json P'"
proof -
  let ?key = "getServicePortMappingAnnotationKey (om_Name (svc_meta service))"
  have "annotation P ?key = Some s \<Longrightarrow> \<not> isl (js_unmarshal json s)" for s
    using assms(5) by (rule decodableD)
  then obtain w' P' where P': "updateNetworkPolicyOnce json nph (om_Name (svc_meta service)) ports w = (Ret (), w')"
    and world: "w' = w \<or> w' = put (policyName nph) (Some P') w" and post:
    "view w' = (view w)(policyName nph \<mapsto> P')" "om_Name (np_meta P') = policyName nph" "wfPolicy P'"
    "remapped json ?key ports P P'" "\<forall>s. annotation P' ?key = Some s \<longrightarrow> \<not> isl (js_unmarshal json s)"
    using updateOnce_run [OF assms(2-4), of "om_Name (svc_meta service)" ports] by blast
  have "updateNetworkPolicy json onConflict nph (om_Name (svc_meta service)) ports w = (Ret (), w')"
    using retriesConflicts_Ret [where body = "updateNetworkPolicyOnce json nph (om_Name (svc_meta service)) ports",
        OF retry P']
    by (simp add: updateNetworkPolicy_def)
  then have "UpsertNetworkPoliciesForService json onConflict nph service w = (Ret (), w')"
    using assms(1,2) by (simp add: UpsertNetworkPoliciesForService_def getNetworkPolicy_def io_simps
        object_store.get_found [OF store])
  moreover have "decodable json P'"
    using assms(5) post(4,5) unfolding decodable_def remapped_def by metis
  ultimately show ?thesis using world post by blast
qed

lemma upsert_missing:
  assumes "parseExposedPortsFromService json service = Inr ports" and "view w (policyName nph) = None"
  shows "UpsertNetworkPoliciesForService json onConflict nph service w =
    createNetworkPolicy json nph (om_Name (svc_meta service)) (nph_ingressControllerName nph) ports
      (om_Namespace (svc_meta service)) w"
  using assms by (simp add: UpsertNetworkPoliciesForService_def getNetworkPolicy_def io_simps
      object_store.get_missing [OF store])

lemma remove_existing:
  assumes "view w (policyName nph) = Some P" "om_Name (np_meta P) = policyName nph" "wfPolicy P" "decodable json P"
  shows "\<exists>w' P'. RemoveExposedPorts json onConflict nph serviceName w = (Ret (), w') \<and>
    (w' = w \<or> w' = put (policyName nph) (Some P') w) \<and>
    view w' = (view w)(policyName nph \<mapsto> P') \<and> om_Name (np_meta P') = policyName nph \<and> wfPolicy P' \<and>
    remapped json (getServicePortMappingAnnotationKey serviceName) [] P P' \<and>
    annotation P' (getServicePortMappingAnnotationKey serviceName) = None"
proof -
  have "annotation P (getServicePortMappingAnnotationKey serviceName) = Some s \<Longrightarrow> \<not> isl (js_unmarshal json s)" for s
    using assms(4) by (rule decodableD)
  then obtain w' P' where P': "removeExposedPortsOnce json nph serviceName w = (Ret (), w')"
    "w' = w \<or> w' = put (policyName nph) (Some P') w" "view w' = (view w)(policyName nph \<mapsto> P')" "om_Name (np_meta P') = policyName nph" "wfPolicy P'"
    "remapped json (getServicePortMappingAnnotationKey serviceName) [] P P'"
    "annotation P' (getServicePortMappingAnnotationKey serviceName) = None"
    using removeOnce_run [OF assms(1-3), of serviceName] by blast
  have "RemoveExposedPorts json onConflict nph serviceName w = (Ret (), w')"
    using retriesConflicts_Ret [where body = "removeExposedPortsOnce json nph serviceName", OF retry P'(1)]
    by (simp add: RemoveExposedPorts_def)
  with P' show ?thesis by blast
qed

lemma remove_missing:
  assumes "view w (policyName nph) = None"
  shows "RemoveExposedPorts json onConflict nph serviceName w = (Ret (), w)"
proof -
  have "removeExposedPortsOnce json nph serviceName w = (Ret (), w)"
    using assms by (simp add: removeExposedPortsOnce_def getNetworkPolicy_def io_simps
        object_store.get_missing [OF store])
  then show ?thesis
    using retriesConflicts_Ret [where body = "removeExposedPortsOnce json nph serviceName", OF retry]
    by (simp add: RemoveExposedPorts_def)
qed

lemma drop_run:
  assumes "\<forall>P. view w (policyName nph) = Some P \<longrightarrow> om_Name (np_meta P) = policyName nph"
  shows "\<exists>w'. RemoveNetworkPolicy nph w = (Ret (), w') \<and> (w' = w \<or> w' = put (policyName nph) None w) \<and>
    view w' = (view w)(policyName nph := None)"
proof (cases "view w (policyName nph)")
  case None
  then have "(view w)(policyName nph := None) = view w" by auto
  with None show ?thesis
    by (simp add: RemoveNetworkPolicy_def getNetworkPolicy_def io_simps object_store.get_missing [OF store])
next
  case (Some P)
  with assms have "om_Name (np_meta P) = policyName nph" by simp
  with Some show ?thesis
    by (simp add: RemoveNetworkPolicy_def getNetworkPolicy_def io_simps object_store.get_found [OF store]
        object_store.delete_found [OF store] object_store.view_put [OF store])
qed

lemma upsert_keeps_policyOK:
  assumes "policyOK json nph (view w)"
    and "\<And>P ports. view w (policyName nph) = Some P \<Longrightarrow> parseExposedPortsFromService json service = Inr ports \<Longrightarrow>
      unshared json P (om_Name (svc_meta service)) ports"
    and "UpsertNetworkPoliciesForService json onConflict nph service w = (r, w')"
  shows "policyOK json nph (view w')"
proof (cases "parseExposedPortsFromService json service")
  case (Inl e)
  with assms(1,3) show ?thesis by (simp add: UpsertNetworkPoliciesForService_def io_simps)
next
  case (Inr ports)
  let ?key = "getServicePortMappingAnnotationKey (om_Name (svc_meta service))"
  show ?thesis
  proof (cases "view w (policyName nph)")
    case None
    obtain v where v: "UpsertNetworkPoliciesForService json onConflict nph service w = (Ret (), v)"
      and post: "if ports = [] then v = w
       else \<exists>P. v = put (policyName nph) (Some P) w \<and> view v = (view w)(policyName nph \<mapsto> P) \<and>
         om_Name (np_meta P) = policyName nph \<and> wfPolicy P \<and> firstCIDR P = Some (nph_allowedCIDR nph) \<and> openKeys P = portKey ` set ports \<and>
         portsOfAnnotation json P ?key = ports \<and>
         (\<forall>k s. annotation P k = Some s \<longrightarrow> k = ?key \<and> \<not> isl (js_unmarshal json s))"
      using create_run [OF None, of "om_Name (svc_meta service)" ports "om_Namespace (svc_meta service)"]
        upsert_missing [OF Inr None] by auto
    have "w' = v" using v assms(3) by simp
    moreover have "policyOK json nph (view v)"
    proof (cases "ports = []")
      case True
      with post assms(1) show ?thesis by simp
    next
      case False
      with post obtain P where P: "view v = (view w)(policyName nph \<mapsto> P)" "om_Name (np_meta P) = policyName nph"
        "wfPolicy P" "openKeys P = portKey ` set ports" "portsOfAnnotation json P ?key = ports"
        "\<forall>k s. annotation P k = Some s \<longrightarrow> k = ?key \<and> \<not> isl (js_unmarshal json s)" by auto
      have "portsOfAnnotation json P k = []" if "k \<noteq> ?key" for k
        using P(6) that by (cases "annotation P k") (auto simp: portsOfAnnotation_def)
      then have "(\<Union>k\<in>{k. isMappingKey k}. portKey ` set (portsOfAnnotation json P k)) = portKey ` set ports"
        using P(5) isMappingKey_key [of "om_Name (svc_meta service)"]
        by (intro equalityI subsetI) (metis (no_types, lifting) UN_E empty_iff image_empty list.set(1), blast)
      with P show ?thesis by (auto simp: policyOK_def coherent_def decodable_def)
    qed
    ultimately show ?thesis by simp
  next
    case (Some P)
    with assms(1) have P: "om_Name (np_meta P) = policyName nph" "wfPolicy P" "coherent json P" "decodable json P"
      by (simp_all add: policyOK_def coherent_def)
    obtain P' where "view w' = (view w)(policyName nph \<mapsto> P')" "om_Name (np_meta P') = policyName nph"
      "wfPolicy P'" "remapped json ?key ports P P'" "decodable json P'"
      using upsert_existing [OF Inr Some P(1,2,4)] assms(3) by auto
    moreover from this have "coherent json P'"
      by (intro remapped_coherent [OF P(3) assms(2) [OF Some Inr]]) (simp_all add: decodableD)
    ultimately show ?thesis by (simp add: policyOK_def)
  qed
qed

lemma upsert_keeps_policySound:
  assumes "policySound json nph (view w)"
    and "UpsertNetworkPoliciesForService json onConflict nph service w = (r, w')"
  shows "policySound json nph (view w')"
proof (cases "view w (policyName nph)")
  case None
  then have "policyOK json nph (view w)" by (simp add: policyOK_def)
  then have "policyOK json nph (view w')" by (rule upsert_keeps_policyOK [OF _ _ assms(2)]) (simp add: None)
  then show ?thesis by (rule policyOK_sound)
next
  case (Some P)
  with assms(1) have P: "om_Name (np_meta P) = policyName nph" "wfPolicy P" "decodable json P"
    and sound: "openKeys P \<subseteq> mappedKeys json P" by (simp_all add: policySound_def)
  show ?thesis
  proof (cases "parseExposedPortsFromService json service")
    case (Inl e)
    with assms show ?thesis by (simp add: UpsertNetworkPoliciesForService_def io_simps)
  next
    case (Inr ports)
    obtain P' where P': "view w' = (view w)(policyName nph \<mapsto> P')" "om_Name (np_meta P') = policyName nph" "wfPolicy P'"
      "remapped json (getServicePortMappingAnnotationKey (om_Name (svc_meta service))) ports P P'" "decodable json P'"
      using upsert_existing [OF Inr Some P] assms(2) by auto
    then show ?thesis
      using remapped_opens_mapped [OF sound P'(4) isMappingKey_key] by (simp add: policySound_def)
  qed
qed

lemma upsert_opens:
  assumes "policyOK json nph (view w)" and "parseExposedPortsFromService json service = Inr ports"
    and "\<And>P. view w (policyName nph) = Some P \<Longrightarrow> unshared json P (om_Name (svc_meta service)) ports"
  shows "\<exists>w'. UpsertNetworkPoliciesForService json onConflict nph service w = (Ret (), w') \<and>
    (w' = w \<or> (\<exists>P'. w' = put (policyName nph) (Some P') w)) \<and> policyOK json nph (view w') \<and>
    (ports = [] \<or> (\<exists>P'. view w' (policyName nph) = Some P' \<and> portKey ` set ports \<subseteq> openKeys P'))"
proof (cases "view w (policyName nph)")
  case None
  note created = create_run [OF None, of "om_Name (svc_meta service)" ports "om_Namespace (svc_meta service)",
      folded upsert_missing [OF assms(2) None]]
  obtain w' where w': "UpsertNetworkPoliciesForService json onConflict nph service w = (Ret (), w')"
    and "w' = w \<or> (\<exists>P'. w' = put (policyName nph) (Some P') w)"
      "ports = [] \<or> (\<exists>P'. view w' (policyName nph) = Some P' \<and> portKey ` set ports \<subseteq> openKeys P')"
    using created by (cases "ports = []") fastforce+
  with w' upsert_keeps_policyOK [OF assms(1) _ w'] assms(2,3) show ?thesis by auto
next
  case (Some P)
  with assms(1) have P: "om_Name (np_meta P) = policyName nph" "wfPolicy P" "decodable json P"
    by (simp_all add: policyOK_def coherent_def)
  obtain w' P' where w': "UpsertNetworkPoliciesForService json onConflict nph service w = (Ret (), w')"
    and "w' = w \<or> w' = put (policyName nph) (Some P') w" "view w' = (view w)(policyName nph \<mapsto> P')"
      "remapped json (getServicePortMappingAnnotationKey (om_Name (svc_meta service))) ports P P'"
    using upsert_existing [OF assms(2) Some P] by blast
  then have "w' = w \<or> (\<exists>P'. w' = put (policyName nph) (Some P') w)"
    "\<exists>P'. view w' (policyName nph) = Some P' \<and> portKey ` set ports \<subseteq> openKeys P'"
    by (auto simp: remapped_def)
  with w' upsert_keeps_policyOK [OF assms(1) _ w'] assms(2,3) show ?thesis by auto
qed

lemma remove_keeps_policyOK:
  assumes "policyOK json nph (view w)"
    and "\<And>P. view w (policyName nph) = Some P \<Longrightarrow> unshared json P serviceName []"
    and "RemoveExposedPorts json onConflict nph serviceName w = (r, w')"
  shows "policyOK json nph (view w')"
proof (cases "view w (policyName nph)")
  case None
  with remove_missing [OF None] assms(1,3) show ?thesis by simp
next
  case (Some P)
  with assms(1) have P: "om_Name (np_meta P) = policyName nph" "wfPolicy P" "coherent json P" "decodable json P"
    by (simp_all add: policyOK_def coherent_def)
  obtain P' where "view w' = (view w)(policyName nph \<mapsto> P')" "om_Name (np_meta P') = policyName nph"
    "wfPolicy P'" "remapped json (getServicePortMappingAnnotationKey serviceName) [] P P'"
    "annotation P' (getServicePortMappingAnnotationKey serviceName) = None"
    using remove_existing [OF Some P(1,2,4), of serviceName] assms(3) by auto
  moreover from this have "coherent json P'"
    by (intro remapped_coherent [OF P(3) assms(2) [OF Some]]) simp_all
  ultimately show ?thesis by (simp add: policyOK_def)
qed

lemma remove_keeps_policySound:
  assumes "policySound json nph (view w)" and "RemoveExposedPorts json onConflict nph serviceName w = (r, w')"
  shows "policySound json nph (view w')"
proof (cases "view w (policyName nph)")
  case None
  with remove_missing [OF None] assms show ?thesis by simp
next
  case (Some P)
  with assms(1) have P: "om_Name (np_meta P) = policyName nph" "wfPolicy P" "decodable json P"
    and sound: "openKeys P \<subseteq> mappedKeys json P" by (simp_all add: policySound_def)
  let ?key = "getServicePortMappingAnnotationKey serviceName"
  obtain P' where P': "view w' = (view w)(policyName nph \<mapsto> P')" "om_Name (np_meta P') = policyName nph" "wfPolicy P'"
    "remapped json ?key [] P P'" "annotation P' ?key = None"
    using remove_existing [OF Some P, of serviceName] assms(2) by auto
  moreover have "decodable json P'"
    using P(3) P'(4,5) unfolding decodable_def remapped_def by (metis option.distinct(1))
  ultimately show ?thesis
    using remapped_opens_mapped [OF sound P'(4) isMappingKey_key] by (simp add: policySound_def)
qed

lemma drop_keeps_policySound:
  assumes "policySound json nph (view w)" and "RemoveNetworkPolicy nph w = (r, w')"
  shows "policySound json nph (view w')"
proof -
  obtain v where "RemoveNetworkPolicy nph w = (Ret (), v)" "view v = (view w)(policyName nph := None)"
    using drop_run [OF policySound_name [OF assms(1)]] by blast
  with assms(2) show ?thesis by (simp add: policySound_def)
qed

end

subsection \<open>An example codec and handler\<close>

definition encodePort :: "utilExposedPort \<Rightarrow> nat list" where
  "encodePort p =
     length (xp_Protocol p) # map of_char (xp_Protocol p) @ [unat (xp_Port p), unat (xp_TargetPort p)]"

fun decodePorts :: "nat \<Rightarrow> nat list \<Rightarrow> utilExposedPorts" where
  "decodePorts (Suc n) (k # ns) =
     \<lparr>xp_Protocol = map char_of (take k ns), xp_Port = word_of_nat (ns ! k),
      xp_TargetPort = word_of_nat (ns ! Suc k)\<rparr> # decodePorts n (drop (Suc (Suc k)) ns)"
| "decodePorts _ _ = []"

definition encodePorts :: "utilExposedPorts \<Rightarrow> string" where
  "encodePorts ps = encodeNats (length ps # concat (map encodePort ps))"

definition readPorts :: "string \<Rightarrow> utilExposedPorts" where
  "readPorts s = (case decodeNats s of [] \<Rightarrow> [] | n # ns \<Rightarrow> decodePorts n ns)"

definition exampleJson :: portsJson where
  "exampleJson = \<lparr>js_marshal = (\<lambda>ps. Inr (encodePorts ps)), js_unmarshal = (\<lambda>s. Inr (readPorts s))\<rparr>"

lemma decodePorts_encode: "decodePorts (length ps) (concat (map encodePort ps)) = ps"
  by (induction ps) (simp_all add: encodePort_def nth_append comp_def)

lemma readPorts_encodePorts: "readPorts (encodePorts ps) = ps"
  by (simp add: readPorts_def encodePorts_def decodePorts_encode)

definition exampleHandler :: "cluster networkPolicyHandler" where
  "exampleHandler = NewNetworkPolicyHandler networkPolicyClient ''k8s-ces-gateway'' ''0.0.0.0/0''"

interpretation policies: policy_store exampleJson "retryTimes 3" exampleHandler
    k_networkPolicies putNetworkPolicy admNetworkPolicy
proof (rule policy_store.intro)
  show "object_store (nph_networkPolicyInterface exampleHandler) k_networkPolicies putNetworkPolicy np_meta
      admNetworkPolicy"
    by (simp add: exampleHandler_def NewNetworkPolicyHandler_def nps.object_store_axioms)
  show "retriesConflicts (retryTimes 3)" by (rule retriesConflicts_retryTimes)
qed (simp_all add: portsCodec_def exampleJson_def readPorts_encodePorts cluster_ops)

subsection \<open>Properties\<close>

text \<open>
  Sequences of handler calls: upserts and removals for services, and removals of the whole policy,
  in any order, each with any outcome.
\<close>

inductive policyRun ::
  "portsJson \<Rightarrow> (('w, unit) io \<Rightarrow> ('w, unit) io) \<Rightarrow> 'w networkPolicyHandler \<Rightarrow> 'w \<Rightarrow> 'w \<Rightarrow> bool"
  for json onConflict nph w0 where
  start: "policyRun json onConflict nph w0 w0"
| upsert: "policyRun json onConflict nph w0 w \<Longrightarrow>
    UpsertNetworkPoliciesForService json onConflict nph service w = (r, w') \<Longrightarrow>
    policyRun json onConflict nph w0 w'"
| remove: "policyRun json onConflict nph w0 w \<Longrightarrow> RemoveExposedPorts json onConflict nph serviceName w = (r, w') \<Longrightarrow>
    policyRun json onConflict nph w0 w'"
| drop: "policyRun json onConflict nph w0 w \<Longrightarrow> RemoveNetworkPolicy nph w = (r, w') \<Longrightarrow>
    policyRun json onConflict nph w0 w'"

text \<open>
  Property C17. From a state without policy, or with one in which this holds: after any sequence of
  handler calls, also of services that share ports, the stored network policy is well-formed, its
  mapping annotations decode, and its rule opens no port that no service is mapped to.
\<close>

theorem network_policy_opens_only_mapped:
  assumes "policy_store json onConflict nph view put adm"
    and "policyRun json onConflict nph w0 w" and "policySound json nph (view w0)"
  shows "policySound json nph (view w)"
  using assms(2,3)
proof (induction rule: policyRun.induct)
  case start
  then show ?case .
next
  case (upsert w service r w')
  show ?case by (rule policy_store.upsert_keeps_policySound [OF assms(1) upsert.IH [OF upsert.prems] upsert.hyps(2)])
next
  case (remove w serviceName r w')
  show ?case by (rule policy_store.remove_keeps_policySound [OF assms(1) remove.IH [OF remove.prems] remove.hyps(2)])
next
  case (drop w r w')
  show ?case by (rule policy_store.drop_keeps_policySound [OF assms(1) drop.IH [OF drop.prems] drop.hyps(2)])
qed

definition examplePort :: utilExposedPort where
  "examplePort = \<lparr>xp_Protocol = ''tcp'', xp_Port = 2222, xp_TargetPort = 22\<rparr>"

definition examplePolicyService :: Service where
  "examplePolicyService = emptyService
     \<lparr>svc_meta := emptyMeta\<lparr>om_Name := ''scm'', om_Namespace := ''ecosystem'',
        om_Annotations := Some (fmap_of_list [(cesExposedPortsAnnotation, encodePorts [examplePort])])\<rparr>,
      svc_spec := (svc_spec emptyService)\<lparr>ss_Ports := [\<lparr>sp_Name = ''ssh'', sp_Protocol = ''TCP'',
        sp_Port = 2222, sp_TargetPort = IntVal 22, sp_NodePort = 0\<rparr>]\<rparr>\<rparr>"

lemma parse_examplePolicyService:
  "parseExposedPortsFromService exampleJson examplePolicyService = Inr [examplePort]"
proof -
  have "equalFold ''TCP'' ''tcp''" by code_simp
  then show ?thesis
    by (simp add: parseExposedPortsFromService_def examplePolicyService_def emptyMeta_def exampleJson_def
        readPorts_encodePorts equalsServicePortExposedPort_def examplePort_def)
qed

theorem network_policy_opens_only_mapped_witness:
  "\<exists>w P. UpsertNetworkPoliciesForService exampleJson (retryTimes 3) exampleHandler examplePolicyService
       emptyCluster = (Ret (), w) \<and>
     k_networkPolicies w ''k8s-ces-gateway-exposed'' = Some P \<and> openKeys P \<subseteq> mappedKeys exampleJson P"
proof -
  have name: "policyName exampleHandler = ''k8s-ces-gateway-exposed''"
    by (simp add: exampleHandler_def NewNetworkPolicyHandler_def getExposedNetworkPolicyName_def)
  have none: "k_networkPolicies emptyCluster (policyName exampleHandler) = None"
    by (simp add: emptyCluster_def)
  obtain w where w: "UpsertNetworkPoliciesForService exampleJson (retryTimes 3) exampleHandler
      examplePolicyService emptyCluster = (Ret (), w)"
    "k_networkPolicies w (policyName exampleHandler) \<noteq> None"
    using policies.create_run [OF none, of "om_Name (svc_meta examplePolicyService)" "[examplePort]"
        "om_Namespace (svc_meta examplePolicyService)"]
      policies.upsert_missing [OF parse_examplePolicyService none] by auto
  have "policyRun exampleJson (retryTimes 3) exampleHandler emptyCluster w"
    by (rule policyRun.upsert [OF policyRun.start w(1)])
  then have "policySound exampleJson exampleHandler (k_networkPolicies w)"
    by (rule network_policy_opens_only_mapped [OF policies.policy_store_axioms])
      (simp add: policySound_def none)
  with w name show ?thesis by (auto simp: policySound_def)
qed

text \<open>
  Property C18. Upserting the policy for a service with an existing policy: the call succeeds, the
  service is mapped to exactly its ports, the ports it was mapped to before and no longer wants are
  closed, its ports are open, every other annotation stays, and no other policy changes.
\<close>

theorem upsert_network_policy:
  assumes "policy_store json onConflict nph view put adm"
    and "parseExposedPortsFromService json service = Inr ports"
    and "view w (policyName nph) = Some P" and "om_Name (np_meta P) = policyName nph"
    and "wfPolicy P" and "decodable json P"
    and "key = getServicePortMappingAnnotationKey (om_Name (svc_meta service))"
  shows "\<exists>w' P'. UpsertNetworkPoliciesForService json onConflict nph service w = (Ret (), w') \<and>
    view w' = (view w)(policyName nph \<mapsto> P') \<and>
    openKeys P' = (openKeys P - portKey ` (set (portsOfAnnotation json P key) - set ports)) \<union> portKey ` set ports \<and>
    portsOfAnnotation json P' key = ports \<and> (\<forall>k. k \<noteq> key \<longrightarrow> annotation P' k = annotation P k)"
  using policy_store.upsert_existing [OF assms(1-6)] unfolding assms(7) remapped_def by blast

definition examplePolicy :: NetworkPolicy where
  "examplePolicy =
     \<lparr>np_meta = emptyMeta\<lparr>om_Name := ''k8s-ces-gateway-exposed'', om_Annotations := Some (fmap_of_list
        [(getServicePortMappingAnnotationKey ''scm'', encodePorts [examplePort]),
         (getServicePortMappingAnnotationKey ''git'', encodePorts [examplePort])])\<rparr>,
      np_PodSelector = fmempty, np_PolicyTypes = [''Ingress''],
      np_Ingress = [\<lparr>npi_Ports = [getNetworkPolicyPort examplePort],
        npi_From = [Some \<lparr>ipb_CIDR = [], ipb_Except = []\<rparr>]\<rparr>]\<rparr>"

definition policyCluster :: cluster where
  "policyCluster = emptyCluster\<lparr>k_networkPolicies := [''k8s-ces-gateway-exposed'' \<mapsto> examplePolicy]\<rparr>"

lemma example_keys: "getServicePortMappingAnnotationKey ''scm'' \<noteq> getServicePortMappingAnnotationKey ''git''"
  by code_simp

lemma examplePolicy_facts:
  "k_networkPolicies policyCluster (policyName exampleHandler) = Some examplePolicy"
  "om_Name (np_meta examplePolicy) = policyName exampleHandler"
  "wfPolicy examplePolicy" "decodable exampleJson examplePolicy"
  "portsOfAnnotation exampleJson examplePolicy (getServicePortMappingAnnotationKey ''scm'') = [examplePort]"
  "portsOfAnnotation exampleJson examplePolicy (getServicePortMappingAnnotationKey ''git'') = [examplePort]"
proof -
  have name: "policyName exampleHandler = ''k8s-ces-gateway-exposed''"
    by (simp add: exampleHandler_def NewNetworkPolicyHandler_def getExposedNetworkPolicyName_def)
  show "k_networkPolicies policyCluster (policyName exampleHandler) = Some examplePolicy"
    "om_Name (np_meta examplePolicy) = policyName exampleHandler"
    by (simp_all add: policyCluster_def name) (simp add: examplePolicy_def)
  show "wfPolicy examplePolicy" by (simp add: wfPolicy_def examplePolicy_def)
  show "decodable exampleJson examplePolicy" by (simp add: decodable_def exampleJson_def)
  show "portsOfAnnotation exampleJson examplePolicy (getServicePortMappingAnnotationKey ''scm'') = [examplePort]"
    "portsOfAnnotation exampleJson examplePolicy (getServicePortMappingAnnotationKey ''git'') = [examplePort]"
    using example_keys
    by (simp_all add: portsOfAnnotation_def examplePolicy_def exampleJson_def readPorts_encodePorts)
qed

theorem upsert_network_policy_witness:
  "\<exists>w' P'. UpsertNetworkPoliciesForService exampleJson (retryTimes 3) exampleHandler examplePolicyService
       policyCluster = (Ret (), w') \<and>
     k_networkPolicies w' (policyName exampleHandler) = Some P' \<and> portKey examplePort \<in> openKeys P'"
proof -
  obtain w' P' where "UpsertNetworkPoliciesForService exampleJson (retryTimes 3) exampleHandler
      examplePolicyService policyCluster = (Ret (), w')"
    "k_networkPolicies w' = (k_networkPolicies policyCluster)(policyName exampleHandler \<mapsto> P')"
    "portKey ` set [examplePort] \<subseteq> openKeys P'"
    using upsert_network_policy [OF policies.policy_store_axioms, OF parse_examplePolicyService
        examplePolicy_facts(1-4) refl] by blast
  then show ?thesis by auto
qed

text \<open>
  Property C19. Removing the ports of a service: the call succeeds, exactly the ports the service was
  mapped to are closed and its mapping is gone; without a policy nothing happens.
\<close>

theorem remove_exposed_ports:
  assumes "policy_store json onConflict nph view put adm"
    and "\<And>P. view w (policyName nph) = Some P \<Longrightarrow>
      om_Name (np_meta P) = policyName nph \<and> wfPolicy P \<and> decodable json P"
    and "key = getServicePortMappingAnnotationKey serviceName"
  shows "\<exists>w'. RemoveExposedPorts json onConflict nph serviceName w = (Ret (), w') \<and>
    (case view w (policyName nph) of
       None \<Rightarrow> w' = w
     | Some P \<Rightarrow> \<exists>P'. view w' = (view w)(policyName nph \<mapsto> P') \<and>
         openKeys P' = openKeys P - portKey ` set (portsOfAnnotation json P key) \<and>
         annotation P' key = None \<and> (\<forall>k. k \<noteq> key \<longrightarrow> annotation P' k = annotation P k))"
proof (cases "view w (policyName nph)")
  case None
  with policy_store.remove_missing [OF assms(1) None] show ?thesis by simp
next
  case (Some P)
  with assms(2) have "om_Name (np_meta P) = policyName nph" "wfPolicy P" "decodable json P" by blast+
  then obtain w' P' where "RemoveExposedPorts json onConflict nph serviceName w = (Ret (), w')"
    "view w' = (view w)(policyName nph \<mapsto> P')" "remapped json key [] P P'" "annotation P' key = None"
    using policy_store.remove_existing [OF assms(1) Some] unfolding assms(3) by blast
  with Some show ?thesis
    by (intro exI [of _ w']) (auto simp: remapped_def)
qed

theorem remove_exposed_ports_witness:
  "\<exists>w' P'. RemoveExposedPorts exampleJson (retryTimes 3) exampleHandler ''scm'' policyCluster = (Ret (), w') \<and>
     k_networkPolicies w' (policyName exampleHandler) = Some P' \<and>
     annotation P' (getServicePortMappingAnnotationKey ''scm'') = None"
proof -
  obtain w' where "RemoveExposedPorts exampleJson (retryTimes 3) exampleHandler ''scm'' policyCluster = (Ret (), w')"
    and "case k_networkPolicies policyCluster (policyName exampleHandler) of
       None \<Rightarrow> w' = policyCluster
     | Some P \<Rightarrow> \<exists>P'. k_networkPolicies w' = (k_networkPolicies policyCluster)(policyName exampleHandler \<mapsto> P') \<and>
         openKeys P' = openKeys P - portKey ` set (portsOfAnnotation exampleJson P
           (getServicePortMappingAnnotationKey ''scm'')) \<and>
         annotation P' (getServicePortMappingAnnotationKey ''scm'') = None \<and>
         (\<forall>k. k \<noteq> getServicePortMappingAnnotationKey ''scm'' \<longrightarrow> annotation P' k = annotation P k)"
    using remove_exposed_ports [OF policies.policy_store_axioms, of policyCluster _ "''scm''"]
      examplePolicy_facts(1-4) by auto
  then show ?thesis by (auto simp: examplePolicy_facts(1))
qed

text \<open>
  Property C28. The handler does not count how many services use a port: where two services are
  mapped to the same port, removing the ports of one closes the port although the other service is
  still mapped to it.
\<close>

theorem shared_port_closed:
  assumes "policy_store json onConflict nph view put adm"
    and "view w (policyName nph) = Some P" and "om_Name (np_meta P) = policyName nph"
    and "wfPolicy P" and "decodable json P"
    and "getServicePortMappingAnnotationKey s1 \<noteq> getServicePortMappingAnnotationKey s2"
    and "p \<in> set (portsOfAnnotation json P (getServicePortMappingAnnotationKey s1))"
    and "p \<in> set (portsOfAnnotation json P (getServicePortMappingAnnotationKey s2))"
  shows "\<exists>w' P'. RemoveExposedPorts json onConflict nph s1 w = (Ret (), w') \<and>
    view w' (policyName nph) = Some P' \<and> portKey p \<notin> openKeys P' \<and>
    p \<in> set (portsOfAnnotation json P' (getServicePortMappingAnnotationKey s2))"
proof -
  obtain w' P' where P': "RemoveExposedPorts json onConflict nph s1 w = (Ret (), w')"
    "view w' = (view w)(policyName nph \<mapsto> P')"
    "remapped json (getServicePortMappingAnnotationKey s1) [] P P'"
    using policy_store.remove_existing [OF assms(1-5), of s1] by blast
  have "portKey p \<notin> openKeys P'" using P'(3) assms(7) by (simp add: remapped_def)
  moreover have "annotation P' (getServicePortMappingAnnotationKey s2) =
      annotation P (getServicePortMappingAnnotationKey s2)"
    using P'(3) assms(6) by (simp add: remapped_def)
  ultimately show ?thesis using P' assms(8) by (simp add: portsOfAnnotation_def)
qed

theorem shared_port_closed_witness:
  "\<exists>w' P'. RemoveExposedPorts exampleJson (retryTimes 3) exampleHandler ''scm'' policyCluster = (Ret (), w') \<and>
     k_networkPolicies w' (policyName exampleHandler) = Some P' \<and> portKey examplePort \<notin> openKeys P' \<and>
     examplePort \<in> set (portsOfAnnotation exampleJson P' (getServicePortMappingAnnotationKey ''git''))"
  by (rule shared_port_closed [OF policies.policy_store_axioms, OF examplePolicy_facts(1-4) example_keys])
    (simp_all add: examplePolicy_facts(5,6))

text \<open>
  Property C29. The annotation key of a service has a name part of at most 63 characters, and the keys
  of two services are equal exactly when the first 45 characters of their names are: names up to 45
  characters never collide, longer ones may.
\<close>

theorem mapping_key_collisions:
  "length (getServicePortMappingAnnotationKey s) \<le> length ''k8s.cloudogu.com/'' + 63 \<and>
   (getServicePortMappingAnnotationKey s = getServicePortMappingAnnotationKey t \<longleftrightarrow> take 45 s = take 45 t)"
proof -
  have key: "getServicePortMappingAnnotationKey u =
      ''k8s.cloudogu.com/'' @ ''ces-exposed-ports-'' @ take 45 u" for u
    by (simp add: getServicePortMappingAnnotationKey_def Let_def maxLengthAnnotationName_def
        mappingAnnotationServicePortDNSKeyPrefix_def mappingAnnotationServicePortNameKeyPrefix_def)
  show ?thesis by (simp add: key)
qed

end
