(* ===== verification/Port_Registry.thy ===== *)
theory Port_Registry
  imports Network_Policy_Correct
begin

section \<open>The network policy handler refines a registry of ports\<close>

text \<open>
  What the handler promises its callers, without policies, annotations and rules: a registry that
  assigns ports to services.  A call of the handler is one change of the registry, and the ports that
  are open are those of the registry.  The refinement is a simulation (locale \<open>simulation\<close>): the
  registry is the abstraction of what is stored, as long as no two services hold the same port.
\<close>

subsection \<open>Simulations\<close>

fun throughout :: "('a \<Rightarrow> bool) \<Rightarrow> ('c \<Rightarrow> 'a \<Rightarrow> 'a) \<Rightarrow> 'c list \<Rightarrow> 'a \<Rightarrow> bool" where
  "throughout ok astep [] a = True"
| "throughout ok astep (c # cs) a = (ok a \<and> throughout ok astep cs (astep c a))"

locale simulation =
  fixes step :: "'c \<Rightarrow> 'w \<Rightarrow> 'w" and astep :: "'c \<Rightarrow> 'a \<Rightarrow> 'a" and abs :: "'w \<Rightarrow> 'a"
    and inv :: "'w \<Rightarrow> bool" and ok :: "'a \<Rightarrow> bool"
  assumes step_inv: "inv w \<Longrightarrow> ok (abs w) \<Longrightarrow> inv (step c w)"
    and step_abs: "inv w \<Longrightarrow> ok (abs w) \<Longrightarrow> abs (step c w) = astep c (abs w)"
begin

lemma simulated:
  "inv w \<Longrightarrow> throughout ok astep cs (abs w) \<Longrightarrow> inv (fold step cs w) \<and> abs (fold step cs w) = fold astep cs (abs w)"
  by (induction cs arbitrary: w) (simp_all add: step_inv step_abs)

end

subsection \<open>The registry\<close>

datatype policyCall = Upsert Service | Remove string | Drop

type_synonym registry = "string \<Rightarrow> utilExposedPorts"

abbreviation mappingKey :: "string \<Rightarrow> string" where
  "mappingKey \<equiv> getServicePortMappingAnnotationKey"

fun register :: "portsJson \<Rightarrow> policyCall \<Rightarrow> registry \<Rightarrow> registry" where
  "register json (Upsert service) r =
     (case parseExposedPortsFromService json service of
        Inl _ \<Rightarrow> r
      | Inr ports \<Rightarrow> r(mappingKey (om_Name (svc_meta service)) := ports))"
| "register json (Remove serviceName) r = r(mappingKey serviceName := [])"
| "register json Drop r = (\<lambda>_. [])"

definition registeredKeys :: "registry \<Rightarrow> portKey set" where
  "registeredKeys r = (\<Union>k. portKey ` set (r k))"

definition exclusive :: "registry \<Rightarrow> bool" where
  "exclusive r \<longleftrightarrow> (\<forall>k k'. k \<noteq> k' \<longrightarrow> portKey ` set (r k) \<inter> portKey ` set (r k') = {})"

subsection \<open>The handler\<close>

fun perform :: "portsJson \<Rightarrow> (('w, unit) io \<Rightarrow> ('w, unit) io) \<Rightarrow> 'w networkPolicyHandler \<Rightarrow> policyCall \<Rightarrow> ('w, unit) io" where
  "perform json onConflict nph (Upsert service) = UpsertNetworkPoliciesForService json onConflict nph service"
| "perform json onConflict nph (Remove serviceName) = RemoveExposedPorts json onConflict nph serviceName"
| "perform json onConflict nph Drop = RemoveNetworkPolicy nph"

definition registryOf :: "portsJson \<Rightarrow> 'w networkPolicyHandler \<Rightarrow> (string \<Rightarrow> NetworkPolicy option) \<Rightarrow> registry" where
  "registryOf json nph policies k =
     (case policies (policyName nph) of
        None \<Rightarrow> []
      | Some P \<Rightarrow> (if isMappingKey k then portsOfAnnotation json P k else []))"

definition allowedKeys :: "'w networkPolicyHandler \<Rightarrow> (string \<Rightarrow> NetworkPolicy option) \<Rightarrow> portKey set" where
  "allowedKeys nph policies = (case policies (policyName nph) of None \<Rightarrow> {} | Some P \<Rightarrow> openKeys P)"

lemma registryOf_None: "policies (policyName nph) = None \<Longrightarrow> registryOf json nph policies = (\<lambda>_. [])"
  by (simp add: registryOf_def fun_eq_iff)

lemma registryOf_key: "policies (policyName nph) = Some P \<Longrightarrow> registryOf json nph policies (mappingKey s) = portsOfAnnotation json P (mappingKey s)"
  by (simp add: registryOf_def)

text \<open>In a state in order the open ports are the registered ones.\<close>

lemma allowedKeys_registered:
  assumes "policyOK json nph policies"
  shows "allowedKeys nph policies = registeredKeys (registryOf json nph policies)"
  using assms
  by (auto simp: policyOK_def allowedKeys_def registeredKeys_def registryOf_def coherent_def split: option.splits if_splits)

lemma exclusive_unshared:
  assumes "exclusive (registryOf json nph policies)" and "policies (policyName nph) = Some P"
  shows "unshared json P serviceName ports"
  unfolding unshared_def Let_def
proof (intro allI impI)
  fix k assume k: "isMappingKey k \<and> k \<noteq> mappingKey serviceName"
  then have "portKey ` set (registryOf json nph policies k) \<inter>
      portKey ` set (registryOf json nph policies (mappingKey serviceName)) = {}"
    using assms(1) unfolding exclusive_def by blast
  with k assms(2) show "portKey ` set (portsOfAnnotation json P k) \<inter>
      portKey ` (set (portsOfAnnotation json P (mappingKey serviceName)) - set ports) = {}"
    by (auto simp: registryOf_def)
qed

lemma remapped_registry:
  assumes "remapped json (mappingKey serviceName) ports P P'" and "policies (policyName nph) = Some P"
  shows "registryOf json nph (policies(policyName nph \<mapsto> P')) = (registryOf json nph policies)(mappingKey serviceName := ports)"
  using assms by (auto simp: fun_eq_iff registryOf_def remapped_def portsOfAnnotation_def)

subsection \<open>One call\<close>

context policy_store
begin

lemma perform_upsert_registry:
  assumes "policyOK json nph (view w)"
    and "UpsertNetworkPoliciesForService json onConflict nph service w = (res, w')"
  shows "registryOf json nph (view w') = register json (Upsert service) (registryOf json nph (view w))"
    and "res = Ret () \<longleftrightarrow> \<not> isl (parseExposedPortsFromService json service)"
proof -
  let ?name = "om_Name (svc_meta service)"
  have "registryOf json nph (view w') = register json (Upsert service) (registryOf json nph (view w)) \<and>
    (res = Ret () \<longleftrightarrow> \<not> isl (parseExposedPortsFromService json service))"
  proof (cases "parseExposedPortsFromService json service")
    case (Inl e)
    with assms(2) show ?thesis by (auto simp: UpsertNetworkPoliciesForService_def io_simps)
  next
    case (Inr ports)
    show ?thesis
    proof (cases "view w (policyName nph)")
      case None
      note created = create_run [OF None, of ?name ports "om_Namespace (svc_meta service)",
          folded upsert_missing [OF Inr None]]
      show ?thesis
      proof (cases "ports = []")
        case True
        with created assms(2) Inr None show ?thesis by (simp add: registryOf_None fun_eq_iff)
      next
        case False
        with created assms(2) obtain P where P: "res = Ret ()" "view w' = (view w)(policyName nph \<mapsto> P)"
          "portsOfAnnotation json P (mappingKey ?name) = ports"
          "\<forall>k s. annotation P k = Some s \<longrightarrow> k = mappingKey ?name \<and> \<not> isl (js_unmarshal json s)" by auto
        have "portsOfAnnotation json P k = []" if "k \<noteq> mappingKey ?name" for k
          using P(4) that by (cases "annotation P k") (auto simp: portsOfAnnotation_def)
        with P(1-3) Inr None show ?thesis by (auto simp: fun_eq_iff registryOf_def)
      qed
    next
      case (Some P)
      with assms(1) have "om_Name (np_meta P) = policyName nph" "wfPolicy P" "decodable json P"
        by (simp_all add: policyOK_def coherent_def)
      then obtain P' where "res = Ret ()" "view w' = (view w)(policyName nph \<mapsto> P')"
        "remapped json (mappingKey ?name) ports P P'"
        using upsert_existing [OF Inr Some] assms(2) by auto
      with Inr show ?thesis using remapped_registry [where policies = "view w", OF _ Some] by simp
    qed
  qed
  then show "registryOf json nph (view w') = register json (Upsert service) (registryOf json nph (view w))"
    "res = Ret () \<longleftrightarrow> \<not> isl (parseExposedPortsFromService json service)" by blast+
qed

lemma perform_remove_registry:
  assumes "policyOK json nph (view w)" and "RemoveExposedPorts json onConflict nph serviceName w = (res, w')"
  shows "registryOf json nph (view w') = register json (Remove serviceName) (registryOf json nph (view w)) \<and> res = Ret ()"
proof (cases "view w (policyName nph)")
  case None
  with remove_missing [OF None] assms(2) show ?thesis by (auto simp: registryOf_None)
next
  case (Some P)
  with assms(1) have "om_Name (np_meta P) = policyName nph" "wfPolicy P" "decodable json P"
    by (simp_all add: policyOK_def coherent_def)
  then obtain P' where "res = Ret ()" "view w' = (view w)(policyName nph \<mapsto> P')"
    "remapped json (mappingKey serviceName) [] P P'"
    using remove_existing [OF Some, of serviceName] assms(2) by auto
  then show ?thesis using remapped_registry [where policies = "view w", OF _ Some] by simp
qed

lemma perform_simulates:
  "simulation (\<lambda>c w. snd (perform json onConflict nph c w)) (register json) (\<lambda>w. registryOf json nph (view w))
     (\<lambda>w. policyOK json nph (view w)) exclusive"
proof
  fix w c assume inv: "policyOK json nph (view w)" and ok: "exclusive (registryOf json nph (view w))"
  obtain res w' where run: "perform json onConflict nph c w = (res, w')" by (cases "perform json onConflict nph c w")
  have "policyOK json nph (view w') \<and> registryOf json nph (view w') = register json c (registryOf json nph (view w))"
  proof (cases c)
    case (Upsert service)
    with run have "UpsertNetworkPoliciesForService json onConflict nph service w = (res, w')" by simp
    with Upsert show ?thesis
      using upsert_keeps_policyOK [OF inv exclusive_unshared [OF ok]] perform_upsert_registry [OF inv] by blast
  next
    case (Remove serviceName)
    with run have "RemoveExposedPorts json onConflict nph serviceName w = (res, w')" by simp
    with Remove show ?thesis
      using remove_keeps_policyOK [OF inv exclusive_unshared [OF ok]] perform_remove_registry [OF inv] by blast
  next
    case Drop
    with run drop_run [OF policyOK_name [OF inv]] have "view w' = (view w)(policyName nph := None)" by auto
    with Drop show ?thesis by (simp add: policyOK_def registryOf_None)
  qed
  with run show "policyOK json nph (view (snd (perform json onConflict nph c w)))"
    "registryOf json nph (view (snd (perform json onConflict nph c w))) = register json c (registryOf json nph (view w))"
    by simp_all
qed

end

interpretation registry: simulation "\<lambda>c w. snd (perform exampleJson (retryTimes 3) exampleHandler c w)" "register exampleJson"
    "\<lambda>w. registryOf exampleJson exampleHandler (k_networkPolicies w)"
    "\<lambda>w. policyOK exampleJson exampleHandler (k_networkPolicies w)" exclusive
  by (rule policies.perform_simulates)

subsection \<open>Property\<close>

text \<open>
  Property C4. Any sequence of handler calls does to the stored network policy what it does to a
  registry of ports: the ports mapped to each service afterwards are those the registry assigns to
  it, and the open ports are exactly the registered ones, provided no two services hold the same
  port on the way; a next call fails exactly when it upserts a service whose ports do not parse.
\<close>

theorem policy_refines_registry:
  assumes "policy_store json onConflict nph view put adm" and "policyOK json nph (view w)"
    and "throughout exclusive (register json) calls (registryOf json nph (view w))"
    and "w' = fold (\<lambda>c v. snd (perform json onConflict nph c v)) calls w"
    and "r' = fold (register json) calls (registryOf json nph (view w))"
  shows "registryOf json nph (view w') = r' \<and> allowedKeys nph (view w') = registeredKeys r' \<and>
    (\<forall>c. fst (perform json onConflict nph c w') = Ret () \<longleftrightarrow>
       (case c of Upsert service \<Rightarrow> \<not> isl (parseExposedPortsFromService json service) | _ \<Rightarrow> True))"
proof -
  note final = simulation.simulated [OF policy_store.perform_simulates [OF assms(1)] assms(2,3), folded assms(4,5)]
  then have ok: "policyOK json nph (view w')" by blast
  have "fst (perform json onConflict nph c w') = Ret () \<longleftrightarrow>
      (case c of Upsert service \<Rightarrow> \<not> isl (parseExposedPortsFromService json service) | _ \<Rightarrow> True)" for c
  proof (cases c)
    case (Upsert service)
    then show ?thesis
      using policy_store.perform_upsert_registry(2) [OF assms(1) ok prod.collapse [symmetric], of service] by simp
  next
    case (Remove serviceName)
    then show ?thesis
      using policy_store.perform_remove_registry [OF assms(1) ok prod.collapse [symmetric], of serviceName] by simp
  next
    case Drop
    then show ?thesis using policy_store.drop_run [OF assms(1) policyOK_name [OF ok]] by auto
  qed
  with final allowedKeys_registered [OF ok] show ?thesis by simp
qed

theorem policy_refines_registry_witness:
  "allowedKeys exampleHandler (k_networkPolicies (fold (\<lambda>c v. snd (perform exampleJson (retryTimes 3) exampleHandler c v))
     [Upsert examplePolicyService, Remove ''git''] emptyCluster)) = {portKey examplePort}"
proof -
  let ?calls = "[Upsert examplePolicyService, Remove ''git'']"
  have start: "policyOK exampleJson exampleHandler (k_networkPolicies emptyCluster)"
    "registryOf exampleJson exampleHandler (k_networkPolicies emptyCluster) = (\<lambda>_. [])"
    by (simp_all add: policyOK_def emptyCluster_def registryOf_None)
  have key: "mappingKey ''scm'' \<noteq> mappingKey ''git''" "om_Name (svc_meta examplePolicyService) = ''scm''"
    by (rule example_keys, simp add: examplePolicyService_def)
  have excl: "throughout exclusive (register exampleJson) ?calls (\<lambda>_. [])"
    by (auto simp: exclusive_def parse_examplePolicyService)
  have "registeredKeys (fold (register exampleJson) ?calls (\<lambda>_. [])) = {portKey examplePort}"
    using key by (fastforce simp: registeredKeys_def parse_examplePolicyService fun_upd_def split: if_splits)
  with policy_refines_registry [OF policies.policy_store_axioms start(1), of ?calls, OF _ refl refl] start(2) excl
  show ?thesis by simp
qed

end
