(* ===== verification/Contention.thy ===== *)
theory Contention
  imports Port_Registry
begin

section \<open>Concurrent writers of the network policy\<close>

text \<open>
  Services are reconciled one after the other, but the network policy is one object, and other
  parties (a second replica, an administrator) write it as well.  Their writes happen between the
  calls of the handler: a contended client lets the others act (\<open>env\<close>) before each of its calls.  The
  API server rejects an update that names an older resource version, and the handler then starts
  again from a new reading.

  The locale \<open>contended_policy\<close> says what is asked of the others: they keep the policy in place and in
  its form, every write of theirs takes a new resource version, and there is a bound on how often
  they still write (\<open>budget\<close>).
\<close>

subsection \<open>Contended clients\<close>

definition contended :: "('w \<Rightarrow> 'w) \<Rightarrow> ('w, 'o) client \<Rightarrow> ('w, 'o) client" where
  "contended env cl =
     \<lparr>c_get = (\<lambda>n w. c_get cl n (env w)), c_create = (\<lambda>x w. c_create cl x (env w)),
      c_update = (\<lambda>x w. c_update cl x (env w)), c_delete = (\<lambda>n w. c_delete cl n (env w))\<rparr>"

lemma contended_simps [simp]:
  "c_get (contended env cl) n w = c_get cl n (env w)" "c_create (contended env cl) x w = c_create cl x (env w)"
  "c_update (contended env cl) x w = c_update cl x (env w)" "c_delete (contended env cl) n w = c_delete cl n (env w)"
  by (simp_all add: contended_def)

definition policyInForm :: "portsJson \<Rightarrow> 'w networkPolicyHandler \<Rightarrow> NetworkPolicy \<Rightarrow> bool" where
  "policyInForm json nph P \<longleftrightarrow> om_Name (np_meta P) = policyName nph \<and> wfPolicy P \<and> decodable json P"

locale contended_policy =
  fixes json :: portsJson and nph :: "'w networkPolicyHandler" and cl :: "'w networkPolicyInterface"
    and view :: "'w \<Rightarrow> string \<Rightarrow> NetworkPolicy option" and put adm and env :: "'w \<Rightarrow> 'w"
    and sound :: "'w \<Rightarrow> bool" and budget :: "'w \<Rightarrow> nat"
  assumes client: "nph_networkPolicyInterface nph = contended env cl"
    and store: "object_store cl view put np_meta adm"
    and codec: "portsCodec json"
    and keeps: "np_Ingress (adm w p) = np_Ingress p"
      "om_Annotations (np_meta (adm w p)) = om_Annotations (np_meta p)"
    and sound_policy: "sound w \<Longrightarrow> \<exists>P. view w (policyName nph) = Some P \<and> policyInForm json nph P \<and>
      om_ResourceVersion (np_meta P) \<noteq> []"
    and env_sound: "sound w \<Longrightarrow> sound (env w)"
    and versions: "sound w \<Longrightarrow> view w n = Some P \<Longrightarrow> view (env w) n = Some P' \<Longrightarrow>
      om_ResourceVersion (np_meta P') = om_ResourceVersion (np_meta P) \<Longrightarrow> P' = P"
    and budget: "sound w \<Longrightarrow> budget (env w) \<le> budget w"
      "sound w \<Longrightarrow> view (env w) \<noteq> view w \<Longrightarrow> budget (env w) < budget w"
begin

lemma env_iterate: "sound w \<Longrightarrow> sound ((env ^^ k) w) \<and> budget ((env ^^ k) w) \<le> budget w"
  by (induction k) (auto simp: env_sound dest: budget(1))

lemma get_run:
  assumes "sound w"
  obtains P where "getNetworkPolicy nph w = (Ret P, env w)" "view (env w) (policyName nph) = Some P"
    "policyInForm json nph P" "om_ResourceVersion (np_meta P) \<noteq> []"
  using sound_policy [OF env_sound [OF assms]] object_store.get_found [OF store]
  by (auto simp: getNetworkPolicy_def client)

text \<open>The write of a try: it hits the version that was read, or it is rejected and changes nothing.\<close>

lemma write_run:
  assumes w: "sound w" and P: "view w (policyName nph) = Some P" "policyInForm json nph P"
      "om_ResourceVersion (np_meta P) \<noteq> []" and Q: "revises P Q"
  obtains (hit) "view (env w) (policyName nph) = Some P"
      "sendUpdate nph (Some Q) w = (Ret (), put (policyName nph) (Some (adm (env w) Q)) (env w))"
  | (miss) "sendUpdate nph (Some Q) w = (Fail (Api Conflict), env w)" "budget (env w) < budget w"
proof -
  obtain P' where P': "view (env w) (policyName nph) = Some P'" using sound_policy [OF env_sound [OF w]] by blast
  have name: "om_Name (np_meta Q) = policyName nph" using P(2) Q by (simp add: policyInForm_def revises_def)
  show thesis
  proof (cases "om_ResourceVersion (np_meta P') = om_ResourceVersion (np_meta P)")
    case True
    then have "P' = P" using versions [OF w P(1) P'] by simp
    with True P' Q name show thesis
      by (intro hit) (simp_all add: sendUpdate_def client io_simps object_store.update_law [OF store] revises_def)
  next
    case False
    have "sendUpdate nph (Some Q) w = (Fail (Api Conflict), env w)"
      using False P(3) P' Q name
      by (simp add: sendUpdate_def client io_simps object_store.update_law [OF store] revises_def)
    moreover have "view (env w) \<noteq> view w" using False P(1) P' by auto
    ultimately show thesis using budget(2) [OF w] by (intro miss) simp_all
  qed
qed

text \<open>What a successful call leaves: the policy as the others left it, remapped in one step.\<close>

definition remappedAt :: "string \<Rightarrow> utilExposedPorts \<Rightarrow> 'w \<Rightarrow> 'w \<Rightarrow> bool" where
  "remappedAt key ports v w' \<longleftrightarrow>
     (\<exists>P P'. view v (policyName nph) = Some P \<and> view w' = (view v)(policyName nph \<mapsto> P') \<and> remapped json key ports P P')"

definition tries :: "('w, unit) io \<Rightarrow> ('w \<Rightarrow> 'w \<Rightarrow> bool) \<Rightarrow> bool" where
  "tries body R \<longleftrightarrow>
     (\<forall>w. sound w \<longrightarrow> (\<exists>k > 0. (\<exists>w'. body w = (Ret (), w') \<and> R ((env ^^ k) w) w') \<or>
        body w = (Fail (Api Conflict), (env ^^ k) w) \<and> budget ((env ^^ k) w) < budget w))"

lemma tries_retried:
  assumes "tries body R" and "sound w" and "budget w \<le> n"
  shows "\<exists>k > 0. \<exists>w'. retryTimes n body w = (Ret (), w') \<and> R ((env ^^ k) w) w'"
  using assms(2,3)
proof (induction n arbitrary: w)
  case 0
  with assms(1) show ?case unfolding tries_def by fastforce
next
  case (Suc n)
  from assms(1) Suc.prems(1) obtain k where k: "k > 0"
    "(\<exists>w'. body w = (Ret (), w') \<and> R ((env ^^ k) w) w') \<or>
     body w = (Fail (Api Conflict), (env ^^ k) w) \<and> budget ((env ^^ k) w) < budget w"
    unfolding tries_def by blast
  from k(2) show ?case
  proof (elim disjE conjE exE)
    fix w' assume "body w = (Ret (), w')" "R ((env ^^ k) w) w'"
    with k(1) show ?case by auto
  next
    assume miss: "body w = (Fail (Api Conflict), (env ^^ k) w)" "budget ((env ^^ k) w) < budget w"
    with Suc.prems env_iterate [of w k] obtain k' w' where
      "retryTimes n body ((env ^^ k) w) = (Ret (), w')" "R ((env ^^ k') ((env ^^ k) w)) w'"
      using Suc.IH [of "(env ^^ k) w"] by auto
    with k(1) miss(1) show ?case
      by (intro exI [of _ "k' + k"] conjI exI [of _ w']) (simp_all add: isConflict_def funpow_add)
  qed
qed

lemma decides_tries:
  assumes "\<And>P. policyInForm json nph P \<Longrightarrow>
    remapped json key ports P P \<and> (\<forall>w v. getNetworkPolicy nph w = (Ret P, v) \<longrightarrow> body w = (Ret (), v)) \<or>
    (\<exists>Q. remapped json key ports P Q \<and> revises P Q \<and>
       (\<forall>w v. getNetworkPolicy nph w = (Ret P, v) \<longrightarrow> body w = sendUpdate nph (Some Q) v))"
  shows "tries body (remappedAt key ports)"
  unfolding tries_def
proof (intro allI impI)
  fix w assume w: "sound w"
  obtain P where P: "getNetworkPolicy nph w = (Ret P, env w)" "view (env w) (policyName nph) = Some P"
    "policyInForm json nph P" "om_ResourceVersion (np_meta P) \<noteq> []" by (rule get_run [OF w])
  from assms [OF P(3)] show "\<exists>k > 0. (\<exists>w'. body w = (Ret (), w') \<and> remappedAt key ports ((env ^^ k) w) w') \<or>
      body w = (Fail (Api Conflict), (env ^^ k) w) \<and> budget ((env ^^ k) w) < budget w"
  proof (elim disjE conjE exE)
    assume "remapped json key ports P P" "\<forall>w v. getNetworkPolicy nph w = (Ret P, v) \<longrightarrow> body w = (Ret (), v)"
    with P show ?thesis by (intro exI [of _ 1]) (auto simp: remappedAt_def intro!: exI [of _ P])
  next
    fix Q assume Q: "remapped json key ports P Q" "revises P Q"
      "\<forall>w v. getNetworkPolicy nph w = (Ret P, v) \<longrightarrow> body w = sendUpdate nph (Some Q) v"
    have adm: "remapped json key ports P (adm v Q)" for v
      using Q(1) by (simp add: remapped_def openKeys_def rulePorts_def portsOfAnnotation_def keeps)
    show ?thesis
    proof (cases rule: write_run [OF env_sound [OF w] P(2,3,4) Q(2)])
      case 1
      with Q(3) P(1) adm show ?thesis
        by (intro exI [of _ 2]) (auto simp: remappedAt_def object_store.view_put [OF store] numeral_2_eq_2)
    next
      case 2
      with Q(3) P(1) budget(1) [OF w] show ?thesis by (intro exI [of _ 2]) (auto simp: numeral_2_eq_2)
    qed
  qed
qed

lemma update_tries:
  "tries (updateNetworkPolicyOnce json nph serviceName ports) (remappedAt (mappingKey serviceName) ports)"
proof (rule decides_tries)
  fix P assume "policyInForm json nph P"
  then have P: "wfPolicy P" "\<forall>s. annotation P (mappingKey serviceName) = Some s \<longrightarrow> \<not> isl (js_unmarshal json s)"
    by (auto simp: policyInForm_def dest: decodableD)
  show "remapped json (mappingKey serviceName) ports P P \<and> (\<forall>w v. getNetworkPolicy nph w = (Ret P, v) \<longrightarrow>
      updateNetworkPolicyOnce json nph serviceName ports w = (Ret (), v)) \<or>
    (\<exists>Q. remapped json (mappingKey serviceName) ports P Q \<and> revises P Q \<and> (\<forall>w v. getNetworkPolicy nph w = (Ret P, v) \<longrightarrow>
      updateNetworkPolicyOnce json nph serviceName ports w = sendUpdate nph (Some Q) v))"
    by (rule updateOnce_decides [OF codec P, of ports nph]) blast+
qed

lemma remove_tries:
  "tries (removeExposedPortsOnce json nph serviceName) (remappedAt (mappingKey serviceName) [])"
proof (rule decides_tries)
  fix P assume "policyInForm json nph P"
  then have P: "wfPolicy P" "\<forall>s. annotation P (mappingKey serviceName) = Some s \<longrightarrow> \<not> isl (js_unmarshal json s)"
    by (auto simp: policyInForm_def dest: decodableD)
  show "remapped json (mappingKey serviceName) [] P P \<and> (\<forall>w v. getNetworkPolicy nph w = (Ret P, v) \<longrightarrow>
      removeExposedPortsOnce json nph serviceName w = (Ret (), v)) \<or>
    (\<exists>Q. remapped json (mappingKey serviceName) [] P Q \<and> revises P Q \<and> (\<forall>w v. getNetworkPolicy nph w = (Ret P, v) \<longrightarrow>
      removeExposedPortsOnce json nph serviceName w = sendUpdate nph (Some Q) v))"
    by (rule removeOnce_decides [OF P, of nph]) blast+
qed

lemma upsert_retried:
  assumes "sound w" and "budget w \<le> n" and "parseExposedPortsFromService json service = Inr ports"
  shows "\<exists>k > 0. \<exists>w'. UpsertNetworkPoliciesForService json (retryTimes n) nph service w = (Ret (), w') \<and>
    remappedAt (mappingKey (om_Name (svc_meta service))) ports ((env ^^ k) w) w'"
proof -
  obtain P where P: "getNetworkPolicy nph w = (Ret P, env w)" by (rule get_run [OF assms(1)])
  obtain k w' where w': "k > 0" "retryTimes n (updateNetworkPolicyOnce json nph (om_Name (svc_meta service)) ports) (env w) = (Ret (), w')"
    "remappedAt (mappingKey (om_Name (svc_meta service))) ports ((env ^^ k) (env w)) w'"
    using tries_retried [OF update_tries env_sound [OF assms(1)] order_trans [OF budget(1) [OF assms(1)] assms(2)],
        of "om_Name (svc_meta service)" ports] by blast
  then show ?thesis
    using P assms(3)
    by (intro exI [of _ "Suc k"] conjI exI [of _ w'])
      (simp_all add: UpsertNetworkPoliciesForService_def updateNetworkPolicy_def io_simps funpow_swap1)
qed

lemma remove_retried:
  assumes "sound w" and "budget w \<le> n"
  shows "\<exists>k > 0. \<exists>w'. RemoveExposedPorts json (retryTimes n) nph serviceName w = (Ret (), w') \<and>
    remappedAt (mappingKey serviceName) [] ((env ^^ k) w) w'"
  using tries_retried [OF remove_tries assms, of serviceName] by (auto simp: RemoveExposedPorts_def io_simps)

lemma remappedAt_registry:
  assumes "remappedAt (mappingKey serviceName) ports v w'"
  shows "registryOf json nph (view w') = (registryOf json nph (view v))(mappingKey serviceName := ports)"
    and "m \<noteq> policyName nph \<Longrightarrow> view w' m = view v m"
proof -
  obtain P P' where P: "view v (policyName nph) = Some P" "view w' = (view v)(policyName nph \<mapsto> P')"
    "remapped json (mappingKey serviceName) ports P P'" using assms unfolding remappedAt_def by blast
  show "registryOf json nph (view w') = (registryOf json nph (view v))(mappingKey serviceName := ports)"
    unfolding P(2) by (rule remapped_registry [where policies = "view v", OF P(3,1)])
  show "view w' m = view v m" if "m \<noteq> policyName nph" using that P(2) by simp
qed

lemma perform_retried:
  assumes "sound w" and "budget w \<le> n"
    and "case c of Upsert service \<Rightarrow> \<not> isl (parseExposedPortsFromService json service) | Remove _ \<Rightarrow> True | Drop \<Rightarrow> False"
  shows "\<exists>k > 0. \<exists>w'. perform json (retryTimes n) nph c w = (Ret (), w') \<and>
    registryOf json nph (view w') = register json c (registryOf json nph (view ((env ^^ k) w))) \<and>
    (\<forall>m. m \<noteq> policyName nph \<longrightarrow> view w' m = view ((env ^^ k) w) m)"
proof (cases c)
  case (Upsert service)
  with assms(3) obtain ports where ports: "parseExposedPortsFromService json service = Inr ports"
    by (cases "parseExposedPortsFromService json service") auto
  obtain k w' where "k > 0" "UpsertNetworkPoliciesForService json (retryTimes n) nph service w = (Ret (), w')"
    "remappedAt (mappingKey (om_Name (svc_meta service))) ports ((env ^^ k) w) w'"
    using upsert_retried [OF assms(1,2) ports] by blast
  with ports Upsert remappedAt_registry show ?thesis by (intro exI [of _ k] conjI exI [of _ w']) auto
next
  case (Remove serviceName)
  obtain k w' where "k > 0" "RemoveExposedPorts json (retryTimes n) nph serviceName w = (Ret (), w')"
    "remappedAt (mappingKey serviceName) [] ((env ^^ k) w) w'"
    using remove_retried [OF assms(1,2)] by blast
  with Remove remappedAt_registry show ?thesis by (intro exI [of _ k] conjI exI [of _ w']) auto
qed (use assms(3) in simp)

end

subsection \<open>A cluster with other writers\<close>

text \<open>
  The world is the reference cluster with the writes that the others still make: each takes the
  policy and stores another version of it.
\<close>

type_synonym contendedCluster = "cluster \<times> (NetworkPolicy \<Rightarrow> NetworkPolicy) list"

fun othersWrite :: "contendedCluster \<Rightarrow> contendedCluster" where
  "othersWrite (w, []) = (w, [])"
| "othersWrite (w, g # gs) =
     ((case k_networkPolicies w (policyName exampleHandler) of
         None \<Rightarrow> w
       | Some P \<Rightarrow> putNetworkPolicy (policyName exampleHandler) (Some (admNetworkPolicy w (g P))) w), gs)"

definition policiesOf :: "contendedCluster \<Rightarrow> string \<Rightarrow> NetworkPolicy option" where
  "policiesOf v = k_networkPolicies (fst v)"

definition putPolicyOf :: "string \<Rightarrow> NetworkPolicy option \<Rightarrow> contendedCluster \<Rightarrow> contendedCluster" where
  "putPolicyOf n x v = (putNetworkPolicy n x (fst v), snd v)"

definition admPolicyOf :: "contendedCluster \<Rightarrow> NetworkPolicy \<Rightarrow> NetworkPolicy" where
  "admPolicyOf v = admNetworkPolicy (fst v)"

definition sharedPolicyClient :: "contendedCluster networkPolicyInterface" where
  "sharedPolicyClient = memClient policiesOf putPolicyOf np_meta admPolicyOf"

definition sharedHandler :: "contendedCluster networkPolicyHandler" where
  "sharedHandler = NewNetworkPolicyHandler (contended othersWrite sharedPolicyClient) ''k8s-ces-gateway'' ''0.0.0.0/0''"

definition soundCluster :: "contendedCluster \<Rightarrow> bool" where
  "soundCluster v \<longleftrightarrow>
     (\<exists>P. policiesOf v (policyName sharedHandler) = Some P \<and> policyInForm exampleJson sharedHandler P) \<and>
     (\<forall>n P. policiesOf v n = Some P \<longrightarrow> (\<exists>r < k_revision (fst v). om_ResourceVersion (np_meta P) = showNat r)) \<and>
     (\<forall>g \<in> set (snd v). \<forall>P. policyInForm exampleJson sharedHandler P \<longrightarrow> policyInForm exampleJson sharedHandler (g P))"

lemma sharedHandler_name: "policyName sharedHandler = policyName exampleHandler"
  by (simp add: sharedHandler_def exampleHandler_def NewNetworkPolicyHandler_def)

lemma policyInForm_adm: "policyInForm json nph (admNetworkPolicy w P) = policyInForm json nph P"
  by (simp add: policyInForm_def admNetworkPolicy_def wfPolicy_def decodable_def stamp_def)

lemma othersWrite_step:
  assumes "soundCluster (w, g # gs)"
  obtains P where "k_networkPolicies w (policyName sharedHandler) = Some P" "policyInForm exampleJson sharedHandler (g P)"
    "othersWrite (w, g # gs) = (putNetworkPolicy (policyName sharedHandler) (Some (admNetworkPolicy w (g P))) w, gs)"
  using assms by (auto simp: soundCluster_def policiesOf_def sharedHandler_name)

lemma othersWrite_sound:
  assumes "soundCluster v"
  shows "soundCluster (othersWrite v)"
proof (cases v rule: othersWrite.cases)
  case (2 w g gs)
  with assms othersWrite_step obtain P where P: "policyInForm exampleJson sharedHandler (g P)"
    "othersWrite v = (putNetworkPolicy (policyName sharedHandler) (Some (admNetworkPolicy w (g P))) w, gs)" by metis
  have old: "\<exists>r < Suc (k_revision w). om_ResourceVersion (np_meta Q) = showNat r" if "k_networkPolicies w n = Some Q" for n Q
    using assms that unfolding 2 soundCluster_def policiesOf_def by (metis fst_conv less_SucI)
  have new: "om_ResourceVersion (np_meta (admNetworkPolicy w (g P))) = showNat (k_revision w)"
    by (simp add: admNetworkPolicy_def stamp_def)
  show ?thesis
    using assms [unfolded 2] P(1) old new
    unfolding P(2) soundCluster_def policiesOf_def
    by (auto simp: putNetworkPolicy_def bump_def policyInForm_adm)
qed (use assms in simp)

lemma othersWrite_versions:
  assumes "soundCluster v" and "policiesOf v n = Some P" and "policiesOf (othersWrite v) n = Some P'"
    and "om_ResourceVersion (np_meta P') = om_ResourceVersion (np_meta P)"
  shows "P' = P"
proof (cases v rule: othersWrite.cases)
  case (2 w g gs)
  with assms(1) othersWrite_step obtain Q where Q:
    "othersWrite v = (putNetworkPolicy (policyName sharedHandler) (Some (admNetworkPolicy w (g Q))) w, gs)" by metis
  obtain r where r: "r < k_revision w" "om_ResourceVersion (np_meta P) = showNat r"
    using assms(1,2) 2 unfolding soundCluster_def by (metis fst_conv)
  show ?thesis
  proof (cases "n = policyName sharedHandler")
    case True
    then have "om_ResourceVersion (np_meta P') = showNat (k_revision w)"
      using assms(3) Q by (auto simp: policiesOf_def putNetworkPolicy_def bump_def admNetworkPolicy_def stamp_def)
    with assms(4) r show ?thesis by (simp add: showNat_inj)
  next
    case False
    with assms(2,3) Q 2 show ?thesis by (simp add: policiesOf_def putNetworkPolicy_def bump_def)
  qed
qed (use assms in simp)

interpretation shared: contended_policy exampleJson sharedHandler sharedPolicyClient policiesOf putPolicyOf admPolicyOf
    othersWrite soundCluster "\<lambda>v. length (snd v)"
proof (rule contended_policy.intro)
  show "object_store sharedPolicyClient policiesOf putPolicyOf np_meta admPolicyOf"
    unfolding sharedPolicyClient_def
    by (rule object_store_memClient) (simp_all add: policiesOf_def putPolicyOf_def admPolicyOf_def cluster_ops)
  show "nph_networkPolicyInterface sharedHandler = contended othersWrite sharedPolicyClient"
    by (simp add: sharedHandler_def NewNetworkPolicyHandler_def)
  show "portsCodec exampleJson" by (rule policies.codec)
  show "np_Ingress (admPolicyOf w p) = np_Ingress p" "om_Annotations (np_meta (admPolicyOf w p)) = om_Annotations (np_meta p)" for w p
    by (simp_all add: admPolicyOf_def admNetworkPolicy_def stamp_def)
  show "\<exists>P. policiesOf v (policyName sharedHandler) = Some P \<and> policyInForm exampleJson sharedHandler P \<and>
      om_ResourceVersion (np_meta P) \<noteq> []" if "soundCluster v" for v
    using that unfolding soundCluster_def by (metis showNat_nonempty)
  show "length (snd (othersWrite v)) \<le> length (snd v)" for v by (cases v rule: othersWrite.cases) simp_all
  show "length (snd (othersWrite v)) < length (snd v)" if "policiesOf (othersWrite v) \<noteq> policiesOf v" for v
    using that by (cases v rule: othersWrite.cases) simp_all
qed (rule othersWrite_sound, assumption, rule othersWrite_versions)

subsection \<open>Property\<close>

text \<open>
  Property C7. While others write the network policy between its calls, the handler loses none of
  their writes and is not kept from its own: with at least as many retries as the others still write,
  an upsert of a service whose ports parse, or a removal, returns without error, and its effect is
  that of one atomic change of the registry of ports after some of the others' writes.
\<close>

theorem contended_call_atomic:
  assumes "contended_policy json nph cl view put adm env sound budget" and "sound w" and "budget w \<le> n"
    and "case c of Upsert service \<Rightarrow> \<not> isl (parseExposedPortsFromService json service) | Remove _ \<Rightarrow> True | Drop \<Rightarrow> False"
  shows "\<exists>k > 0. \<exists>w'. perform json (retryTimes n) nph c w = (Ret (), w') \<and>
    registryOf json nph (view w') = register json c (registryOf json nph (view ((env ^^ k) w))) \<and>
    (\<forall>m. m \<noteq> policyName nph \<longrightarrow> view w' m = view ((env ^^ k) w) m)"
  by (rule contended_policy.perform_retried [OF assms])

definition gitPort :: utilExposedPort where
  "gitPort = \<lparr>xp_Protocol = ''tcp'', xp_Port = 9418, xp_TargetPort = 9418\<rparr>"

text \<open>Another replica maps the service \<open>git\<close> to a new port.\<close>

definition mapGit :: "NetworkPolicy \<Rightarrow> NetworkPolicy" where
  "mapGit P = copyAnnotations (fmap_of_list [(mappingKey ''git'', encodePorts [gitPort])]) P"

definition busyCluster :: contendedCluster where
  "busyCluster = (putNetworkPolicy (policyName exampleHandler)
     (Some (admNetworkPolicy emptyCluster examplePolicy)) emptyCluster, [mapGit])"

lemma mapGit_form: "policyInForm exampleJson nph P \<Longrightarrow> policyInForm exampleJson nph (mapGit P)"
  by (simp add: policyInForm_def mapGit_def decodable_def exampleJson_def)

lemma busyCluster_sound: "soundCluster busyCluster"
proof -
  have "policyInForm exampleJson sharedHandler examplePolicy"
    using examplePolicy_facts(2-4) by (simp add: policyInForm_def sharedHandler_name)
  moreover have "om_ResourceVersion (np_meta (admNetworkPolicy emptyCluster examplePolicy)) = showNat 1"
    by (simp add: admNetworkPolicy_def stamp_def emptyCluster_def)
  moreover have "k_networkPolicies emptyCluster = Map.empty" "k_revision emptyCluster = 1"
    by (simp_all add: emptyCluster_def)
  ultimately show ?thesis
    by (auto simp: soundCluster_def busyCluster_def policiesOf_def sharedHandler_name putNetworkPolicy_def bump_def
        policyInForm_adm mapGit_form split: if_splits)
qed

lemma busyCluster_git:
  assumes "0 < k"
  shows "registryOf exampleJson sharedHandler (policiesOf ((othersWrite ^^ k) busyCluster)) (mappingKey ''git'') = [gitPort]"
proof -
  have idle: "(othersWrite ^^ j) (w, []) = (w, [])" for j w by (induction j) simp_all
  obtain j where "k = Suc j" using assms by (cases k) auto
  then have "(othersWrite ^^ k) busyCluster = othersWrite busyCluster"
    by (simp add: funpow_swap1 busyCluster_def idle)
  then show ?thesis
    by (simp add: busyCluster_def policiesOf_def putNetworkPolicy_def bump_def registryOf_def sharedHandler_name
        portsOfAnnotation_def mapGit_def admNetworkPolicy_def stamp_def exampleJson_def readPorts_encodePorts)
qed

theorem contended_call_atomic_witness:
  "\<exists>w'. perform exampleJson (retryTimes 1) sharedHandler (Upsert examplePolicyService) busyCluster = (Ret (), w') \<and>
     registryOf exampleJson sharedHandler (policiesOf w') (mappingKey ''scm'') = [examplePort] \<and>
     registryOf exampleJson sharedHandler (policiesOf w') (mappingKey ''git'') = [gitPort]"
proof -
  have "length (snd busyCluster) \<le> 1" by (simp add: busyCluster_def)
  moreover have "om_Name (svc_meta examplePolicyService) = ''scm''" by (simp add: examplePolicyService_def)
  ultimately show ?thesis
    using contended_call_atomic [OF shared.contended_policy_axioms busyCluster_sound, of 1 "Upsert examplePolicyService"]
      busyCluster_git example_keys
    by (auto simp: parse_examplePolicyService)
qed

end
