(* ===== verification/Logging.thy ===== *)
theory Logging
  imports Go_Prelude
begin

section \<open>Logging (controllers/logging/logger.go)\<close>

text \<open>
  The adapter through which cesapp-lib logs, and the set-up of both loggers from the environment.
  A log sink takes a level and a message.  The arguments of \<open>fmt.Sprint\<close> are given as they print,
  with a mark for strings: a blank is put between two operands when neither is a string.
  \<open>fmt.Sprintf\<close>, \<open>logrus.ParseLevel\<close> and the sink of a new logrus logger are parameters.
\<close>

type_synonym environment = "string \<Rightarrow> string option"

definition namespaceLogLevel :: string where "namespaceLogLevel = ''LOG_LEVEL''"

definition errorLevel :: nat where "errorLevel = 0"
definition warningLevel :: nat where "warningLevel = 1"
definition infoLevel :: nat where "infoLevel = 2"
definition debugLevel :: nat where "debugLevel = 3"

type_synonym 'w logSink = "nat \<Rightarrow> string \<Rightarrow> ('w, unit) io"

datatype goArg = StringArg string | OtherArg string

record 'w libraryLogger =
  ll_logger :: "'w logSink"
  ll_name :: string

fun printed :: "goArg \<Rightarrow> string" where
  "printed (StringArg s) = s"
| "printed (OtherArg s) = s"

fun sprint :: "goArg list \<Rightarrow> string" where
  "sprint [] = []"
| "sprint [a] = printed a"
| "sprint (OtherArg s # OtherArg t # args) = s @ CHR '' '' # sprint (OtherArg t # args)"
| "sprint (a # args) = printed a @ sprint args"

type_synonym sprintfLib = "string \<Rightarrow> goArg list \<Rightarrow> string"

definition log_Library :: "'w libraryLogger \<Rightarrow> nat \<Rightarrow> goArg list \<Rightarrow> ('w, unit) io" where
  "log_Library l level args = ll_logger l level (''['' @ ll_name l @ ''] '' @ sprint args)"

definition logf_Library :: "sprintfLib \<Rightarrow> 'w libraryLogger \<Rightarrow> nat \<Rightarrow> string \<Rightarrow> goArg list \<Rightarrow> ('w, unit) io" where
  "logf_Library sprintf l level format args = ll_logger l level (''['' @ ll_name l @ ''] '' @ sprintf format args)"

definition Debug :: "'w libraryLogger \<Rightarrow> goArg list \<Rightarrow> ('w, unit) io" where
  "Debug l args = log_Library l debugLevel args"
definition Info :: "'w libraryLogger \<Rightarrow> goArg list \<Rightarrow> ('w, unit) io" where
  "Info l args = log_Library l infoLevel args"
definition Warning :: "'w libraryLogger \<Rightarrow> goArg list \<Rightarrow> ('w, unit) io" where
  "Warning l args = log_Library l warningLevel args"
definition Error :: "'w libraryLogger \<Rightarrow> goArg list \<Rightarrow> ('w, unit) io" where
  "Error l args = log_Library l errorLevel args"
definition Debugf :: "sprintfLib \<Rightarrow> 'w libraryLogger \<Rightarrow> string \<Rightarrow> goArg list \<Rightarrow> ('w, unit) io" where
  "Debugf sprintf l format args = logf_Library sprintf l debugLevel format args"
definition Infof :: "sprintfLib \<Rightarrow> 'w libraryLogger \<Rightarrow> string \<Rightarrow> goArg list \<Rightarrow> ('w, unit) io" where
  "Infof sprintf l format args = logf_Library sprintf l infoLevel format args"
definition Warningf :: "sprintfLib \<Rightarrow> 'w libraryLogger \<Rightarrow> string \<Rightarrow> goArg list \<Rightarrow> ('w, unit) io" where
  "Warningf sprintf l format args = logf_Library sprintf l warningLevel format args"
definition Errorf :: "sprintfLib \<Rightarrow> 'w libraryLogger \<Rightarrow> string \<Rightarrow> goArg list \<Rightarrow> ('w, unit) io" where
  "Errorf sprintf l format args = logf_Library sprintf l errorLevel format args"

definition getLogLevelFromEnv ::
  "(string \<Rightarrow> error + 'l) \<Rightarrow> 'l \<Rightarrow> environment \<Rightarrow> 'l \<times> error option" where
  "getLogLevelFromEnv parseLevel logrusErrorLevel env =
     (case env namespaceLogLevel of
        None \<Rightarrow> (logrusErrorLevel, None)
      | Some logLevel \<Rightarrow>
          (case parseLevel logLevel of
             Inl err \<Rightarrow> (logrusErrorLevel, Some (Wrap (''value of log environment variable ['' @ namespaceLogLevel @
               ''] is not a valid log level'') err))
           | Inr level \<Rightarrow> (level, None)))"

text \<open>The logger of the controllers and the logger of the library, as the process holds them.\<close>

record 'w loggers =
  lo_controller :: "'w logSink option"
  lo_library :: "'w libraryLogger option"

definition ConfigureLogger ::
  "(string \<Rightarrow> error + 'l) \<Rightarrow> 'l \<Rightarrow> ('l \<Rightarrow> 'w logSink) \<Rightarrow> environment \<Rightarrow> 'w loggers \<Rightarrow> error option \<times> 'w loggers" where
  "ConfigureLogger parseLevel logrusErrorLevel newLogger env loggers =
     (case getLogLevelFromEnv parseLevel logrusErrorLevel env of
        (_, Some err) \<Rightarrow> (Some err, loggers)
      | (level, None) \<Rightarrow>
          let logrusLogrLogger = newLogger level
          in (None, loggers\<lparr>lo_controller := Some logrusLogrLogger,
                lo_library := Some \<lparr>ll_logger = logrusLogrLogger, ll_name = ''cesapp-lib''\<rparr>\<rparr>))"

subsection \<open>Lemmas\<close>

text \<open>
  The loggers are set together, at the level the environment names, or neither of them is: exactly
  when \<open>LOG_LEVEL\<close> is set to something that is not a level.
\<close>

lemma ConfigureLogger_fails_iff:
  "fst (ConfigureLogger parseLevel lvl newLogger env ls) \<noteq> None \<longleftrightarrow>
     (\<exists>s. env ''LOG_LEVEL'' = Some s \<and> isl (parseLevel s))"
  by (auto simp: ConfigureLogger_def getLogLevelFromEnv_def namespaceLogLevel_def Let_def isl_def
      split: option.split sum.split)

lemma ConfigureLogger_sets:
  assumes "ConfigureLogger parseLevel lvl newLogger env ls = (None, ls')"
  shows "\<exists>level. lo_controller ls' = Some (newLogger level) \<and>
    lo_library ls' = Some \<lparr>ll_logger = newLogger level, ll_name = ''cesapp-lib''\<rparr> \<and>
    (case env ''LOG_LEVEL'' of None \<Rightarrow> level = lvl | Some s \<Rightarrow> parseLevel s = Inr level)"
  using assms
  by (auto simp: ConfigureLogger_def getLogLevelFromEnv_def namespaceLogLevel_def Let_def
      split: option.splits sum.splits)

end
