(* ===== verification/Ingress_Updater.thy ===== *)
theory Ingress_Updater
  imports Middleware_Manager
begin

section \<open>Ingress objects of ces services (controllers/expose/ingressUpdater.go)\<close>

text \<open>
  For every ces service a dogu service announces in its annotation there is one ingress.  It leads to
  the static content service while the system is in maintenance mode or the dogu is not ready, and to
  the dogu service otherwise.

  The interfaces the updater calls are the fields of its record: the ready checker, the event
  recorder, the ingress controller's annotation key, the ingress client, the dogu client, the
  middleware manager and the maintenance adapter.  The JSON decoders and the annotation key that the
  dogu operator library defines are the argument \<open>json\<close>, \<open>retry.OnConflict\<close> is \<open>onConflict\<close>.
\<close>

subsection \<open>Model\<close>

definition staticContentBackendName :: string where "staticContentBackendName = ''k8s-ces-assets-service''"
definition staticContentBackendPort :: int32 where "staticContentBackendPort = 80"
definition staticContentBackendRewrite :: string where
  "staticContentBackendRewrite = ''maintenance-mode@kubernetescrd''"
definition staticContentDoguIsStartingRewrite :: string where
  "staticContentDoguIsStartingRewrite = ''dogu-starting@kubernetescrd''"
definition CesServiceAnnotation :: string where
  "CesServiceAnnotation = ''k8s-dogu-operator.cloudogu.com/ces-services''"
definition ingressCreationEventReason :: string where "ingressCreationEventReason = ''IngressCreation''"
definition routerMiddlewaresKey :: string where
  "routerMiddlewaresKey = ''traefik.ingress.kubernetes.io/router.middlewares''"

record serviceRewrite =
  sr_Pattern :: string
  sr_Rewrite :: string

record ingressJson =
  ij_cesServices :: "string \<Rightarrow> error + CesService list"
  ij_rewrite :: "string \<Rightarrow> error + serviceRewrite"
  ij_annotations :: "string \<Rightarrow> error + strmap"
  ij_additionalKey :: string

definition hasRewriteConfig :: "CesService \<Rightarrow> bool" where
  "hasRewriteConfig cs \<longleftrightarrow> cs_Rewrite cs \<noteq> []"

definition getRewriteConfig :: "ingressJson \<Rightarrow> CesService \<Rightarrow> error + serviceRewrite" where
  "getRewriteConfig json cs =
     (if \<not> hasRewriteConfig cs then Inl (Msg ''cesService has no rewrite config'')
      else case ij_rewrite json (cs_Rewrite cs) of
             Inl err \<Rightarrow> Inl (Wrap ''failed to read service rewrite from ces service'' err)
           | Inr rewrite \<Rightarrow> Inr rewrite)"

definition generateConfig :: "serviceRewrite \<Rightarrow> string" where
  "generateConfig sr =
     ''rewrite ^/'' @ sr_Pattern sr @ ''(/|$)(.*) '' @ sr_Rewrite sr @ ''/$2 break;''"

text \<open>
  The interfaces of the package: the maintenance adapter gives the description and whether the mode
  is active, the ready checker is its \<open>IsReady\<close>, of the dogu client only \<open>Get\<close> is called.
\<close>

type_synonym 'w maintenanceAdapter = "('w, string \<times> bool) io"
type_synonym 'w DeploymentReadyChecker = "string \<Rightarrow> ('w, bool) io"
type_synonym 'w doguInterface = "string \<Rightarrow> ('w, Dogu) io"

record 'w ingressUpdater =
  iu_namespace :: string
  iu_ingressClassName :: string
  iu_IsReady :: "'w DeploymentReadyChecker"
  iu_Eventf :: "('w, Dogu) eventRecorder"
  iu_rewriteAnnotationKey :: string
  iu_ingressInterface :: "'w ingressInterface"
  iu_getDogu :: "'w doguInterface"
  iu_createOrUpdateReplacePathMiddleware ::
    "string \<Rightarrow> CesService \<Rightarrow> OwnerReference list \<Rightarrow> ('w, string) io"
  iu_GetStatus :: "'w maintenanceAdapter"

definition getCesServices :: "ingressJson \<Rightarrow> Service \<Rightarrow> error + CesService list \<times> bool" where
  "getCesServices json service =
     (if length (ss_Ports (svc_spec service)) \<le> 0 then Inr ([], False)
      else case lookupNil (om_Annotations (svc_meta service)) CesServiceAnnotation of
             None \<Rightarrow> Inr ([], False)
           | Some cesServicesAnnotation \<Rightarrow>
               (case ij_cesServices json cesServicesAnnotation of
                  Inl err \<Rightarrow> Inl (Wrap ''failed to unmarshal ces services'' err)
                | Inr cesServices \<Rightarrow> Inr (cesServices, True)))"

definition getAdditionalIngressAnnotations :: "ingressJson \<Rightarrow> Service \<Rightarrow> error + strmap" where
  "getAdditionalIngressAnnotations json doguService =
     (case lookupNil (om_Annotations (svc_meta doguService)) (ij_additionalKey json) of
        None \<Rightarrow> Inr fmempty
      | Some annotationsJson \<Rightarrow>
          (case ij_annotations json annotationsJson of
             Inl err \<Rightarrow> Inl (Wrap (''failed to get addtional ingress annotations from dogu service '' @
                              [CHR 0x27] @ om_Name (svc_meta doguService) @ [CHR 0x27]) err)
           | Inr annotations \<Rightarrow> Inr annotations))"

definition getIngress ::
  "'w ingressUpdater \<Rightarrow> string \<Rightarrow> Service \<Rightarrow> string \<Rightarrow> string \<Rightarrow> int32 \<Rightarrow> strmap \<Rightarrow> Ingress" where
  "getIngress i ingressName owner path endpointName endpointPort annotations =
     \<lparr>ing_meta = emptyMeta
        \<lparr>om_Name := ingressName, om_Namespace := iu_namespace i, om_Annotations := Some annotations,
         om_Labels := K8sCesServiceDiscoveryLabels,
         om_OwnerReferences := [\<lparr>or_APIVersion = svc_APIVersion owner, or_Kind = svc_Kind owner,
           or_Name = om_Name (svc_meta owner), or_UID = om_UID (svc_meta owner),
           or_Controller = None, or_BlockOwnerDeletion = None\<rparr>]\<rparr>,
      ing_spec = \<lparr>is_IngressClassName = Some (iu_ingressClassName i), is_TLS = [],
        is_Rules = [\<lparr>rule_Host = [], rule_Paths = [\<lparr>path_Path = path, path_PathType = PathTypePrefix,
          path_ServiceName = endpointName, path_ServicePort = endpointPort\<rparr>]\<rparr>]\<rparr>\<rparr>"

definition upsertIngressOnce :: "'w ingressUpdater \<Rightarrow> Ingress \<Rightarrow> ('w, unit) io" where
  "upsertIngressOnce i ingress =
     onErr (c_get (iu_ingressInterface i) (om_Name (ing_meta ingress)))
       (\<lambda>err. if \<not> isNotFound err then fail err
              else bindIO (c_create (iu_ingressInterface i) ingress) (\<lambda>_. ret ()))
       (\<lambda>_. bindIO (c_update (iu_ingressInterface i) ingress) (\<lambda>_. ret ()))"

definition upsertIngressObject ::
  "(('w, unit) io \<Rightarrow> ('w, unit) io) \<Rightarrow> 'w ingressUpdater \<Rightarrow> string \<Rightarrow> Service \<Rightarrow> string \<Rightarrow> string \<Rightarrow> int32
     \<Rightarrow> strmap \<Rightarrow> ('w, unit) io" where
  "upsertIngressObject onConflict i ingressName service path endpointName endpointPort annotations =
     (let ingress = getIngress i ingressName service path endpointName endpointPort annotations
      in wrapErr (''failed to upsert ingress '' @ om_Name (ing_meta ingress))
           (onConflict (upsertIngressOnce i ingress)))"

definition upsertMaintenanceModeIngressObject ::
  "(('w, unit) io \<Rightarrow> ('w, unit) io) \<Rightarrow> 'w ingressUpdater \<Rightarrow> CesService \<Rightarrow> Service \<Rightarrow> Dogu \<Rightarrow> ('w, unit) io" where
  "upsertMaintenanceModeIngressObject onConflict i cesService service dogu =
     (let middlewareName = iu_namespace i @ ''-'' @ staticContentBackendRewrite;
          annotations = fmap_of_list [(iu_rewriteAnnotationKey i, middlewareName)]
      in bindIO
           (wrapErr ''failed to update ingress object''
              (upsertIngressObject onConflict i (cs_Name cesService) service (cs_Location cesService)
                 staticContentBackendName staticContentBackendPort annotations))
           (\<lambda>_. iu_Eventf i dogu (normalEvent ingressCreationEventReason
                  (''Ingress for service ['' @ cs_Name cesService @ ''] has been updated to maintenance mode.''))))"

definition upsertDoguIsStartingIngressObject ::
  "(('w, unit) io \<Rightarrow> ('w, unit) io) \<Rightarrow> 'w ingressUpdater \<Rightarrow> CesService \<Rightarrow> Service \<Rightarrow> ('w, unit) io" where
  "upsertDoguIsStartingIngressObject onConflict i cesService service =
     (let middlewareName = iu_namespace i @ ''-'' @ staticContentDoguIsStartingRewrite;
          annotations = fmap_of_list [(iu_rewriteAnnotationKey i, middlewareName)]
      in wrapErr ''failed to update ingress object''
           (upsertIngressObject onConflict i (cs_Name cesService) service (cs_Location cesService)
              staticContentBackendName staticContentBackendPort annotations))"

text \<open>
  The branches on the rewrite configuration give the path and the first annotations; the additional
  annotations may overwrite them.
\<close>

definition rewriteOfCesService ::
  "ingressJson \<Rightarrow> 'w ingressUpdater \<Rightarrow> CesService \<Rightarrow> Service \<Rightarrow> ('w, string \<times> strmap) io" where
  "rewriteOfCesService json i cesService service =
     (let ownerReferences = [\<lparr>or_APIVersion = svc_APIVersion service, or_Kind = svc_Kind service,
            or_Name = om_Name (svc_meta service), or_UID = om_UID (svc_meta service),
            or_Controller = None, or_BlockOwnerDeletion = None\<rparr>]
      in if hasRewriteConfig cesService then
           (case getRewriteConfig json cesService of
              Inl err \<Rightarrow> fail (Wrap ''error getting rewrite-config from ces-service'' err)
            | Inr rewriteCfg \<Rightarrow>
                ret (sr_Pattern rewriteCfg, fmap_of_list [(routerMiddlewaresKey,
                  iu_namespace i @ ''-'' @ sr_Rewrite rewriteCfg @ ''@kubernetescrd'')]))
         else if cs_Pass cesService \<noteq> cs_Location cesService then
           onErr (iu_createOrUpdateReplacePathMiddleware i (om_Name (svc_meta service)) cesService ownerReferences)
             (\<lambda>err. fail (Wrap ''failed to create/update middleware'' err))
             (\<lambda>middlewareName.
                ret (trimRight (cs_Location cesService) (CHR ''/'') @ ''(/|$)(.*)'',
                     fmap_of_list [(routerMiddlewaresKey,
                       iu_namespace i @ ''-'' @ middlewareName @ ''@kubernetescrd'')]))
         else ret (cs_Location cesService, fmempty))"

definition upsertDoguIngressObject ::
  "ingressJson \<Rightarrow> (('w, unit) io \<Rightarrow> ('w, unit) io) \<Rightarrow> 'w ingressUpdater \<Rightarrow> CesService \<Rightarrow> Service
     \<Rightarrow> ('w, unit) io" where
  "upsertDoguIngressObject json onConflict i cesService service =
     bindIO (rewriteOfCesService json i cesService service) (\<lambda>(ingressPath, annotations).
       case getAdditionalIngressAnnotations json service of
         Inl err \<Rightarrow> fail err
       | Inr additionalAnnotations \<Rightarrow>
           wrapErr ''failed to update ingress object''
             (upsertIngressObject onConflict i (cs_Name cesService) service ingressPath
                (om_Name (svc_meta service)) (ucast (cs_Port cesService))
                (annotations ++\<^sub>f additionalAnnotations)))"

definition upsertIngressForCesService ::
  "ingressJson \<Rightarrow> (('w, unit) io \<Rightarrow> ('w, unit) io) \<Rightarrow> 'w ingressUpdater \<Rightarrow> CesService \<Rightarrow> Service \<Rightarrow> bool
     \<Rightarrow> ('w, unit) io" where
  "upsertIngressForCesService json onConflict i cesService service isMaintenanceMode =
     (let regular = (\<lambda>dogu. bindIO (upsertDoguIngressObject json onConflict i cesService service)
            (\<lambda>_. iu_Eventf i dogu (normalEvent ingressCreationEventReason
              (''Created regular ingress for service ['' @ cs_Name cesService @ ''].''))))
      in onErr (iu_getDogu i (om_Name (svc_meta service)))
           (\<lambda>err. fail (Wrap (''failed to get dogu for service ['' @ om_Name (svc_meta service) @ '']'') err))
           (\<lambda>dogu.
              if isMaintenanceMode then upsertMaintenanceModeIngressObject onConflict i cesService service dogu
              else if HasDoguLabel (svc_meta service) then
                bindIO (iu_IsReady i (om_Name (svc_meta service))) (\<lambda>isReady.
                  if \<not> isReady then upsertDoguIsStartingIngressObject onConflict i cesService service
                  else regular dogu)
              else regular dogu))"

definition UpsertIngressForService ::
  "ingressJson \<Rightarrow> (('w, unit) io \<Rightarrow> ('w, unit) io) \<Rightarrow> 'w ingressUpdater \<Rightarrow> Service \<Rightarrow> ('w, unit) io" where
  "UpsertIngressForService json onConflict i service =
     bindIO (iu_GetStatus i) (\<lambda>(_, isMaintenanceMode).
       case getCesServices json service of
         Inl err \<Rightarrow> fail (Wrap ''failed to get ces services'' err)
       | Inr (cesServices, ok) \<Rightarrow>
           if \<not> ok then ret ()
           else forEach (\<lambda>cesService.
                  wrapErr ''failed to create ingress object for ces service ''
                    (upsertIngressForCesService json onConflict i cesService service isMaintenanceMode))
                cesServices)"

subsection \<open>What the ingress should be\<close>

text \<open>
  The route of a ces service, by the state of the system: path, backend service and backend port.
\<close>

record route =
  ro_path :: string
  ro_backend :: string
  ro_port :: int32
  ro_annotations :: strmap

definition staticRoute :: "'w ingressUpdater \<Rightarrow> string \<Rightarrow> CesService \<Rightarrow> route" where
  "staticRoute i middleware ces =
     \<lparr>ro_path = cs_Location ces, ro_backend = ''k8s-ces-assets-service'', ro_port = 80,
      ro_annotations = fmap_of_list [(iu_rewriteAnnotationKey i, iu_namespace i @ ''-'' @ middleware @ ''@kubernetescrd'')]\<rparr>"

text \<open>The middleware a regular route goes through, with the path that goes with it.\<close>

definition rewriteRoute :: "ingressJson \<Rightarrow> Service \<Rightarrow> CesService \<Rightarrow> (string \<times> string) option" where
  "rewriteRoute json service ces =
     (if cs_Rewrite ces \<noteq> [] then
        (case ij_rewrite json (cs_Rewrite ces) of
           Inl _ \<Rightarrow> None | Inr rw \<Rightarrow> Some (sr_Pattern rw, sr_Rewrite rw))
      else if cs_Pass ces \<noteq> cs_Location ces then
        Some (trimRight (cs_Location ces) (CHR ''/'') @ ''(/|$)(.*)'',
              om_Name (svc_meta service) @ ''-'' @ cs_Name ces @ ''-rewrite'')
      else None)"

definition regularRoute :: "ingressJson \<Rightarrow> 'w ingressUpdater \<Rightarrow> Service \<Rightarrow> strmap \<Rightarrow> CesService \<Rightarrow> route" where
  "regularRoute json i service additional ces =
     \<lparr>ro_path = (case rewriteRoute json service ces of None \<Rightarrow> cs_Location ces | Some (p, _) \<Rightarrow> p),
      ro_backend = om_Name (svc_meta service), ro_port = ucast (cs_Port ces),
      ro_annotations =
        (case rewriteRoute json service ces of
           None \<Rightarrow> fmempty
         | Some (_, m) \<Rightarrow> fmap_of_list [(routerMiddlewaresKey, iu_namespace i @ ''-'' @ m @ ''@kubernetescrd'')])
        ++\<^sub>f additional\<rparr>"

definition routeFor ::
  "ingressJson \<Rightarrow> 'w ingressUpdater \<Rightarrow> Service \<Rightarrow> strmap \<Rightarrow> bool \<Rightarrow> bool \<Rightarrow> CesService \<Rightarrow> route" where
  "routeFor json i service additional maintenance ready ces =
     (if maintenance then staticRoute i ''maintenance-mode'' ces
      else if HasDoguLabel (svc_meta service) \<and> \<not> ready then staticRoute i ''dogu-starting'' ces
      else regularRoute json i service additional ces)"

text \<open>An ingress that serves a route.\<close>

definition serves :: "Ingress \<Rightarrow> route \<Rightarrow> bool" where
  "serves x rt \<longleftrightarrow>
     om_Annotations (ing_meta x) = Some (ro_annotations rt) \<and>
     is_Rules (ing_spec x) = [\<lparr>rule_Host = [], rule_Paths = [\<lparr>path_Path = ro_path rt,
       path_PathType = ''Prefix'', path_ServiceName = ro_backend rt, path_ServicePort = ro_port rt\<rparr>]\<rparr>]"

end
