(* ===== verification/Service_Controller.thy ===== *)
theory Service_Controller
  imports Network_Policy Ingress_Updater
begin

section \<open>The service and deployment reconcilers (controllers/serviceController.go, deploymentController.go)\<close>

text \<open>
  The service reconciler creates or updates the ingresses and the network policy of a service; the
  deployment reconciler does the former when the deployment of a dogu changes.  Their collaborators
  are the interfaces \<open>IngressUpdater\<close>, one function, and \<open>NetworkPolicyUpdater\<close>
  (controllers/interfaces.go).

  In the service reconciler one variable \<open>err\<close> holds first the result of the service lookup and, when
  network policies are disabled, then that of the policy removal; the second test for \<open>NotFound\<close> looks
  at whatever it holds last.
\<close>

subsection \<open>Model\<close>

record 'w NetworkPolicyUpdater =
  npu_UpsertNetworkPoliciesForService :: "Service \<Rightarrow> ('w, unit) io"
  npu_RemoveExposedPorts :: "string \<Rightarrow> ('w, unit) io"
  npu_RemoveNetworkPolicy :: "('w, unit) io"

definition asNetworkPolicyUpdater ::
  "portsJson \<Rightarrow> (('w, unit) io \<Rightarrow> ('w, unit) io) \<Rightarrow> 'w networkPolicyHandler \<Rightarrow> 'w NetworkPolicyUpdater" where
  "asNetworkPolicyUpdater json onConflict nph =
     \<lparr>npu_UpsertNetworkPoliciesForService = UpsertNetworkPoliciesForService json onConflict nph,
      npu_RemoveExposedPorts = RemoveExposedPorts json onConflict nph,
      npu_RemoveNetworkPolicy = RemoveNetworkPolicy nph\<rparr>"

record 'w serviceReconciler =
  svr_ingressUpdater :: "Service \<Rightarrow> ('w, unit) io"
  svr_networkPolicyUpdater :: "'w NetworkPolicyUpdater"
  svr_Get :: "string \<times> string \<Rightarrow> ('w, Service) io"
  svr_networkPoliciesEnabled :: bool

definition NewServiceReconciler ::
  "(string \<times> string \<Rightarrow> ('w, Service) io) \<Rightarrow> (Service \<Rightarrow> ('w, unit) io) \<Rightarrow> 'w NetworkPolicyUpdater \<Rightarrow> bool
     \<Rightarrow> 'w serviceReconciler" where
  "NewServiceReconciler client ingressUpdater networkPolicyUpdater networkPoliciesEnabled =
     \<lparr>svr_ingressUpdater = ingressUpdater, svr_networkPolicyUpdater = networkPolicyUpdater,
      svr_Get = client, svr_networkPoliciesEnabled = networkPoliciesEnabled\<rparr>"

definition getService :: "'w serviceReconciler \<Rightarrow> string \<times> string \<Rightarrow> ('w, Service) io" where
  "getService r req = wrapErr ''failed to get service'' (svr_Get r req)"

definition handleUpsert :: "'w serviceReconciler \<Rightarrow> Service \<Rightarrow> ('w, unit) io" where
  "handleUpsert r service =
     bindIO
       (wrapErr (''failed to create/update ingress object of service ['' @ om_Name (svc_meta service) @ '']'')
          (svr_ingressUpdater r service))
       (\<lambda>_. if svr_networkPoliciesEnabled r then
              wrapErr (''failed to create/update network policies for service ['' @ om_Name (svc_meta service) @ '']'')
                (npu_UpsertNetworkPoliciesForService (svr_networkPolicyUpdater r) service)
            else ret ())"

definition handleDelete :: "'w serviceReconciler \<Rightarrow> string \<times> string \<Rightarrow> ('w, unit) io" where
  "handleDelete r req =
     (if svr_networkPoliciesEnabled r then
        onErr (npu_RemoveExposedPorts (svr_networkPolicyUpdater r) (snd req))
          (\<lambda>netPolErr. fail (Joined [netPolErr]))
          (\<lambda>_. ret ())
      else ret ())"

definition dispatch ::
  "'w serviceReconciler \<Rightarrow> string \<times> string \<Rightarrow> Service \<Rightarrow> error option \<Rightarrow> ('w, unit) io" where
  "dispatch r req service err =
     (case err of
        None \<Rightarrow> handleUpsert r service
      | Some e \<Rightarrow> if isNotFound e then handleDelete r req else handleUpsert r service)"

definition afterLookup ::
  "'w serviceReconciler \<Rightarrow> string \<times> string \<Rightarrow> Service \<Rightarrow> error option \<Rightarrow> ('w, unit) io" where
  "afterLookup r req service err =
     (if \<not> svr_networkPoliciesEnabled r then
        onErr (npu_RemoveNetworkPolicy (svr_networkPolicyUpdater r))
          (\<lambda>e. dispatch r req service (Some e))
          (\<lambda>_. dispatch r req service None)
      else dispatch r req service err)"

definition Reconcile_Service :: "'w serviceReconciler \<Rightarrow> string \<times> string \<Rightarrow> ('w, unit) io" where
  "Reconcile_Service r req =
     onErr (getService r req)
       (\<lambda>err. if \<not> isNotFound err then fail err else afterLookup r req emptyService (Some err))
       (\<lambda>service. afterLookup r req service None)"

subsection \<open>Deployments\<close>

record 'w deploymentReconciler =
  dr_updater :: "Service \<Rightarrow> ('w, unit) io"
  dr_GetDeployment :: "string \<times> string \<Rightarrow> ('w, Deployment) io"
  dr_GetService :: "string \<times> string \<Rightarrow> ('w, Service) io"

definition getDeployment :: "'w deploymentReconciler \<Rightarrow> string \<times> string \<Rightarrow> ('w, Deployment) io" where
  "getDeployment r req = wrapErr ''failed to get deployment'' (dr_GetDeployment r req)"

definition getDeploymentService :: "'w deploymentReconciler \<Rightarrow> string \<times> string \<Rightarrow> ('w, Service) io" where
  "getDeploymentService r req = wrapErr ''failed to get service'' (dr_GetService r req)"

definition Reconcile_Deployment :: "'w deploymentReconciler \<Rightarrow> string \<times> string \<Rightarrow> ('w, unit) io" where
  "Reconcile_Deployment r req =
     onErr (getDeployment r req)
       (\<lambda>err. if isNotFound err then ret () else fail err)
       (\<lambda>deployment.
          if \<not> HasDoguLabel (dpl_meta deployment) then ret ()
          else onErr (getDeploymentService r req)
                 (\<lambda>err. fail (Wrap (''failed to find service for deployment ['' @
                          om_Name (dpl_meta deployment) @ '']'') err))
                 (\<lambda>doguService.
                    wrapErr (''failed to create/update ingress object of service ['' @
                        om_Name (svc_meta doguService) @ '']'')
                      (dr_updater r doguService)))"

subsection \<open>Properties\<close>

text \<open>
  Property C21. With network policies disabled, an existing service whose reconcile finds the policy
  removed by somebody else in between (the removal reports \<open>NotFound\<close>) is taken for a deleted one:
  the reconcile succeeds and the service gets no ingress.
\<close>

theorem service_taken_for_deleted:
  assumes "svr_Get r req w = (Ret service, w1)" and "\<not> svr_networkPoliciesEnabled r"
    and "npu_RemoveNetworkPolicy (svr_networkPolicyUpdater r) w1 = (Fail e, w2)" and "isNotFound e"
  shows "Reconcile_Service r req w = (Ret (), w2)"
  using assms
  by (simp add: Reconcile_Service_def getService_def afterLookup_def dispatch_def handleDelete_def io_simps)

theorem service_taken_for_deleted_witness:
  "Reconcile_Service
     \<lparr>svr_ingressUpdater = (\<lambda>s. \<lambda>w. (Ret (), s # w)),
      svr_networkPolicyUpdater = \<lparr>npu_UpsertNetworkPoliciesForService = (\<lambda>_. ret ()),
        npu_RemoveExposedPorts = (\<lambda>_. ret ()), npu_RemoveNetworkPolicy = fail (Api NotFound)\<rparr>,
      svr_Get = (\<lambda>_. ret emptyService), svr_networkPoliciesEnabled = False\<rparr> (''ns'', ''scm'') [] = (Ret (), [])"
  by (rule service_taken_for_deleted [where service = emptyService and e = "Api NotFound" and ?w1.0 = "[]"])
    (simp_all add: io_simps)

text \<open>
  A reconcile of a deployment changes nothing when the deployment is gone or not a
  dogu's; for the deployment of a dogu it updates the ingresses of the service of the same name, and
  fails when there is none.
\<close>

lemma deployment_reconcile_cases:
  assumes "dr_GetDeployment r req w = (dres, w)" and "dr_GetService r req w = (sres, w)"
  shows "fst (Reconcile_Deployment r req w) =
      (case dres of
         Panic \<Rightarrow> Panic
       | Fail err \<Rightarrow> if isNotFound err then Ret () else Fail (Wrap ''failed to get deployment'' err)
       | Ret d \<Rightarrow>
           if \<not> HasDoguLabel (dpl_meta d) then Ret ()
           else (case sres of
                   Panic \<Rightarrow> Panic
                 | Fail err \<Rightarrow> Fail (Wrap (''failed to find service for deployment ['' @ om_Name (dpl_meta d) @ '']'')
                     (Wrap ''failed to get service'' err))
                 | Ret s \<Rightarrow> fst (wrapErr (''failed to create/update ingress object of service ['' @
                     om_Name (svc_meta s) @ '']'') (dr_updater r s) w))) \<and>
    snd (Reconcile_Deployment r req w) =
      (case (dres, sres) of
         (Ret d, Ret s) \<Rightarrow> if HasDoguLabel (dpl_meta d) then snd (dr_updater r s w) else w
       | _ \<Rightarrow> w)"
  using assms
  by (cases dres; cases sres)
    (simp_all add: Reconcile_Deployment_def getDeployment_def getDeploymentService_def io_simps)

lemma deployment_reconcile_cases_example:
  "snd (Reconcile_Deployment
     \<lparr>dr_updater = (\<lambda>s. \<lambda>w. (Ret (), ''ingress'' # w)),
      dr_GetDeployment = (\<lambda>_. ret \<lparr>dpl_meta = emptyMeta\<lparr>om_Labels := fmap_of_list [(DoguLabelName, ''scm'')]\<rparr>,
        dpl_ReadyReplicas = 1\<rparr>),
      dr_GetService = (\<lambda>_. ret emptyService)\<rparr> (''ns'', ''scm'') []) = [''ingress'']"
  by (subst conjunct2 [OF deployment_reconcile_cases, where sres1 = "Ret emptyService" and
      dres1 = "Ret \<lparr>dpl_meta = emptyMeta\<lparr>om_Labels := fmap_of_list [(DoguLabelName, ''scm'')]\<rparr>,
        dpl_ReadyReplicas = 1\<rparr>"])
    (simp_all add: io_simps HasDoguLabel_iff)

end
