(* ===== verification/Global_Config.thy ===== *)
theory Global_Config
  imports Cluster
begin

section \<open>The global configuration\<close>

text \<open>
  The global configuration lives in a config map behind the repository type of k8s-registry-lib,
  which is not part of the repository: a configuration is a value of an unknown type \<open>'g\<close> with the
  operations of \<open>configOps\<close>, and a \<open>GlobalConfigRepository\<close> (controllers/interfaces.go,
  controllers/ssl/interfaces.go) reads and writes it.

  The locale \<open>config_values\<close> holds the laws of the operations on a configuration, \<open>config_repository\<close>
  those of the repository: a configuration that was just read, or changed since, is written; the
  values in the cluster are then those of the configuration.
\<close>

subsection \<open>Model\<close>

record 'g configOps =
  gc_Get :: "'g \<Rightarrow> string \<Rightarrow> string option"
  gc_Set :: "'g \<Rightarrow> string \<Rightarrow> string \<Rightarrow> error + 'g"
  gc_Delete :: "'g \<Rightarrow> string \<Rightarrow> 'g"

record ('w, 'g) GlobalConfigRepository =
  gcr_Get :: "('w, 'g) io"
  gcr_Update :: "'g \<Rightarrow> ('w, 'g) io"

subsection \<open>Laws\<close>

locale config_values =
  fixes cfg :: "'g configOps"
  assumes get_set: "gc_Set cfg g k v = Inr g' \<Longrightarrow> gc_Get cfg g' = (gc_Get cfg g)(k \<mapsto> v)"
    and get_delete: "gc_Get cfg (gc_Delete cfg g k) = (gc_Get cfg g)(k := None)"
begin

text \<open>Publishing a value and withdrawing another one, the two changes of the certificate synchronizer.\<close>

lemma set_then_delete:
  "gc_Set cfg g k v = Inr g' \<Longrightarrow> gc_Get cfg (gc_Delete cfg g' l) = ((gc_Get cfg g)(k \<mapsto> v))(l := None)"
  by (simp add: get_set get_delete)

end

locale config_repository = config_values cfg
  for cfg :: "'g configOps" +
  fixes repo :: "('w, 'g) GlobalConfigRepository"
    and viewG :: "'w \<Rightarrow> string \<Rightarrow> string option"
    and current :: "'w \<Rightarrow> 'g \<Rightarrow> bool"
    and rest :: "'w \<Rightarrow> 'r"
  assumes get_repo: "\<exists>g. gcr_Get repo w = (Ret g, w) \<and> gc_Get cfg g = viewG w \<and> current w g"
    and current_set: "current w g \<Longrightarrow> gc_Set cfg g k v = Inr g' \<Longrightarrow> current w g'"
    and current_delete: "current w g \<Longrightarrow> current w (gc_Delete cfg g k)"
    and update_repo: "current w g \<Longrightarrow>
      \<exists>g' w'. gcr_Update repo g w = (Ret g', w') \<and> viewG w' = gc_Get cfg g \<and> rest w' = rest w"
begin

lemma get_values:
  obtains g where "gcr_Get repo w = (Ret g, w)" and "gc_Get cfg g = viewG w" and "current w g"
  using get_repo by blast

end

subsection \<open>The repository of the reference cluster\<close>

text \<open>
  A configuration is the map of its values with the revision at which it was read; a write of
  another revision is a conflict.  The empty key is refused, and a key below which there are others.
\<close>

type_synonym clusterConfig = "strmap \<times> nat"

definition clusterConfigOps :: "clusterConfig configOps" where
  "clusterConfigOps =
     \<lparr>gc_Get = (\<lambda>g k. fmlookup (fst g) k),
      gc_Set = (\<lambda>g k v.
        if k = [] then Inl (Msg ''key is empty'')
        else if fBex (fmdom (fst g)) (\<lambda>k'. hasPrefix k' (k @ ''/'')) then Inl (Msg ''key is already a dictionary'')
        else Inr (fmupd k v (fst g), snd g)),
      gc_Delete = (\<lambda>g k. (fmdrop k (fst g), snd g))\<rparr>"

definition configView :: "cluster \<Rightarrow> string \<Rightarrow> string option" where
  "configView w = fmlookup (k_globalConfig w)"

definition currentConfig :: "cluster \<Rightarrow> clusterConfig \<Rightarrow> bool" where
  "currentConfig w g \<longleftrightarrow> snd g = k_revision w"

definition clusterConfigRepo :: "(cluster, clusterConfig) GlobalConfigRepository" where
  "clusterConfigRepo =
     \<lparr>gcr_Get = (\<lambda>w. (Ret (k_globalConfig w, k_revision w), w)),
      gcr_Update = (\<lambda>g w.
        if snd g = k_revision w
        then (Ret (fst g, Suc (k_revision w)), bump (w\<lparr>k_globalConfig := fst g\<rparr>))
        else (Fail (Api Conflict), w))\<rparr>"

interpretation configs: config_repository clusterConfigOps clusterConfigRepo configView currentConfig k_secrets
  by unfold_locales
    (auto simp: clusterConfigOps_def clusterConfigRepo_def configView_def currentConfig_def bump_def
      split: if_splits)

end
