(* ===== verification/Dogu_Service.thy ===== *)
theory Dogu_Service
  imports Exposed_Port
begin

section \<open>Dogu services (internal/types/service.go)\<close>

text \<open>
  A dogu service announces its exposed ports in an annotation that holds a JSON list.  The decoder
  \<open>json.Unmarshal\<close> into that list is the argument \<open>unmarshal\<close>: it returns the decoded entries or an
  error.
\<close>

subsection \<open>Model\<close>

definition exposedPortServiceAnnotation :: string where
  "exposedPortServiceAnnotation = ''k8s-dogu-operator.cloudogu.com/ces-exposed-ports''"

record ServiceExposedPortDTO =
  dto_Protocol :: string
  dto_Port :: int64
  dto_TargetPort :: int64

definition HasExposedPorts :: "Service \<Rightarrow> bool" where
  "HasExposedPorts s \<longleftrightarrow>
     (case lookupNil (om_Annotations (svc_meta s)) exposedPortServiceAnnotation of
        None \<Rightarrow> False | Some _ \<Rightarrow> True)"

definition maxInt32 :: int where "maxInt32 = 2147483647"

text \<open>The conversion \<open>int32(i)\<close> keeps the low 32 bits.\<close>

definition mapPortInt :: "int64 \<Rightarrow> error + int32" where
  "mapPortInt i =
     (if sint i < 0 then Inl (Msg ''number is negative'')
      else if sint i > maxInt32 then Inl (Msg (''number is > '' @ showInt maxInt32))
      else Inr (ucast i))"

definition mapServiceExposedPort :: "string \<Rightarrow> ServiceExposedPortDTO \<Rightarrow> error + ExposedPort" where
  "mapServiceExposedPort svcName svcPort =
     (case mapPortInt (dto_Port svcPort) of
        Inl e \<Rightarrow> Inl (Wrap ''port is invalid'' e)
      | Inr exPort \<Rightarrow>
          (case mapPortInt (dto_TargetPort svcPort) of
             Inl e \<Rightarrow> Inl (Wrap ''targetPort is invalid'' e)
           | Inr exTargetPort \<Rightarrow>
               let upper = toUpper (dto_Protocol svcPort);
                   mk = (\<lambda>protocol.
                     \<lparr>ep_Name = svcName @ ''-'' @ showInt (sint (dto_Port svcPort)),
                      ep_ServiceName = svcName, ep_Protocol = protocol, ep_Port = exPort,
                      ep_TargetPort = exTargetPort, ep_nodePort = 0\<rparr>)
               in if upper = ProtocolTCP then Inr (mk ProtocolTCP)
                  else if upper = ProtocolUDP then Inr (mk ProtocolUDP)
                  else if upper = ProtocolSCTP then Inr (mk ProtocolSCTP)
                  else Inl (Msg (''unsupported protocol for exposed port: '' @ dto_Protocol svcPort))))"

text \<open>The loop of \<open>GetExposedPorts\<close>: the first entry that cannot be mapped ends it.\<close>

fun mapServiceExposedPorts ::
  "string \<Rightarrow> ServiceExposedPortDTO list \<Rightarrow> ExposedPorts \<Rightarrow> error + ExposedPorts" where
  "mapServiceExposedPorts svcName [] acc = Inr acc"
| "mapServiceExposedPorts svcName (port # ports) acc =
     (case mapServiceExposedPort svcName port of
        Inl e \<Rightarrow> Inl (Wrap (''failed map port '' @ showInt (sint (dto_Port port)) @
                          '' from service '' @ svcName) e)
      | Inr ep \<Rightarrow> mapServiceExposedPorts svcName ports (acc @ [ep]))"

definition GetExposedPorts ::
  "ExposedPort sorter \<Rightarrow> (string \<Rightarrow> error + ServiceExposedPortDTO list) \<Rightarrow> Service
     \<Rightarrow> error + ExposedPorts" where
  "GetExposedPorts sortSlice unmarshal s =
     (case lookupNil (om_Annotations (svc_meta s)) exposedPortServiceAnnotation of
        None \<Rightarrow> Inr []
      | Some ann \<Rightarrow>
          (case unmarshal ann of
             Inl e \<Rightarrow> Inl (Wrap ''failed to unmarshal exposed ports'' e)
           | Inr dtos \<Rightarrow>
               (case mapServiceExposedPorts (om_Name (svc_meta s)) dtos [] of
                  Inl e \<Rightarrow> Inl e
                | Inr eps \<Rightarrow> Inr (SortByName sortSlice eps))))"

text \<open>
  \<open>ParseService\<close> writes an empty annotation map into the object it is given when that has none; the
  first component is the object afterwards.
\<close>

definition ensureAnnotations :: "Service \<Rightarrow> Service" where
  "ensureAnnotations s =
     (case om_Annotations (svc_meta s) of
        None \<Rightarrow> s\<lparr>svc_meta := (svc_meta s)\<lparr>om_Annotations := Some fmempty\<rparr>\<rparr>
      | Some _ \<Rightarrow> s)"

definition ParseService :: "k8sObject \<Rightarrow> k8sObject \<times> Service option" where
  "ParseService obj =
     (case obj of
        ServiceObject s \<Rightarrow>
          if ss_Type (svc_spec s) \<noteq> ServiceTypeClusterIP then (obj, None)
          else if om_Labels (svc_meta s) = fmempty then (obj, None)
          else (case fmlookup (om_Labels (svc_meta s)) DoguLabelName of
                  None \<Rightarrow> (obj, None)
                | Some _ \<Rightarrow> let s' = ensureAnnotations s in (ServiceObject s', Some s'))
      | _ \<Rightarrow> (obj, None))"

subsection \<open>Lemmas\<close>

lemma sint_ucast_small:
  assumes "0 \<le> sint (i :: int64)" and "sint i \<le> maxInt32"
  shows "sint (ucast i :: int32) = sint i"
proof -
  have "(ucast i :: int32) = word_of_int (sint i)"
    by (simp only: ucast_eq uint_sint word_of_int_eq_iff) simp
  then have "sint (ucast i :: int32) = signed_take_bit 31 (sint i)"
    by (simp only: sint_sbintrunc') simp
  also have "\<dots> = sint i"
    using assms by (simp add: signed_take_bit_int_eq_self maxInt32_def)
  finally show ?thesis .
qed

lemma mapPortInt_iff:
  "mapPortInt i = Inr p \<longleftrightarrow> 0 \<le> sint i \<and> sint i \<le> maxInt32 \<and> sint p = sint i"
proof
  assume "mapPortInt i = Inr p"
  then show "0 \<le> sint i \<and> sint i \<le> maxInt32 \<and> sint p = sint i"
    by (auto simp: mapPortInt_def sint_ucast_small split: if_splits)
next
  assume *: "0 \<le> sint i \<and> sint i \<le> maxInt32 \<and> sint p = sint i"
  then have "sint (ucast i :: int32) = sint p" by (simp add: sint_ucast_small)
  then have "(ucast i :: int32) = p" by (simp only: sint_inj32)
  with * show "mapPortInt i = Inr p" by (simp add: mapPortInt_def)
qed

text \<open>What an annotation entry must satisfy, and the port it stands for.\<close>

definition validDTO :: "ServiceExposedPortDTO \<Rightarrow> bool" where
  "validDTO d \<longleftrightarrow>
     0 \<le> sint (dto_Port d) \<and> sint (dto_Port d) \<le> maxInt32 \<and>
     0 \<le> sint (dto_TargetPort d) \<and> sint (dto_TargetPort d) \<le> maxInt32 \<and>
     toUpper (dto_Protocol d) \<in> {ProtocolTCP, ProtocolUDP, ProtocolSCTP}"

definition portOfDTO :: "string \<Rightarrow> ServiceExposedPortDTO \<Rightarrow> ExposedPort" where
  "portOfDTO svcName d =
     \<lparr>ep_Name = svcName @ ''-'' @ showInt (sint (dto_Port d)), ep_ServiceName = svcName,
      ep_Protocol = toUpper (dto_Protocol d), ep_Port = ucast (dto_Port d),
      ep_TargetPort = ucast (dto_TargetPort d), ep_nodePort = 0\<rparr>"

lemma mapPortInt_cases:
  "mapPortInt i =
     (if 0 \<le> sint i \<and> sint i \<le> maxInt32 then Inr (ucast i)
      else Inl (if sint i < 0 then Msg ''number is negative''
                else Msg (''number is > '' @ showInt maxInt32)))"
  by (simp add: mapPortInt_def)

lemma mapServiceExposedPort_iff:
  "mapServiceExposedPort n d = Inr ep \<longleftrightarrow> validDTO d \<and> ep = portOfDTO n d"
  by (auto simp: mapServiceExposedPort_def mapPortInt_cases validDTO_def portOfDTO_def Let_def)

lemma mapServiceExposedPorts_iff:
  "mapServiceExposedPorts n ds acc = Inr eps \<longleftrightarrow>
     list_all validDTO ds \<and> eps = acc @ map (portOfDTO n) ds"
proof (induction ds arbitrary: acc)
  case Nil
  then show ?case by auto
next
  case (Cons d ds)
  show ?case
  proof (cases "mapServiceExposedPort n d")
    case (Inl e)
    then have "\<not> validDTO d" using mapServiceExposedPort_iff [of n d] by auto
    with Inl show ?thesis by simp
  next
    case (Inr ep)
    then have "validDTO d" and "ep = portOfDTO n d"
      by (simp_all add: mapServiceExposedPort_iff)
    with Inr Cons show ?thesis by simp
  qed
qed

text \<open>Well-formed exposed ports: what the annotation of a dogu service can produce.\<close>

definition wf_exposedPort :: "ExposedPort \<Rightarrow> bool" where
  "wf_exposedPort ep \<longleftrightarrow>
     0 \<le> sint (ep_Port ep) \<and> 0 \<le> sint (ep_TargetPort ep) \<and>
     ep_Protocol ep \<in> {ProtocolTCP, ProtocolUDP, ProtocolSCTP} \<and>
     ep_Name ep = ep_ServiceName ep @ ''-'' @ PortString ep \<and> ep_nodePort ep = 0"

lemma wf_portOfDTO: "validDTO d \<Longrightarrow> wf_exposedPort (portOfDTO n d)"
  by (auto simp: validDTO_def wf_exposedPort_def portOfDTO_def PortString_def sint_ucast_small)

lemma wf_name_eq_iff:
  assumes "wf_exposedPort a" and "wf_exposedPort b"
  shows "ep_Name a = ep_Name b \<longleftrightarrow> ep_ServiceName a = ep_ServiceName b \<and> ep_Port a = ep_Port b"
proof
  assume "ep_Name a = ep_Name b"
  then have "ep_ServiceName a @ CHR ''-'' # PortString a = ep_ServiceName b @ CHR ''-'' # PortString b"
    using assms by (simp add: wf_exposedPort_def)
  then have "ep_ServiceName a = ep_ServiceName b \<and> PortString a = PortString b"
    by (rule dash_suffix_unique)
      (use assms in \<open>auto simp: PortString_def wf_exposedPort_def showInt_nonneg_no_minus\<close>)
  then show "ep_ServiceName a = ep_ServiceName b \<and> ep_Port a = ep_Port b"
    by (simp add: PortString_def)
next
  assume "ep_ServiceName a = ep_ServiceName b \<and> ep_Port a = ep_Port b"
  then show "ep_Name a = ep_Name b"
    using assms by (simp add: wf_exposedPort_def PortString_def)
qed

lemma GetExposedPorts_cases:
  assumes "GetExposedPorts sortSlice unmarshal s = Inr eps"
  obtains (none) "\<not> HasExposedPorts s" and "eps = []"
  | (some) ann ds where "lookupNil (om_Annotations (svc_meta s)) exposedPortServiceAnnotation = Some ann"
      and "unmarshal ann = Inr ds" and "list_all validDTO ds"
      and "eps = SortByName sortSlice (map (portOfDTO (om_Name (svc_meta s))) ds)"
  using assms
  by (auto simp: GetExposedPorts_def HasExposedPorts_def mapServiceExposedPorts_iff
      split: option.splits sum.splits)

lemma GetExposedPorts_wf:
  assumes "slice_sort sortSlice" and "GetExposedPorts sortSlice unmarshal s = Inr eps"
    and "ep \<in> set eps"
  shows "wf_exposedPort ep \<and> ep_ServiceName ep = om_Name (svc_meta s)"
  using assms(2)
proof (cases rule: GetExposedPorts_cases)
  case none
  with assms(3) show ?thesis by simp
next
  case (some ann ds)
  with assms(1,3) show ?thesis
    by (auto simp: list_all_iff intro: wf_portOfDTO) (simp add: portOfDTO_def)
qed

lemma GetExposedPorts_sorted:
  assumes "slice_sort sortSlice" and "GetExposedPorts sortSlice unmarshal s = Inr eps"
  shows "sorted (map ep_Name eps)"
  using assms(2) by (cases rule: GetExposedPorts_cases) (simp_all add: SortByName_spec [OF assms(1)])

lemma ParseService_Some_iff:
  "snd (ParseService obj) = Some s' \<longleftrightarrow>
     (\<exists>s. obj = ServiceObject s \<and> ss_Type (svc_spec s) = ServiceTypeClusterIP \<and>
          fmlookup (om_Labels (svc_meta s)) DoguLabelName \<noteq> None \<and> s' = ensureAnnotations s)"
  by (cases obj) (auto simp: ParseService_def Let_def split: option.splits)

lemma ensureAnnotations_props [simp]:
  "om_Annotations (svc_meta (ensureAnnotations s)) \<noteq> None"
  "lookupNil (om_Annotations (svc_meta (ensureAnnotations s))) k =
     lookupNil (om_Annotations (svc_meta s)) k"
  "om_Name (svc_meta (ensureAnnotations s)) = om_Name (svc_meta s)"
  "svc_spec (ensureAnnotations s) = svc_spec s"
  by (auto simp: ensureAnnotations_def split: option.splits)

lemma HasExposedPorts_ensureAnnotations [simp]:
  "HasExposedPorts (ensureAnnotations s) = HasExposedPorts s"
  by (simp add: HasExposedPorts_def)

lemma GetExposedPorts_ensureAnnotations [simp]:
  "GetExposedPorts sortSlice unmarshal (ensureAnnotations s) = GetExposedPorts sortSlice unmarshal s"
  by (simp add: GetExposedPorts_def cong: option.case_cong sum.case_cong)


subsection \<open>Properties\<close>

text \<open>
  Property C35. An entry of the exposed ports annotation is accepted exactly when both ports lie in
  the range of a non-negative \<open>int32\<close> and the protocol is TCP, UDP or SCTP in any letter case; the
  port that results carries the numbers of the entry unchanged (no wrap-around in the conversion
  from \<open>int\<close> to \<open>int32\<close>), the protocol in upper case, and the name \<open><service>-<port>\<close>.
\<close>

theorem exposed_port_entry_accepted:
  "mapServiceExposedPort svcName d = Inr ep \<longleftrightarrow>
     validDTO d \<and>
     ep_Name ep = svcName @ ''-'' @ showInt (sint (dto_Port d)) \<and>
     ep_ServiceName ep = svcName \<and> ep_Protocol ep = toUpper (dto_Protocol d) \<and>
     sint (ep_Port ep) = sint (dto_Port d) \<and> sint (ep_TargetPort ep) = sint (dto_TargetPort d) \<and>
     ep_nodePort ep = 0"
  (is "?acc \<longleftrightarrow> validDTO d \<and> ?same")
proof (cases "validDTO d")
  case False
  then show ?thesis by (simp add: mapServiceExposedPort_iff)
next
  case True
  then have conv: "sint (ucast (dto_Port d) :: int32) = sint (dto_Port d)"
    "sint (ucast (dto_TargetPort d) :: int32) = sint (dto_TargetPort d)"
    by (simp_all add: validDTO_def sint_ucast_small)
  have "ep = portOfDTO svcName d \<longleftrightarrow> ?same"
  proof
    assume "ep = portOfDTO svcName d"
    then show ?same by (simp add: portOfDTO_def conv)
  next
    assume same: ?same
    then have "ep_Port ep = ucast (dto_Port d)" "ep_TargetPort ep = ucast (dto_TargetPort d)"
      by (simp_all only: sint_inj32 flip: conv)
    with same show "ep = portOfDTO svcName d"
      by (intro ExposedPort.equality) (simp_all add: portOfDTO_def)
  qed
  with True show ?thesis by (simp add: mapServiceExposedPort_iff)
qed

text \<open>
  Property C34. Reading the exposed ports of a service whose annotation decodes: the call succeeds
  exactly when every entry is valid, and then returns one port per entry, all of them well-formed
  ports of this service, sorted by name; otherwise it reports an error and no ports.
\<close>

theorem get_exposed_ports_correct:
  assumes "slice_sort sortSlice"
    and "lookupNil (om_Annotations (svc_meta s)) exposedPortServiceAnnotation = Some ann"
    and "unmarshal ann = Inr ds"
  shows "if list_all validDTO ds
    then \<exists>eps. GetExposedPorts sortSlice unmarshal s = Inr eps \<and>
           mset eps = image_mset (portOfDTO (om_Name (svc_meta s))) (mset ds) \<and>
           sorted (map ep_Name eps) \<and>
           list_all (\<lambda>ep. wf_exposedPort ep \<and> ep_ServiceName ep = om_Name (svc_meta s)) eps
    else \<exists>e. GetExposedPorts sortSlice unmarshal s = Inl e"
proof (cases "list_all validDTO ds")
  case True
  let ?eps = "SortByName sortSlice (map (portOfDTO (om_Name (svc_meta s))) ds)"
  have get: "GetExposedPorts sortSlice unmarshal s = Inr ?eps"
    using assms(2,3) True mapServiceExposedPorts_iff
      [of "om_Name (svc_meta s)" ds "[]" "map (portOfDTO (om_Name (svc_meta s))) ds"]
    by (simp add: GetExposedPorts_def)
  have "list_all (\<lambda>ep. wf_exposedPort ep \<and> ep_ServiceName ep = om_Name (svc_meta s)) ?eps"
    using GetExposedPorts_wf [OF assms(1) get] by (simp add: list_all_iff)
  with True get show ?thesis
    using SortByName_spec [OF assms(1), of "map (portOfDTO (om_Name (svc_meta s))) ds"] by simp
next
  case False
  with assms(2,3) show ?thesis
    using mapServiceExposedPorts_iff [of "om_Name (svc_meta s)" ds "[]"]
    by (auto simp: GetExposedPorts_def split: sum.split)
qed

definition exampleDTOs :: "ServiceExposedPortDTO list" where
  "exampleDTOs =
     [\<lparr>dto_Protocol = ''udp'', dto_Port = 53, dto_TargetPort = 5353\<rparr>,
      \<lparr>dto_Protocol = ''tcp'', dto_Port = 2222, dto_TargetPort = 22\<rparr>]"

definition exampleDoguService :: Service where
  "exampleDoguService = emptyService
     \<lparr>svc_meta := emptyMeta\<lparr>om_Name := ''scm'',
        om_Labels := fmap_of_list [(DoguLabelName, ''scm'')],
        om_Annotations := Some (fmap_of_list [(exposedPortServiceAnnotation, ''x'')])\<rparr>,
      svc_spec := (svc_spec emptyService)\<lparr>ss_Type := ServiceTypeClusterIP\<rparr>\<rparr>"

lemma toUpper_examples [simp]:
  "toUpper ''udp'' = ProtocolUDP" "toUpper ''tcp'' = ProtocolTCP"
  by (code_simp, code_simp)

theorem get_exposed_ports_correct_witness:
  "\<exists>eps. GetExposedPorts insertionSort (\<lambda>_. Inr exampleDTOs) exampleDoguService = Inr eps \<and>
     mset eps = image_mset (portOfDTO ''scm'') (mset exampleDTOs) \<and> sorted (map ep_Name eps)"
proof -
  have "list_all validDTO exampleDTOs"
    by (simp add: exampleDTOs_def validDTO_def maxInt32_def)
  then show ?thesis
    using get_exposed_ports_correct [OF ins.slice_sort_axioms, of exampleDoguService "''x''"
        "\<lambda>_. Inr exampleDTOs" exampleDTOs]
    by (auto simp: exampleDoguService_def emptyMeta_def)
qed

text \<open>
  Two accepted entries get the same port name exactly when they stand for the same
  port number of the same service.  The service name may hold dashes and digits: the name still
  tells services and ports apart.  The protocol does not enter, so one port exposed for TCP and
  for UDP gives two service ports of the same name.
\<close>

lemma exposed_port_names:
  assumes "mapServiceExposedPort svc1 d1 = Inr ep1" and "mapServiceExposedPort svc2 d2 = Inr ep2"
  shows "ep_Name ep1 = ep_Name ep2 \<longleftrightarrow> svc1 = svc2 \<and> dto_Port d1 = dto_Port d2"
proof -
  have v: "validDTO d1" "ep1 = portOfDTO svc1 d1" "validDTO d2" "ep2 = portOfDTO svc2 d2"
    using assms by (simp_all add: mapServiceExposedPort_iff)
  then have "ep_Name ep1 = ep_Name ep2 \<longleftrightarrow>
      svc1 = svc2 \<and> sint (ucast (dto_Port d1) :: int32) = sint (ucast (dto_Port d2) :: int32)"
    using wf_name_eq_iff [OF wf_portOfDTO [OF v(1), of svc1] wf_portOfDTO [OF v(3), of svc2]]
    by (simp add: portOfDTO_def)
  also have "\<dots> \<longleftrightarrow> svc1 = svc2 \<and> sint (dto_Port d1) = sint (dto_Port d2)"
    using v by (simp add: validDTO_def sint_ucast_small del: sint_inj32)
  finally show ?thesis by (simp add: signed_word_eqI flip: word_eq_iff_signed)
qed

lemma exposed_port_names_example:
  "\<exists>ep1 ep2.
     mapServiceExposedPort ''dns'' \<lparr>dto_Protocol = ''udp'', dto_Port = 53, dto_TargetPort = 53\<rparr> = Inr ep1 \<and>
     mapServiceExposedPort ''dns'' \<lparr>dto_Protocol = ''tcp'', dto_Port = 53, dto_TargetPort = 53\<rparr> = Inr ep2 \<and>
     ep_Name ep1 = ep_Name ep2"
proof -
  let ?d = "\<lambda>p. \<lparr>dto_Protocol = p, dto_Port = 53, dto_TargetPort = 53\<rparr>"
  have "mapServiceExposedPort ''dns'' (?d p) = Inr (portOfDTO ''dns'' (?d p))"
    if "p = ''udp'' \<or> p = ''tcp''" for p
    using that
    by (auto simp: mapServiceExposedPort_iff validDTO_def maxInt32_def)
  then have "mapServiceExposedPort ''dns'' (?d ''udp'') = Inr (portOfDTO ''dns'' (?d ''udp''))"
    and "mapServiceExposedPort ''dns'' (?d ''tcp'') = Inr (portOfDTO ''dns'' (?d ''tcp''))" by simp_all
  from this exposed_port_names [OF this] show ?thesis by auto
qed

end
