(* ===== verification/Load_Balancer.thy ===== *)
theory Load_Balancer
  imports Dogu_Service Util_Pkg
begin

section \<open>The load balancer service (internal/types/loadbalancer.go)\<close>

text \<open>
  The load balancer is a Kubernetes service under the operator's control.  Its annotations are a
  mix of annotations from the configuration, whose keys are listed in one managed annotation, and
  of annotations other parties set.  The decoder \<open>yaml.Unmarshal\<close> of the configuration is the
  argument \<open>unmarshal\<close>.

  \<open>ApplyConfig\<close> and \<open>CreateLoadBalancer\<close> store the address of their own copy of the
  configuration's traffic policy; that address is the argument \<open>a\<close>.
\<close>

subsection \<open>Model\<close>

definition loadbalancerConfigKey :: string where "loadbalancerConfigKey = ''config.yaml''"
definition LoadBalancerConfigName :: string where "LoadBalancerConfigName = ''ces-loadbalancer-config''"
definition LoadbalancerName :: string where "LoadbalancerName = ''ces-loadbalancer''"
definition configManagedAnnotationKey :: string where
  "configManagedAnnotationKey = ''k8s-service-discovery.cloudogu.com/configManagedKeys''"
definition configManagedAnnotationKeySeparator :: char where
  "configManagedAnnotationKeySeparator = CHR '';''"

record LoadbalancerConfig =
  lc_Annotations :: strmap
  lc_InternalTrafficPolicy :: string
  lc_ExternalTrafficPolicy :: string

definition ParseLoadbalancerConfig ::
  "(string \<Rightarrow> error + LoadbalancerConfig) \<Rightarrow> ConfigMap \<Rightarrow> error + LoadbalancerConfig" where
  "ParseLoadbalancerConfig unmarshal cm =
     (case unmarshal (case fmlookup (cm_Data cm) loadbalancerConfigKey of None \<Rightarrow> [] | Some t \<Rightarrow> t) of
        Inl e \<Rightarrow> Inl (Wrap ''failed to unmarshal loadbalancer from config map'' e)
      | Inr c0 \<Rightarrow>
          let c1 = (if lc_ExternalTrafficPolicy c0 = [] then
                      c0\<lparr>lc_ExternalTrafficPolicy := TrafficPolicyLocal\<rparr> else c0);
              c2 = (if lc_InternalTrafficPolicy c1 = [] then
                      c1\<lparr>lc_InternalTrafficPolicy := TrafficPolicyCluster\<rparr> else c1)
          in if lc_InternalTrafficPolicy c2 \<notin> {TrafficPolicyCluster, TrafficPolicyLocal} then
               Inl (Msg (''internalTrafficPolicy has invalid type '' @ lc_InternalTrafficPolicy c2))
             else if lc_ExternalTrafficPolicy c2 \<notin> {TrafficPolicyCluster, TrafficPolicyLocal} then
               Inl (Msg (''externalTrafficPolicy has invalid type '' @ lc_InternalTrafficPolicy c2))
             else Inr c2)"

type_synonym LoadBalancer = Service

definition createConfigAnnotations :: "strmap \<Rightarrow> strmap" where
  "createConfigAnnotations cfgAnnotations =
     fmupd configManagedAnnotationKey
       (joinStr [configManagedAnnotationKeySeparator] (sorted_list_of_fset (fmdom cfgAnnotations)))
       cfgAnnotations"

definition getConfigAnnotationKeys :: "strmap option \<Rightarrow> string list" where
  "getConfigAnnotationKeys lbAnnotations =
     (case lookupNil lbAnnotations configManagedAnnotationKey of
        None \<Rightarrow> []
      | Some keysStr \<Rightarrow> splitStr configManagedAnnotationKeySeparator keysStr)"

text \<open>Deleting from a \<open>nil\<close> map does nothing, inserting into one panics.\<close>

definition ApplyConfig :: "nat \<Rightarrow> LoadbalancerConfig \<Rightarrow> LoadBalancer \<Rightarrow> LoadBalancer outcome" where
  "ApplyConfig a cfg lb =
     (case om_Annotations (svc_meta lb) of
        None \<Rightarrow> Panic
      | Some ann \<Rightarrow>
          let deleted = fold fmdrop (getConfigAnnotationKeys (Some ann)) ann;
              newAnn = deleted ++\<^sub>f createConfigAnnotations (lc_Annotations cfg)
          in Ret (lb\<lparr>svc_meta := (svc_meta lb)\<lparr>om_Annotations := Some newAnn\<rparr>,
                     svc_spec := (svc_spec lb)
                       \<lparr>ss_ExternalTrafficPolicy := lc_ExternalTrafficPolicy cfg,
                        ss_InternalTrafficPolicy := Some (Ptr a (lc_InternalTrafficPolicy cfg))\<rparr>\<rparr>))"

definition UpdateExposedPorts ::
  "ExposedPort sorter \<Rightarrow> LoadBalancer \<Rightarrow> ExposedPorts \<Rightarrow> LoadBalancer \<times> ExposedPorts" where
  "UpdateExposedPorts sortSlice lb ports =
     (let ports1 = SetNodePorts ports (ss_Ports (svc_spec lb));
          (svcPorts, ports2) = ToServicePorts sortSlice ports1
      in (lb\<lparr>svc_spec := (svc_spec lb)\<lparr>ss_Ports := svcPorts\<rparr>\<rparr>, ports2))"

definition ToK8sService :: "LoadBalancer option \<Rightarrow> Service option" where
  "ToK8sService lb = (case lb of None \<Rightarrow> None | Some svc \<Rightarrow> Some svc)"

fun equalValues :: "strmap option \<Rightarrow> strmap option \<Rightarrow> string list \<Rightarrow> bool" where
  "equalValues m1 m2 [] = True"
| "equalValues m1 m2 (k # ks) =
     (case (lookupNil m1 k, lookupNil m2 k) of
        (Some v1, Some v2) \<Rightarrow> if v1 \<noteq> v2 then False else equalValues m1 m2 ks
      | (None, None) \<Rightarrow> equalValues m1 m2 ks
      | _ \<Rightarrow> False)"

definition equalAnnotations :: "LoadBalancer \<Rightarrow> strmap option \<Rightarrow> bool" where
  "equalAnnotations lb oAnn =
     (let lbConfigKeys = sort (getConfigAnnotationKeys (om_Annotations (svc_meta lb)));
          oConfigKeys = sort (getConfigAnnotationKeys oAnn)
      in if lbConfigKeys \<noteq> oConfigKeys then False
         else equalValues (om_Annotations (svc_meta lb)) oAnn lbConfigKeys)"

definition equalPorts :: "LoadBalancer \<Rightarrow> ServicePort list \<Rightarrow> bool" where
  "equalPorts lb oPorts \<longleftrightarrow>
     fset_of_list (map indexKeyOfServicePort (ss_Ports (svc_spec lb))) =
     fset_of_list (map indexKeyOfServicePort oPorts)"

text \<open>Go's \<open>==\<close> on pointers compares addresses.\<close>

fun ptrEq :: "'a ptr option \<Rightarrow> 'a ptr option \<Rightarrow> bool" where
  "ptrEq None None = True"
| "ptrEq (Some p) (Some q) = (addr p = addr q)"
| "ptrEq _ _ = False"

definition Equals_LoadBalancer :: "LoadBalancer \<Rightarrow> LoadBalancer \<Rightarrow> bool" where
  "Equals_LoadBalancer lb o1 =
     (if om_Name (svc_meta lb) \<noteq> om_Name (svc_meta o1) then False
      else if \<not> equalAnnotations lb (om_Annotations (svc_meta o1)) then False
      else if ss_ExternalTrafficPolicy (svc_spec lb) \<noteq> ss_ExternalTrafficPolicy (svc_spec o1) \<or>
              \<not> ptrEq (ss_InternalTrafficPolicy (svc_spec lb)) (ss_InternalTrafficPolicy (svc_spec o1))
      then False
      else equalPorts lb (ss_Ports (svc_spec o1)))"

text \<open>\<open>apiutil.GVKForObject\<close> with the scheme is the argument \<open>gvk\<close>.\<close>

definition GetOwnerReference ::
  "(Service option \<Rightarrow> error + string \<times> string) \<Rightarrow> LoadBalancer \<Rightarrow> error + OwnerReference" where
  "GetOwnerReference gvk lb =
     (case gvk (ToK8sService (Some lb)) of
        Inl e \<Rightarrow> Inl (Wrap ''failed to get GroupVersionKind for loadbalancer'' e)
      | Inr (groupVersion, kind) \<Rightarrow>
          Inr \<lparr>or_APIVersion = groupVersion, or_Kind = kind, or_Name = om_Name (svc_meta lb),
               or_UID = om_UID (svc_meta lb), or_Controller = Some False,
               or_BlockOwnerDeletion = None\<rparr>)"

definition ParseLoadBalancer :: "k8sObject \<Rightarrow> k8sObject \<times> LoadBalancer option" where
  "ParseLoadBalancer obj =
     (if getName obj \<noteq> LoadbalancerName then (obj, None)
      else (case obj of
              ServiceObject s \<Rightarrow>
                if ss_Type (svc_spec s) \<noteq> ServiceTypeLoadBalancer then (obj, None)
                else let s' = ensureAnnotations s in (ServiceObject s', Some s')
            | _ \<Rightarrow> (obj, None)))"

definition CreateLoadBalancer ::
  "nat \<Rightarrow> string \<Rightarrow> LoadbalancerConfig \<Rightarrow> ExposedPorts \<Rightarrow> strmap \<Rightarrow> LoadBalancer" where
  "CreateLoadBalancer a namespace cfg exposedPorts selector =
     emptyService
       \<lparr>svc_meta := emptyMeta
          \<lparr>om_Name := LoadbalancerName, om_Namespace := namespace, om_Labels := GetAppLabel,
           om_Annotations := Some (createConfigAnnotations (lc_Annotations cfg))\<rparr>,
        svc_spec := (svc_spec emptyService)
          \<lparr>ss_Type := ServiceTypeLoadBalancer,
           ss_IPFamilyPolicy := Some IPFamilyPolicySingleStack, ss_IPFamilies := [IPv4Protocol],
           ss_Selector := selector, ss_ExternalTrafficPolicy := lc_ExternalTrafficPolicy cfg,
           ss_InternalTrafficPolicy := Some (Ptr a (lc_InternalTrafficPolicy cfg)),
           ss_Ports := map ToServicePort exposedPorts\<rparr>\<rparr>"


subsection \<open>Parsing\<close>

lemma ParseLoadBalancer_Some_iff:
  "snd (ParseLoadBalancer obj) = Some lb \<longleftrightarrow>
     (\<exists>s. obj = ServiceObject s \<and> om_Name (svc_meta s) = LoadbalancerName \<and>
          ss_Type (svc_spec s) = ServiceTypeLoadBalancer \<and> lb = ensureAnnotations s)"
  by (cases obj) (auto simp: ParseLoadBalancer_def Let_def)

lemma ParseLoadBalancer_annotations:
  assumes "snd (ParseLoadBalancer obj) = Some lb"
  shows "\<exists>ann. om_Annotations (svc_meta lb) = Some ann"
  using assms ensureAnnotations_props(1)
  by (auto simp: ParseLoadBalancer_Some_iff simp del: ensureAnnotations_props)

subsection \<open>The managed annotation\<close>

lemma fmlookup_fold_fmdrop:
  "fmlookup (fold fmdrop ks m) k = (if k \<in> set ks then None else fmlookup m k)"
  by (induction ks arbitrary: m) auto

lemma set_config_keys [simp]: "set (sorted_list_of_fset (fmdom m)) = fmdom' m"
  by (simp add: sorted_list_of_fset.rep_eq fmdom'_alt_def)

lemma fmdom'_of_list: "fmdom' (fmap_of_list xs) = fst ` set xs"
  by (simp add: fmdom'_alt_def fset_of_list.rep_eq)

lemma fmdom'_empty_iff: "fmdom' m = {} \<longleftrightarrow> m = fmempty"
  by (metis fmap_ext fmdom'_empty fmdom'_notI fmdom'_notD fmempty_lookup empty_iff)

lemma createConfigAnnotations_lookup:
  "fmlookup (createConfigAnnotations m) k =
     (if k = configManagedAnnotationKey
      then Some (joinStr [configManagedAnnotationKeySeparator] (sorted_list_of_fset (fmdom m)))
      else fmlookup m k)"
  by (simp add: createConfigAnnotations_def)

text \<open>Keys that can be listed in the managed annotation: no separator in them.\<close>

definition listableKeys :: "strmap \<Rightarrow> bool" where
  "listableKeys m \<longleftrightarrow> (\<forall>k\<in>fmdom' m. configManagedAnnotationKeySeparator \<notin> set k)"

lemma managed_keys_created:
  assumes "listableKeys m"
  shows "getConfigAnnotationKeys (Some (createConfigAnnotations m)) =
    (if m = fmempty then [[]] else sorted_list_of_fset (fmdom m))"
proof (cases "m = fmempty")
  case True
  then show ?thesis
    by (simp add: getConfigAnnotationKeys_def createConfigAnnotations_lookup sorted_list_of_fset.rep_eq)
next
  case False
  then have "sorted_list_of_fset (fmdom m) \<noteq> []"
    using fmdom'_empty_iff [of m] by (metis list.set(1) set_config_keys)
  moreover have "\<forall>k\<in>set (sorted_list_of_fset (fmdom m)). configManagedAnnotationKeySeparator \<notin> set k"
    using assms by (simp add: listableKeys_def fmdom'_alt_def)
  ultimately show ?thesis
    using False
    by (simp add: getConfigAnnotationKeys_def createConfigAnnotations_lookup splitStr_joinStr)
qed

text \<open>The annotations \<open>ApplyConfig\<close> leaves, key by key.\<close>

definition appliedAnnotations :: "LoadbalancerConfig \<Rightarrow> strmap \<Rightarrow> strmap" where
  "appliedAnnotations cfg ann =
     fold fmdrop (getConfigAnnotationKeys (Some ann)) ann ++\<^sub>f
     createConfigAnnotations (lc_Annotations cfg)"

lemma appliedAnnotations_lookup:
  "fmlookup (appliedAnnotations cfg ann) k =
     (if k = configManagedAnnotationKey
      then Some (joinStr [configManagedAnnotationKeySeparator]
             (sorted_list_of_fset (fmdom (lc_Annotations cfg))))
      else if k \<in> fmdom' (lc_Annotations cfg) then fmlookup (lc_Annotations cfg) k
      else if k \<in> set (getConfigAnnotationKeys (Some ann)) then None
      else fmlookup ann k)"
  by (auto simp: appliedAnnotations_def createConfigAnnotations_def fmlookup_fold_fmdrop
      fmdom'_alt_def)

definition withConfig :: "nat \<Rightarrow> LoadbalancerConfig \<Rightarrow> strmap \<Rightarrow> LoadBalancer \<Rightarrow> LoadBalancer" where
  "withConfig a cfg ann lb =
     lb\<lparr>svc_meta := (svc_meta lb)\<lparr>om_Annotations := Some ann\<rparr>,
        svc_spec := (svc_spec lb)
          \<lparr>ss_ExternalTrafficPolicy := lc_ExternalTrafficPolicy cfg,
           ss_InternalTrafficPolicy := Some (Ptr a (lc_InternalTrafficPolicy cfg))\<rparr>\<rparr>"

lemma ApplyConfig_Some:
  "om_Annotations (svc_meta lb) = Some ann \<Longrightarrow>
     ApplyConfig a cfg lb = Ret (withConfig a cfg (appliedAnnotations cfg ann) lb)"
  by (simp add: ApplyConfig_def appliedAnnotations_def withConfig_def Let_def)

lemma getConfigAnnotationKeys_cong:
  "lookupNil m configManagedAnnotationKey = lookupNil n configManagedAnnotationKey \<Longrightarrow>
     getConfigAnnotationKeys m = getConfigAnnotationKeys n"
  by (simp add: getConfigAnnotationKeys_def)

lemma managed_keys_applied:
  "getConfigAnnotationKeys (Some (appliedAnnotations cfg ann)) =
     getConfigAnnotationKeys (Some (createConfigAnnotations (lc_Annotations cfg)))"
  by (rule getConfigAnnotationKeys_cong)
    (simp add: appliedAnnotations_lookup createConfigAnnotations_lookup)

lemma managed_keys_applied_set:
  assumes "listableKeys (lc_Annotations cfg)" and "k \<noteq> []"
  shows "k \<in> set (getConfigAnnotationKeys (Some (appliedAnnotations cfg ann))) \<longleftrightarrow>
    k \<in> fmdom' (lc_Annotations cfg)"
  using assms by (simp add: managed_keys_applied managed_keys_created fmdom'_alt_def)

text \<open>
  The second configuration replaces the first: keys of the first one that are not keys of the
  second are gone, whatever the order of the two, unless they were annotations of somebody else.
\<close>

lemma appliedAnnotations_replace:
  assumes "listableKeys (lc_Annotations cfg1)"
    and "fmlookup ann [] = None" and "[] \<notin> fmdom' (lc_Annotations cfg1)"
    and foreign: "\<And>k. k \<in> fmdom' (lc_Annotations cfg1) \<Longrightarrow> k \<noteq> configManagedAnnotationKey \<Longrightarrow>
      k \<in> set (getConfigAnnotationKeys (Some ann)) \<or> fmlookup ann k = None \<or>
      k \<in> fmdom' (lc_Annotations cfg2)"
  shows "appliedAnnotations cfg2 (appliedAnnotations cfg1 ann) = appliedAnnotations cfg2 ann"
proof (rule fmap_ext)
  fix k
  have managedNonempty: "configManagedAnnotationKey \<noteq> []"
    by (simp add: configManagedAnnotationKey_def)
  show "fmlookup (appliedAnnotations cfg2 (appliedAnnotations cfg1 ann)) k =
        fmlookup (appliedAnnotations cfg2 ann) k"
  proof (cases "k = []")
    case True
    with assms(2,3) managedNonempty show ?thesis
      by (auto simp: appliedAnnotations_lookup)
  next
    case False
    then show ?thesis
      using foreign [of k] managed_keys_applied_set [OF assms(1) False, of ann]
      by (auto simp: appliedAnnotations_lookup)
  qed
qed

lemma appliedAnnotations_idem:
  assumes "listableKeys (lc_Annotations cfg)" and "[] \<notin> fmdom' (lc_Annotations cfg)"
    and "fmlookup ann [] = None"
  shows "appliedAnnotations cfg (appliedAnnotations cfg ann) = appliedAnnotations cfg ann"
  by (rule appliedAnnotations_replace) (use assms in auto)


subsection \<open>Exposed ports\<close>

text \<open>
  The node port a service port gets: that of the last existing port with the same key, or the
  exposed port's own.
\<close>

definition nodePortFor :: "ServicePort list \<Rightarrow> ExposedPort \<Rightarrow> int32" where
  "nodePortFor old ep =
     (case find (\<lambda>p. indexKeyOfServicePort p = indexKeyOfExposedPort ep) (rev old) of
        Some p \<Rightarrow> sp_NodePort p | None \<Rightarrow> ep_nodePort ep)"

lemma SetNodePorts_map:
  "SetNodePorts eps old = map (\<lambda>ep. ep\<lparr>ep_nodePort := nodePortFor old ep\<rparr>) eps"
  by (auto simp: SetNodePorts_elem nodePortFor_def nodePortIndex_lookup split: option.split)

lemma ToServicePort_nodePort [simp]:
  "ToServicePort (ep\<lparr>ep_nodePort := n\<rparr>) = (ToServicePort ep)\<lparr>sp_NodePort := n\<rparr>"
  by (simp add: ToServicePort_def)

lemma UpdateExposedPorts_eq:
  "fst (UpdateExposedPorts sortSlice lb ports) =
     lb\<lparr>svc_spec := (svc_spec lb)\<lparr>ss_Ports :=
        map ToServicePort (SortByName sortSlice (SetNodePorts ports (ss_Ports (svc_spec lb))))\<rparr>\<rparr>"
  by (simp add: UpdateExposedPorts_def ToServicePorts_def Let_def)

lemma UpdateExposedPorts_mset:
  assumes "slice_sort sortSlice"
  shows "mset (ss_Ports (svc_spec (fst (UpdateExposedPorts sortSlice lb ports)))) =
    image_mset (\<lambda>ep. (ToServicePort ep)\<lparr>sp_NodePort := nodePortFor (ss_Ports (svc_spec lb)) ep\<rparr>)
      (mset ports)"
  by (simp add: UpdateExposedPorts_eq SortByName_spec(1) [OF assms] SetNodePorts_map
      image_mset.compositionality comp_def)

lemma SetNodePorts_forgets_own:
  assumes "\<And>ep. ep \<in> set ports \<Longrightarrow> indexKeyOfExposedPort ep \<in> indexKeyOfServicePort ` set old"
    and same: "mset (map (\<lambda>ep. ep\<lparr>ep_nodePort := 0\<rparr>) eps) = mset (map (\<lambda>ep. ep\<lparr>ep_nodePort := 0\<rparr>) ports)"
  shows "mset (SetNodePorts eps old) = mset (SetNodePorts ports old)"
proof -
  let ?g = "\<lambda>ep. ep\<lparr>ep_nodePort := nodePortFor old ep\<rparr>" and ?z = "\<lambda>ep. ep\<lparr>ep_nodePort := 0\<rparr>"
  have found: "nodePortFor old (?z ep) = nodePortFor old ep"
    if "indexKeyOfExposedPort ep \<in> indexKeyOfServicePort ` set old" for ep
    using that by (auto simp: nodePortFor_def find_None_iff split: option.split)
  have keys: "indexKeyOfExposedPort ep \<in> indexKeyOfServicePort ` set old" if "ep \<in> set eps" for ep
  proof -
    have "?z ep \<in> set (map ?z ports)"
      using same that by (metis image_eqI list.set_map mset_eq_setD)
    then obtain ep' where "ep' \<in> set ports" and "?z ep = ?z ep'" by auto
    then show ?thesis using assms(1) by (metis indexKey_nodePort)
  qed
  have "image_mset ?g (mset xs) = image_mset ?g (image_mset ?z (mset xs))"
    if "\<And>ep. ep \<in> set xs \<Longrightarrow> indexKeyOfExposedPort ep \<in> indexKeyOfServicePort ` set old" for xs
    using that by (auto simp: image_mset.compositionality comp_def found intro!: image_mset_cong)
  from this [of eps] this [of ports] show ?thesis
    using same keys assms(1) by (simp add: SetNodePorts_map)
qed

lemma UpdateExposedPorts_fixpoint:
  assumes sorter: "slice_sort sortSlice"
    and dist: "distinct (map ep_Name ports)" and ord: "sorted (map ep_Name eps)"
    and same: "mset (map (\<lambda>ep. ep\<lparr>ep_nodePort := 0\<rparr>) eps) = mset (map (\<lambda>ep. ep\<lparr>ep_nodePort := 0\<rparr>) ports)"
    and stored: "ss_Ports (svc_spec lb) = map (\<lambda>ep. (ToServicePort ep)\<lparr>sp_NodePort := f ep\<rparr>) eps"
  shows "fst (UpdateExposedPorts sortSlice lb ports) = lb"
proof -
  let ?z = "\<lambda>ep. ep\<lparr>ep_nodePort := 0\<rparr>" and ?st = "ss_Ports (svc_spec lb)"
  have "mset (map ep_Name (map ?z eps)) = mset (map ep_Name (map ?z ports))"
    using same by (metis mset_map)
  then have names: "mset (map ep_Name eps) = mset (map ep_Name ports)" by (simp add: comp_def)
  have "mset (map indexKeyOfExposedPort (map ?z eps)) = mset (map indexKeyOfExposedPort (map ?z ports))"
    using same by (metis mset_map)
  from mset_eq_setD [OF this]
  have keys: "indexKeyOfExposedPort ` set eps = indexKeyOfExposedPort ` set ports"
    by (simp add: image_image)
  have stkeys: "indexKeyOfServicePort ` set ?st = indexKeyOfExposedPort ` set eps"
    by (force simp: stored indexKeyOfServicePort_def indexKeyOfExposedPort_def ToServicePort_def)
  have deps: "distinct (map indexKeyOfExposedPort eps)"
    using dist names by (metis distinct_names_keys mset_eq_imp_distinct_iff)
  have "mset (SetNodePorts eps ?st) = mset (SetNodePorts ports ?st)"
    by (rule SetNodePorts_forgets_own) (use keys stkeys same in auto)
  moreover have "sorted (map ep_Name (SetNodePorts eps ?st))" using ord by simp
  ultimately have "SortByName sortSlice (SetNodePorts ports ?st) = SetNodePorts eps ?st"
    using SortByName_unique [OF sorter] dist by simp
  then have "map ToServicePort (SortByName sortSlice (SetNodePorts ports ?st)) = ?st"
    using SetNodePorts_restores [OF deps, of f] by (simp add: stored)
  then show ?thesis by (simp add: UpdateExposedPorts_eq)
qed


subsection \<open>Equality\<close>

lemma equalValues_iff:
  "equalValues m1 m2 ks \<longleftrightarrow> (\<forall>k\<in>set ks. lookupNil m1 k = lookupNil m2 k)"
  by (induction m1 m2 ks rule: equalValues.induct) (auto split: option.splits)

text \<open>The equality the comment on \<open>Equals\<close> describes: policies by value.\<close>

definition documentedEqual :: "LoadBalancer \<Rightarrow> LoadBalancer \<Rightarrow> bool" where
  "documentedEqual lb o1 \<longleftrightarrow>
     om_Name (svc_meta lb) = om_Name (svc_meta o1) \<and>
     mset (getConfigAnnotationKeys (om_Annotations (svc_meta lb))) =
       mset (getConfigAnnotationKeys (om_Annotations (svc_meta o1))) \<and>
     (\<forall>k\<in>set (getConfigAnnotationKeys (om_Annotations (svc_meta lb))).
        lookupNil (om_Annotations (svc_meta lb)) k = lookupNil (om_Annotations (svc_meta o1)) k) \<and>
     ss_ExternalTrafficPolicy (svc_spec lb) = ss_ExternalTrafficPolicy (svc_spec o1) \<and>
     map_option deref (ss_InternalTrafficPolicy (svc_spec lb)) =
       map_option deref (ss_InternalTrafficPolicy (svc_spec o1)) \<and>
     indexKeyOfServicePort ` set (ss_Ports (svc_spec lb)) =
       indexKeyOfServicePort ` set (ss_Ports (svc_spec o1))"

lemma equalAnnotations_iff:
  "equalAnnotations lb oAnn \<longleftrightarrow>
     mset (getConfigAnnotationKeys (om_Annotations (svc_meta lb))) =
       mset (getConfigAnnotationKeys oAnn) \<and>
     (\<forall>k\<in>set (getConfigAnnotationKeys (om_Annotations (svc_meta lb))).
        lookupNil (om_Annotations (svc_meta lb)) k = lookupNil oAnn k)"
  by (simp add: equalAnnotations_def Let_def equalValues_iff sort_eq_iff)

lemma equalPorts_iff:
  "equalPorts lb oPorts \<longleftrightarrow>
     indexKeyOfServicePort ` set (ss_Ports (svc_spec lb)) = indexKeyOfServicePort ` set oPorts"
  by (simp add: equalPorts_def fset_of_list.rep_eq flip: fset_inject)

text \<open>In a real heap, equal addresses hold equal values.\<close>

definition samePointee :: "'a ptr option \<Rightarrow> 'a ptr option \<Rightarrow> bool" where
  "samePointee p q \<longleftrightarrow> (\<forall>a b. p = Some a \<longrightarrow> q = Some b \<longrightarrow> addr a = addr b \<longrightarrow> deref a = deref b)"

lemma ptrEq_values: "ptrEq p q \<Longrightarrow> samePointee p q \<Longrightarrow> map_option deref p = map_option deref q"
  by (cases p; cases q) (auto simp: samePointee_def)

lemma Equals_LoadBalancer_iff:
  assumes "samePointee (ss_InternalTrafficPolicy (svc_spec lb)) (ss_InternalTrafficPolicy (svc_spec o1))"
  shows "Equals_LoadBalancer lb o1 \<longleftrightarrow> documentedEqual lb o1 \<and>
    ptrEq (ss_InternalTrafficPolicy (svc_spec lb)) (ss_InternalTrafficPolicy (svc_spec o1))"
  using ptrEq_values [OF _ assms]
  by (auto simp: Equals_LoadBalancer_def documentedEqual_def equalAnnotations_iff equalPorts_iff)


subsection \<open>Properties\<close>

text \<open>
  Property C36. A configuration is accepted exactly when it decodes and each of the two traffic
  policies is \<open>Cluster\<close>, \<open>Local\<close> or absent; an absent external policy becomes \<open>Local\<close>, an absent
  internal one \<open>Cluster\<close>, and the annotations are those of the config map.
\<close>

theorem parse_loadbalancer_config_accepts:
  "ParseLoadbalancerConfig unmarshal cm = Inr cfg \<longleftrightarrow>
     (\<exists>c0. unmarshal (case fmlookup (cm_Data cm) loadbalancerConfigKey of None \<Rightarrow> [] | Some t \<Rightarrow> t) = Inr c0 \<and>
        lc_InternalTrafficPolicy c0 \<in> {[], ''Cluster'', ''Local''} \<and>
        lc_ExternalTrafficPolicy c0 \<in> {[], ''Cluster'', ''Local''} \<and>
        lc_Annotations cfg = lc_Annotations c0 \<and>
        lc_InternalTrafficPolicy cfg =
          (if lc_InternalTrafficPolicy c0 = [] then ''Cluster'' else lc_InternalTrafficPolicy c0) \<and>
        lc_ExternalTrafficPolicy cfg =
          (if lc_ExternalTrafficPolicy c0 = [] then ''Local'' else lc_ExternalTrafficPolicy c0))"
proof (cases "unmarshal (case fmlookup (cm_Data cm) loadbalancerConfigKey of None \<Rightarrow> [] | Some t \<Rightarrow> t)")
  case (Inl e)
  then show ?thesis by (simp add: ParseLoadbalancerConfig_def)
next
  case (Inr c0)
  then show ?thesis
    by (cases c0; cases cfg) (auto simp: ParseLoadbalancerConfig_def Let_def kube_constants)
qed

text \<open>
  Property C32. \<open>ApplyConfig\<close> on a parsed load balancer never panics, and its effect on every
  annotation key is determined: the managed key lists the configuration's keys in order; a key of
  the configuration has its configured value; a key of the previous configuration that is not in
  the new one is gone; every other annotation stays.  Both traffic policies are the configured
  ones.  Every other field of the service, of its metadata and of its specification is the same.
\<close>

theorem apply_config_effect:
  assumes "snd (ParseLoadBalancer obj) = Some lb"
  shows "\<exists>lb' ann. ApplyConfig a cfg lb = Ret lb' \<and> om_Annotations (svc_meta lb') = Some ann \<and>
    (\<forall>k. fmlookup ann k =
       (if k = configManagedAnnotationKey
        then Some (joinStr '';'' (sorted_list_of_fset (fmdom (lc_Annotations cfg))))
        else if k \<in> fmdom' (lc_Annotations cfg) then fmlookup (lc_Annotations cfg) k
        else if k \<in> set (getConfigAnnotationKeys (om_Annotations (svc_meta lb))) then None
        else lookupNil (om_Annotations (svc_meta lb)) k)) \<and>
    ss_ExternalTrafficPolicy (svc_spec lb') = lc_ExternalTrafficPolicy cfg \<and>
    map_option deref (ss_InternalTrafficPolicy (svc_spec lb')) = Some (lc_InternalTrafficPolicy cfg) \<and>
    lb'\<lparr>svc_meta := (svc_meta lb')\<lparr>om_Annotations := om_Annotations (svc_meta lb)\<rparr>,
        svc_spec := (svc_spec lb')\<lparr>ss_ExternalTrafficPolicy := ss_ExternalTrafficPolicy (svc_spec lb),
          ss_InternalTrafficPolicy := ss_InternalTrafficPolicy (svc_spec lb)\<rparr>\<rparr> = lb"
proof -
  obtain ann where ann: "om_Annotations (svc_meta lb) = Some ann"
    using assms ParseLoadBalancer_annotations by blast
  show ?thesis
    by (intro exI [of _ "withConfig a cfg (appliedAnnotations cfg ann) lb"]
          exI [of _ "appliedAnnotations cfg ann"])
      (simp add: ApplyConfig_Some [OF ann] withConfig_def appliedAnnotations_lookup ann
        configManagedAnnotationKeySeparator_def)
qed

definition exampleConfig :: LoadbalancerConfig where
  "exampleConfig =
     \<lparr>lc_Annotations = fmap_of_list [(''a'', ''1''), (''b'', ''2'')],
      lc_InternalTrafficPolicy = ''Cluster'', lc_ExternalTrafficPolicy = ''Local''\<rparr>"

definition exampleLoadBalancer :: LoadBalancer where
  "exampleLoadBalancer = CreateLoadBalancer 7 ''ecosystem'' exampleConfig CreateDefaultPorts fmempty"

lemma ParseLoadBalancer_example:
  "snd (ParseLoadBalancer (ServiceObject exampleLoadBalancer)) = Some exampleLoadBalancer"
  by (simp add: exampleLoadBalancer_def CreateLoadBalancer_def ParseLoadBalancer_def
      ensureAnnotations_def emptyService_def emptyMeta_def Let_def)

theorem apply_config_effect_witness:
  "\<exists>lb'. ApplyConfig 8 (exampleConfig\<lparr>lc_Annotations := fmap_of_list [(''b'', ''3'')]\<rparr>)
       exampleLoadBalancer = Ret lb' \<and>
     lookupNil (om_Annotations (svc_meta lb')) ''b'' = Some ''3''"
  using apply_config_effect [OF ParseLoadBalancer_example, of 8
      "exampleConfig\<lparr>lc_Annotations := fmap_of_list [(''b'', ''3'')]\<rparr>"]
  by (fastforce simp: configManagedAnnotationKey_def fmdom'_of_list)

text \<open>
  Property C31. A later configuration replaces an earlier one: applying the first and then the
  second leaves the same load balancer as applying the second alone.  This holds where the keys of
  the first can be listed in the managed annotation (they are not empty and hold no separator) and
  where none of them overwrote an annotation of another party, one that was there before and was not
  managed, unless the second configuration sets it too; such an annotation is lost with the second
  configuration.
\<close>

theorem apply_config_replaces:
  assumes "snd (ParseLoadBalancer obj) = Some lb"
    and "listableKeys (lc_Annotations cfg1)" and "[] \<notin> fmdom' (lc_Annotations cfg1)"
    and "lookupNil (om_Annotations (svc_meta lb)) [] = None"
    and "\<And>k. k \<in> fmdom' (lc_Annotations cfg1) \<Longrightarrow> k \<noteq> configManagedAnnotationKey \<Longrightarrow>
      k \<in> set (getConfigAnnotationKeys (om_Annotations (svc_meta lb))) \<or>
      lookupNil (om_Annotations (svc_meta lb)) k = None \<or> k \<in> fmdom' (lc_Annotations cfg2)"
  shows "\<exists>lb1. ApplyConfig a1 cfg1 lb = Ret lb1 \<and> ApplyConfig a2 cfg2 lb1 = ApplyConfig a2 cfg2 lb"
proof -
  obtain ann where ann: "om_Annotations (svc_meta lb) = Some ann"
    using assms(1) ParseLoadBalancer_annotations by blast
  define lb1 where "lb1 = withConfig a1 cfg1 (appliedAnnotations cfg1 ann) lb"
  have "om_Annotations (svc_meta lb1) = Some (appliedAnnotations cfg1 ann)"
    by (simp add: lb1_def withConfig_def)
  then have "ApplyConfig a2 cfg2 lb1 =
      Ret (withConfig a2 cfg2 (appliedAnnotations cfg2 (appliedAnnotations cfg1 ann)) lb1)"
    by (rule ApplyConfig_Some)
  also have "appliedAnnotations cfg2 (appliedAnnotations cfg1 ann) = appliedAnnotations cfg2 ann"
    by (rule appliedAnnotations_replace) (use assms ann in auto)
  finally show ?thesis
    by (intro exI [of _ lb1]) (simp add: ApplyConfig_Some [OF ann] lb1_def withConfig_def)
qed

theorem apply_config_replaces_witness:
  "\<exists>lb1. ApplyConfig 8 exampleConfig exampleLoadBalancer = Ret lb1 \<and>
     ApplyConfig 9 (exampleConfig\<lparr>lc_Annotations := fmempty\<rparr>) lb1 =
     ApplyConfig 9 (exampleConfig\<lparr>lc_Annotations := fmempty\<rparr>) exampleLoadBalancer"
proof (rule apply_config_replaces [OF ParseLoadBalancer_example])
  have ann: "om_Annotations (svc_meta exampleLoadBalancer) =
      Some (createConfigAnnotations (lc_Annotations exampleConfig))"
    by (simp add: exampleLoadBalancer_def CreateLoadBalancer_def)
  show l: "listableKeys (lc_Annotations exampleConfig)"
    by (simp add: listableKeys_def exampleConfig_def fmdom'_of_list
        configManagedAnnotationKeySeparator_def)
  show "[] \<notin> fmdom' (lc_Annotations exampleConfig)"
    by (simp add: exampleConfig_def fmdom'_of_list)
  show "lookupNil (om_Annotations (svc_meta exampleLoadBalancer)) [] = None"
    by (simp add: ann createConfigAnnotations_lookup exampleConfig_def configManagedAnnotationKey_def
        fmlookup_of_list)
  show "k \<in> set (getConfigAnnotationKeys (om_Annotations (svc_meta exampleLoadBalancer))) \<or>
      lookupNil (om_Annotations (svc_meta exampleLoadBalancer)) k = None \<or>
      k \<in> fmdom' (lc_Annotations (exampleConfig\<lparr>lc_Annotations := fmempty\<rparr>))"
    if "k \<in> fmdom' (lc_Annotations exampleConfig)" for k
    using that managed_keys_created [OF l] by (auto simp: ann fmdom'_alt_def)
qed

text \<open>
  Property C33. Updating the ports of a load balancer: the new ports are exactly the exposed ports,
  sorted by name, and a port that the load balancer already had (same name, protocol, port and
  target port) keeps its node port, a new one keeps the node port it came with.
\<close>

theorem update_exposed_ports_keeps_node_ports:
  assumes "slice_sort sortSlice"
  shows "mset (ss_Ports (svc_spec (fst (UpdateExposedPorts sortSlice lb ports)))) =
      image_mset (\<lambda>ep. (ToServicePort ep)\<lparr>sp_NodePort :=
        (case find (\<lambda>p. indexKeyOfServicePort p = indexKeyOfExposedPort ep) (rev (ss_Ports (svc_spec lb))) of
           Some p \<Rightarrow> sp_NodePort p | None \<Rightarrow> ep_nodePort ep)\<rparr>) (mset ports) \<and>
    sorted (map sp_Name (ss_Ports (svc_spec (fst (UpdateExposedPorts sortSlice lb ports)))))"
  using UpdateExposedPorts_mset [OF assms, of lb ports]
    SortByName_spec(2) [OF assms, of "SetNodePorts ports (ss_Ports (svc_spec lb))"]
  by (simp add: nodePortFor_def UpdateExposedPorts_eq comp_def ToServicePort_def)

theorem update_exposed_ports_keeps_node_ports_witness:
  "sorted (map sp_Name (ss_Ports (svc_spec
     (fst (UpdateExposedPorts insertionSort exampleLoadBalancer CreateDefaultPorts)))))"
  using update_exposed_ports_keeps_node_ports [OF ins.slice_sort_axioms,
      of exampleLoadBalancer CreateDefaultPorts] by blast

text \<open>
  Property C40. What \<open>Equals\<close> decides.  Where the two pointers to an internal traffic policy are
  consistent with the heap, two load balancers are equal exactly when their names, the managed
  annotation keys and their values, the external policies and the sets of port keys agree, and the
  internal policies are the same pointer (or both absent).
\<close>

theorem loadbalancer_equals_decides:
  assumes "samePointee (ss_InternalTrafficPolicy (svc_spec lb)) (ss_InternalTrafficPolicy (svc_spec o1))"
  shows "Equals_LoadBalancer lb o1 \<longleftrightarrow> documentedEqual lb o1 \<and>
    map_option addr (ss_InternalTrafficPolicy (svc_spec lb)) =
    map_option addr (ss_InternalTrafficPolicy (svc_spec o1))"
  using Equals_LoadBalancer_iff [OF assms]
  by (cases "ss_InternalTrafficPolicy (svc_spec lb)"; cases "ss_InternalTrafficPolicy (svc_spec o1)") auto

theorem loadbalancer_equals_decides_witness:
  "Equals_LoadBalancer exampleLoadBalancer exampleLoadBalancer"
  using loadbalancer_equals_decides [of exampleLoadBalancer exampleLoadBalancer]
  by (simp add: samePointee_def documentedEqual_def)

text \<open>
  \<open>Equals\<close> compares the internal traffic policies as pointers: applying one
  configuration to one load balancer twice gives two load balancers that agree in everything the
  comment of \<open>Equals\<close> lists and that are nevertheless not equal, as soon as the two calls allocate
  different addresses.
\<close>

lemma loadbalancer_equals_compares_pointers:
  assumes "snd (ParseLoadBalancer obj) = Some lb" and "a1 \<noteq> a2"
    and "ApplyConfig a1 cfg lb = Ret lb1" and "ApplyConfig a2 cfg lb = Ret lb2"
  shows "documentedEqual lb1 lb2 \<and> \<not> Equals_LoadBalancer lb1 lb2"
proof -
  obtain ann where "om_Annotations (svc_meta lb) = Some ann"
    using assms(1) ParseLoadBalancer_annotations by blast
  with assms(3,4) have lbs: "lb1 = withConfig a1 cfg (appliedAnnotations cfg ann) lb"
    "lb2 = withConfig a2 cfg (appliedAnnotations cfg ann) lb"
    by (auto simp: ApplyConfig_Some)
  show ?thesis
    using assms(2) by (simp add: lbs withConfig_def documentedEqual_def Equals_LoadBalancer_def)
qed

lemma loadbalancer_equals_compares_pointers_example:
  "\<exists>lb1 lb2. ApplyConfig 8 exampleConfig exampleLoadBalancer = Ret lb1 \<and>
     ApplyConfig 9 exampleConfig exampleLoadBalancer = Ret lb2 \<and>
     documentedEqual lb1 lb2 \<and> \<not> Equals_LoadBalancer lb1 lb2"
proof -
  obtain ann where ann: "om_Annotations (svc_meta exampleLoadBalancer) = Some ann"
    using ParseLoadBalancer_annotations [OF ParseLoadBalancer_example] by blast
  show ?thesis
    using loadbalancer_equals_compares_pointers [OF ParseLoadBalancer_example, of 8 9 exampleConfig]
    by (simp add: ApplyConfig_Some [OF ann])
qed

end
