(* ===== verification/Lb_Controller.thy ===== *)
theory Lb_Controller
  imports Load_Balancer Traefik
begin

section \<open>The load balancer reconciler (controllers/loadbalancerController.go)\<close>

text \<open>
  One reconcile reads the configuration from its config map, collects the exposed ports of all
  dogu services, creates or updates the service \<open>ces-loadbalancer\<close> and hands the dogu ports to the
  ingress controller.  The record \<open>IngressController\<close> is the interface the reconcilers see
  (controllers/interfaces.go); \<open>asIngressController\<close> is the Traefik controller behind it.

  External code is an argument: \<open>libs\<close> holds \<open>sort.Slice\<close> and the two decoders; the fields of the
  reconciler hold the client calls, among them a list call by field index that takes the index
  function, and \<open>ctrl.SetControllerReference\<close>.  Addresses of fresh pointers are the argument \<open>a\<close>.
\<close>

subsection \<open>Model\<close>

type_synonym 'w AlternativeFQDNRedirector =
  "string \<Rightarrow> string \<Rightarrow> string \<Rightarrow> AlternativeFQDN list \<Rightarrow> ownerSetter \<Rightarrow> ('w, unit) io"

record 'w IngressController =
  ic_GetSelector :: strmap
  ic_ExposePorts :: "string \<Rightarrow> ExposedPorts \<Rightarrow> ('w, unit) io"
  ic_RedirectAlternativeFQDN :: "'w AlternativeFQDNRedirector"

definition asIngressController :: "mapOrder \<Rightarrow> 'w TraefikController \<Rightarrow> 'w IngressController" where
  "asIngressController ord c =
     \<lparr>ic_GetSelector = GetSelector c,
      ic_ExposePorts = ExposePorts (tc_PortExposer c),
      ic_RedirectAlternativeFQDN = RedirectAlternativeFQDN ord (tc_IngressRedirector c)\<rparr>"

record libraries =
  lib_sortSlice :: "ExposedPort sorter"
  lib_unmarshalConfig :: "string \<Rightarrow> error + LoadbalancerConfig"
  lib_unmarshalPorts :: "string \<Rightarrow> error + ServiceExposedPortDTO list"

record 'w LoadBalancerReconciler =
  lr_GetConfigMap :: "string \<times> string \<Rightarrow> ('w, ConfigMap) io"
  lr_ListIndexed :: "(k8sObject \<Rightarrow> string list) \<Rightarrow> string \<Rightarrow> ('w, Service list) io"
  lr_SetControllerReference :: "ConfigMap \<Rightarrow> ownerSetter"
  lr_IngressController :: "'w IngressController"
  lr_SvcClient :: "'w serviceInterface"

text \<open>
  The object as \<open>ParseService\<close> leaves it comes first.
\<close>

definition isExposedPortService :: "k8sObject \<Rightarrow> k8sObject \<times> bool" where
  "isExposedPortService obj =
     (case ParseService obj of
        (obj', None) \<Rightarrow> (obj', False)
      | (obj', Some doguService) \<Rightarrow> (obj', HasExposedPorts doguService))"

text \<open>The index function that \<open>createExposedServiceIndex\<close> registers.\<close>

definition createExposedServiceIndex :: "k8sObject \<Rightarrow> string list" where
  "createExposedServiceIndex object =
     (if \<not> snd (isExposedPortService object) then [] else [''true''])"

definition getExposedServices :: "'w LoadBalancerReconciler \<Rightarrow> ('w, Service list) io" where
  "getExposedServices r =
     wrapErr ''failed to list exposed services'' (lr_ListIndexed r createExposedServiceIndex ''true'')"

fun appendExposedPorts ::
  "libraries \<Rightarrow> Service list \<Rightarrow> ExposedPorts \<Rightarrow> error + ExposedPorts" where
  "appendExposedPorts libs [] acc = Inr acc"
| "appendExposedPorts libs (service # services) acc =
     (case GetExposedPorts (lib_sortSlice libs) (lib_unmarshalPorts libs) service of
        Inl err \<Rightarrow> Inl (Wrap (''failed to get exposed ports from service '' @ om_Name (svc_meta service)) err)
      | Inr serviceExposedPorts \<Rightarrow> appendExposedPorts libs services (acc @ serviceExposedPorts))"

definition getExposedDoguPorts :: "libraries \<Rightarrow> Service list \<Rightarrow> error + ExposedPorts" where
  "getExposedDoguPorts libs services =
     (case appendExposedPorts libs services [] of
        Inl err \<Rightarrow> Inl err
      | Inr exposedDoguPorts \<Rightarrow> Inr (SortByName (lib_sortSlice libs) exposedDoguPorts))"

text \<open>
  \<open>slices.DeleteFunc\<close> works on the array of its argument: the second component is what the
  caller's slice holds afterwards.
\<close>

definition createLoadBalancerExposedPorts ::
  "libraries \<Rightarrow> ExposedPorts \<Rightarrow> ExposedPorts \<times> ExposedPorts" where
  "createLoadBalancerExposedPorts libs doguPorts =
     (let (kept, caller) = deleteFunc zeroExposedPort doguPorts (\<lambda>port. ep_Port port = 80 \<or> ep_Port port = 443)
      in (SortByName (lib_sortSlice libs) (CreateDefaultPorts @ kept), caller))"

definition setOwnerReference :: "ownerSetter \<Rightarrow> Service \<Rightarrow> Service" where
  "setOwnerReference setReference s =
     (case setReference (svc_meta s) of Inl _ \<Rightarrow> s | Inr m \<Rightarrow> s\<lparr>svc_meta := m\<rparr>)"

definition upsertLoadBalancer ::
  "libraries \<Rightarrow> nat \<Rightarrow> 'w LoadBalancerReconciler \<Rightarrow> string \<Rightarrow> LoadbalancerConfig \<Rightarrow> ExposedPorts
     \<Rightarrow> (Service \<Rightarrow> Service) \<Rightarrow> ('w, unit) io" where
  "upsertLoadBalancer libs a r namespace cfg exposedPorts setOwner =
     onErr (c_get (lr_SvcClient r) LoadbalancerName)
       (\<lambda>err. if \<not> isNotFound err then fail (Wrap ''failed to get service for loadbalancer'' err)
              else
                let newLB = CreateLoadBalancer a namespace cfg exposedPorts
                      (ic_GetSelector (lr_IngressController r))
                in onErr (c_create (lr_SvcClient r) (setOwner newLB))
                     (\<lambda>cErr. fail (Wrap ''failed to create new loadbalancer service'' cErr))
                     (\<lambda>_. ret ()))
       (\<lambda>lbObj.
          case snd (ParseLoadBalancer (ServiceObject lbObj)) of
            None \<Rightarrow> fail (Msg ''could not parse existing service to LoadBalancer because of unkown type *v1.Service'')
          | Some lb \<Rightarrow>
              (case ApplyConfig a cfg lb of
                 Panic \<Rightarrow> panic
               | Fail e \<Rightarrow> fail e
               | Ret lb1 \<Rightarrow>
                   let lb2 = fst (UpdateExposedPorts (lib_sortSlice libs) lb1 exposedPorts)
                   in onErr (c_update (lr_SvcClient r) (setOwner lb2))
                        (\<lambda>uErr. fail (Wrap ''failed to update existing loadbalancer'' uErr))
                        (\<lambda>_. ret ())))"

definition Reconcile_LoadBalancer ::
  "libraries \<Rightarrow> nat \<Rightarrow> 'w LoadBalancerReconciler \<Rightarrow> string \<times> string \<Rightarrow> ('w, unit) io" where
  "Reconcile_LoadBalancer libs a r req =
     onErr (lr_GetConfigMap r req)
       (\<lambda>err. fail (Wrap ''failed to get config map for loadbalancer'' err))
       (\<lambda>lbConfigMap.
          case ParseLoadbalancerConfig (lib_unmarshalConfig libs) lbConfigMap of
            Inl err \<Rightarrow> fail (Wrap ''failed to parse loadbalancer config'' err)
          | Inr lbConfig \<Rightarrow>
              bindIO (wrapErr ''failed to get exposed dogu services'' (getExposedServices r))
                (\<lambda>exposedDoguServices.
                   case getExposedDoguPorts libs exposedDoguServices of
                     Inl err \<Rightarrow> fail (Wrap ''failed to get exposed ports from services'' err)
                   | Inr exposedDoguPorts \<Rightarrow>
                       let (exposedLoadBalancerPorts, doguPorts') =
                         createLoadBalancerExposedPorts libs exposedDoguPorts
                       in bindIO
                            (wrapErr ''failed to update loadbalancer''
                               (upsertLoadBalancer libs a r (fst req) lbConfig exposedLoadBalancerPorts
                                  (setOwnerReference (lr_SetControllerReference r lbConfigMap))))
                            (\<lambda>_. wrapErr ''failed to update exposed ports in ingress controller''
                                   (ic_ExposePorts (lr_IngressController r) (fst req) doguPorts'))))"

subsection \<open>Watches and predicates\<close>

definition enqueueLoadBalancerConfig :: "k8sObject \<Rightarrow> (string \<times> string) list" where
  "enqueueLoadBalancerConfig object = [(om_Namespace (objectMeta object), LoadBalancerConfigName)]"

text \<open>\<open>predicate.Funcs\<close>; \<open>NewPredicateFuncs\<close> looks at the new object of an update.\<close>

record predicateFuncs =
  pf_Create :: "k8sObject \<Rightarrow> bool"
  pf_Delete :: "k8sObject \<Rightarrow> bool"
  pf_Update :: "k8sObject \<Rightarrow> k8sObject \<Rightarrow> bool"
  pf_Generic :: "k8sObject \<Rightarrow> bool"

definition newPredicateFuncs :: "(k8sObject \<Rightarrow> bool) \<Rightarrow> predicateFuncs" where
  "newPredicateFuncs f =
     \<lparr>pf_Create = f, pf_Delete = f, pf_Update = (\<lambda>_ objectNew. f objectNew), pf_Generic = f\<rparr>"

definition loadbalancerConfigPredicate :: predicateFuncs where
  "loadbalancerConfigPredicate = newPredicateFuncs (\<lambda>object. getName object = LoadBalancerConfigName)"

definition exposedPortServicePredicate :: "libraries \<Rightarrow> predicateFuncs" where
  "exposedPortServicePredicate libs =
     \<lparr>pf_Create = (\<lambda>object. snd (isExposedPortService object)),
      pf_Delete = (\<lambda>object. snd (isExposedPortService object)),
      pf_Update = (\<lambda>objectOld objectNew.
        case (snd (ParseService objectOld), snd (ParseService objectNew)) of
          (Some oldDoguService, Some newDoguService) \<Rightarrow>
            if HasExposedPorts oldDoguService \<noteq> HasExposedPorts newDoguService then True
            else (case GetExposedPorts (lib_sortSlice libs) (lib_unmarshalPorts libs) oldDoguService of
                    Inl _ \<Rightarrow> False
                  | Inr oldExposedPorts \<Rightarrow>
                      (case GetExposedPorts (lib_sortSlice libs) (lib_unmarshalPorts libs) newDoguService of
                         Inl _ \<Rightarrow> False
                       | Inr newExposedPorts \<Rightarrow>
                           \<not> fst (Equals_ExposedPorts (lib_sortSlice libs) oldExposedPorts newExposedPorts)))
        | (None, None) \<Rightarrow> False
        | _ \<Rightarrow> True),
      pf_Generic = (\<lambda>object. snd (isExposedPortService object))\<rparr>"

definition loadbalancerServicePredicate :: predicateFuncs where
  "loadbalancerServicePredicate =
     \<lparr>pf_Create = (\<lambda>_. False),
      pf_Delete = (\<lambda>object. snd (ParseLoadBalancer object) \<noteq> None),
      pf_Update = (\<lambda>objectOld objectNew.
        case snd (ParseLoadBalancer objectOld) of
          None \<Rightarrow> False
        | Some oldLB \<Rightarrow>
            (case snd (ParseLoadBalancer objectNew) of
               None \<Rightarrow> False
             | Some newLB \<Rightarrow> \<not> Equals_LoadBalancer oldLB newLB)),
      pf_Generic = (\<lambda>object. snd (ParseLoadBalancer object) \<noteq> None)\<rparr>"

subsection \<open>The ports of all services\<close>

lemma mset_concat_map: "mset (concat (map f xs)) = sum_mset (image_mset (\<lambda>x. mset (f x)) (mset xs))"
  by (induction xs) simp_all

text \<open>The ports a service contributes, none when its annotation is broken.\<close>

definition portsOf :: "libraries \<Rightarrow> Service \<Rightarrow> ExposedPorts" where
  "portsOf libs s =
     (case GetExposedPorts (lib_sortSlice libs) (lib_unmarshalPorts libs) s of Inl _ \<Rightarrow> [] | Inr ps \<Rightarrow> ps)"

definition readable :: "libraries \<Rightarrow> Service \<Rightarrow> bool" where
  "readable libs s \<longleftrightarrow> \<not> isl (GetExposedPorts (lib_sortSlice libs) (lib_unmarshalPorts libs) s)"

lemma appendExposedPorts_eq:
  "appendExposedPorts libs ss acc = Inr eps \<longleftrightarrow>
     list_all (readable libs) ss \<and> eps = acc @ concat (map (portsOf libs) ss)"
proof (induction ss arbitrary: acc)
  case Nil
  then show ?case by auto
next
  case (Cons s ss)
  then show ?case
    by (cases "GetExposedPorts (lib_sortSlice libs) (lib_unmarshalPorts libs) s")
      (simp_all add: readable_def portsOf_def)
qed

lemma getExposedDoguPorts_eq:
  "getExposedDoguPorts libs ss = Inr eps \<longleftrightarrow>
     list_all (readable libs) ss \<and>
     eps = SortByName (lib_sortSlice libs) (concat (map (portsOf libs) ss))"
proof (cases "appendExposedPorts libs ss []")
  case (Inl e)
  then show ?thesis
    using appendExposedPorts_eq [of libs ss "[]" "concat (map (portsOf libs) ss)"]
    by (simp add: getExposedDoguPorts_def)
next
  case (Inr ps)
  then show ?thesis
    using appendExposedPorts_eq [of libs ss "[]" ps] by (auto simp: getExposedDoguPorts_def)
qed

lemma getExposedDoguPorts_perm:
  assumes "slice_sort (lib_sortSlice libs)" and "mset ss = mset ts"
    and "getExposedDoguPorts libs ss = Inr eps" and "distinct (map ep_Name eps)"
  shows "getExposedDoguPorts libs ts = Inr eps"
proof -
  have ok: "list_all (readable libs) ss"
    and eps: "eps = SortByName (lib_sortSlice libs) (concat (map (portsOf libs) ss))"
    using assms(3) by (simp_all add: getExposedDoguPorts_eq)
  have "set ts = set ss" using assms(2) by (metis mset_eq_setD)
  with ok have "list_all (readable libs) ts" by (simp add: list_all_iff)
  moreover have ms: "mset (concat (map (portsOf libs) ts)) = mset (concat (map (portsOf libs) ss))"
    by (simp only: mset_concat_map assms(2))
  moreover have "SortByName (lib_sortSlice libs) (concat (map (portsOf libs) ts)) = eps"
  proof (rule SortByName_unique [OF assms(1)])
    show "mset eps = mset (concat (map (portsOf libs) ts))"
      by (simp only: eps SortByName_spec(1) [OF assms(1)] ms)
    show "sorted (map ep_Name eps)" by (simp only: eps SortByName_spec(2) [OF assms(1)])
    then show "distinct (map ep_Name (concat (map (portsOf libs) ts)))"
      using assms(4) ms eps distinct_names_SortByName [OF assms(1)]
        mset_eq_imp_distinct_iff [of "map ep_Name (concat (map (portsOf libs) ts))"
          "map ep_Name (concat (map (portsOf libs) ss))"] by simp
  qed
  ultimately show ?thesis by (simp add: getExposedDoguPorts_eq)
qed

end
