(* ===== verification/Traefik_Correct.thy ===== *)
theory Traefik_Correct
  imports Cluster
begin

section \<open>Properties of the Traefik ingress controller\<close>

text \<open>
  What the port exposer and the redirector leave in the cluster, for every lawful API server
  (locales \<open>exposer_stores\<close> and \<open>redirector_stores\<close>), with the reference cluster as the witness that
  such servers exist.
\<close>

text \<open>The owner setters of the callers only add owner references to the object they are given.\<close>

definition setsOwnerOnly :: "ownerSetter \<Rightarrow> bool" where
  "setsOwnerOnly f \<longleftrightarrow> (\<forall>m m'. f m = Inr m' \<longrightarrow> (\<exists>refs. m' = m\<lparr>om_OwnerReferences := refs\<rparr>))"

lemma setsOwnerOnly_keeps:
  assumes "setsOwnerOnly f" and "f m = Inr m'"
  shows "om_Name m' = om_Name m" "om_ResourceVersion m' = om_ResourceVersion m"
    "om_Annotations m' = om_Annotations m" "om_Labels m' = om_Labels m" "om_Namespace m' = om_Namespace m"
  using assms unfolding setsOwnerOnly_def by force+

lemma createRedirectIngress_meta [simp]:
  "om_Name (ing_meta (createRedirectIngress ord i ns name m)) = name"
  "om_ResourceVersion (ing_meta (createRedirectIngress ord i ns name m)) = []"
  by (simp_all add: createRedirectIngress_def Let_def emptyMeta_def)

lemma redirect_ingress_rules:
  assumes "iterationOrder ord"
  shows "mset (map rule_Host (is_Rules (ing_spec
      (createRedirectIngress ord i ns name (groupFQDNsBySecretName as))))) = mset (map af_FQDN as)"
  using redirect_hosts [OF assms, of as]
  by (simp add: createRedirectIngress_def Let_def createIngressRules_def comp_def createIngressRule_def)

lemma redirect_ingress_tls:
  assumes "iterationOrder ord"
  shows "set (is_TLS (ing_spec (createRedirectIngress ord i ns name (groupFQDNsBySecretName as)))) =
      (\<lambda>k. \<lparr>tls_Hosts = map af_FQDN (filter (\<lambda>a. af_CertificateSecretName a = k) as), tls_SecretName = k\<rparr>)
        ` af_CertificateSecretName ` set as"
    and "distinct (map tls_SecretName (is_TLS (ing_spec
      (createRedirectIngress ord i ns name (groupFQDNsBySecretName as)))))"
proof -
  have keys: "set (ord (groupFQDNsBySecretName as)) = af_CertificateSecretName ` set as"
    "distinct (ord (groupFQDNsBySecretName as))"
    using assms group_dom unfolding iterationOrder_def by metis+
  show "set (is_TLS (ing_spec (createRedirectIngress ord i ns name (groupFQDNsBySecretName as)))) =
      (\<lambda>k. \<lparr>tls_Hosts = map af_FQDN (filter (\<lambda>a. af_CertificateSecretName a = k) as), tls_SecretName = k\<rparr>)
        ` af_CertificateSecretName ` set as"
    by (simp add: createRedirectIngress_def Let_def rangeMap_group [OF assms] image_image flip: keys(1))
  show "distinct (map tls_SecretName (is_TLS (ing_spec
      (createRedirectIngress ord i ns name (groupFQDNsBySecretName as)))))"
    using keys(2) by (simp add: createRedirectIngress_def Let_def rangeMap_group [OF assms] comp_def)
qed

subsection \<open>Exposed ports\<close>

text \<open>
  Property C30. Exposing ports never fails on a lawful API server and leaves, for each TCP port, the
  route \<open><service>-<port>-tcp\<close> from the entry point \<open>tcp-<port>\<close> to the target port of the
  service, and likewise for each UDP port; where two ports share a route name the last one wins.
  Every other route is as it was; ports of other protocols have no effect.
\<close>

theorem expose_ports_routes:
  assumes "exposer_stores p namespace viewT putT admT viewU putU admU viewI putI admI"
  shows "\<exists>w'. ExposePorts p namespace ports w = (Ret (), w') \<and>
    (\<forall>n. map_option tcpContent (viewT w' n) =
       (case find (\<lambda>q. ep_Protocol q = ''TCP'' \<and> ep_ServiceName q @ ''-'' @ PortString q @ ''-tcp'' = n)
               (rev ports) of
          Some q \<Rightarrow> Some ([''tcp-'' @ PortString q],
            [\<lparr>rt_Match = ''HostSNI(`*`)'', rt_Services = [\<lparr>ts_Name = ep_ServiceName q,
               ts_Namespace = namespace, ts_Port = IntVal (ep_TargetPort q)\<rparr>]\<rparr>])
        | None \<Rightarrow> map_option tcpContent (viewT w n))) \<and>
    (\<forall>n. map_option udpContent (viewU w' n) =
       (case find (\<lambda>q. ep_Protocol q = ''UDP'' \<and> ep_ServiceName q @ ''-'' @ PortString q @ ''-udp'' = n)
               (rev ports) of
          Some q \<Rightarrow> Some ([''udp-'' @ PortString q],
            [\<lparr>ru_Services = [\<lparr>ts_Name = ep_ServiceName q, ts_Namespace = namespace,
               ts_Port = IntVal (ep_TargetPort q)\<rparr>]\<rparr>])
        | None \<Rightarrow> map_option udpContent (viewU w n)))"
proof -
  have "tcpContent (createIngressRouteTCP namespace q None) = ([''tcp-'' @ PortString q],
      [\<lparr>rt_Match = ''HostSNI(`*`)'', rt_Services = [\<lparr>ts_Name = ep_ServiceName q,
         ts_Namespace = namespace, ts_Port = IntVal (ep_TargetPort q)\<rparr>]\<rparr>])"
    and "udpContent (createIngressRouteUDP namespace q None) = ([''udp-'' @ PortString q],
      [\<lparr>ru_Services = [\<lparr>ts_Name = ep_ServiceName q, ts_Namespace = namespace,
         ts_Port = IntVal (ep_TargetPort q)\<rparr>]\<rparr>])" for q
    by (simp_all add: tcpContent_def udpContent_def createIngressRouteTCP_def
        createIngressRouteUDP_def Let_def)
  then show ?thesis
    using exposer_stores.ExposePorts_run [OF assms, of ports w]
    by (simp only: tcpRouteName_def udpRouteName_def ProtocolTCP_def ProtocolUDP_def)
qed

theorem expose_ports_routes_witness:
  "\<exists>w'. ExposePorts (tc_PortExposer exampleController) ''ecosystem''
       [zeroExposedPort\<lparr>ep_ServiceName := ''scm'', ep_Protocol := ''TCP'', ep_Port := 2222,
          ep_TargetPort := 22\<rparr>] emptyCluster = (Ret (), w') \<and>
     map_option irt_EntryPoints (k_routesTCP w' ''scm-2222-tcp'') = Some [''tcp-2222'']"
proof -
  let ?q = "zeroExposedPort\<lparr>ep_ServiceName := ''scm'', ep_Protocol := ''TCP'', ep_Port := 2222,
          ep_TargetPort := 22\<rparr>"
  have ps: "PortString ?q = ''2222''" by code_simp
  obtain w' where "ExposePorts (tc_PortExposer exampleController) ''ecosystem'' [?q] emptyCluster =
      (Ret (), w')" and "map_option tcpContent (k_routesTCP w' ''scm-2222-tcp'') =
      Some ([''tcp-2222''], [\<lparr>rt_Match = ''HostSNI(`*`)'', rt_Services = [\<lparr>ts_Name = ''scm'',
         ts_Namespace = ''ecosystem'', ts_Port = IntVal 22\<rparr>]\<rparr>])"
    using expose_ports_routes [OF exposer.exposer_stores_axioms, of "''ecosystem''" "[?q]" emptyCluster]
    by (elim exE conjE allE [of _ "''scm-2222-tcp''"]) (simp add: ps)
  then show ?thesis by (auto simp: tcpContent_def)
qed

subsection \<open>Alternative FQDNs\<close>

lemma redirect_run:
  assumes "redirector_stores i viewI putI admI viewM putM admM"
    and "iterationOrder ord" and "setsOwnerOnly setOwner" and "as \<noteq> []"
    and "setOwner (ing_meta (createRedirectIngress ord i ns name (groupFQDNsBySecretName as))) = Inr m"
  shows "\<exists>w' x y. RedirectAlternativeFQDN ord i ns name fqdn as setOwner w = (Ret (), w') \<and>
    viewI w' = (viewI w)(name \<mapsto> x) \<and> viewM w' = (viewM w)(''alternative-fqdn'' \<mapsto> y) \<and>
    mset (map rule_Host (is_Rules (ing_spec x))) = mset (map af_FQDN as) \<and>
    set (is_TLS (ing_spec x)) =
      (\<lambda>k. \<lparr>tls_Hosts = map af_FQDN (filter (\<lambda>a. af_CertificateSecretName a = k) as), tls_SecretName = k\<rparr>)
        ` af_CertificateSecretName ` set as \<and>
    distinct (map tls_SecretName (is_TLS (ing_spec x))) \<and>
    mw_RedirectRegex y = Some
      \<lparr>rx_Regex = ''^https?://('' @ joinStr ''|'' (map (\<lambda>a. escapeFQDN (af_FQDN a)) as) @ '')(.*)'',
       rx_Replacement = ''https://'' @ fqdn @ ''${2}''\<rparr>"
proof -
  have "om_Name m = name" "om_ResourceVersion m = []"
    using setsOwnerOnly_keeps [OF assms(3,5)] by simp_all
  then obtain w' x y where "RedirectAlternativeFQDN ord i ns name fqdn as setOwner w = (Ret (), w')"
    "viewI w' = (viewI w)(name \<mapsto> x)" "viewM w' = (viewM w)(''alternative-fqdn'' \<mapsto> y)"
    "ing_spec x = ing_spec (createRedirectIngress ord i ns name (groupFQDNsBySecretName as))"
    "mw_RedirectRegex y = mw_RedirectRegex (redirectMiddleware (rd_namespace i) (map af_FQDN as) fqdn [])"
    using redirector_stores.redirect_stores_both [OF assms(1,4), of setOwner ord ns name m fqdn w] assms(5)
    by blast
  moreover have "mw_RedirectRegex (redirectMiddleware (rd_namespace i) (map af_FQDN as) fqdn []) = Some
      \<lparr>rx_Regex = ''^https?://('' @ joinStr ''|'' (map (\<lambda>a. escapeFQDN (af_FQDN a)) as) @ '')(.*)'',
       rx_Replacement = ''https://'' @ fqdn @ ''${2}''\<rparr>"
    by (simp add: redirectMiddleware_def comp_def)
  ultimately show ?thesis
    using redirect_ingress_rules [OF assms(2), of i ns name as]
      redirect_ingress_tls [OF assms(2), of i ns name as]
    by (intro exI [of _ w'] exI [of _ x] exI [of _ y]) (simp only: simp_thms)
qed

text \<open>
  With alternative FQDNs configured, the redirect ingress and the redirect middleware
  are stored and nothing else of the two stores changes: one rule per alternative FQDN (for every
  iteration order of the map), one TLS entry per certificate secret that lists that secret's
  FQDNs in their configured order, and a middleware that sends every alternative FQDN, dots
  escaped, to the primary FQDN.
\<close>

lemma redirect_alternative_fqdns:
  assumes "redirector_stores i viewI putI admI viewM putM admM"
    and "iterationOrder ord" and "setsOwnerOnly setOwner" and "as \<noteq> []"
    and "setOwner (ing_meta (createRedirectIngress ord i ns name (groupFQDNsBySecretName as))) = Inr m"
  shows "\<exists>w' x y. RedirectAlternativeFQDN ord i ns name fqdn as setOwner w = (Ret (), w') \<and>
    viewI w' = (viewI w)(name \<mapsto> x) \<and> viewM w' = (viewM w)(''alternative-fqdn'' \<mapsto> y) \<and>
    mset (map rule_Host (is_Rules (ing_spec x))) = mset (map af_FQDN as) \<and>
    set (is_TLS (ing_spec x)) =
      (\<lambda>k. \<lparr>tls_Hosts = map af_FQDN (filter (\<lambda>a. af_CertificateSecretName a = k) as), tls_SecretName = k\<rparr>)
        ` af_CertificateSecretName ` set as \<and>
    distinct (map tls_SecretName (is_TLS (ing_spec x))) \<and>
    mw_RedirectRegex y = Some
      \<lparr>rx_Regex = ''^https?://('' @ joinStr ''|'' (map (\<lambda>a. escapeFQDN (af_FQDN a)) as) @ '')(.*)'',
       rx_Replacement = ''https://'' @ fqdn @ ''${2}''\<rparr>"
  by (rule redirect_run [OF assms])

definition sortedOrder :: mapOrder where
  "sortedOrder m = sorted_list_of_fset (fmdom m)"

definition reversedOrder :: mapOrder where
  "reversedOrder m = rev (sortedOrder m)"

lemma iterationOrder_examples [simp]: "iterationOrder sortedOrder" "iterationOrder reversedOrder"
  by (simp_all add: iterationOrder_def sortedOrder_def reversedOrder_def
      sorted_list_of_fset.rep_eq fmdom'_alt_def)

definition exampleFQDNs :: "AlternativeFQDN list" where
  "exampleFQDNs = [\<lparr>af_FQDN = ''a.org'', af_CertificateSecretName = []\<rparr>,
     \<lparr>af_FQDN = ''b.org'', af_CertificateSecretName = ''s''\<rparr>]"

lemma redirect_alternative_fqdns_example:
  "\<exists>w' x. RedirectAlternativeFQDN sortedOrder (tc_IngressRedirector exampleController) ''ecosystem''
       ''redirect'' ''ces.org'' exampleFQDNs Inr emptyCluster = (Ret (), w') \<and>
     k_ingresses w' ''redirect'' = Some x \<and>
     mset (map rule_Host (is_Rules (ing_spec x))) = {#''a.org'', ''b.org''#}"
proof -
  have "setsOwnerOnly Inr"
    unfolding setsOwnerOnly_def by (metis Inr_inject ObjectMeta.surjective ObjectMeta.update_convs(5))
  then show ?thesis
    using redirect_alternative_fqdns [OF redirector.redirector_stores_axioms iterationOrder_examples(1),
        of Inr exampleFQDNs "''ecosystem''" "''redirect''" _ "''ces.org''" emptyCluster]
    by (fastforce simp: exampleFQDNs_def)
qed

text \<open>
  Without alternative FQDNs the redirect ingress is removed, no other ingress and no
  middleware is touched, and the call succeeds whether or not the ingress existed.
\<close>

lemma redirect_cleared:
  assumes "redirector_stores i viewI putI admI viewM putM admM"
  shows "\<exists>w'. RedirectAlternativeFQDN ord i ns name fqdn [] setOwner w = (Ret (), w') \<and>
    viewI w' = (viewI w)(name := None) \<and> viewM w' = viewM w"
  by (rule redirector_stores.redirect_clears [OF assms])

lemma redirect_cleared_example:
  "\<exists>w'. RedirectAlternativeFQDN sortedOrder (tc_IngressRedirector exampleController) ''ecosystem''
       ''redirect'' ''ces.org'' [] Inr
       (emptyCluster\<lparr>k_ingresses := [''redirect'' \<mapsto> \<lparr>ing_meta = emptyMeta,
          ing_spec = \<lparr>is_IngressClassName = None, is_TLS = [], is_Rules = []\<rparr>\<rparr>]\<rparr>) = (Ret (), w') \<and>
     k_ingresses w' = Map.empty"
  using redirect_cleared [OF redirector.redirector_stores_axioms, of sortedOrder "''ecosystem''"
      "''redirect''" "''ces.org''" Inr "emptyCluster\<lparr>k_ingresses := [''redirect'' \<mapsto> \<lparr>ing_meta = emptyMeta,
          ing_spec = \<lparr>is_IngressClassName = None, is_TLS = [], is_Rules = []\<rparr>\<rparr>]\<rparr>"]
  by auto

text \<open>
  The redirect ingress depends on the iteration order of a Go map: the same
  alternative FQDNs give ingresses with different specs in two iterations, so a reconciler that
  runs on every difference of the spec may trigger itself.
\<close>

lemma redirect_ingress_order_dependent:
  "\<exists>ord1 ord2 as. iterationOrder ord1 \<and> iterationOrder ord2 \<and>
     ing_spec (createRedirectIngress ord1 i ns name (groupFQDNsBySecretName as)) \<noteq>
     ing_spec (createRedirectIngress ord2 i ns name (groupFQDNsBySecretName as))"
proof (intro exI conjI)
  have "fmdom (groupFQDNsBySecretName exampleFQDNs) = {|[], ''s''|}"
    by (auto simp: groupFQDNsBySecretName_def exampleFQDNs_def)
  then have "sortedOrder (groupFQDNsBySecretName exampleFQDNs) = [[], ''s'']"
    by (simp add: sortedOrder_def sorted_list_of_fset.rep_eq)
  then show "ing_spec (createRedirectIngress sortedOrder i ns name (groupFQDNsBySecretName exampleFQDNs)) \<noteq>
     ing_spec (createRedirectIngress reversedOrder i ns name (groupFQDNsBySecretName exampleFQDNs))"
    by (simp add: createRedirectIngress_def Let_def rangeMap_def reversedOrder_def)
qed simp_all

subsection \<open>The controller\<close>

text \<open>
  The ingress controller that is parsed from the configured name is the gateway unless
  the name is \<open>traefik\<close>; its name and the pod selector of its load balancer agree, and the selector
  is never empty.
\<close>

lemma parsed_controller_consistent:
  "GetName (ParseIngressController deps) =
     (if dep_Controller deps = ''traefik'' then ''traefik'' else ''k8s-ces-gateway'') \<and>
   GetSelector (ParseIngressController deps) =
     (if dep_Controller deps = ''traefik'' then fmap_of_list [(''dogu.name'', ''traefik'')]
      else fmap_of_list [(''k8s.cloudogu.com/component.name'', ''k8s-ces-gateway'')])"
  by (simp add: GetName_def GetSelector_def ParseIngressController_def NewTraefikController_def
      mapStringToControllerType_def controllerTypeString_def selectorMap_def gateway_def ingress_def
      GatewayControllerName_def IngressControllerName_def DefaultIngressController_def
      componentLabelKey_def DoguLabelName_def)

end
