(* ===== verification/Redirect_Controller.thy ===== *)
theory Redirect_Controller
  imports Global_Config Lb_Controller Traefik_Correct
begin

section \<open>The redirect reconciler (controllers/redirectController.go)\<close>

text \<open>
  On every change of the global configuration, and on every change of the redirect ingress that is
  not its own, the reconciler reads the primary and the alternative FQDNs and hands them to the
  redirector.  An alternative FQDN without a certificate of its own is served with the certificate of
  the ecosystem.  The config map is read only to become the owner of the redirect ingress.
\<close>

subsection \<open>Model\<close>

definition primaryFQDNKey :: string where "primaryFQDNKey = ''fqdn''"
definition alternativeFQDNKey :: string where "alternativeFQDNKey = ''alternativeFQDNs''"
definition redirectObjectName :: string where "redirectObjectName = ''redirect-alt-fqdn''"
definition certEcosystemSecretName :: string where "certEcosystemSecretName = ''ecosystem-certificate''"

record ('w, 'g) RedirectReconciler =
  rr_GetConfigMap :: "string \<times> string \<Rightarrow> ('w, ConfigMap) io"
  rr_SetControllerReference :: "ConfigMap \<Rightarrow> ownerSetter"
  rr_GlobalConfigGetter :: "('w, 'g) GlobalConfigRepository"
  rr_RedirectAlternativeFQDN :: "'w AlternativeFQDNRedirector"
  rr_Namespace :: string

fun assignDefaultCertSecrets :: "AlternativeFQDN list \<Rightarrow> AlternativeFQDN list" where
  "assignDefaultCertSecrets [] = []"
| "assignDefaultCertSecrets (altFQDN # altFQDNList) =
     (if HasCertificate altFQDN then altFQDN
      else \<lparr>af_FQDN = af_FQDN altFQDN, af_CertificateSecretName = certEcosystemSecretName\<rparr>)
     # assignDefaultCertSecrets altFQDNList"

text \<open>A key that is not set reads as the empty value.\<close>

definition Reconcile_Redirect ::
  "'g configOps \<Rightarrow> ('w, 'g) RedirectReconciler \<Rightarrow> string \<times> string \<Rightarrow> ('w, unit) io" where
  "Reconcile_Redirect cfg r req =
     onErr (rr_GetConfigMap r req)
       (\<lambda>err. fail (Wrap ''failed to get global config map'' err))
       (\<lambda>cm.
          onErr (gcr_Get (rr_GlobalConfigGetter r))
            (\<lambda>err. fail (Wrap ''failed to get global config'' err))
            (\<lambda>globalCfg.
               case gc_Get cfg globalCfg primaryFQDNKey of
                 None \<Rightarrow> fail (Msg ''fqdn not found in global config'')
               | Some fqdn \<Rightarrow>
                   let altFQDNStr =
                         (case gc_Get cfg globalCfg alternativeFQDNKey of None \<Rightarrow> [] | Some v \<Rightarrow> v);
                       altFQDNList =
                         assignDefaultCertSecrets (ParseAlternativeFQDNsFromConfigString altFQDNStr)
                   in wrapErr ''failed to redirect alternative fqdns''
                        (rr_RedirectAlternativeFQDN r (fst req) redirectObjectName fqdn altFQDNList
                           (rr_SetControllerReference r cm))))"

definition globalConfigPredicate :: predicateFuncs where
  "globalConfigPredicate = newPredicateFuncs (\<lambda>object. getName object = ''global-config'')"

text \<open>
  \<open>reflect.DeepEqual\<close> is equality here: the objects of an event are decoded, so an empty map or slice
  is never told apart from a missing one.
\<close>

definition redirectIngressPredicate :: predicateFuncs where
  "redirectIngressPredicate =
     \<lparr>pf_Create = (\<lambda>_. False),
      pf_Delete = (\<lambda>object. getName object = redirectObjectName),
      pf_Update = (\<lambda>objectOld objectNew.
        if getName objectOld \<noteq> redirectObjectName then False
        else (case objectOld of
                IngressObject oldIngress \<Rightarrow>
                  (case objectNew of
                     IngressObject newIngress \<Rightarrow>
                       if ing_spec oldIngress \<noteq> ing_spec newIngress then True
                       else if ing_meta oldIngress \<noteq> ing_meta newIngress then True
                       else False
                   | _ \<Rightarrow> False)
              | _ \<Rightarrow> False)),
      pf_Generic = (\<lambda>_. False)\<rparr>"

subsection \<open>Lemmas\<close>

text \<open>The secret whose certificate serves an alternative FQDN.\<close>

definition servingSecret :: "AlternativeFQDN \<Rightarrow> string" where
  "servingSecret a = (if HasCertificate a then af_CertificateSecretName a else certEcosystemSecretName)"

lemma assignDefaultCertSecrets_map:
  "assignDefaultCertSecrets as = map (\<lambda>a. \<lparr>af_FQDN = af_FQDN a, af_CertificateSecretName = servingSecret a\<rparr>) as"
  by (induction as) (simp_all add: servingSecret_def)

lemma assignDefaultCertSecrets_hosts [simp]: "map af_FQDN (assignDefaultCertSecrets as) = map af_FQDN as"
  by (simp add: assignDefaultCertSecrets_map)

lemma assignDefaultCertSecrets_empty [simp]: "assignDefaultCertSecrets as = [] \<longleftrightarrow> as = []"
  by (simp add: assignDefaultCertSecrets_map)

lemma servingSecret_nonempty: "servingSecret a \<noteq> []"
  by (simp add: servingSecret_def HasCertificate_def certEcosystemSecretName_def)

lemma assignDefaultCertSecrets_idem:
  "assignDefaultCertSecrets (assignDefaultCertSecrets as) = assignDefaultCertSecrets as"
  using servingSecret_nonempty
  by (simp add: assignDefaultCertSecrets_map comp_def) (simp add: servingSecret_def HasCertificate_def)

text \<open>What the stored ingress and middleware have to say about a list of alternative FQDNs.\<close>

definition redirects :: "string \<Rightarrow> AlternativeFQDN list \<Rightarrow> Ingress \<Rightarrow> Middleware \<Rightarrow> bool" where
  "redirects fqdn as x y \<longleftrightarrow>
     mset (map rule_Host (is_Rules (ing_spec x))) = mset (map af_FQDN as) \<and>
     (\<forall>h k. (\<exists>t\<in>set (is_TLS (ing_spec x)). tls_SecretName t = k \<and> h \<in> set (tls_Hosts t)) \<longleftrightarrow>
        (\<exists>a\<in>set as. af_FQDN a = h \<and> servingSecret a = k)) \<and>
     mw_RedirectRegex y = Some
       \<lparr>rx_Regex = ''^https?://('' @ joinStr ''|'' (map (\<lambda>a. escapeFQDN (af_FQDN a)) as) @ '')(.*)'',
        rx_Replacement = ''https://'' @ fqdn @ ''${2}''\<rparr>"

lemma redirector_serves:
  assumes "redirector_stores i viewI putI admI viewM putM admM" and "iterationOrder ord"
    and "setsOwnerOnly setOwner" and "\<And>m. \<not> isl (setOwner m)"
  shows "\<exists>w'. RedirectAlternativeFQDN ord i ns name fqdn (assignDefaultCertSecrets as) setOwner w = (Ret (), w') \<and>
    (if as = [] then viewI w' = (viewI w)(name := None) \<and> viewM w' = viewM w
     else \<exists>x y. viewI w' = (viewI w)(name \<mapsto> x) \<and> viewM w' = (viewM w)(''alternative-fqdn'' \<mapsto> y) \<and>
       redirects fqdn as x y)"
proof (cases "as = []")
  case True
  then show ?thesis using redirector_stores.redirect_clears [OF assms(1)] by simp
next
  case False
  let ?bs = "assignDefaultCertSecrets as"
  obtain m where m: "setOwner (ing_meta (createRedirectIngress ord i ns name (groupFQDNsBySecretName ?bs))) = Inr m"
    using assms(4) by (metis sum.collapse(2))
  obtain w' x y where run: "RedirectAlternativeFQDN ord i ns name fqdn ?bs setOwner w = (Ret (), w')"
    "viewI w' = (viewI w)(name \<mapsto> x)" "viewM w' = (viewM w)(''alternative-fqdn'' \<mapsto> y)"
    "mset (map rule_Host (is_Rules (ing_spec x))) = mset (map af_FQDN ?bs)"
    "set (is_TLS (ing_spec x)) =
      (\<lambda>k. \<lparr>tls_Hosts = map af_FQDN (filter (\<lambda>a. af_CertificateSecretName a = k) ?bs), tls_SecretName = k\<rparr>)
        ` af_CertificateSecretName ` set ?bs"
    "mw_RedirectRegex y = Some
      \<lparr>rx_Regex = ''^https?://('' @ joinStr ''|'' (map (\<lambda>a. escapeFQDN (af_FQDN a)) ?bs) @ '')(.*)'',
       rx_Replacement = ''https://'' @ fqdn @ ''${2}''\<rparr>"
    using redirect_run [OF assms(1-3) _ m, of fqdn w] False by auto
  have "(\<exists>t\<in>set (is_TLS (ing_spec x)). tls_SecretName t = k \<and> h \<in> set (tls_Hosts t)) \<longleftrightarrow>
      (\<exists>a\<in>set as. af_FQDN a = h \<and> servingSecret a = k)" for h k
    unfolding run(5)
    by (auto simp: assignDefaultCertSecrets_map filter_map comp_def image_image)
  moreover have "map (\<lambda>a. escapeFQDN (af_FQDN a)) ?bs = map (\<lambda>a. escapeFQDN (af_FQDN a)) as"
    by (simp add: assignDefaultCertSecrets_map)
  ultimately have "redirects fqdn as x y" using run(4,6) by (simp add: redirects_def)
  with run(1-3) False show ?thesis by auto
qed

subsection \<open>Properties\<close>

text \<open>
  Property C15. A reconcile of the global configuration on the Traefik redirector: with alternative
  FQDNs configured, the redirect ingress has one rule for each of them, each is served with the
  certificate of its secret or else with that of the ecosystem and with no other, and the middleware
  sends all of them to the primary FQDN; without any, the redirect ingress is gone.  Nothing else of
  the two stores changes.
\<close>

theorem redirect_reconciled:
  assumes "redirector_stores i viewI putI admI viewM putM admM" and "iterationOrder ord"
    and "config_repository cfg repo viewG current rest"
    and "get req w = (Ret cm, w)" and "setsOwnerOnly (owner cm)" and "\<And>m. \<not> isl (owner cm m)"
    and "viewG w ''fqdn'' = Some fqdn"
    and "as = ParseAlternativeFQDNsFromConfigString
      (case viewG w ''alternativeFQDNs'' of None \<Rightarrow> [] | Some s \<Rightarrow> s)"
  shows "\<exists>w'. Reconcile_Redirect cfg \<lparr>rr_GetConfigMap = get, rr_SetControllerReference = owner,
      rr_GlobalConfigGetter = repo, rr_RedirectAlternativeFQDN = RedirectAlternativeFQDN ord i,
      rr_Namespace = ns\<rparr> req w = (Ret (), w') \<and>
    (if as = [] then viewI w' = (viewI w)(''redirect-alt-fqdn'' := None) \<and> viewM w' = viewM w
     else \<exists>x y. viewI w' = (viewI w)(''redirect-alt-fqdn'' \<mapsto> x) \<and>
       viewM w' = (viewM w)(''alternative-fqdn'' \<mapsto> y) \<and> redirects fqdn as x y)"
proof -
  obtain g where g: "gcr_Get repo w = (Ret g, w)" "gc_Get cfg g = viewG w"
    using config_repository.get_values [OF assms(3)] by blast
  show ?thesis
    using redirector_serves [OF assms(1,2,5,6), of "fst req" "''redirect-alt-fqdn''" fqdn as w] assms(4,7,8) g
    by (simp add: Reconcile_Redirect_def io_simps primaryFQDNKey_def alternativeFQDNKey_def
        redirectObjectName_def Let_def)
qed

definition redirectCluster :: cluster where
  "redirectCluster = emptyCluster
     \<lparr>k_globalConfig := fmap_of_list [(''fqdn'', ''ces.org''), (''alternativeFQDNs'', ''a.org, b.org:s'')]\<rparr>"

definition exampleConfigMap :: ConfigMap where
  "exampleConfigMap = \<lparr>cm_meta = emptyMeta\<lparr>om_Name := ''global-config''\<rparr>, cm_Data = fmempty\<rparr>"

lemma setsOwnerOnly_Inr: "setsOwnerOnly Inr"
  unfolding setsOwnerOnly_def by (metis Inr_inject ObjectMeta.surjective ObjectMeta.update_convs(5))

theorem redirect_reconciled_witness:
  "\<exists>w' x. Reconcile_Redirect clusterConfigOps
       \<lparr>rr_GetConfigMap = (\<lambda>_. ret exampleConfigMap), rr_SetControllerReference = (\<lambda>_. Inr),
        rr_GlobalConfigGetter = clusterConfigRepo,
        rr_RedirectAlternativeFQDN = RedirectAlternativeFQDN sortedOrder (tc_IngressRedirector exampleController),
        rr_Namespace = ''ecosystem''\<rparr> (''ecosystem'', ''global-config'') redirectCluster = (Ret (), w') \<and>
     k_ingresses w' ''redirect-alt-fqdn'' = Some x \<and>
     mset (map rule_Host (is_Rules (ing_spec x))) = {#''a.org'', ''b.org''#}"
proof -
  have parsed: "exampleFQDNs = ParseAlternativeFQDNsFromConfigString
      (case configView redirectCluster ''alternativeFQDNs'' of None \<Rightarrow> [] | Some s \<Rightarrow> s)"
    unfolding configView_def redirectCluster_def by simp code_simp
  have fqdn: "configView redirectCluster ''fqdn'' = Some ''ces.org''"
    by (simp add: configView_def redirectCluster_def)
  show ?thesis
    using redirect_reconciled [OF redirector.redirector_stores_axioms iterationOrder_examples(1)
        configs.config_repository_axioms, where get = "\<lambda>_. ret exampleConfigMap" and
        owner = "\<lambda>_. Inr" and req = "(''ecosystem'', ''global-config'')" and w = redirectCluster and
        ns = "''ecosystem''", OF ret_run setsOwnerOnly_Inr _ fqdn parsed]
    by (fastforce simp: exampleFQDNs_def redirects_def)
qed

end
