(* ===== verification/Maintenance.thy ===== *)
theory Maintenance
  imports Lb_Controller
begin

section \<open>The maintenance mode controller (controllers/maintenanceModeController.go)\<close>

text \<open>
  A change of the maintenance config map runs the controller: it upserts the ingresses of every
  service of the namespace, which the ingress updater points to the maintenance page or back, and then
  rewrites the selectors of the services that dogus expose themselves, which no ingress guards.

  Parameters: the client calls (list, update), the event recorder, the maintenance adapter and the
  name of the config map are of libraries; the ingress updater is an argument, as in the code.
\<close>

subsection \<open>Model\<close>

definition maintenanceChangeEventReason :: string where "maintenanceChangeEventReason = ''Maintenance''"

definition exposedServiceMaintenanceSelectorKey :: string where
  "exposedServiceMaintenanceSelectorKey = ''deactivatedDuringMaintenance''"

record 'w defaultServiceRewriter =
  sw_Update :: "Service \<Rightarrow> ('w, Service) io"
  sw_Eventf :: "('w, Service) eventRecorder"
  sw_namespace :: string

type_synonym v1ServiceList = "Service list"
type_synonym 'w serviceRewriter = "v1ServiceList \<Rightarrow> bool \<Rightarrow> ('w, unit) io"
type_synonym 'w IngressUpdater = "Service \<Rightarrow> ('w, unit) io"
type_synonym 'w MaintenanceAdapter = "('w, string \<times> bool) io"

record 'w maintenanceModeController =
  mc_List :: "string \<Rightarrow> ('w, Service list) io"
  mc_namespace :: string
  mc_UpsertIngressForService :: "'w IngressUpdater"
  mc_rewrite :: "'w serviceRewriter"
  mc_GetStatus :: "'w MaintenanceAdapter"

text \<open>A Go map index: a missing key reads as the empty string.\<close>

definition mapIndex :: "strmap \<Rightarrow> string \<Rightarrow> string" where
  "mapIndex m k = (case fmlookup m k of None \<Rightarrow> [] | Some v \<Rightarrow> v)"

definition isServiceNginxRelated :: "Service \<Rightarrow> bool" where
  "isServiceNginxRelated service = hasPrefix (mapIndex (ss_Selector (svc_spec service)) DoguLabelName) ''nginx-''"

definition rewriteNonSimpleServiceRoute ::
  "'w defaultServiceRewriter \<Rightarrow> Service \<Rightarrow> bool \<Rightarrow> ('w, unit) io" where
  "rewriteNonSimpleServiceRoute sw service rewriteToMaintenance =
     (if ss_Type (svc_spec service) = ServiceTypeClusterIP then ret ()
      else if mapIndex (ss_Selector (svc_spec service)) DoguLabelName = [] then ret ()
      else if isServiceNginxRelated service then ret ()
      else
        let name = om_Name (svc_meta service);
            (serviceEventMsg, selector) =
              (if rewriteToMaintenance
               then (''Maintenance mode was activated, rewriting exposed service '' @ name,
                     fmap_of_list [(DoguLabelName, exposedServiceMaintenanceSelectorKey)])
               else (''Maintenance mode was deactivated, restoring exposed service '' @ name,
                     fmap_of_list [(DoguLabelName, mapIndex (om_Labels (svc_meta service)) DoguLabelName)]));
            service' = service\<lparr>svc_spec := (svc_spec service)\<lparr>ss_Selector := selector\<rparr>\<rparr>
        in bindIO (sw_Eventf sw service' (normalEvent maintenanceChangeEventReason serviceEventMsg))
             (\<lambda>_. bindIO (wrapErr (''could not rewrite service '' @ name) (sw_Update sw service')) (\<lambda>_. ret ())))"

text \<open>The loop goes on after an error and collects it.\<close>

fun rewriteServices ::
  "'w defaultServiceRewriter \<Rightarrow> Service list \<Rightarrow> bool \<Rightarrow> ('w, error list) io" where
  "rewriteServices sw [] activateMaintenanceMode = ret []"
| "rewriteServices sw (service # serviceList) activateMaintenanceMode =
     onErr (rewriteNonSimpleServiceRoute sw service activateMaintenanceMode)
       (\<lambda>rewriteErr. bindIO (rewriteServices sw serviceList activateMaintenanceMode)
          (\<lambda>errs. ret (rewriteErr # errs)))
       (\<lambda>_. rewriteServices sw serviceList activateMaintenanceMode)"

definition rewrite :: "'w defaultServiceRewriter \<Rightarrow> Service list \<Rightarrow> bool \<Rightarrow> ('w, unit) io" where
  "rewrite sw serviceList activateMaintenanceMode =
     bindIO (rewriteServices sw serviceList activateMaintenanceMode)
       (\<lambda>errs. if errs = [] then ret () else fail (Joined errs))"

definition NewMaintenanceModeController ::
  "(string \<Rightarrow> ('w, Service list) io) \<Rightarrow> (Service \<Rightarrow> ('w, Service) io) \<Rightarrow> string \<Rightarrow> (Service \<Rightarrow> ('w, unit) io)
     \<Rightarrow> ('w, string \<times> bool) io \<Rightarrow> ('w, Service) eventRecorder \<Rightarrow> 'w maintenanceModeController" where
  "NewMaintenanceModeController listServices updateService namespace ingressUpdater getStatus recorder =
     \<lparr>mc_List = listServices, mc_namespace = namespace, mc_UpsertIngressForService = ingressUpdater,
      mc_rewrite = rewrite \<lparr>sw_Update = updateService, sw_Eventf = recorder, sw_namespace = namespace\<rparr>,
      mc_GetStatus = getStatus\<rparr>"

definition getAllServices :: "'w maintenanceModeController \<Rightarrow> ('w, Service list) io" where
  "getAllServices mmu =
     wrapErr (''failed to get list of all services in namespace ['' @ mc_namespace mmu @ '']'')
       (mc_List mmu (mc_namespace mmu))"

definition setMaintenanceMode :: "'w maintenanceModeController \<Rightarrow> bool \<Rightarrow> ('w, unit) io" where
  "setMaintenanceMode mmu activate =
     (let verb = (if activate then ''activate'' else ''deactivate'')
      in bindIO (wrapErr (''failed to '' @ verb @ '' maintenance mode'') (getAllServices mmu))
           (\<lambda>serviceList.
              bindIO
                (forEach (\<lambda>service. wrapErr (''failed to '' @ verb @ '' maintenance mode'')
                     (mc_UpsertIngressForService mmu service)) serviceList)
                (\<lambda>_. wrapErr (''failed to rewrite services on '' @ verb @ '' maintenance mode'')
                       (mc_rewrite mmu serviceList activate))))"

definition handleMaintenanceModeUpdate :: "'w maintenanceModeController \<Rightarrow> ('w, unit) io" where
  "handleMaintenanceModeUpdate mmu =
     bindIO (mc_GetStatus mmu) (\<lambda>(_, isActive). setMaintenanceMode mmu isActive)"

definition Reconcile_Maintenance ::
  "'w maintenanceModeController \<Rightarrow> string \<times> string \<Rightarrow> ('w, unit) io" where
  "Reconcile_Maintenance mmu req = handleMaintenanceModeUpdate mmu"

definition maintenancePredicate :: "string \<Rightarrow> predicateFuncs" where
  "maintenancePredicate maintenanceConfigMapName =
     newPredicateFuncs (\<lambda>object. getName object = maintenanceConfigMapName)"

subsection \<open>What the selectors should be\<close>

definition guarded :: "Service \<Rightarrow> bool" where
  "guarded s \<longleftrightarrow> ss_Type (svc_spec s) \<noteq> ServiceTypeClusterIP \<and>
     mapIndex (ss_Selector (svc_spec s)) DoguLabelName \<noteq> [] \<and> \<not> isServiceNginxRelated s"

definition maintainedSelector :: "bool \<Rightarrow> Service \<Rightarrow> strmap" where
  "maintainedSelector activate s =
     (if \<not> guarded s then ss_Selector (svc_spec s)
      else if activate then fmap_of_list [(DoguLabelName, ''deactivatedDuringMaintenance'')]
      else fmap_of_list [(DoguLabelName, mapIndex (om_Labels (svc_meta s)) DoguLabelName)])"

definition maintained :: "bool \<Rightarrow> Service \<Rightarrow> Service \<Rightarrow> bool" where
  "maintained activate s s' \<longleftrightarrow>
     ss_Selector (svc_spec s') = maintainedSelector activate s \<and> ss_Type (svc_spec s') = ss_Type (svc_spec s) \<and>
     om_Name (svc_meta s') = om_Name (svc_meta s) \<and> om_Labels (svc_meta s') = om_Labels (svc_meta s) \<and>
     om_Annotations (svc_meta s') = om_Annotations (svc_meta s)"

text \<open>Two passes: what comes back after a maintenance.\<close>

lemma mapIndex_single [simp]: "mapIndex (fmupd k v fmempty) k = v"
  by (simp add: mapIndex_def)

lemma guarded_in_maintenance: "maintained True s t \<Longrightarrow> guarded t \<longleftrightarrow> guarded s"
  by (auto simp: maintained_def maintainedSelector_def guarded_def isServiceNginxRelated_def hasPrefix_def
      split: if_splits)

definition restoredSelector :: "Service \<Rightarrow> strmap" where
  "restoredSelector s =
     (if guarded s then fmap_of_list [(DoguLabelName, mapIndex (om_Labels (svc_meta s)) DoguLabelName)]
      else ss_Selector (svc_spec s))"

lemma maintained_round_trip:
  assumes "maintained True s t" and "maintained False t u"
  shows "ss_Selector (svc_spec u) = restoredSelector s"
  using assms guarded_in_maintenance [OF assms(1)]
  by (simp add: maintained_def maintainedSelector_def restoredSelector_def)

lemma maintained_idem: "maintained True s t \<Longrightarrow> maintainedSelector True t = ss_Selector (svc_spec t)"
  using guarded_in_maintenance [of s t] by (auto simp: maintained_def maintainedSelector_def)

subsection \<open>The environment of the controller\<close>

definition wellNamed :: "(string \<Rightarrow> Service option) \<Rightarrow> bool" where
  "wellNamed m \<longleftrightarrow> (\<forall>n s. m n = Some s \<longrightarrow> om_Name (svc_meta s) = n)"

text \<open>
  The services are in an object store.  Of the ingress updater the controller needs that it succeeds
  on a service that is in order (\<open>inOrder\<close>) in the present state of the system (\<open>other\<close>), that it
  leaves services and system alone, and that it has its effect on the ingresses.
\<close>

fun effects :: "('x \<Rightarrow> Service \<Rightarrow> 'i \<Rightarrow> 'i \<Rightarrow> bool) \<Rightarrow> 'x \<Rightarrow> Service list \<Rightarrow> 'i \<Rightarrow> 'i \<Rightarrow> bool" where
  "effects effect x [] i i' \<longleftrightarrow> i' = i"
| "effects effect x (s # ss) i i' \<longleftrightarrow> (\<exists>j. effect x s i j \<and> effects effect x ss j i')"

locale maintenance_environment =
  object_store cl view put svc_meta adm
  for cl :: "('w, Service) client" and view and put and adm +
  fixes mmu :: "'w maintenanceModeController" and sw :: "'w defaultServiceRewriter"
    and other :: "'w \<Rightarrow> 'x" and active :: "'x \<Rightarrow> bool" and inOrder :: "'x \<Rightarrow> Service \<Rightarrow> bool"
    and viewI :: "'w \<Rightarrow> 'i" and effect :: "'x \<Rightarrow> Service \<Rightarrow> 'i \<Rightarrow> 'i \<Rightarrow> bool"
  assumes rewriter: "mc_rewrite mmu = rewrite sw"
    and update: "sw_Update sw = c_update cl"
    and event: "\<exists>w'. sw_Eventf sw s msg w = (Ret (), w') \<and>
      view w' = view w \<and> other w' = other w \<and> viewI w' = viewI w"
    and list: "wellNamed (view w) \<Longrightarrow> \<exists>ss. mc_List mmu (mc_namespace mmu) w = (Ret ss, w) \<and>
      distinct (map (\<lambda>s. om_Name (svc_meta s)) ss) \<and> (\<forall>s. s \<in> set ss \<longleftrightarrow> view w (om_Name (svc_meta s)) = Some s)"
    and status: "\<exists>desc. mc_GetStatus mmu w = (Ret (desc, active (other w)), w)"
    and upsert: "inOrder (other w) s \<Longrightarrow> \<exists>w'. mc_UpsertIngressForService mmu s w = (Ret (), w') \<and>
      view w' = view w \<and> other w' = other w \<and> effect (other w) s (viewI w) (viewI w')"
    and frames: "other (put n v w) = other w" "viewI (put n v w) = viewI w"
    and keeps: "ss_Selector (svc_spec (adm w s)) = ss_Selector (svc_spec s)"
      "ss_Type (svc_spec (adm w s)) = ss_Type (svc_spec s)" "om_Labels (svc_meta (adm w s)) = om_Labels (svc_meta s)"
      "om_Annotations (svc_meta (adm w s)) = om_Annotations (svc_meta s)"
begin

lemma rewrite_one:
  assumes "view w (om_Name (svc_meta s)) = Some s"
  shows "\<exists>w' s'. rewriteNonSimpleServiceRoute sw s activate w = (Ret (), w') \<and>
    view w' = (view w)(om_Name (svc_meta s) \<mapsto> s') \<and> maintained activate s s' \<and>
    other w' = other w \<and> viewI w' = viewI w"
proof (cases "guarded s")
  case False
  then have "rewriteNonSimpleServiceRoute sw s activate w = (Ret (), w)"
    by (auto simp: rewriteNonSimpleServiceRoute_def guarded_def ret_run)
  moreover have "view w = (view w)(om_Name (svc_meta s) \<mapsto> s)" using assms by auto
  ultimately show ?thesis using False by (auto simp: maintained_def maintainedSelector_def)
next
  case True
  define t where "t = s\<lparr>svc_spec := (svc_spec s)\<lparr>ss_Selector := maintainedSelector activate s\<rparr>\<rparr>"
  define msg where "msg = (if activate then ''Maintenance mode was activated, rewriting exposed service ''
    else ''Maintenance mode was deactivated, restoring exposed service '') @ om_Name (svc_meta s)"
  obtain w1 where w1: "sw_Eventf sw t (normalEvent maintenanceChangeEventReason msg) w = (Ret (), w1)" "view w1 = view w" "other w1 = other w" "viewI w1 = viewI w"
    using event by blast
  have run: "c_update cl t w1 = (Ret (adm w1 t), put (om_Name (svc_meta s)) (Some (adm w1 t)) w1)"
    using update_fresh [of w1 t s] assms w1(2) by (simp add: t_def)
  have "rewriteNonSimpleServiceRoute sw s activate w =
      (Ret (), put (om_Name (svc_meta s)) (Some (adm w1 t)) w1)"
    using True w1(1) run
    by (cases activate)
      (simp_all add: rewriteNonSimpleServiceRoute_def guarded_def maintainedSelector_def Let_def io_simps update
        exposedServiceMaintenanceSelectorKey_def flip: t_def msg_def,
       simp_all add: t_def msg_def io_simps update maintainedSelector_def guarded_def)
  moreover have "maintained activate s (adm w1 t)"
    by (simp add: maintained_def keeps adm_name) (simp add: t_def)
  ultimately show ?thesis using w1 by (auto simp: view_put frames)
qed

lemma rewrite_all:
  assumes "distinct (map (\<lambda>s. om_Name (svc_meta s)) ss)"
    and "\<And>s. s \<in> set ss \<Longrightarrow> view w (om_Name (svc_meta s)) = Some s"
  shows "\<exists>w'. rewriteServices sw ss activate w = (Ret [], w') \<and> other w' = other w \<and> viewI w' = viewI w \<and>
    (\<forall>n. n \<notin> (\<lambda>s. om_Name (svc_meta s)) ` set ss \<longrightarrow> view w' n = view w n) \<and>
    (\<forall>s\<in>set ss. \<exists>s'. view w' (om_Name (svc_meta s)) = Some s' \<and> maintained activate s s')"
  using assms
proof (induction ss arbitrary: w)
  case Nil
  then show ?case by (simp add: ret_run)
next
  case (Cons s ss)
  obtain w1 s' where w1: "rewriteNonSimpleServiceRoute sw s activate w = (Ret (), w1)"
    "view w1 = (view w)(om_Name (svc_meta s) \<mapsto> s')" "maintained activate s s'" "other w1 = other w" "viewI w1 = viewI w"
    using rewrite_one [of w s activate] Cons.prems(2) by auto
  have "view w1 (om_Name (svc_meta t)) = Some t" if "t \<in> set ss" for t
    using Cons.prems that w1(2) by (auto simp: image_iff)
  then obtain w2 where w2: "rewriteServices sw ss activate w1 = (Ret [], w2)" "other w2 = other w1" "viewI w2 = viewI w1"
    "\<forall>n. n \<notin> (\<lambda>s. om_Name (svc_meta s)) ` set ss \<longrightarrow> view w2 n = view w1 n"
    "\<forall>s\<in>set ss. \<exists>s'. view w2 (om_Name (svc_meta s)) = Some s' \<and> maintained activate s s'"
    using Cons.IH [of w1] Cons.prems(1) by auto
  moreover have "view w2 (om_Name (svc_meta s)) = Some s'" using w2(4) Cons.prems(1) w1(2) by auto
  ultimately show ?case using w1 by (auto simp: io_simps)
qed

lemma upsert_all:
  assumes "\<And>s. s \<in> set ss \<Longrightarrow> inOrder (other w) s"
  shows "\<exists>w'. forEach (\<lambda>s. wrapErr m (mc_UpsertIngressForService mmu s)) ss w = (Ret (), w') \<and>
    view w' = view w \<and> other w' = other w \<and> effects effect (other w) ss (viewI w) (viewI w')"
  using assms
proof (induction ss arbitrary: w)
  case Nil
  then show ?case by (simp add: ret_run)
next
  case (Cons s ss)
  obtain w1 where w1: "mc_UpsertIngressForService mmu s w = (Ret (), w1)" "view w1 = view w" "other w1 = other w"
    "effect (other w) s (viewI w) (viewI w1)"
    using upsert [of w s] Cons.prems by auto
  with Cons.IH [of w1] Cons.prems show ?case by (auto simp: io_simps)
qed

lemma reconcile_run:
  assumes "wellNamed (view w)" and "\<And>s. view w (om_Name (svc_meta s)) = Some s \<Longrightarrow> inOrder (other w) s"
  shows "\<exists>w' ss. Reconcile_Maintenance mmu req w = (Ret (), w') \<and> wellNamed (view w') \<and> other w' = other w \<and>
    (\<forall>n. rel_option (maintained (active (other w))) (view w n) (view w' n)) \<and>
    distinct ss \<and> (\<forall>s. s \<in> set ss \<longleftrightarrow> view w (om_Name (svc_meta s)) = Some s) \<and>
    effects effect (other w) ss (viewI w) (viewI w')"
proof -
  let ?a = "active (other w)"
  obtain desc where st: "mc_GetStatus mmu w = (Ret (desc, ?a), w)" using status by blast
  obtain ss where ss: "mc_List mmu (mc_namespace mmu) w = (Ret ss, w)" "distinct (map (\<lambda>s. om_Name (svc_meta s)) ss)"
    "\<forall>s. s \<in> set ss \<longleftrightarrow> view w (om_Name (svc_meta s)) = Some s"
    using list [OF assms(1)] by blast
  obtain w1 where w1: "forEach (\<lambda>s. wrapErr (''failed to '' @ (if ?a then ''activate'' else ''deactivate'') @
      '' maintenance mode'') (mc_UpsertIngressForService mmu s)) ss w = (Ret (), w1)"
    "view w1 = view w" "other w1 = other w" "effects effect (other w) ss (viewI w) (viewI w1)"
    using upsert_all [of ss w] ss(3) assms(2) by blast
  obtain w2 where w2: "rewriteServices sw ss ?a w1 = (Ret [], w2)" "other w2 = other w1" "viewI w2 = viewI w1"
    "\<forall>n. n \<notin> (\<lambda>s. om_Name (svc_meta s)) ` set ss \<longrightarrow> view w2 n = view w1 n"
    "\<forall>s\<in>set ss. \<exists>s'. view w2 (om_Name (svc_meta s)) = Some s' \<and> maintained ?a s s'"
    using rewrite_all [OF ss(2), of w1 ?a] w1(2) ss(3) by auto
  have rel: "rel_option (maintained ?a) (view w n) (view w2 n)" for n
  proof (cases "view w n")
    case None
    then have "n \<notin> (\<lambda>s. om_Name (svc_meta s)) ` set ss" using ss(3) by auto
    with None w2(4) w1(2) show ?thesis by simp
  next
    case (Some s)
    then have "om_Name (svc_meta s) = n" using assms(1) by (simp add: wellNamed_def)
    moreover from this have "s \<in> set ss" using Some ss(3) by simp
    ultimately show ?thesis using Some w2(5) by fastforce
  qed
  moreover have "wellNamed (view w2)"
    using assms(1) rel unfolding wellNamed_def
    by (metis (no_types, lifting) maintained_def option.rel_cases option.inject option.distinct(1))
  moreover have "Reconcile_Maintenance mmu req w = (Ret (), w2)"
    using st ss(1) w1(1) w2(1)
    by (simp add: Reconcile_Maintenance_def handleMaintenanceModeUpdate_def setMaintenanceMode_def
        getAllServices_def rewriter rewrite_def Let_def io_simps)
  moreover have "distinct ss" using ss(2) by (simp add: distinct_map)
  ultimately show ?thesis using w1 w2(2,3) ss(3) by (intro exI [of _ w2] exI [of _ ss]) simp
qed

end

end
