(* ===== verification/Certificates.thy ===== *)
theory Certificates
  imports Global_Config Util_Pkg Alternative_FQDN Lb_Controller
begin

section \<open>The certificate of the ecosystem\<close>

text \<open>
  Two components share the secret \<open>ecosystem-certificate\<close>.  The self-signed certificate updater
  (controllers/selfsignedCertificateUpdater.go, with the creator and the writer of controllers/ssl)
  regenerates the certificate when the FQDN, the alternative FQDNs or the domain change; the
  synchronizer (controllers/ssl/certificateSynchronizer.go) copies the certificate into the global
  configuration and removes the private key from there.  The reconciler of
  controllers/ecosystemCertificateReconciler.go runs the synchronizer when the secret changes.

  Parameters: the PEM and X.509 decoders with the defaults of cesapp-lib (\<open>x509Lib\<close>), the generator of
  certificates, the global configuration, the secret client, \<open>retry.OnError\<close> with its conflict test,
  and the clock.  Of an X.509 certificate the fields the code reads are modelled; times are in
  seconds, the resolution of a certificate.
\<close>

subsection \<open>Certificates\<close>

record x509Certificate =
  crt_NotBefore :: int
  crt_NotAfter :: int
  crt_Country :: "string list"
  crt_Province :: "string list"
  crt_Locality :: "string list"
  crt_Organization :: "string list"
  crt_DNSNames :: "string list"

record x509Lib =
  xl_Decode :: "string \<Rightarrow> string option"
  xl_ParseCertificate :: "string \<Rightarrow> error + x509Certificate"
  xl_Country :: string
  xl_Province :: string
  xl_Locality :: string

definition TLSCertKey :: string where "TLSCertKey = ''tls.crt''"
definition TLSPrivateKeyKey :: string where "TLSPrivateKeyKey = ''tls.key''"

subsection \<open>Writer and creator (controllers/ssl/sslWriter.go, creator.go)\<close>

definition certificateSecretName :: string where "certificateSecretName = ''ecosystem-certificate''"

record 'w sslWriter =
  wr_secretClient :: "'w secretInterface"
  wr_namespace :: string

definition NewSSLWriter :: "'w secretInterface \<Rightarrow> string \<Rightarrow> 'w sslWriter" where
  "NewSSLWriter secrets namespace = \<lparr>wr_secretClient = secrets, wr_namespace = namespace\<rparr>"

lemma NewSSLWriter_client [simp]: "wr_secretClient (NewSSLWriter secrets namespace) = secrets"
  by (simp add: NewSSLWriter_def)

definition createCertificateSecret :: "'w sslWriter \<Rightarrow> string \<Rightarrow> string \<Rightarrow> Secret" where
  "createCertificateSecret sw cert key =
     \<lparr>sec_meta = emptyMeta
        \<lparr>om_Name := certificateSecretName, om_Namespace := wr_namespace sw, om_Labels := GetAppLabel\<rparr>,
      sec_Data = fmap_of_list [(TLSCertKey, cert), (TLSPrivateKeyKey, key)]\<rparr>"

definition WriteCertificate :: "'w sslWriter \<Rightarrow> string \<Rightarrow> string \<Rightarrow> ('w, unit) io" where
  "WriteCertificate sw cert key =
     (let certificateSecret = createCertificateSecret sw cert key
      in onErr (c_update (wr_secretClient sw) certificateSecret)
           (\<lambda>uErr.
              if \<not> isNotFound uErr then fail (Wrap ''failed to update secret for ecosystem certificate'' uErr)
              else onErr (c_create (wr_secretClient sw) certificateSecret)
                     (\<lambda>cErr. fail (Wrap ''failed to create new secret for ecosystem certificate'' cErr))
                     (\<lambda>_. ret ()))
           (\<lambda>_. ret ()))"

type_synonym 'w certGenerator =
  "string \<Rightarrow> string \<Rightarrow> int \<Rightarrow> string \<Rightarrow> string \<Rightarrow> string \<Rightarrow> string list \<Rightarrow> ('w, string \<times> string) io"

type_synonym 'w cesSSLWriter = "string \<Rightarrow> string \<Rightarrow> ('w, unit) io"

record ('w, 'g) creator =
  cr_globalConfigRepo :: "('w, 'g) GlobalConfigRepository"
  cr_GenerateSelfSignedCert :: "'w certGenerator"
  cr_WriteCertificate :: "'w cesSSLWriter"

definition NewCreator ::
  "'w certGenerator \<Rightarrow> ('w, 'g) GlobalConfigRepository \<Rightarrow> ('w, Secret) client \<Rightarrow> string \<Rightarrow> ('w, 'g) creator" where
  "NewCreator generate globalConfigRepo secrets namespace =
     \<lparr>cr_globalConfigRepo = globalConfigRepo, cr_GenerateSelfSignedCert = generate,
      cr_WriteCertificate = WriteCertificate (NewSSLWriter secrets namespace)\<rparr>"

text \<open>A key of the configuration that has to hold more than white space.\<close>

definition configText :: "'g configOps \<Rightarrow> 'g \<Rightarrow> string \<Rightarrow> string option" where
  "configText cfg globalConfig key =
     (case gc_Get cfg globalConfig key of
        None \<Rightarrow> None
      | Some v \<Rightarrow> if ContainsChars v then Some v else None)"

text \<open>
  The error for the domain wraps an \<open>err\<close> that is nil at this point: its text ends in Go's notation
  for that, and it wraps nothing.
\<close>

definition CreateAndSafeCertificate ::
  "'g configOps \<Rightarrow> ('w, 'g) creator \<Rightarrow> int \<Rightarrow> string \<Rightarrow> string \<Rightarrow> string \<Rightarrow> string list \<Rightarrow> ('w, unit) io" where
  "CreateAndSafeCertificate cfg c certExpireDays country province locality altDNSNames =
     onErr (gcr_Get (cr_globalConfigRepo c))
       (\<lambda>err. fail (Wrap ''failed to get global config for ssl creation'' err))
       (\<lambda>globalConfig.
          case configText cfg globalConfig ''fqdn'' of
            None \<Rightarrow> fail (Msg (''fqdn is empty or doesn'' @ [CHR 0x27] @ ''t exists''))
          | Some fqdn \<Rightarrow>
              (case configText cfg globalConfig ''domain'' of
                 None \<Rightarrow> fail (Msg (''domain is empty or doesn'' @ [CHR 0x27] @ ''t exists: %!w(<nil>)''))
               | Some domain \<Rightarrow>
                   bindIO
                     (wrapErr ''failed to generate self-signed certificate and key''
                        (cr_GenerateSelfSignedCert c fqdn domain certExpireDays country province locality altDNSNames))
                     (\<lambda>(cert, key).
                        wrapErr ''failed to write certificate to the ecosystem-certificate secret''
                          (cr_WriteCertificate c cert key))))"

subsection \<open>The updater (controllers/selfsignedCertificateUpdater.go)\<close>

definition globalFqdnPath :: string where "globalFqdnPath = ''fqdn''"
definition globalDomainPath :: string where "globalDomainPath = ''domain''"
definition alternativeFQDNsPath :: string where "alternativeFQDNsPath = ''alternativeFQDNs''"
definition serverCertificateTypePath :: string where "serverCertificateTypePath = ''certificate/type''"
definition selfsignedCertificateType :: string where "selfsignedCertificateType = ''selfsigned''"
definition ecosystemCertificateName :: string where "ecosystemCertificateName = ''ecosystem-certificate''"
definition defaultExpireDays :: int where "defaultExpireDays = 365 * 24 * 3600"

type_synonym 'w selfSignedCertificateCreator =
  "int \<Rightarrow> string \<Rightarrow> string \<Rightarrow> string \<Rightarrow> string list \<Rightarrow> ('w, unit) io"

record ('w, 'g) selfsignedCertificateUpdater =
  su_namespace :: string
  su_globalConfigRepo :: "('w, 'g) GlobalConfigRepository"
  su_CreateAndSafeCertificate :: "'w selfSignedCertificateCreator"
  su_secretClient :: "'w secretInterface"
  su_Watch :: "string list \<Rightarrow> ('w, unit) io"
  su_Now :: "'w \<Rightarrow> int"

definition NewSelfsignedCertificateUpdater ::
  "'g configOps \<Rightarrow> 'w certGenerator \<Rightarrow> (string list \<Rightarrow> ('w, unit) io) \<Rightarrow> ('w \<Rightarrow> int) \<Rightarrow> string \<Rightarrow> ('w, 'g) GlobalConfigRepository
     \<Rightarrow> ('w, Secret) client \<Rightarrow> ('w, 'g) selfsignedCertificateUpdater" where
  "NewSelfsignedCertificateUpdater cfg generate watch now namespace globalConfigRepo secrets =
     \<lparr>su_namespace = namespace, su_globalConfigRepo = globalConfigRepo,
      su_CreateAndSafeCertificate =
        CreateAndSafeCertificate cfg (NewCreator generate globalConfigRepo secrets namespace),
      su_secretClient = secrets, su_Watch = watch, su_Now = now\<rparr>"

fun getFirstOrDefault :: "string list \<Rightarrow> string \<Rightarrow> string" where
  "getFirstOrDefault (item # items) defaultValue = item"
| "getFirstOrDefault [] defaultValue = defaultValue"

fun certificateHasDNSNameIn :: "string list \<Rightarrow> string \<Rightarrow> bool" where
  "certificateHasDNSNameIn [] dnsName = False"
| "certificateHasDNSNameIn (certificateDNSName # rest) dnsName =
     (if dnsName = certificateDNSName then True else certificateHasDNSNameIn rest dnsName)"

definition certificateHasDNSName :: "x509Certificate \<Rightarrow> string \<Rightarrow> bool" where
  "certificateHasDNSName certificate dnsName = certificateHasDNSNameIn (crt_DNSNames certificate) dnsName"

fun certificateHasAllDNSNames :: "x509Certificate \<Rightarrow> string list \<Rightarrow> bool" where
  "certificateHasAllDNSNames certificate [] = True"
| "certificateHasAllDNSNames certificate (dnsName # dnsNames) =
     (if \<not> certificateHasDNSName certificate dnsName then False
      else certificateHasAllDNSNames certificate dnsNames)"

definition getAlternativeFQDNs :: "'g configOps \<Rightarrow> 'g \<Rightarrow> string list" where
  "getAlternativeFQDNs cfg globalConfig =
     (case gc_Get cfg globalConfig alternativeFQDNsPath of
        None \<Rightarrow> []
      | Some altFQDNsString \<Rightarrow>
          map af_FQDN (filter (\<lambda>a. \<not> HasCertificate a) (ParseAlternativeFQDNsFromConfigString altFQDNsString)))"

definition isSelfSignedCertificate :: "'g configOps \<Rightarrow> 'g \<Rightarrow> error + bool" where
  "isSelfSignedCertificate cfg globalConfig =
     (case configText cfg globalConfig serverCertificateTypePath of
        None \<Rightarrow> Inl (Msg (CHR 0x22 # serverCertificateTypePath @ [CHR 0x22] @
          '' is empty or doesn'' @ [CHR 0x27] @ ''t exists''))
      | Some certType \<Rightarrow> Inr (certType = selfsignedCertificateType))"

definition getCurrentCertificate ::
  "x509Lib \<Rightarrow> ('w, 'g) selfsignedCertificateUpdater \<Rightarrow> ('w, x509Certificate) io" where
  "getCurrentCertificate lib scu =
     onErr (c_get (su_secretClient scu) ecosystemCertificateName)
       (\<lambda>err. fail (Wrap ''failed to get secret for ssl read'' err))
       (\<lambda>secret.
          let certificateBytes = (case fmlookup (sec_Data secret) TLSCertKey of None \<Rightarrow> [] | Some b \<Rightarrow> b)
          in if certificateBytes = [] then fail (Msg ''could not find certificate in ecosystem certificate secret'')
             else (case xl_Decode lib certificateBytes of
                     None \<Rightarrow> fail (Msg ''failed to parse certificate PEM of previous certificate'')
                   | Some block \<Rightarrow>
                       wrapErr ''failed to parse previous certificate'' (liftSum (xl_ParseCertificate lib block))))"

text \<open>
  \<open>NotAfter.Sub(NotBefore)\<close> is a number of nanoseconds that saturates at 64 bits.  Its \<open>Hours\<close> over 24,
  converted to an integer, is the number of whole days: with times in seconds the floating point
  result is never closer to the next integer than its precision.
\<close>

definition expireDaysOf :: "x509Certificate \<Rightarrow> int" where
  "expireDaysOf crt =
     (let d = clamp64 ((crt_NotAfter crt - crt_NotBefore crt) * 10 ^ 9)
      in sgn d * (\<bar>d\<bar> div (24 * 3600 * 10 ^ 9)))"

definition newCertificateTemplate :: "int \<Rightarrow> x509Certificate" where
  "newCertificateTemplate now =
     \<lparr>crt_NotBefore = now, crt_NotAfter = now + defaultExpireDays, crt_Country = [], crt_Province = [],
      crt_Locality = [], crt_Organization = [], crt_DNSNames = []\<rparr>"

definition handleFqdnChange ::
  "'g configOps \<Rightarrow> x509Lib \<Rightarrow> ('w, 'g) selfsignedCertificateUpdater \<Rightarrow> ('w, unit) io" where
  "handleFqdnChange cfg lib scu =
     onErr (gcr_Get (su_globalConfigRepo scu))
       (\<lambda>err. fail (Wrap ''failed to get global config for ssl read'' err))
       (\<lambda>globalConfig.
          case isSelfSignedCertificate cfg globalConfig of
            Inl err \<Rightarrow> fail (Wrap ''failed to check certificate-type'' err)
          | Inr isSelfSigned \<Rightarrow>
              if isSelfSigned then
                let regenerate = (\<lambda>previousCert.
                      wrapErr ''failed to regenerate and safe selfsigned certificate''
                        (su_CreateAndSafeCertificate scu (expireDaysOf previousCert)
                           (getFirstOrDefault (crt_Country previousCert) (xl_Country lib))
                           (getFirstOrDefault (crt_Province previousCert) (xl_Province lib))
                           (getFirstOrDefault (crt_Locality previousCert) (xl_Locality lib))
                           (getAlternativeFQDNs cfg globalConfig)))
                in onErr (getCurrentCertificate lib scu)
                     (\<lambda>err. if \<not> isNotFound err then fail (Wrap ''failed to get current certificate'' err)
                            else (\<lambda>w. regenerate (newCertificateTemplate (su_Now scu w)) w))
                     regenerate
              else ret ())"

definition shouldUpdateCurrentCertificate ::
  "'g configOps \<Rightarrow> x509Lib \<Rightarrow> ('w, 'g) selfsignedCertificateUpdater \<Rightarrow> ('w, bool) io" where
  "shouldUpdateCurrentCertificate cfg lib scu =
     onErr (gcr_Get (su_globalConfigRepo scu))
       (\<lambda>err. fail (Wrap ''failed to get global config'' err))
       (\<lambda>globalConfig.
          case isSelfSignedCertificate cfg globalConfig of
            Inl err \<Rightarrow> fail (Wrap ''failed to check certificate-type'' err)
          | Inr isSelfSigned \<Rightarrow>
              if \<not> isSelfSigned then ret False
              else onErr (getCurrentCertificate lib scu)
                     (\<lambda>err. if \<not> isNotFound err then fail (Wrap ''failed to get current certificate'' err)
                            else ret True)
                     (\<lambda>certificate.
                        case configText cfg globalConfig globalFqdnPath of
                          None \<Rightarrow> fail (Msg (''fqdn is empty or doesn'' @ [CHR 0x27] @ ''t exist''))
                        | Some fqdn \<Rightarrow>
                            let fqdns = getAlternativeFQDNs cfg globalConfig @ [fqdn]
                            in if \<not> certificateHasAllDNSNames certificate fqdns then ret True
                               else (case gc_Get cfg globalConfig globalDomainPath of
                                       None \<Rightarrow> fail (Msg (''domain is empty or doesn'' @ [CHR 0x27] @ ''t exist''))
                                     | Some domain \<Rightarrow>
                                         if \<not> ContainsChars fqdn
                                         then fail (Msg (''domain is empty or doesn'' @ [CHR 0x27] @ ''t exist''))
                                         else ret (domain \<noteq> getFirstOrDefault (crt_Organization certificate) []))))"

definition startGlobalConfigWatch :: "('w, 'g) selfsignedCertificateUpdater \<Rightarrow> ('w, unit) io" where
  "startGlobalConfigWatch scu =
     wrapErr ''failed to create fqdn watch'' (su_Watch scu [globalFqdnPath, alternativeFQDNsPath, globalDomainPath])"

text \<open>Errors of the check and of the update are logged only.\<close>

definition Start_Updater ::
  "'g configOps \<Rightarrow> x509Lib \<Rightarrow> ('w, 'g) selfsignedCertificateUpdater \<Rightarrow> ('w, unit) io" where
  "Start_Updater cfg lib scu =
     bindIO (onErr (shouldUpdateCurrentCertificate cfg lib scu) (\<lambda>err. ret False) ret)
       (\<lambda>shouldUpdate.
          bindIO
            (if shouldUpdate then onErr (handleFqdnChange cfg lib scu) (\<lambda>err. ret ()) (\<lambda>_. ret ()) else ret ())
            (\<lambda>_. startGlobalConfigWatch scu))"

text \<open>
  The watch loop on the events its \<open>select\<close> receives: the context ends, the channel is closed, or a
  result arrives, which may be an error.  The result is None while the loop waits for more events.
\<close>

datatype watchEvent = ContextDone | ChannelClosed | WatchResult "error option"

fun startFQDNWatch ::
  "'g configOps \<Rightarrow> x509Lib \<Rightarrow> ('w, 'g) selfsignedCertificateUpdater \<Rightarrow> watchEvent list \<Rightarrow> 'w
     \<Rightarrow> unit outcome option \<times> 'w" where
  "startFQDNWatch cfg lib scu [] w = (None, w)"
| "startFQDNWatch cfg lib scu (ContextDone # events) w = (Some (Ret ()), w)"
| "startFQDNWatch cfg lib scu (ChannelClosed # events) w = (Some (Ret ()), w)"
| "startFQDNWatch cfg lib scu (WatchResult (Some err) # events) w = startFQDNWatch cfg lib scu events w"
| "startFQDNWatch cfg lib scu (WatchResult None # events) w =
     (case handleFqdnChange cfg lib scu w of
        (Panic, w') \<Rightarrow> (Some Panic, w')
      | (_, w') \<Rightarrow> startFQDNWatch cfg lib scu events w')"

subsection \<open>The synchronizer (controllers/ssl/certificateSynchronizer.go) and its reconciler\<close>

definition serverCertificateID :: string where "serverCertificateID = ''certificate/server.crt''"
definition serverCertificateKeyID :: string where "serverCertificateKeyID = ''certificate/server.key''"

record ('w, 'g) certificateSynchronizer =
  sy_secretInterface :: "'w secretInterface"
  sy_globalConfigRepo :: "('w, 'g) GlobalConfigRepository"

definition NewCertificateSynchronizer ::
  "('w, Secret) client \<Rightarrow> ('w, 'g) GlobalConfigRepository \<Rightarrow> ('w, 'g) certificateSynchronizer" where
  "NewCertificateSynchronizer secretInterface globalConfigRepo =
     \<lparr>sy_secretInterface = secretInterface, sy_globalConfigRepo = globalConfigRepo\<rparr>"

record 'w retryLib =
  rl_OnError :: "nat \<Rightarrow> (error \<Rightarrow> bool) \<Rightarrow> ('w, unit) io \<Rightarrow> ('w, unit) io"
  rl_IsConflictError :: "error \<Rightarrow> bool"

definition updateInGlobalConfigOnce ::
  "'g configOps \<Rightarrow> ('w, 'g) certificateSynchronizer \<Rightarrow> string \<Rightarrow> ('w, unit) io" where
  "updateInGlobalConfigOnce cfg s certificateBytes =
     onErr (gcr_Get (sy_globalConfigRepo s))
       (\<lambda>err. fail (Wrap ''failed to get global config object'' err))
       (\<lambda>globalConfig.
          case gc_Set cfg globalConfig serverCertificateID certificateBytes of
            Inl err \<Rightarrow> fail (Wrap ''failed to set ecosystem certificate in global config object'' err)
          | Inr config1 \<Rightarrow>
              onErr (gcr_Update (sy_globalConfigRepo s) (gc_Delete cfg config1 serverCertificateKeyID))
                (\<lambda>err. fail (Wrap ''failed write global config object'' err))
                (\<lambda>_. ret ()))"

definition updateInGlobalConfig ::
  "'g configOps \<Rightarrow> 'w retryLib \<Rightarrow> ('w, 'g) certificateSynchronizer \<Rightarrow> string \<Rightarrow> ('w, unit) io" where
  "updateInGlobalConfig cfg retry s certificateBytes =
     rl_OnError retry 1000 (rl_IsConflictError retry) (updateInGlobalConfigOnce cfg s certificateBytes)"

definition Synchronize ::
  "'g configOps \<Rightarrow> 'w retryLib \<Rightarrow> ('w, 'g) certificateSynchronizer \<Rightarrow> ('w, unit) io" where
  "Synchronize cfg retry s =
     onErr (c_get (sy_secretInterface s) certificateSecretName)
       (\<lambda>err. if isNotFound err then ret ()
              else fail (Wrap ''failed to get ecosystem certificate secret'' err))
       (\<lambda>secret.
          case fmlookup (sec_Data secret) TLSCertKey of
            None \<Rightarrow> fail (Msg ''could not find certificate in ecosystem certificate secret'')
          | Some certificateBytes \<Rightarrow>
              wrapErr ''failed to update ecosystem certificate in global config''
                (updateInGlobalConfig cfg retry s certificateBytes))"

definition Start_Synchronizer ::
  "'g configOps \<Rightarrow> 'w retryLib \<Rightarrow> ('w, 'g) certificateSynchronizer \<Rightarrow> ('w, unit) io" where
  "Start_Synchronizer cfg retry s = Synchronize cfg retry s"

record 'w ecosystemCertificateReconciler =
  ecr_certSync :: "('w, unit) io"

definition NewEcosystemCertificateReconciler :: "('w, unit) io \<Rightarrow> 'w ecosystemCertificateReconciler" where
  "NewEcosystemCertificateReconciler certSync = \<lparr>ecr_certSync = certSync\<rparr>"

definition Reconcile_EcosystemCertificate ::
  "'w ecosystemCertificateReconciler \<Rightarrow> string \<times> string \<Rightarrow> ('w, unit) io" where
  "Reconcile_EcosystemCertificate r req = ecr_certSync r"

definition ecosystemCertificatePredicate :: predicateFuncs where
  "ecosystemCertificatePredicate =
     \<lparr>pf_Create = (\<lambda>object. getName object = certificateSecretName),
      pf_Delete = (\<lambda>object. getName object = certificateSecretName),
      pf_Update = (\<lambda>objectOld objectNew. getName objectOld = certificateSecretName),
      pf_Generic = (\<lambda>object. getName object = certificateSecretName)\<rparr>"

end
