(* ===== verification/Dogu_Health.thy ===== *)
theory Dogu_Health
  imports Kube
begin

section \<open>Readiness of deployments (controllers/dogustart/doguHealthChecker.go)\<close>

text \<open>
  \<open>IsReady\<close> is one look at the deployment.  \<open>WaitForReady\<close> is a loop over a \<open>select\<close> statement; it is
  modelled as a step relation whose steps are the cases of the \<open>select\<close>, chosen freely, interleaved
  with changes of the cluster by others.  The state counts the calls of \<open>onReady\<close> and records whether
  the context was done and whether the watch was stopped.
\<close>

subsection \<open>Model\<close>

record 'w deploymentReadyChecker =
  rc_getDeployment :: "string \<Rightarrow> ('w, Deployment) io"
  rc_watch :: "string \<Rightarrow> ('w, unit) io"

definition IsReady :: "'w deploymentReadyChecker \<Rightarrow> string \<Rightarrow> ('w, bool) io" where
  "IsReady d deploymentName =
     onErr (rc_getDeployment d deploymentName)
       (\<lambda>err. if isNotFound err then ret False else fail err)
       (\<lambda>deployment. ret (0 < sint (dpl_ReadyReplicas deployment)))"

record 'w waitState =
  ws_world :: 'w
  ws_calls :: nat
  ws_cancelled :: bool
  ws_stopped :: bool
  ws_result :: "unit outcome option"

text \<open>
  \<open>Timeout\<close> is kept by its printed form, the only use the steps make of it; \<open>TickRate\<close>, the length of
  a pause, has no influence on which steps are possible.
\<close>

record WaitOptions =
  wo_timeoutText :: string

text \<open>Everything before the loop; \<open>onReady\<close> is the callback's effect on the world.\<close>

definition WaitForReady_start ::
  "'w deploymentReadyChecker \<Rightarrow> string \<Rightarrow> ('w \<Rightarrow> 'w) \<Rightarrow> 'w \<Rightarrow> 'w waitState" where
  "WaitForReady_start d deploymentName onReady w =
     (let mk = (\<lambda>w' calls res. \<lparr>ws_world = w', ws_calls = calls, ws_cancelled = False,
            ws_stopped = False, ws_result = res\<rparr>)
      in case IsReady d deploymentName w of
           (Fail err, w1) \<Rightarrow> mk w1 0 (Some (Fail err))
         | (Panic, w1) \<Rightarrow> mk w1 0 (Some Panic)
         | (Ret ok, w1) \<Rightarrow>
             if ok then mk (onReady w1) 1 (Some (Ret ()))
             else (case rc_watch d (''metadata.name='' @ deploymentName) w1 of
                     (Fail err, w2) \<Rightarrow> mk w2 0 (Some (Fail err))
                   | (Panic, w2) \<Rightarrow> mk w2 0 (Some Panic)
                   | (Ret _, w2) \<Rightarrow> mk w2 0 None))"

text \<open>
  A step is labelled with the case of the \<open>select\<close> that was taken; the label of the third case holds
  what \<open>IsReady\<close> answered there.
\<close>

datatype waitEvent = CloseTimeout | CtxDone | ResultChan "bool outcome" | Sleep | Environment

inductive waitStep ::
  "'w deploymentReadyChecker \<Rightarrow> string \<Rightarrow> WaitOptions \<Rightarrow> ('w \<Rightarrow> 'w) \<Rightarrow> waitEvent \<Rightarrow>
   'w waitState \<Rightarrow> 'w waitState \<Rightarrow> bool"
  for d deploymentName waitOptions onReady where
  closeTimeout: "ws_result s = None \<Longrightarrow>
    waitStep d deploymentName waitOptions onReady CloseTimeout s
      (s\<lparr>ws_stopped := True, ws_result := Some (Fail (Msg
         (''failed to wait for deployment readiness: timeout after ['' @ wo_timeoutText waitOptions @
          ''] while waiting of pod being ready'')))\<rparr>)"
| ctxDone: "ws_result s = None \<Longrightarrow>
    waitStep d deploymentName waitOptions onReady CtxDone s
      (s\<lparr>ws_stopped := True, ws_cancelled := True, ws_result := Some (Ret ())\<rparr>)"
| resultError: "ws_result s = None \<Longrightarrow> IsReady d deploymentName (ws_world s) = (Fail err, w') \<Longrightarrow>
    waitStep d deploymentName waitOptions onReady (ResultChan (Fail err)) s
      (s\<lparr>ws_world := w', ws_result := Some (Fail err)\<rparr>)"
| resultPanic: "ws_result s = None \<Longrightarrow> IsReady d deploymentName (ws_world s) = (Panic, w') \<Longrightarrow>
    waitStep d deploymentName waitOptions onReady (ResultChan Panic) s
      (s\<lparr>ws_world := w', ws_result := Some Panic\<rparr>)"
| resultReady: "ws_result s = None \<Longrightarrow> IsReady d deploymentName (ws_world s) = (Ret True, w') \<Longrightarrow>
    waitStep d deploymentName waitOptions onReady (ResultChan (Ret True)) s
      (s\<lparr>ws_world := onReady w', ws_calls := Suc (ws_calls s), ws_stopped := True,
         ws_result := Some (Ret ())\<rparr>)"
| resultNotReady: "ws_result s = None \<Longrightarrow> IsReady d deploymentName (ws_world s) = (Ret False, w') \<Longrightarrow>
    waitStep d deploymentName waitOptions onReady (ResultChan (Ret False)) s (s\<lparr>ws_world := w'\<rparr>)"
| sleep: "ws_result s = None \<Longrightarrow> waitStep d deploymentName waitOptions onReady Sleep s s"
| environment: "waitStep d deploymentName waitOptions onReady Environment s (s\<lparr>ws_world := w'\<rparr>)"

inductive_cases waitStepE: "waitStep d deploymentName waitOptions onReady ev s s'"

text \<open>The states a wait reaches, with the events that led there.\<close>

inductive waitReach ::
  "'w deploymentReadyChecker \<Rightarrow> string \<Rightarrow> WaitOptions \<Rightarrow> ('w \<Rightarrow> 'w) \<Rightarrow> 'w \<Rightarrow> waitEvent list \<Rightarrow>
   'w waitState \<Rightarrow> bool"
  for d deploymentName waitOptions onReady w where
  start: "waitReach d deploymentName waitOptions onReady w [] (WaitForReady_start d deploymentName onReady w)"
| step: "waitReach d deploymentName waitOptions onReady w evs s \<Longrightarrow>
    waitStep d deploymentName waitOptions onReady ev s s' \<Longrightarrow>
    waitReach d deploymentName waitOptions onReady w (evs @ [ev]) s'"

subsection \<open>The loop\<close>

text \<open>
  All answers of \<open>IsReady\<close> a run has seen: the first look, before the loop, and one look for every
  event of the watch.
\<close>

definition looks ::
  "'w deploymentReadyChecker \<Rightarrow> string \<Rightarrow> 'w \<Rightarrow> waitEvent list \<Rightarrow> bool outcome set" where
  "looks d deploymentName w evs = insert (fst (IsReady d deploymentName w)) {o'. ResultChan o' \<in> set evs}"

lemma looks_start [simp]: "looks d n w [] = {fst (IsReady d n w)}"
  by (simp add: looks_def)

lemma looks_step [simp]:
  "looks d n w (evs @ [ev]) = (case ev of ResultChan o' \<Rightarrow> insert o' (looks d n w evs) | _ \<Rightarrow> looks d n w evs)"
  by (auto simp: looks_def split: waitEvent.splits)

text \<open>
  What every step keeps.  While the loop runs, every look found the deployment not ready and nothing
  was called; a run that returned without an error saw it ready in its last look and called
  \<open>onReady\<close> once, or its context was done and nothing was called; an error means no call.
\<close>

definition waitInv :: "bool outcome set \<Rightarrow> waitEvent list \<Rightarrow> 'w waitState \<Rightarrow> bool" where
  "waitInv L evs s \<longleftrightarrow>
     (case ws_result s of
        None \<Rightarrow> ws_calls s = 0 \<and> \<not> ws_cancelled s \<and> \<not> ws_stopped s \<and> L = {Ret False} \<and>
          CtxDone \<notin> set evs \<and> CloseTimeout \<notin> set evs
      | Some (Ret _) \<Rightarrow> ws_cancelled s = (CtxDone \<in> set evs) \<and> CloseTimeout \<notin> set evs \<and>
          (if ws_cancelled s then ws_calls s = 0 \<and> L = {Ret False}
           else ws_calls s = 1 \<and> Ret True \<in> L \<and> L \<subseteq> {Ret True, Ret False})
      | Some (Fail err) \<Rightarrow> ws_calls s = 0 \<and> \<not> ws_cancelled s \<and> CtxDone \<notin> set evs \<and>
          L \<subseteq> {Ret False, Fail err}
      | Some Panic \<Rightarrow> ws_calls s = 0 \<and> \<not> ws_cancelled s \<and> CtxDone \<notin> set evs \<and> L \<subseteq> {Ret False, Panic})"

lemma waitInv_start:
  "waitInv (looks d n w []) [] (WaitForReady_start d n onReady w)"
  by (auto simp: WaitForReady_start_def waitInv_def Let_def split: prod.splits outcome.splits)

lemma waitInv_step:
  assumes "waitStep d n wo onReady ev s s'" and "waitInv (looks d n w evs) evs s"
  shows "waitInv (looks d n w (evs @ [ev])) (evs @ [ev]) s'"
  using assms by (elim waitStepE) (auto simp: waitInv_def split: option.splits outcome.splits if_splits)

lemma waitReach_inv:
  assumes "waitReach d n wo onReady w evs s"
  shows "waitInv (looks d n w evs) evs s"
  using assms by (induction rule: waitReach.induct) (auto intro: waitInv_start waitInv_step simp del: looks_step looks_start)

text \<open>
  Property C27. Waiting for a deployment: in every reachable state, whatever the order of timeouts,
  watch events, cancellation and changes of the cluster, the callback has run at most once, and it has
  run exactly when one of the looks at the deployment, the first one or one after a watch event,
  answered that it is ready.  The wait has returned without an error exactly when the deployment was
  seen ready or the context was done, so the callback has run exactly when the wait has returned
  without an error and without the context being done; a look that failed is the error of the wait.
\<close>

theorem wait_for_ready_calls_once:
  assumes "waitReach d deploymentName waitOptions onReady w evs s"
  shows "ws_calls s \<le> 1 \<and>
    (ws_calls s = 1 \<longleftrightarrow> Ret True \<in> looks d deploymentName w evs) \<and>
    (ws_calls s = 1 \<longleftrightarrow> ws_result s = Some (Ret ()) \<and> \<not> ws_cancelled s) \<and>
    (ws_result s = Some (Ret ()) \<longleftrightarrow> Ret True \<in> looks d deploymentName w evs \<or> CtxDone \<in> set evs) \<and>
    (\<forall>err. Fail err \<in> looks d deploymentName w evs \<longrightarrow> ws_result s = Some (Fail err))"
  using waitReach_inv [OF assms]
  by (auto simp: waitInv_def split: option.splits outcome.splits if_splits)

definition exampleChecker :: "bool deploymentReadyChecker" where
  "exampleChecker =
     \<lparr>rc_getDeployment = (\<lambda>n w. (Ret \<lparr>dpl_meta = emptyMeta\<lparr>om_Name := n\<rparr>,
        dpl_ReadyReplicas = (if w then 1 else 0)\<rparr>, w)),
      rc_watch = (\<lambda>_. ret ())\<rparr>"

lemma exampleChecker_IsReady [simp]: "IsReady exampleChecker n w = (Ret w, w)"
  by (simp add: IsReady_def exampleChecker_def onErr_def ret_run)

theorem wait_for_ready_calls_once_witness:
  "\<exists>s. waitReach exampleChecker ''scm'' \<lparr>wo_timeoutText = ''5m0s''\<rparr> (\<lambda>w. w) False
         [ResultChan (Ret False), Environment, ResultChan (Ret True)] s \<and>
     ws_calls s = 1 \<and> ws_result s = Some (Ret ()) \<and> \<not> ws_cancelled s"
proof -
  let ?wo = "\<lparr>wo_timeoutText = ''5m0s''\<rparr>"
  let ?reach = "waitReach exampleChecker ''scm'' ?wo (\<lambda>w. w) False"
  let ?s = "\<lambda>w. \<lparr>ws_world = w, ws_calls = 0, ws_cancelled = False, ws_stopped = False, ws_result = None\<rparr>"
  have s0: "WaitForReady_start exampleChecker ''scm'' (\<lambda>w. w) False = ?s False"
    by (simp add: WaitForReady_start_def Let_def) (simp add: exampleChecker_def ret_run)
  have r0: "?reach [] (?s False)" using waitReach.start [of exampleChecker "''scm''" ?wo "\<lambda>w. w" False] s0 by simp
  have r1: "?reach ([] @ [ResultChan (Ret False)]) (?s False)"
    by (rule waitReach.step [OF r0])
      (use waitStep.resultNotReady [of "?s False" exampleChecker "''scm''" False ?wo "\<lambda>w. w"] in simp)
  have r2: "?reach (([] @ [ResultChan (Ret False)]) @ [Environment]) (?s True)"
    by (rule waitReach.step [OF r1])
      (use waitStep.environment [of exampleChecker "''scm''" ?wo "\<lambda>w. w" "?s False" True] in simp)
  have "\<exists>s. ?reach ((([] @ [ResultChan (Ret False)]) @ [Environment]) @ [ResultChan (Ret True)]) s"
    using waitReach.step [OF r2 waitStep.resultReady] by auto
  then obtain s where s: "?reach [ResultChan (Ret False), Environment, ResultChan (Ret True)] s" by auto
  have "Ret True \<in> looks exampleChecker ''scm'' False [ResultChan (Ret False), Environment, ResultChan (Ret True)]"
    by (simp add: looks_def)
  with s wait_for_ready_calls_once [OF s] show ?thesis by blast
qed

end
