(* ===== verification/Manager.thy ===== *)
theory Manager
  imports Logging Service_Controller Redirect_Controller Maintenance Certificates Dogu_Health
begin

section \<open>Start-up (main.go, controllers/config/config.go)\<close>

text \<open>
  \<open>main\<close> reads the environment, creates the clients, assembles the components and registers them with
  the controller manager, which then runs.  The environment is a map; the \<open>platform\<close> holds everything
  that comes from libraries: the manager and its client, the typed clients, the decoders.  What
  \<open>SetupWithManager\<close> hands to the builder of controller-runtime is a \<open>controllerSpec\<close>.

  \<open>getK8sManagerOptions\<close> registers command line flags with their defaults but the flags are never
  parsed, so the options hold the defaults.
\<close>

subsection \<open>Environment (controllers/config/config.go)\<close>

definition ingressControllerEnvVar :: string where "ingressControllerEnvVar = ''INGRESS_CONTROLLER''"
definition namespaceEnvVar :: string where "namespaceEnvVar = ''WATCH_NAMESPACE''"
definition networkPolicyCIDREnvVar :: string where "networkPolicyCIDREnvVar = ''NETWORK_POLICIES_CIDR''"
definition networkPolicyEnabledEnvVar :: string where "networkPolicyEnabledEnvVar = ''NETWORK_POLICIES_ENABLED''"

text \<open>\<open>os.Getenv\<close> reads an unset variable as empty, \<open>os.LookupEnv\<close> tells them apart.\<close>

definition ReadIngressController :: "environment \<Rightarrow> string" where
  "ReadIngressController env = (case env ingressControllerEnvVar of None \<Rightarrow> [] | Some v \<Rightarrow> v)"

definition ReadWatchNamespace :: "environment \<Rightarrow> error + string" where
  "ReadWatchNamespace env =
     (case env namespaceEnvVar of
        None \<Rightarrow> Inl (Msg (''failed to read namespace to watch from environment variable ['' @ namespaceEnvVar @
          ''], please set the variable and try again''))
      | Some watchNamespace \<Rightarrow> Inr watchNamespace)"

definition ReadNetworkPolicyCIDR :: "environment \<Rightarrow> error + string" where
  "ReadNetworkPolicyCIDR env =
     (case env networkPolicyCIDREnvVar of
        None \<Rightarrow> Inl (Msg (''failed to read cidr from environment variable ['' @ networkPolicyCIDREnvVar @
          ''], please set the variable and try again''))
      | Some cidr \<Rightarrow> Inr cidr)"

definition parseBool :: "string \<Rightarrow> error + bool" where
  "parseBool s =
     (if s \<in> set [''1'', ''t'', ''T'', ''TRUE'', ''true'', ''True''] then Inr True
      else if s \<in> set [''0'', ''f'', ''F'', ''FALSE'', ''false'', ''False''] then Inr False
      else Inl (Msg (''strconv.ParseBool: parsing '' @ CHR 0x22 # s @ CHR 0x22 # '': invalid syntax'')))"

text \<open>The value comes with the error, if there is one.\<close>

definition ReadNetworkPolicyEnabled :: "environment \<Rightarrow> bool \<times> error option" where
  "ReadNetworkPolicyEnabled env =
     (case env networkPolicyEnabledEnvVar of
        None \<Rightarrow> (True, Some (Msg (''failed to read flag network policy enabled from environment variable ['' @
          networkPolicyEnabledEnvVar @ ''], please set the variable and try again'')))
      | Some enabled \<Rightarrow>
          (case parseBool enabled of Inl err \<Rightarrow> (True, Some err) | Inr b \<Rightarrow> (b, None)))"

subsection \<open>Controllers as they are registered\<close>

datatype objectKind = ConfigMapKind | ServiceKind | SecretKind | DeploymentKind | IngressKind

record watchSpec =
  wa_kind :: objectKind
  wa_predicates :: "predicateFuncs list"

record 'w controllerSpec =
  co_For :: watchSpec
  co_Watches :: "(watchSpec \<times> (k8sObject \<Rightarrow> (string \<times> string) list)) list"
  co_Owns :: "watchSpec list"
  co_EventFilters :: "predicateFuncs list"
  co_Named :: "string option"
  co_Reconciler :: "string \<times> string \<Rightarrow> ('w, unit) io"

text \<open>\<open>ctrl.NewControllerManagedBy(mgr).For(kind)\<close>, with nothing else said.\<close>

definition newController :: "objectKind \<Rightarrow> (string \<times> string \<Rightarrow> ('w, unit) io) \<Rightarrow> 'w controllerSpec" where
  "newController kind reconciler =
     \<lparr>co_For = \<lparr>wa_kind = kind, wa_predicates = []\<rparr>, co_Watches = [], co_Owns = [], co_EventFilters = [],
      co_Named = None, co_Reconciler = reconciler\<rparr>"

record 'w managerClient =
  cl_GetService :: "string \<times> string \<Rightarrow> ('w, Service) io"
  cl_GetDeployment :: "string \<times> string \<Rightarrow> ('w, Deployment) io"
  cl_GetConfigMap :: "string \<times> string \<Rightarrow> ('w, ConfigMap) io"
  cl_ListIndexed :: "(k8sObject \<Rightarrow> string list) \<Rightarrow> string \<Rightarrow> ('w, Service list) io"
  cl_ListServices :: "string \<Rightarrow> ('w, Service list) io"
  cl_UpdateService :: "Service \<Rightarrow> ('w, Service) io"
  cl_SetControllerReference :: "ConfigMap \<Rightarrow> ownerSetter"

record 'w k8sManager =
  mg_Complete :: "'w controllerSpec \<Rightarrow> ('w, unit) io"
  mg_IndexField :: "objectKind \<Rightarrow> string \<Rightarrow> (k8sObject \<Rightarrow> string list) \<Rightarrow> ('w, unit) io"
  mg_Add :: "('w, unit) io \<Rightarrow> ('w, unit) io"
  mg_AddHealthzCheck :: "string \<Rightarrow> ('w, unit) io"
  mg_AddReadyzCheck :: "string \<Rightarrow> ('w, unit) io"
  mg_Start :: "('w, unit) io"
  mg_GetClient :: "'w managerClient"
  mg_EventfDogu :: "('w, Dogu) eventRecorder"
  mg_EventfService :: "('w, Service) eventRecorder"

definition exposedPortIndexKey :: string where
  "exposedPortIndexKey = ''k8s-service-discovery.cloudogu.com/exposedPort''"

definition SetupWithManager_Service ::
  "predicateFuncs \<Rightarrow> 'w serviceReconciler \<Rightarrow> 'w k8sManager \<Rightarrow> ('w, unit) io" where
  "SetupWithManager_Service annotationChangedPredicate r mgr =
     mg_Complete mgr ((newController ServiceKind (Reconcile_Service r))
       \<lparr>co_EventFilters := [annotationChangedPredicate]\<rparr>)"

definition SetupWithManager_Deployment :: "'w deploymentReconciler \<Rightarrow> 'w k8sManager \<Rightarrow> ('w, unit) io" where
  "SetupWithManager_Deployment r mgr = mg_Complete mgr (newController DeploymentKind (Reconcile_Deployment r))"

definition SetupWithManager_EcosystemCertificate ::
  "'w ecosystemCertificateReconciler \<Rightarrow> 'w k8sManager \<Rightarrow> ('w, unit) io" where
  "SetupWithManager_EcosystemCertificate r mgr =
     mg_Complete mgr ((newController SecretKind (Reconcile_EcosystemCertificate r))
       \<lparr>co_EventFilters := [ecosystemCertificatePredicate]\<rparr>)"

definition SetupWithManager_Redirect ::
  "'g configOps \<Rightarrow> ('w, 'g) RedirectReconciler \<Rightarrow> 'w k8sManager \<Rightarrow> ('w, unit) io" where
  "SetupWithManager_Redirect cfg r mgr =
     mg_Complete mgr ((newController ConfigMapKind (Reconcile_Redirect cfg r))
       \<lparr>co_For := \<lparr>wa_kind = ConfigMapKind, wa_predicates = [globalConfigPredicate]\<rparr>,
        co_Owns := [\<lparr>wa_kind = IngressKind, wa_predicates = [redirectIngressPredicate]\<rparr>],
        co_Named := Some ''redirect''\<rparr>)"

definition SetupWithManager_LoadBalancer ::
  "libraries \<Rightarrow> nat \<Rightarrow> 'w LoadBalancerReconciler \<Rightarrow> 'w k8sManager \<Rightarrow> ('w, unit) io" where
  "SetupWithManager_LoadBalancer libs a r mgr =
     bindIO
       (wrapErr ''failed to create index for service with exposed ports''
          (mg_IndexField mgr ServiceKind exposedPortIndexKey createExposedServiceIndex))
       (\<lambda>_. mg_Complete mgr ((newController ConfigMapKind (Reconcile_LoadBalancer libs a r))
          \<lparr>co_For := \<lparr>wa_kind = ConfigMapKind, wa_predicates = [loadbalancerConfigPredicate]\<rparr>,
           co_Watches := [(\<lparr>wa_kind = ServiceKind, wa_predicates = [exposedPortServicePredicate libs]\<rparr>,
             enqueueLoadBalancerConfig)],
           co_Owns := [\<lparr>wa_kind = ServiceKind, wa_predicates = [loadbalancerServicePredicate]\<rparr>],
           co_Named := Some ''loadbalancer-configmap''\<rparr>))"

definition SetupWithManager_Maintenance ::
  "string \<Rightarrow> 'w maintenanceModeController \<Rightarrow> 'w k8sManager \<Rightarrow> ('w, unit) io" where
  "SetupWithManager_Maintenance maintenanceConfigMapName mmu mgr =
     mg_Complete mgr ((newController ConfigMapKind (Reconcile_Maintenance mmu))
       \<lparr>co_For := \<lparr>wa_kind = ConfigMapKind, wa_predicates = [maintenancePredicate maintenanceConfigMapName]\<rparr>,
        co_Named := Some ''maintenance''\<rparr>)"

subsection \<open>The platform\<close>

record managerOptions =
  mo_metricsAddr :: string
  mo_DefaultNamespaces :: "string list"
  mo_webhookPort :: nat
  mo_probeAddr :: string
  mo_LeaderElection :: bool
  mo_LeaderElectionID :: string

text \<open>The client sets: each client by its namespace.\<close>

record 'w kubernetesClients =
  kc_Secrets :: "string \<Rightarrow> ('w, Secret) client"
  kc_Services :: "string \<Rightarrow> ('w, Service) client"
  kc_Ingresses :: "string \<Rightarrow> ('w, Ingress) client"
  kc_NetworkPolicies :: "string \<Rightarrow> ('w, NetworkPolicy) client"
  kc_Deployments :: "string \<Rightarrow> string \<Rightarrow> ('w, Deployment) io"
  kc_WatchDeployments :: "string \<Rightarrow> string \<Rightarrow> ('w, unit) io"

record 'w k8sClientSet =
  ks_namespace :: string
  ks_k8sClient :: "'w kubernetesClients"
  ks_secretClient :: "('w, Secret) client"
  ks_serviceClient :: "('w, Service) client"
  ks_ingressClient :: "('w, Ingress) client"
  ks_networkPolicyClient :: "('w, NetworkPolicy) client"

record ('w, 'g) platform =
  pl_NewManager :: "managerOptions \<Rightarrow> ('w, 'w k8sManager) io"
  pl_NewForConfig :: "('w, 'w kubernetesClients) io"
  pl_NewTraefik :: "('w, 'w traefikInterface) io"
  pl_NewDogus :: "('w, string \<Rightarrow> string \<Rightarrow> ('w, Dogu) io) io"
  pl_NewGlobalConfigRepository :: "string \<Rightarrow> ('w, 'g) GlobalConfigRepository"
  pl_WatchGlobalConfig :: "string \<Rightarrow> string list \<Rightarrow> ('w, unit) io"
  pl_NewMaintenanceModeAdapter :: "string \<Rightarrow> string \<Rightarrow> ('w, string \<times> bool) io"
  pl_MaintenanceConfigMapName :: string
  pl_AnnotationChangedPredicate :: predicateFuncs
  pl_configOps :: "'g configOps"
  pl_x509 :: x509Lib
  pl_generate :: "'w certGenerator"
  pl_Now :: "'w \<Rightarrow> int"
  pl_retry :: "'w retryLib"
  pl_onConflict :: "('w, unit) io \<Rightarrow> ('w, unit) io"
  pl_portsJson :: portsJson
  pl_ingressJson :: ingressJson
  pl_libraries :: libraries
  pl_mapOrder :: mapOrder
  pl_newAddress :: nat

subsection \<open>main.go\<close>

definition IngressClassName :: string where "IngressClassName = ''k8s-ecosystem-ces-service''"
definition ServiceDiscoveryMaintenanceOwner :: string where
  "ServiceDiscoveryMaintenanceOwner = ''k8s-service-discovery''"

definition getK8sManagerOptions :: "string \<Rightarrow> managerOptions" where
  "getK8sManagerOptions watchNamespace =
     \<lparr>mo_metricsAddr = '':8080'', mo_DefaultNamespaces = [watchNamespace], mo_webhookPort = 9443,
      mo_probeAddr = '':8081'', mo_LeaderElection = False, mo_LeaderElectionID = ''92a787f2.cloudogu.com''\<rparr>"

definition getK8sClientSet :: "('w, 'g) platform \<Rightarrow> string \<Rightarrow> ('w, 'w k8sClientSet) io" where
  "getK8sClientSet pl namespace =
     bindIO (wrapErr ''failed to create k8s client set'' (pl_NewForConfig pl))
       (\<lambda>k8sClients. ret
          \<lparr>ks_namespace = namespace, ks_k8sClient = k8sClients, ks_secretClient = kc_Secrets k8sClients namespace,
           ks_serviceClient = kc_Services k8sClients namespace, ks_ingressClient = kc_Ingresses k8sClients namespace,
           ks_networkPolicyClient = kc_NetworkPolicies k8sClients namespace\<rparr>)"

record 'w IngressUpdaterDependencies =
  iud_DeploymentReadyChecker :: "'w DeploymentReadyChecker"
  iud_IngressInterface :: "'w ingressInterface"
  iud_DoguInterface :: "'w doguInterface"
  iud_Namespace :: string
  iud_IngressClassName :: string
  iud_Recorder :: "('w, Dogu) eventRecorder"
  iud_Controller :: "'w TraefikController"
  iud_MiddlewareManager :: "'w MiddlewareManager"
  iud_MaintenanceAdapter :: "'w maintenanceAdapter"

definition NewIngressUpdater :: "'w IngressUpdaterDependencies \<Rightarrow> 'w ingressUpdater" where
  "NewIngressUpdater deps =
     \<lparr>iu_namespace = iud_Namespace deps, iu_ingressClassName = iud_IngressClassName deps,
      iu_IsReady = iud_DeploymentReadyChecker deps, iu_Eventf = iud_Recorder deps,
      iu_rewriteAnnotationKey = GetRewriteAnnotationKey (iud_Controller deps),
      iu_ingressInterface = iud_IngressInterface deps, iu_getDogu = iud_DoguInterface deps,
      iu_createOrUpdateReplacePathMiddleware = createOrUpdateReplacePathMiddleware (iud_MiddlewareManager deps),
      iu_GetStatus = iud_MaintenanceAdapter deps\<rparr>"

definition NewDeploymentReadyChecker :: "'w kubernetesClients \<Rightarrow> string \<Rightarrow> 'w deploymentReadyChecker" where
  "NewDeploymentReadyChecker clientset namespace =
     \<lparr>rc_getDeployment = kc_Deployments clientset namespace, rc_watch = kc_WatchDeployments clientset namespace\<rparr>"

definition NewMiddlewareManager :: "'w traefikInterface \<Rightarrow> string \<Rightarrow> 'w MiddlewareManager" where
  "NewMiddlewareManager traefikClient namespace =
     \<lparr>mm_client = tk_Middlewares traefikClient namespace, mm_namespace = namespace\<rparr>"

definition NewDeploymentReconciler ::
  "'w managerClient \<Rightarrow> (Service \<Rightarrow> ('w, unit) io) \<Rightarrow> 'w deploymentReconciler" where
  "NewDeploymentReconciler cl updater =
     \<lparr>dr_updater = updater, dr_GetDeployment = cl_GetDeployment cl, dr_GetService = cl_GetService cl\<rparr>"

definition configureReconciler ::
  "('w, 'g) platform \<Rightarrow> 'w k8sManager \<Rightarrow> 'w k8sClientSet \<Rightarrow> ('w, 'g) GlobalConfigRepository \<Rightarrow> string
     \<Rightarrow> 'w IngressController \<Rightarrow> (Service \<Rightarrow> ('w, unit) io) \<Rightarrow> 'w NetworkPolicyUpdater \<Rightarrow> bool
     \<Rightarrow> ('w, unit) io \<Rightarrow> ('w, string \<times> bool) io \<Rightarrow> ('w, unit) io" where
  "configureReconciler pl mgr k8sClients globalConfigRepo namespace ingressController ingressUpdater
     networkPolicyUpdater networkPoliciesEnabled certSync maintenanceAdapter =
     bindIO (wrapErr ''failed to setup service discovery with the manager''
       (SetupWithManager_Service (pl_AnnotationChangedPredicate pl)
          (NewServiceReconciler (cl_GetService (mg_GetClient mgr)) ingressUpdater networkPolicyUpdater
             networkPoliciesEnabled) mgr)) (\<lambda>_.
     bindIO (wrapErr ''failed to setup deployment reconciler with the manager''
       (SetupWithManager_Deployment (NewDeploymentReconciler (mg_GetClient mgr) ingressUpdater) mgr)) (\<lambda>_.
     bindIO (wrapErr ''failed to setup ecosystem certificate reconciler with the manager''
       (SetupWithManager_EcosystemCertificate (NewEcosystemCertificateReconciler certSync) mgr)) (\<lambda>_.
     bindIO (wrapErr ''failed to setup redirct reconciler with the manager''
       (SetupWithManager_Redirect (pl_configOps pl)
          \<lparr>rr_GetConfigMap = cl_GetConfigMap (mg_GetClient mgr),
           rr_SetControllerReference = cl_SetControllerReference (mg_GetClient mgr),
           rr_GlobalConfigGetter = globalConfigRepo,
           rr_RedirectAlternativeFQDN = ic_RedirectAlternativeFQDN ingressController,
           rr_Namespace = namespace\<rparr> mgr)) (\<lambda>_.
     bindIO (wrapErr ''failed to setup loadbalancer reconciler with the manager''
       (SetupWithManager_LoadBalancer (pl_libraries pl) (pl_newAddress pl)
          \<lparr>lr_GetConfigMap = cl_GetConfigMap (mg_GetClient mgr), lr_ListIndexed = cl_ListIndexed (mg_GetClient mgr),
           lr_SetControllerReference = cl_SetControllerReference (mg_GetClient mgr),
           lr_IngressController = ingressController, lr_SvcClient = ks_serviceClient k8sClients\<rparr> mgr)) (\<lambda>_.
     wrapErr ''failed to setup maintenance mode updater with the manager''
       (SetupWithManager_Maintenance (pl_MaintenanceConfigMapName pl)
          (NewMaintenanceModeController (cl_ListServices (mg_GetClient mgr)) (cl_UpdateService (mg_GetClient mgr))
             namespace ingressUpdater maintenanceAdapter (mg_EventfService mgr)) mgr))))))"

definition addChecks :: "'w k8sManager \<Rightarrow> ('w, unit) io" where
  "addChecks mgr =
     bindIO (wrapErr ''failed to add healthz check'' (mg_AddHealthzCheck mgr ''healthz''))
       (\<lambda>_. wrapErr ''failed to add readyz check'' (mg_AddReadyzCheck mgr ''readyz''))"

definition configureManager ::
  "('w, 'g) platform \<Rightarrow> 'w k8sManager \<Rightarrow> 'w k8sClientSet \<Rightarrow> ('w, 'g) GlobalConfigRepository \<Rightarrow> string
     \<Rightarrow> 'w IngressController \<Rightarrow> (Service \<Rightarrow> ('w, unit) io) \<Rightarrow> 'w NetworkPolicyUpdater \<Rightarrow> bool
     \<Rightarrow> ('w, unit) io \<Rightarrow> ('w, string \<times> bool) io \<Rightarrow> ('w, unit) io" where
  "configureManager pl mgr k8sClients globalConfigRepo namespace ingressController ingressUpdater
     networkPolicyUpdater networkPoliciesEnabled certSync maintenanceAdapter =
     bindIO
       (wrapErr ''failed to configure reconciler''
          (configureReconciler pl mgr k8sClients globalConfigRepo namespace ingressController ingressUpdater
             networkPolicyUpdater networkPoliciesEnabled certSync maintenanceAdapter))
       (\<lambda>_. wrapErr ''failed to configure reconciler'' (addChecks mgr))"

definition startK8sManager :: "'w k8sManager \<Rightarrow> ('w, unit) io" where
  "startK8sManager mgr = wrapErr ''failed to start service discovery manager'' (mg_Start mgr)"

definition handleCertificateSynchronization :: "'w k8sManager \<Rightarrow> ('w, unit) io \<Rightarrow> ('w, unit) io" where
  "handleCertificateSynchronization mgr start =
     wrapErr ''failed to add certificate key remover as runnable to the manager'' (mg_Add mgr start)"

definition handleSelfsignedCertificateUpdates ::
  "('w, 'g) platform \<Rightarrow> 'w k8sManager \<Rightarrow> string \<Rightarrow> ('w, 'g) GlobalConfigRepository \<Rightarrow> ('w, Secret) client
     \<Rightarrow> ('w, unit) io" where
  "handleSelfsignedCertificateUpdates pl mgr namespace globalConfigRepo secrets =
     wrapErr ''failed to add selfsigned certificate updater as runnable to the manager''
       (mg_Add mgr (Start_Updater (pl_configOps pl) (pl_x509 pl)
          (NewSelfsignedCertificateUpdater (pl_configOps pl) (pl_generate pl) (pl_WatchGlobalConfig pl namespace)
             (pl_Now pl) namespace globalConfigRepo secrets)))"

text \<open>The components that \<open>startManager\<close> assembles from the clients.\<close>

definition assembledController ::
  "string \<Rightarrow> string \<Rightarrow> 'w k8sClientSet \<Rightarrow> 'w traefikInterface \<Rightarrow> 'w TraefikController" where
  "assembledController ingressControllerStr watchNamespace clientSet traefikClient =
     ParseIngressController
       \<lparr>dep_Controller = ingressControllerStr, dep_IngressInterface = ks_ingressClient clientSet,
        dep_IngressClassName = IngressClassName, dep_TraefikInterface = traefikClient,
        dep_Namespace = watchNamespace\<rparr>"

definition assembledUpdater ::
  "('w, 'g) platform \<Rightarrow> string \<Rightarrow> 'w k8sManager \<Rightarrow> 'w k8sClientSet \<Rightarrow> 'w traefikInterface
     \<Rightarrow> (string \<Rightarrow> string \<Rightarrow> ('w, Dogu) io) \<Rightarrow> 'w TraefikController \<Rightarrow> 'w ingressUpdater" where
  "assembledUpdater pl watchNamespace mgr clientSet traefikClient dogus controller =
     NewIngressUpdater
       \<lparr>iud_DeploymentReadyChecker = IsReady (NewDeploymentReadyChecker (ks_k8sClient clientSet) watchNamespace),
        iud_IngressInterface = ks_ingressClient clientSet, iud_DoguInterface = dogus watchNamespace,
        iud_Namespace = watchNamespace, iud_IngressClassName = IngressClassName, iud_Recorder = mg_EventfDogu mgr,
        iud_Controller = controller, iud_MiddlewareManager = NewMiddlewareManager traefikClient watchNamespace,
        iud_MaintenanceAdapter = pl_NewMaintenanceModeAdapter pl ServiceDiscoveryMaintenanceOwner watchNamespace\<rparr>"

text \<open>From the reading of the network policy settings to the end.\<close>

definition configureAndStart ::
  "('w, 'g) platform \<Rightarrow> environment \<Rightarrow> string \<Rightarrow> 'w k8sManager \<Rightarrow> 'w k8sClientSet \<Rightarrow> ('w, 'g) GlobalConfigRepository
     \<Rightarrow> 'w TraefikController \<Rightarrow> 'w ingressUpdater \<Rightarrow> ('w, 'g) certificateSynchronizer \<Rightarrow> ('w, unit) io" where
  "configureAndStart pl env watchNamespace serviceDiscManager clientSet globalConfigRepo controller updater certSync =
     (case ReadNetworkPolicyCIDR env of
        Inl err \<Rightarrow> fail err
      | Inr cidr \<Rightarrow>
          (case ReadNetworkPolicyEnabled env of
             (_, Some err) \<Rightarrow> fail err
           | (networkpoliciesEnabled, None) \<Rightarrow>
               bindIO
                 (wrapErr ''failed to configure service discovery manager''
                    (configureManager pl serviceDiscManager clientSet globalConfigRepo watchNamespace
                       (asIngressController (pl_mapOrder pl) controller)
                       (UpsertIngressForService (pl_ingressJson pl) (pl_onConflict pl) updater)
                       (asNetworkPolicyUpdater (pl_portsJson pl) (pl_onConflict pl)
                          (NewNetworkPolicyHandler (ks_networkPolicyClient clientSet) (GetName controller) cidr))
                       networkpoliciesEnabled
                       (Synchronize (pl_configOps pl) (pl_retry pl) certSync)
                       (pl_NewMaintenanceModeAdapter pl ServiceDiscoveryMaintenanceOwner watchNamespace)))
                 (\<lambda>_. wrapErr ''failure at service discovery manager'' (startK8sManager serviceDiscManager))))"

definition startManager :: "('w, 'g) platform \<Rightarrow> environment \<Rightarrow> ('w, unit) io" where
  "startManager pl env =
     (case ReadWatchNamespace env of
        Inl err \<Rightarrow> fail (Wrap ''failed to read watch namespace'' err)
      | Inr watchNamespace \<Rightarrow>
          bindIO (wrapErr ''failed to create new manager'' (pl_NewManager pl (getK8sManagerOptions watchNamespace)))
            (\<lambda>serviceDiscManager.
          bindIO (wrapErr ''failed to create k8s client set'' (getK8sClientSet pl watchNamespace)) (\<lambda>clientSet.
          bindIO (wrapErr ''failed to create traefik client'' (pl_NewTraefik pl)) (\<lambda>traefikClient.
          let controller = assembledController (ReadIngressController env) watchNamespace clientSet traefikClient;
              globalConfigRepo = pl_NewGlobalConfigRepository pl watchNamespace;
              certSync = NewCertificateSynchronizer (ks_secretClient clientSet) globalConfigRepo
          in
          bindIO (wrapErr ''failed to create certificate key remover''
                    (handleCertificateSynchronization serviceDiscManager
                       (Start_Synchronizer (pl_configOps pl) (pl_retry pl) certSync))) (\<lambda>_.
          bindIO (wrapErr ''failed to create selfsigned certificate updater''
                    (handleSelfsignedCertificateUpdates pl serviceDiscManager watchNamespace globalConfigRepo
                       (ks_secretClient clientSet))) (\<lambda>_.
          bindIO (wrapErr ''failed to create ecosystem client set'' (pl_NewDogus pl)) (\<lambda>dogus.
          configureAndStart pl env watchNamespace serviceDiscManager clientSet globalConfigRepo controller
            (assembledUpdater pl watchNamespace serviceDiscManager clientSet traefikClient dogus controller)
            certSync)))))))"

text \<open>
  The process: \<open>init\<close> runs first and ends the process with status 1 if the loggers cannot be set up;
  \<open>main\<close> turns an error of \<open>startManager\<close> into status 1 and returns with status 0 otherwise.  The
  registration of the schemes in \<open>init\<close> is library set-up without an effect on what follows here.
\<close>

definition init :: "error option \<Rightarrow> nat option" where
  "init configured = (case configured of Some _ \<Rightarrow> Some 1 | None \<Rightarrow> None)"

definition main :: "('w, 'g) platform \<Rightarrow> environment \<Rightarrow> ('w, nat) io" where
  "main pl env = onErr (startManager pl env) (\<lambda>_. ret 1) (\<lambda>_. ret 0)"

definition process ::
  "(string \<Rightarrow> error + 'l) \<Rightarrow> 'l \<Rightarrow> ('l \<Rightarrow> 'w logSink) \<Rightarrow> ('w, 'g) platform \<Rightarrow> environment \<Rightarrow> ('w, nat) io" where
  "process parseLevel logrusErrorLevel newLogger pl env =
     (case init (fst (ConfigureLogger parseLevel logrusErrorLevel newLogger env
              \<lparr>lo_controller = None, lo_library = None\<rparr>)) of
        Some status \<Rightarrow> ret status
      | None \<Rightarrow> main pl env)"

end
