(* ===== verification/Ingress_Correct.thy ===== *)
theory Ingress_Correct
  imports Ingress_Updater Dogu_Health Traefik_Correct
begin

section \<open>Correctness of the ingress updater\<close>

text \<open>
  The interfaces of the updater are two locales: \<open>replace_path_provider\<close>, what the updater needs of
  the middleware manager, and \<open>ingress_environment\<close>, all its interfaces together.  The function \<open>sys\<close>
  is the part of the world that decides about the routes (maintenance mode, ready deployments,
  existing dogus), possibly extended by more that others depend on; no call of the updater changes it.
\<close>

record sysState =
  sy_maintenance :: bool
  sy_ready :: "string \<Rightarrow> bool"
  sy_dogus :: "string \<Rightarrow> Dogu option"

subsection \<open>The middleware manager as the updater sees it\<close>

locale replace_path_provider =
  fixes provide :: "string \<Rightarrow> CesService \<Rightarrow> OwnerReference list \<Rightarrow> ('w, string) io"
    and viewI :: "'w \<Rightarrow> string \<Rightarrow> Ingress option" and sys :: "'w \<Rightarrow> 'a sysState_scheme"
  assumes provide_law: "\<exists>w'. provide serviceName ces refs w =
      (Ret (serviceName @ ''-'' @ cs_Name ces @ ''-rewrite''), w') \<and> viewI w' = viewI w \<and> sys w' = sys w"

text \<open>A middleware manager on a lawful store provides it.\<close>

lemma middleware_manager_provides:
  assumes "object_store (mm_client m) viewM putM mw_meta admM"
    and "\<And>n x w. viewI (putM n x w) = viewI w" and "\<And>n x w. sys (putM n x w) = sys w"
  shows "replace_path_provider (createOrUpdateReplacePathMiddleware m) viewI sys"
proof
  fix serviceName ces refs w
  show "\<exists>w'. createOrUpdateReplacePathMiddleware m serviceName ces refs w =
      (Ret (serviceName @ ''-'' @ cs_Name ces @ ''-rewrite''), w') \<and> viewI w' = viewI w \<and> sys w' = sys w"
    using replace_path_middleware_stores [OF assms(1), of serviceName ces refs w] assms(2,3) by auto
qed

subsection \<open>The environment of the updater\<close>

locale ingress_environment =
  replace_path_provider "iu_createOrUpdateReplacePathMiddleware i" viewI sys
  for i :: "'w ingressUpdater" and viewI :: "'w \<Rightarrow> string \<Rightarrow> Ingress option" and sys +
  fixes json :: ingressJson and onConflict :: "('w, unit) io \<Rightarrow> ('w, unit) io" and putI admI
  assumes ing: "object_store (iu_ingressInterface i) viewI putI ing_meta admI"
    and retry: "retriesConflicts onConflict"
    and keepsI: "is_Rules (ing_spec (admI w x)) = is_Rules (ing_spec x)"
      "om_Annotations (ing_meta (admI w x)) = om_Annotations (ing_meta x)"
    and sys_putI: "sys (putI n u w) = sys w"
    and status: "\<exists>desc. iu_GetStatus i w = (Ret (desc, sy_maintenance (sys w)), w)"
    and dogu: "iu_getDogu i n w =
      (case sy_dogus (sys w) n of None \<Rightarrow> (Fail (Api NotFound), w) | Some dg \<Rightarrow> (Ret dg, w))"
    and ready: "iu_IsReady i n w = (Ret (sy_ready (sys w) n), w)"
    and event: "\<exists>w'. iu_Eventf i dg msg w = (Ret (), w') \<and> viewI w' = viewI w \<and> sys w' = sys w"
begin

text \<open>One ingress object: it is stored under its name, nothing else changes.\<close>

lemma upsertIngressObject_run:
  "\<exists>w' x. upsertIngressObject onConflict i name service path backend port ann w = (Ret (), w') \<and>
     viewI w' = (viewI w)(name \<mapsto> x) \<and> sys w' = sys w \<and>
     serves x \<lparr>ro_path = path, ro_backend = backend, ro_port = port, ro_annotations = ann\<rparr>"
proof -
  let ?y = "getIngress i name service path backend port ann"
  let ?x = "admI w ?y" and ?w' = "putI name (Some (admI w ?y)) w"
  have y: "om_Name (ing_meta ?y) = name" "om_ResourceVersion (ing_meta ?y) = []"
    by (simp_all add: getIngress_def emptyMeta_def)
  have "upsertIngressOnce i ?y w = (Ret (), ?w')"
  proof (cases "viewI w name")
    case None
    then show ?thesis
      using y by (simp add: upsertIngressOnce_def io_simps object_store.store_runs [OF ing])
  next
    case (Some old)
    then show ?thesis
      using y object_store.update_fresh [OF ing, of w ?y old]
      by (simp add: upsertIngressOnce_def io_simps object_store.get_found [OF ing])
  qed
  then have "onConflict (upsertIngressOnce i ?y) w = (Ret (), ?w')"
    by (rule retriesConflicts_Ret [OF retry])
  moreover have "serves ?x \<lparr>ro_path = path, ro_backend = backend, ro_port = port, ro_annotations = ann\<rparr>"
    by (simp add: serves_def keepsI) (simp add: getIngress_def PathTypePrefix_def)
  ultimately show ?thesis
    by (intro exI [of _ ?w'] exI [of _ ?x])
      (simp add: upsertIngressObject_def Let_def y object_store.view_put [OF ing] sys_putI)
qed

lemma static_run:
  assumes "upsert = upsertMaintenanceModeIngressObject onConflict i ces service dg \<and> mw = ''maintenance-mode'' \<or>
    upsert = upsertDoguIsStartingIngressObject onConflict i ces service \<and> mw = ''dogu-starting''"
  shows "\<exists>w' x. upsert w = (Ret (), w') \<and> viewI w' = (viewI w)(cs_Name ces \<mapsto> x) \<and> sys w' = sys w \<and>
    serves x (staticRoute i mw ces)"
proof -
  obtain w1 x where w1: "upsertIngressObject onConflict i (cs_Name ces) service (cs_Location ces)
      staticContentBackendName staticContentBackendPort
      (fmap_of_list [(iu_rewriteAnnotationKey i, iu_namespace i @ ''-'' @ mw @ ''@kubernetescrd'')]) w = (Ret (), w1)"
    "viewI w1 = (viewI w)(cs_Name ces \<mapsto> x)" "sys w1 = sys w" "serves x (staticRoute i mw ces)"
    using upsertIngressObject_run [of "cs_Name ces" service "cs_Location ces" staticContentBackendName
        staticContentBackendPort "fmap_of_list [(iu_rewriteAnnotationKey i,
          iu_namespace i @ ''-'' @ mw @ ''@kubernetescrd'')]" w]
    by (auto simp: staticRoute_def staticContentBackendName_def staticContentBackendPort_def)
  obtain w2 where w2: "iu_Eventf i dg (normalEvent ingressCreationEventReason
      (''Ingress for service ['' @ cs_Name ces @ ''] has been updated to maintenance mode.'')) w1 = (Ret (), w2)" "viewI w2 = viewI w1" "sys w2 = sys w1"
    using event by blast
  from assms show ?thesis
  proof (elim disjE conjE)
    assume u: "upsert = upsertMaintenanceModeIngressObject onConflict i ces service dg" "mw = ''maintenance-mode''"
    have "upsert w = (Ret (), w2)"
      using w1(1) w2(1)
      by (simp add: u upsertMaintenanceModeIngressObject_def Let_def io_simps staticContentBackendRewrite_def)
    with w1 w2 show ?thesis by auto
  next
    assume u: "upsert = upsertDoguIsStartingIngressObject onConflict i ces service" "mw = ''dogu-starting''"
    have "upsert w = (Ret (), w1)"
      using w1(1)
      by (simp add: u upsertDoguIsStartingIngressObject_def Let_def io_simps staticContentDoguIsStartingRewrite_def)
    with w1 show ?thesis by auto
  qed
qed

lemma rewriteOfCesService_run:
  assumes "cs_Rewrite ces \<noteq> [] \<Longrightarrow> \<not> isl (ij_rewrite json (cs_Rewrite ces))"
  shows "\<exists>w'. rewriteOfCesService json i ces service w =
      (Ret (ro_path (regularRoute json i service fmempty ces), ro_annotations (regularRoute json i service fmempty ces)), w') \<and>
    viewI w' = viewI w \<and> sys w' = sys w"
proof (cases "cs_Rewrite ces = []")
  case True
  obtain w' where "iu_createOrUpdateReplacePathMiddleware i (om_Name (svc_meta service)) ces
      [\<lparr>or_APIVersion = svc_APIVersion service, or_Kind = svc_Kind service,
        or_Name = om_Name (svc_meta service), or_UID = om_UID (svc_meta service),
        or_Controller = None, or_BlockOwnerDeletion = None\<rparr>] w =
      (Ret (om_Name (svc_meta service) @ ''-'' @ cs_Name ces @ ''-rewrite''), w')"
    "viewI w' = viewI w" "sys w' = sys w"
    using provide_law by blast
  with True show ?thesis
    by (cases "cs_Pass ces = cs_Location ces")
      (simp_all add: rewriteOfCesService_def hasRewriteConfig_def Let_def io_simps regularRoute_def rewriteRoute_def)
next
  case False
  with assms obtain rw where "ij_rewrite json (cs_Rewrite ces) = Inr rw"
    by (cases "ij_rewrite json (cs_Rewrite ces)") auto
  with False show ?thesis
    by (simp add: rewriteOfCesService_def getRewriteConfig_def hasRewriteConfig_def Let_def io_simps
        regularRoute_def rewriteRoute_def)
qed

lemma regular_run:
  assumes "cs_Rewrite ces \<noteq> [] \<Longrightarrow> \<not> isl (ij_rewrite json (cs_Rewrite ces))"
    and add: "getAdditionalIngressAnnotations json service = Inr additional"
  shows "\<exists>w' x. upsertDoguIngressObject json onConflict i ces service w = (Ret (), w') \<and>
    viewI w' = (viewI w)(cs_Name ces \<mapsto> x) \<and> sys w' = sys w \<and>
    serves x (regularRoute json i service additional ces)"
proof -
  let ?r = "regularRoute json i service fmempty ces"
  obtain w1 where w1: "rewriteOfCesService json i ces service w = (Ret (ro_path ?r, ro_annotations ?r), w1)"
    "viewI w1 = viewI w" "sys w1 = sys w"
    using rewriteOfCesService_run [OF assms(1)] by blast
  obtain w2 x where w2: "upsertIngressObject onConflict i (cs_Name ces) service (ro_path ?r)
      (om_Name (svc_meta service)) (ucast (cs_Port ces)) (ro_annotations ?r ++\<^sub>f additional) w1 = (Ret (), w2)"
    "viewI w2 = (viewI w1)(cs_Name ces \<mapsto> x)" "sys w2 = sys w1"
    "serves x \<lparr>ro_path = ro_path ?r, ro_backend = om_Name (svc_meta service), ro_port = ucast (cs_Port ces),
       ro_annotations = ro_annotations ?r ++\<^sub>f additional\<rparr>"
    using upsertIngressObject_run by blast
  have "regularRoute json i service additional ces = \<lparr>ro_path = ro_path ?r, ro_backend = om_Name (svc_meta service),
      ro_port = ucast (cs_Port ces), ro_annotations = ro_annotations ?r ++\<^sub>f additional\<rparr>"
    by (simp add: regularRoute_def)
  moreover have "upsertDoguIngressObject json onConflict i ces service w = (Ret (), w2)"
    using w1(1) w2(1) by (simp add: upsertDoguIngressObject_def io_simps add)
  ultimately show ?thesis using w1 w2 by auto
qed

lemma ces_service_run:
  assumes "sy_dogus (sys w) (om_Name (svc_meta service)) \<noteq> None"
    and "cs_Rewrite ces \<noteq> [] \<Longrightarrow> \<not> isl (ij_rewrite json (cs_Rewrite ces))"
    and add: "getAdditionalIngressAnnotations json service = Inr additional"
  shows "\<exists>w' x. upsertIngressForCesService json onConflict i ces service (sy_maintenance (sys w)) w = (Ret (), w') \<and>
    viewI w' = (viewI w)(cs_Name ces \<mapsto> x) \<and> sys w' = sys w \<and>
    serves x (routeFor json i service additional (sy_maintenance (sys w))
      (sy_ready (sys w) (om_Name (svc_meta service))) ces)"
proof -
  let ?n = "om_Name (svc_meta service)"
  obtain dg where dg: "iu_getDogu i ?n w = (Ret dg, w)" using assms(1) by (auto simp: dogu)
  show ?thesis
  proof (cases "sy_maintenance (sys w)")
    case True
    then show ?thesis
      using static_run [of "upsertMaintenanceModeIngressObject onConflict i ces service dg" ces service dg
          "''maintenance-mode''" w]
      by (simp add: upsertIngressForCesService_def Let_def io_simps dg routeFor_def)
  next
    case False
    note maintenance = this
    show ?thesis
    proof (cases "HasDoguLabel (svc_meta service) \<and> \<not> sy_ready (sys w) ?n")
      case True
      then show ?thesis
        using maintenance static_run [of "upsertDoguIsStartingIngressObject onConflict i ces service" ces service dg
            "''dogu-starting''" w]
        by (simp add: upsertIngressForCesService_def Let_def io_simps dg ready routeFor_def)
    next
      case False
      obtain w1 x where w1: "upsertDoguIngressObject json onConflict i ces service w = (Ret (), w1)"
        "viewI w1 = (viewI w)(cs_Name ces \<mapsto> x)" "sys w1 = sys w"
        "serves x (regularRoute json i service additional ces)"
        using regular_run [OF assms(2) add] by blast
      obtain w2 where w2: "iu_Eventf i dg (normalEvent ingressCreationEventReason
          (''Created regular ingress for service ['' @ cs_Name ces @ ''].'')) w1 =
          (Ret (), w2)" "viewI w2 = viewI w1" "sys w2 = sys w1" using event by blast
      have "upsertIngressForCesService json onConflict i ces service (sy_maintenance (sys w)) w = (Ret (), w2)"
        using False maintenance w1(1) w2(1)
        by (cases "HasDoguLabel (svc_meta service)")
          (simp_all add: upsertIngressForCesService_def Let_def io_simps dg ready)
      moreover have "routeFor json i service additional (sy_maintenance (sys w)) (sy_ready (sys w) ?n) ces =
          regularRoute json i service additional ces"
        using False maintenance by (auto simp: routeFor_def)
      ultimately show ?thesis using w1 w2 by auto
    qed
  qed
qed

lemma ces_services_run:
  assumes "sy_dogus (sys w) (om_Name (svc_meta service)) \<noteq> None"
    and "\<And>ces. ces \<in> set cess \<Longrightarrow> cs_Rewrite ces \<noteq> [] \<Longrightarrow> \<not> isl (ij_rewrite json (cs_Rewrite ces))"
    and add: "getAdditionalIngressAnnotations json service = Inr additional"
  shows "\<exists>w'. forEach (\<lambda>ces. wrapErr ''failed to create ingress object for ces service ''
      (upsertIngressForCesService json onConflict i ces service (sy_maintenance (sys w)))) cess w = (Ret (), w') \<and>
    sys w' = sys w \<and>
    (\<forall>n. case find (\<lambda>c. cs_Name c = n) (rev cess) of
       None \<Rightarrow> viewI w' n = viewI w n
     | Some c \<Rightarrow> \<exists>x. viewI w' n = Some x \<and> serves x (routeFor json i service additional
         (sy_maintenance (sys w)) (sy_ready (sys w) (om_Name (svc_meta service))) c))"
  using assms(1,2)
proof (induction cess arbitrary: w)
  case Nil
  then show ?case by (simp add: ret_run)
next
  case (Cons ces cess)
  obtain w1 x where w1: "upsertIngressForCesService json onConflict i ces service (sy_maintenance (sys w)) w = (Ret (), w1)"
    "viewI w1 = (viewI w)(cs_Name ces \<mapsto> x)" "sys w1 = sys w"
    "serves x (routeFor json i service additional (sy_maintenance (sys w))
      (sy_ready (sys w) (om_Name (svc_meta service))) ces)"
    using ces_service_run [OF Cons.prems(1) _ add, of ces] Cons.prems(2) by auto
  obtain w2 where w2: "forEach (\<lambda>ces. wrapErr ''failed to create ingress object for ces service ''
      (upsertIngressForCesService json onConflict i ces service (sy_maintenance (sys w)))) cess w1 = (Ret (), w2)"
    "sys w2 = sys w" "\<forall>n. case find (\<lambda>c. cs_Name c = n) (rev cess) of
       None \<Rightarrow> viewI w2 n = viewI w1 n
     | Some c \<Rightarrow> \<exists>x. viewI w2 n = Some x \<and> serves x (routeFor json i service additional
         (sy_maintenance (sys w)) (sy_ready (sys w) (om_Name (svc_meta service))) c)"
    using Cons.IH [of w1, unfolded w1(3)] Cons.prems by auto
  have "case find (\<lambda>c. cs_Name c = n) (rev (ces # cess)) of
       None \<Rightarrow> viewI w2 n = viewI w n
     | Some c \<Rightarrow> \<exists>x. viewI w2 n = Some x \<and> serves x (routeFor json i service additional
         (sy_maintenance (sys w)) (sy_ready (sys w) (om_Name (svc_meta service))) c)" for n
    using w2(3) [rule_format, of n] w1(2,4)
    by (cases "find (\<lambda>c. cs_Name c = n) (rev cess)") (auto simp: find_append)
  with w1(1) w2(1,2) show ?case by (simp add: io_simps)
qed

lemma upsert_run:
  assumes "getCesServices json service = Inr (cess, True)"
    and "sy_dogus (sys w) (om_Name (svc_meta service)) \<noteq> None"
    and "getAdditionalIngressAnnotations json service = Inr additional"
    and "\<And>ces. ces \<in> set cess \<Longrightarrow> cs_Rewrite ces \<noteq> [] \<Longrightarrow> \<not> isl (ij_rewrite json (cs_Rewrite ces))"
  shows "\<exists>w'. UpsertIngressForService json onConflict i service w = (Ret (), w') \<and> sys w' = sys w \<and>
    (\<forall>n. case find (\<lambda>c. cs_Name c = n) (rev cess) of
       None \<Rightarrow> viewI w' n = viewI w n
     | Some c \<Rightarrow> \<exists>x. viewI w' n = Some x \<and> serves x (routeFor json i service additional
         (sy_maintenance (sys w)) (sy_ready (sys w) (om_Name (svc_meta service))) c))"
proof -
  obtain desc where st: "iu_GetStatus i w = (Ret (desc, sy_maintenance (sys w)), w)"
    using status by blast
  show ?thesis
    using ces_services_run [OF assms(2,4,3)] assms(1)
    by (simp add: UpsertIngressForService_def io_simps st)
qed

end

subsection \<open>The updater on the reference cluster\<close>

definition clusterSys :: "cluster \<Rightarrow> sysState" where
  "clusterSys w =
     \<lparr>sy_maintenance = k_maintenance w,
      sy_ready = (\<lambda>n. case k_deployments w n of None \<Rightarrow> False | Some dpl \<Rightarrow> 0 < sint (dpl_ReadyReplicas dpl)),
      sy_dogus = k_dogus w\<rparr>"

definition clusterChecker :: "cluster deploymentReadyChecker" where
  "clusterChecker = \<lparr>rc_getDeployment = readObject k_deployments, rc_watch = (\<lambda>_. ret ())\<rparr>"

definition exampleManager :: "cluster MiddlewareManager" where
  "exampleManager = \<lparr>mm_client = middlewareClient, mm_namespace = ''ecosystem''\<rparr>"

definition exampleUpdater :: "cluster ingressUpdater" where
  "exampleUpdater =
     \<lparr>iu_namespace = ''ecosystem'', iu_ingressClassName = ''k8s-ecosystem-ces-service'',
      iu_IsReady = IsReady clusterChecker, iu_Eventf = (\<lambda>_ e. recordEvent (ev_message e)),
      iu_rewriteAnnotationKey = GetRewriteAnnotationKey exampleController,
      iu_ingressInterface = ingressClient, iu_getDogu = readObject k_dogus,
      iu_createOrUpdateReplacePathMiddleware = createOrUpdateReplacePathMiddleware exampleManager,
      iu_GetStatus = maintenanceStatus\<rparr>"

definition exampleCesService :: CesService where
  "exampleCesService = \<lparr>cs_Name = ''scm'', cs_Port = 8080, cs_Location = ''/scm'', cs_Pass = ''/scm'', cs_Rewrite = []\<rparr>"

definition exampleIngressJson :: ingressJson where
  "exampleIngressJson =
     \<lparr>ij_cesServices = (\<lambda>_. Inr [exampleCesService]), ij_rewrite = (\<lambda>_. Inl (Msg ''unexpected end of JSON input'')),
      ij_annotations = (\<lambda>_. Inr fmempty),
      ij_additionalKey = ''k8s-dogu-operator.cloudogu.com/additional-ingress-annotations''\<rparr>"

interpretation paths: replace_path_provider "createOrUpdateReplacePathMiddleware exampleManager"
    k_ingresses clusterSys
  by (rule middleware_manager_provides [of _ k_middlewares putMiddleware admMiddleware])
    (simp_all add: exampleManager_def mws.object_store_axioms putMiddleware_def bump_def clusterSys_def)

lemma IsReady_cluster: "IsReady clusterChecker n w = (Ret (sy_ready (clusterSys w) n), w)"
  by (cases "k_deployments w n")
    (simp_all add: IsReady_def clusterChecker_def readObject_def io_simps clusterSys_def)

text \<open>
  The state of the system with any further part of the cluster that holds no ingress, no middleware
  and no event.
\<close>

definition clusterSysWith :: "(cluster \<Rightarrow> 'a) \<Rightarrow> cluster \<Rightarrow> 'a sysState_scheme" where
  "clusterSysWith f w = sysState.extend (clusterSys w) (f w)"

lemma clusterSysWith_fields [simp]:
  "sy_maintenance (clusterSysWith f w) = sy_maintenance (clusterSys w)"
  "sy_ready (clusterSysWith f w) = sy_ready (clusterSys w)" "sy_dogus (clusterSysWith f w) = sy_dogus (clusterSys w)"
  "sysState.more (clusterSysWith f w) = f w"
  by (simp_all add: clusterSysWith_def clusterSys_def sysState.extend_def)

lemma clusterSysWith_eq: "clusterSysWith f v = clusterSysWith f w \<longleftrightarrow> clusterSys v = clusterSys w \<and> f v = f w"
  by (auto simp: clusterSysWith_def clusterSys_def sysState.extend_def)

definition untouchedByUpdater :: "(cluster \<Rightarrow> 'a) \<Rightarrow> bool" where
  "untouchedByUpdater f \<longleftrightarrow> (\<forall>w n x y es. f (putIngress n x w) = f w \<and> f (putMiddleware n y w) = f w \<and>
     f (w\<lparr>k_events := es\<rparr>) = f w)"

lemma untouched_clusterSys: "untouchedByUpdater clusterSys"
  by (simp add: untouchedByUpdater_def clusterSys_def cluster_ops)

lemma untouched_clusterSysWith: "untouchedByUpdater f \<Longrightarrow> untouchedByUpdater (clusterSysWith f)"
  using untouched_clusterSys unfolding untouchedByUpdater_def clusterSysWith_eq by blast

lemma exampleUpdater_environment:
  assumes "untouchedByUpdater f"
  shows "ingress_environment exampleUpdater k_ingresses (clusterSysWith f) (retryTimes 3) putIngress admIngress"
proof (rule ingress_environment.intro)
  note untouched = untouched_clusterSysWith [OF assms, unfolded untouchedByUpdater_def, rule_format]
  show "replace_path_provider (iu_createOrUpdateReplacePathMiddleware exampleUpdater) k_ingresses (clusterSysWith f)"
    unfolding exampleUpdater_def ingressUpdater.simps
    by (rule middleware_manager_provides [of _ k_middlewares putMiddleware admMiddleware])
      (simp_all add: exampleManager_def mws.object_store_axioms untouched, simp add: cluster_ops)
  show "ingress_environment_axioms exampleUpdater k_ingresses (clusterSysWith f) (retryTimes 3) putIngress admIngress"
  proof (rule ingress_environment_axioms.intro)
    show "object_store (iu_ingressInterface exampleUpdater) k_ingresses putIngress ing_meta admIngress"
      by (simp add: exampleUpdater_def ings.object_store_axioms)
    show "retriesConflicts (retryTimes 3)" by (rule retriesConflicts_retryTimes)
    show "iu_getDogu exampleUpdater n w =
        (case sy_dogus (clusterSysWith f w) n of None \<Rightarrow> (Fail (Api NotFound), w) | Some dg \<Rightarrow> (Ret dg, w))" for n w
      by (simp add: exampleUpdater_def readObject_def) (simp add: clusterSys_def)
    show "\<exists>w'. iu_Eventf exampleUpdater dg msg w = (Ret (), w') \<and> k_ingresses w' = k_ingresses w \<and>
        clusterSysWith f w' = clusterSysWith f w" for dg msg w
      by (simp add: exampleUpdater_def recordEvent_def untouched)
    show "\<exists>desc. iu_GetStatus exampleUpdater w = (Ret (desc, sy_maintenance (clusterSysWith f w)), w)" for w
      by (simp add: exampleUpdater_def maintenanceStatus_def) (simp add: clusterSys_def)
  qed (simp_all add: exampleUpdater_def IsReady_cluster untouched admIngress_def stamp_def)
qed

interpretation updater: ingress_environment exampleUpdater k_ingresses "clusterSysWith (\<lambda>_. ())"
    exampleIngressJson "retryTimes 3" putIngress admIngress
  by (rule exampleUpdater_environment) (simp add: untouchedByUpdater_def)

subsection \<open>Properties\<close>

text \<open>
  Property C16. Upserting the ingresses of a service: for every ces service the annotation announces,
  the ingress of that name serves the right route (the last entry of a name wins), and no other
  ingress changes.  The right route is the static content service with the maintenance page in
  maintenance mode, the static content service with the start page while a dogu is not ready, and
  else the service itself, rewritten as the ces service says.
\<close>

theorem upsert_ingress_routes:
  assumes "ingress_environment i viewI sys onConflict putI admI"
    and "getCesServices json service = Inr (cess, True)"
    and "sy_dogus (sys w) (om_Name (svc_meta service)) \<noteq> None"
    and "getAdditionalIngressAnnotations json service = Inr additional"
    and "\<And>ces. ces \<in> set cess \<Longrightarrow> cs_Rewrite ces \<noteq> [] \<Longrightarrow> \<not> isl (ij_rewrite json (cs_Rewrite ces))"
  shows "\<exists>w'. UpsertIngressForService json onConflict i service w = (Ret (), w') \<and>
    sys w' = sys w \<and>
    (\<forall>n. case find (\<lambda>c. cs_Name c = n) (rev cess) of
       None \<Rightarrow> viewI w' n = viewI w n
     | Some c \<Rightarrow> \<exists>x. viewI w' n = Some x \<and> serves x
         (if sy_maintenance (sys w) then staticRoute i ''maintenance-mode'' c
          else if HasDoguLabel (svc_meta service) \<and> \<not> sy_ready (sys w) (om_Name (svc_meta service))
          then staticRoute i ''dogu-starting'' c
          else regularRoute json i service additional c))"
  using ingress_environment.upsert_run [OF assms(1-5)] unfolding routeFor_def .

definition exampleCesHost :: Service where
  "exampleCesHost = emptyService
     \<lparr>svc_meta := emptyMeta\<lparr>om_Name := ''scm'', om_Labels := fmap_of_list [(DoguLabelName, ''scm'')],
        om_Annotations := Some (fmap_of_list [(CesServiceAnnotation, ''x'')])\<rparr>,
      svc_spec := (svc_spec emptyService)\<lparr>ss_Ports := [\<lparr>sp_Name = ''http'', sp_Protocol = ''TCP'',
        sp_Port = 8080, sp_TargetPort = IntVal 8080, sp_NodePort = 0\<rparr>]\<rparr>\<rparr>"

definition doguCluster :: cluster where
  "doguCluster = emptyCluster\<lparr>k_dogus := [''scm'' \<mapsto> \<lparr>dogu_meta = emptyMeta\<rparr>]\<rparr>"

theorem upsert_ingress_routes_witness:
  "\<exists>w' x. UpsertIngressForService exampleIngressJson (retryTimes 3) exampleUpdater exampleCesHost doguCluster =
       (Ret (), w') \<and> k_ingresses w' ''scm'' = Some x \<and>
     serves x (staticRoute exampleUpdater ''dogu-starting'' exampleCesService)"
proof -
  have ces: "getCesServices exampleIngressJson exampleCesHost = Inr ([exampleCesService], True)"
    by (simp add: getCesServices_def exampleCesHost_def exampleIngressJson_def emptyMeta_def)
  have add: "getAdditionalIngressAnnotations exampleIngressJson exampleCesHost = Inr fmempty"
    by (simp add: getAdditionalIngressAnnotations_def exampleCesHost_def exampleIngressJson_def emptyMeta_def
        CesServiceAnnotation_def)
  have sys: "sy_dogus (clusterSysWith (\<lambda>_. ()) doguCluster) (om_Name (svc_meta exampleCesHost)) \<noteq> None"
    "\<not> sy_maintenance (clusterSysWith (\<lambda>_. ()) doguCluster)" "\<not> sy_ready (clusterSysWith (\<lambda>_. ()) doguCluster) (om_Name (svc_meta exampleCesHost))"
    "HasDoguLabel (svc_meta exampleCesHost)"
    by (simp_all add: clusterSys_def doguCluster_def emptyCluster_def exampleCesHost_def HasDoguLabel_iff)
  have "cs_Rewrite exampleCesService = []" by (simp add: exampleCesService_def)
  then obtain w' where run: "UpsertIngressForService exampleIngressJson (retryTimes 3) exampleUpdater exampleCesHost
      doguCluster = (Ret (), w')"
    and "case find (\<lambda>c. cs_Name c = ''scm'') (rev [exampleCesService]) of
       None \<Rightarrow> k_ingresses w' ''scm'' = k_ingresses doguCluster ''scm''
     | Some c \<Rightarrow> \<exists>x. k_ingresses w' ''scm'' = Some x \<and> serves x (staticRoute exampleUpdater ''dogu-starting'' c)"
    using upsert_ingress_routes [OF updater.ingress_environment_axioms, OF ces sys(1) add] sys(2-4)
    by (elim meta_impE exE conjE allE [of _ "''scm''"]) (auto simp: exampleCesService_def)
  then show ?thesis by (auto simp: exampleCesService_def)
qed

text \<open>The port of a regular ingress is the announced one exactly when that fits into an \<open>int32\<close>.\<close>

lemma regular_port_exact_iff:
  "sint (ro_port (regularRoute json i service additional ces)) = sint (cs_Port ces) \<longleftrightarrow>
     - (2 ^ 31) \<le> sint (cs_Port ces) \<and> sint (cs_Port ces) < 2 ^ 31"
proof -
  have "(ucast (cs_Port ces) :: int32) = word_of_int (sint (cs_Port ces))"
    by (simp only: ucast_eq uint_sint word_of_int_eq_iff) simp
  then have "sint (ucast (cs_Port ces) :: int32) = signed_take_bit 31 (sint (cs_Port ces))"
    by (simp only: sint_sbintrunc') simp
  then show ?thesis
    by (simp add: regularRoute_def signed_take_bit_int_eq_self_iff)
qed

end
