(* ===== verification/Maintenance_Correct.thy ===== *)
theory Maintenance_Correct
  imports Maintenance Ingress_Correct
begin

section \<open>Maintenance mode together with the ingress updater\<close>

text \<open>
  The ingress updater meets what the maintenance mode controller needs of it (\<open>updater_serves_controller\<close>),
  so the laws of \<open>maintenance_environment\<close> hold of the controller on the reference cluster
  (interpretation \<open>upkeep\<close>).  The properties say what a switch of the maintenance mode does to
  ingresses and services, and what of it a switch back restores.
\<close>

subsection \<open>The ingress updater as the controller sees it\<close>

definition cesOf :: "ingressJson \<Rightarrow> Service \<Rightarrow> CesService list" where
  "cesOf json s = (case getCesServices json s of Inr (cess, True) \<Rightarrow> cess | _ \<Rightarrow> [])"

definition announced :: "ingressJson \<Rightarrow> Service \<Rightarrow> string set" where
  "announced json s = cs_Name ` set (cesOf json s)"

text \<open>A service without ces services is in order; another one needs its dogu and readable annotations.\<close>

definition ingressInOrder :: "ingressJson \<Rightarrow> sysState \<Rightarrow> Service \<Rightarrow> bool" where
  "ingressInOrder json x s \<longleftrightarrow>
     (case getCesServices json s of
        Inl _ \<Rightarrow> False
      | Inr (cess, ok) \<Rightarrow> ok \<longrightarrow>
          sy_dogus x (om_Name (svc_meta s)) \<noteq> None \<and> \<not> isl (getAdditionalIngressAnnotations json s) \<and>
          (\<forall>ces\<in>set cess. cs_Rewrite ces \<noteq> [] \<longrightarrow> \<not> isl (ij_rewrite json (cs_Rewrite ces))))"

definition wantedRoute :: "ingressJson \<Rightarrow> 'w ingressUpdater \<Rightarrow> sysState \<Rightarrow> Service \<Rightarrow> CesService \<Rightarrow> route" where
  "wantedRoute json i x s =
     routeFor json i s (projr (getAdditionalIngressAnnotations json s)) (sy_maintenance x)
       (sy_ready x (om_Name (svc_meta s)))"

definition ingressEffect ::
  "ingressJson \<Rightarrow> 'w ingressUpdater \<Rightarrow> sysState \<Rightarrow> Service \<Rightarrow> (string \<Rightarrow> Ingress option) \<Rightarrow> (string \<Rightarrow> Ingress option)
     \<Rightarrow> bool" where
  "ingressEffect json i x s I I' \<longleftrightarrow>
     (\<forall>n. case find (\<lambda>c. cs_Name c = n) (rev (cesOf json s)) of
        None \<Rightarrow> I' n = I n
      | Some c \<Rightarrow> \<exists>y. I' n = Some y \<and> serves y (wantedRoute json i x s c))"

lemma find_announced: "find (\<lambda>c. cs_Name c = n) (rev (cesOf json s)) = None \<longleftrightarrow> n \<notin> announced json s"
  by (auto simp: find_None_iff announced_def)

lemma updater_serves_controller:
  assumes "ingress_environment i viewI sys onConflict putI admI"
    and "ingressInOrder json (sysState.truncate (sys w)) s"
  shows "\<exists>w'. UpsertIngressForService json onConflict i s w = (Ret (), w') \<and> sys w' = sys w \<and>
    ingressEffect json i (sysState.truncate (sys w)) s (viewI w) (viewI w')"
proof -
  obtain cess ok where ces: "getCesServices json s = Inr (cess, ok)"
    using assms(2) by (auto simp: ingressInOrder_def split: sum.splits)
  show ?thesis
  proof (cases ok)
    case False
    obtain desc where "iu_GetStatus i w = (Ret (desc, sy_maintenance (sys w)), w)"
      using ingress_environment.status [OF assms(1)] by blast
    then have "UpsertIngressForService json onConflict i s w = (Ret (), w)"
      using ces False by (simp add: UpsertIngressForService_def io_simps)
    with ces False show ?thesis by (simp add: ingressEffect_def cesOf_def)
  next
    case True
    then obtain additional where add: "getAdditionalIngressAnnotations json s = Inr additional"
      using assms(2) ces by (cases "getAdditionalIngressAnnotations json s") (auto simp: ingressInOrder_def)
    have dogu: "sy_dogus (sys w) (om_Name (svc_meta s)) \<noteq> None"
      and rw: "\<And>ces. ces \<in> set cess \<Longrightarrow> cs_Rewrite ces \<noteq> [] \<Longrightarrow> \<not> isl (ij_rewrite json (cs_Rewrite ces))"
      using assms(2) ces True by (auto simp: ingressInOrder_def sysState.truncate_def)
    have cesOf: "cesOf json s = cess" using ces True by (simp add: cesOf_def)
    have route: "wantedRoute json i (sysState.truncate (sys w)) s =
        routeFor json i s additional (sy_maintenance (sys w)) (sy_ready (sys w) (om_Name (svc_meta s)))"
      using add by (simp add: wantedRoute_def sysState.truncate_def)
    show ?thesis
      unfolding ingressEffect_def cesOf route
      using ingress_environment.upsert_run [OF assms(1), OF _ dogu add rw, of cess] ces True by simp
  qed
qed

lemma effects_untouched:
  "effects (ingressEffect json i) x ss I I' \<Longrightarrow> (\<And>s. s \<in> set ss \<Longrightarrow> n \<notin> announced json s) \<Longrightarrow> I' n = I n"
proof (induction ss arbitrary: I)
  case (Cons s ss)
  then obtain J where J: "ingressEffect json i x s I J" "effects (ingressEffect json i) x ss J I'" by auto
  have "J n = I n"
    using J(1) [unfolded ingressEffect_def, rule_format, of n] Cons.prems(2) [of s] find_announced [of n json s] by simp
  moreover have "I' n = J n" using Cons.IH [OF J(2)] Cons.prems(2) by simp
  ultimately show ?case by simp
qed simp

lemma effects_routed:
  assumes "effects (ingressEffect json i) x ss I I'" and "distinct ss" and "s \<in> set ss"
    and "\<And>t. t \<in> set ss \<Longrightarrow> n \<in> announced json t \<Longrightarrow> t = s"
    and "find (\<lambda>c. cs_Name c = n) (rev (cesOf json s)) = Some c"
  shows "\<exists>y. I' n = Some y \<and> serves y (wantedRoute json i x s c)"
  using assms
proof (induction ss arbitrary: I)
  case (Cons t ts)
  then obtain J where J: "ingressEffect json i x t I J" "effects (ingressEffect json i) x ts J I'" by auto
  show ?case
  proof (cases "t = s")
    case True
    have "n \<notin> announced json u" if "u \<in> set ts" for u
      using Cons.prems(2) Cons.prems(4) [of u] that True by (metis distinct.simps(2) list.set_intros(2))
    then have "I' n = J n" by (rule effects_untouched [OF J(2)])
    moreover have "\<exists>y. J n = Some y \<and> serves y (wantedRoute json i x s c)"
      using J(1) [unfolded ingressEffect_def, rule_format, of n] True Cons.prems(5) by simp
    ultimately show ?thesis by simp
  next
    case False
    show ?thesis
    proof (rule Cons.IH [OF J(2)])
      show "distinct ts" and "s \<in> set ts" using Cons.prems(2,3) False by simp_all
      show "t = s" if "t \<in> set ts" and "n \<in> announced json t" for t using that Cons.prems(4) by simp
    qed (rule Cons.prems(5))
  qed
qed simp

subsection \<open>The controller on the reference cluster\<close>

definition listAllServices :: "string \<Rightarrow> (cluster, Service list) io" where
  "listAllServices namespace w =
     (Ret (map (\<lambda>n. the (serviceView w n)) (sorted_list_of_fset (fmdom (k_services w)))), w)"

definition exampleMaintenanceController :: "cluster maintenanceModeController" where
  "exampleMaintenanceController =
     NewMaintenanceModeController listAllServices (c_update serviceClient) ''ecosystem''
       (UpsertIngressForService exampleIngressJson (retryTimes 3) exampleUpdater) maintenanceStatus (\<lambda>_ e. recordEvent (ev_message e))"

definition exampleRewriter :: "cluster defaultServiceRewriter" where
  "exampleRewriter = \<lparr>sw_Update = c_update serviceClient, sw_Eventf = (\<lambda>_ e. recordEvent (ev_message e)), sw_namespace = ''ecosystem''\<rparr>"

lemma listAllServices_lists:
  assumes "wellNamed (serviceView w)"
  shows "\<exists>ss. listAllServices ns w = (Ret ss, w) \<and> distinct (map (\<lambda>s. om_Name (svc_meta s)) ss) \<and>
    (\<forall>s. s \<in> set ss \<longleftrightarrow> serviceView w (om_Name (svc_meta s)) = Some s)"
proof -
  let ?names = "sorted_list_of_fset (fmdom (k_services w))"
  have named: "\<exists>s. serviceView w n = Some s \<and> om_Name (svc_meta s) = n" if "n \<in> set ?names" for n
    using that assms by (auto simp: wellNamed_def serviceView_def fmlookup_dom_iff)
  then have "map (\<lambda>s. om_Name (svc_meta s)) (map (\<lambda>n. the (serviceView w n)) ?names) = ?names"
    unfolding map_map by (intro map_idI) force
  moreover have "s \<in> set (map (\<lambda>n. the (serviceView w n)) ?names) \<longleftrightarrow> serviceView w (om_Name (svc_meta s)) = Some s" for s
  proof
    assume "s \<in> set (map (\<lambda>n. the (serviceView w n)) ?names)"
    with named show "serviceView w (om_Name (svc_meta s)) = Some s" by force
  next
    assume "serviceView w (om_Name (svc_meta s)) = Some s"
    then have "om_Name (svc_meta s) \<in> set ?names" by (simp add: serviceView_def fmlookup_dom_iff)
    with \<open>serviceView w (om_Name (svc_meta s)) = Some s\<close>
    show "s \<in> set (map (\<lambda>n. the (serviceView w n)) ?names)" by (force simp: image_iff)
  qed
  moreover have "distinct ?names" by (simp add: sorted_list_of_fset.rep_eq)
  ultimately show ?thesis
    by (intro exI [of _ "map (\<lambda>n. the (serviceView w n)) ?names"] conjI allI)
      (simp_all only: listAllServices_def)
qed

lemma admService_keeps_selector:
  "ss_Selector (svc_spec (admService w s)) = ss_Selector (svc_spec s)"
  "ss_Type (svc_spec (admService w s)) = ss_Type (svc_spec s)"
  "om_Labels (svc_meta (admService w s)) = om_Labels (svc_meta s)"
  "om_Annotations (svc_meta (admService w s)) = om_Annotations (svc_meta s)"
proof -
  have wire: "ss_Selector (svc_spec old) = ss_Selector (svc_spec s) \<and> ss_Type (svc_spec old) = ss_Type (svc_spec s) \<and>
      svc_meta old = svc_meta s" if "wireService s = wireService old" for old
    using arg_cong [OF that, of "\<lambda>t. (ss_Selector (svc_spec t), ss_Type (svc_spec t), svc_meta t)"]
    by (simp add: wireService_def)
  have "ss_Selector (svc_spec (admService w s)) = ss_Selector (svc_spec s) \<and>
    ss_Type (svc_spec (admService w s)) = ss_Type (svc_spec s) \<and>
    om_Labels (svc_meta (admService w s)) = om_Labels (svc_meta s) \<and>
    om_Annotations (svc_meta (admService w s)) = om_Annotations (svc_meta s)"
  proof (cases "\<exists>old. serviceView w (om_Name (svc_meta s)) = Some old \<and> wireService s = wireService old")
    case True
    then obtain old where old: "serviceView w (om_Name (svc_meta s)) = Some old" "wireService s = wireService old" by blast
    then have "admService w s = old" by (simp add: admService_def)
    with wire [OF old(2)] show ?thesis by simp
  next
    case False
    then have "admService w s = freshService w s" by (simp add: admService_def split: option.split)
    then show ?thesis by (simp add: freshService_def Let_def stamp_def wireService_def)
  qed
  then show "ss_Selector (svc_spec (admService w s)) = ss_Selector (svc_spec s)"
    "ss_Type (svc_spec (admService w s)) = ss_Type (svc_spec s)"
    "om_Labels (svc_meta (admService w s)) = om_Labels (svc_meta s)"
    "om_Annotations (svc_meta (admService w s)) = om_Annotations (svc_meta s)"
    by simp_all
qed

lemma truncate_clusterSysWith [simp]: "sysState.truncate (clusterSysWith f w) = clusterSys w"
  by (simp add: clusterSysWith_def sysState.truncate_def sysState.extend_def)

interpretation upkeep: maintenance_environment serviceClient serviceView putService admService
    exampleMaintenanceController exampleRewriter clusterSys sy_maintenance "ingressInOrder exampleIngressJson"
    k_ingresses "ingressEffect exampleIngressJson exampleUpdater"
proof (intro maintenance_environment.intro maintenance_environment_axioms.intro)
  show "object_store serviceClient serviceView putService svc_meta admService"
    by (rule svcs.object_store_axioms)
  show "\<exists>ss. mc_List exampleMaintenanceController (mc_namespace exampleMaintenanceController) w = (Ret ss, w) \<and>
      distinct (map (\<lambda>s. om_Name (svc_meta s)) ss) \<and> (\<forall>s. s \<in> set ss \<longleftrightarrow> serviceView w (om_Name (svc_meta s)) = Some s)"
    if "wellNamed (serviceView w)" for w
    using listAllServices_lists [OF that]
    by (simp add: exampleMaintenanceController_def NewMaintenanceModeController_def)
  have env: "ingress_environment exampleUpdater k_ingresses (clusterSysWith serviceView) (retryTimes 3) putIngress admIngress"
    by (rule exampleUpdater_environment) (simp add: untouchedByUpdater_def serviceView_def cluster_ops)
  show "\<exists>w'. mc_UpsertIngressForService exampleMaintenanceController s w = (Ret (), w') \<and>
      serviceView w' = serviceView w \<and> clusterSys w' = clusterSys w \<and>
      ingressEffect exampleIngressJson exampleUpdater (clusterSys w) s (k_ingresses w) (k_ingresses w')"
    if "ingressInOrder exampleIngressJson (clusterSys w) s" for w s
    using updater_serves_controller [OF env, of exampleIngressJson w s] that
    by (auto simp: exampleMaintenanceController_def NewMaintenanceModeController_def clusterSysWith_eq)
qed (simp_all add: exampleMaintenanceController_def NewMaintenanceModeController_def exampleRewriter_def
    recordEvent_def maintenanceStatus_def serviceView_def clusterSys_def putService_def bump_def admService_keeps_selector)

subsection \<open>Switching on and off\<close>

text \<open>The two reconciles of a maintenance, and what they leave of a service.\<close>

lemma switch_twice:
  assumes "maintenance_environment cl view put adm mmu sw other active inOrder viewI effect"
    and "wellNamed (view w0)" and "active (other w0)"
    and "\<And>s. view w0 (om_Name (svc_meta s)) = Some s \<Longrightarrow> inOrder (other w0) s"
  obtains w1 where "Reconcile_Maintenance mmu req w0 = (Ret (), w1)"
    and "\<forall>n s. view w0 n = Some s \<longrightarrow> (\<exists>t. view w1 n = Some t \<and> maintained True s t)"
    and "\<forall>w2. view w2 = view w1 \<longrightarrow> \<not> active (other w2) \<longrightarrow>
       (\<forall>s. view w2 (om_Name (svc_meta s)) = Some s \<longrightarrow> inOrder (other w2) s) \<longrightarrow>
       (\<exists>w3. Reconcile_Maintenance mmu req w2 = (Ret (), w3) \<and>
         (\<forall>n s. view w0 n = Some s \<longrightarrow> (\<exists>u. view w3 n = Some u \<and> ss_Selector (svc_spec u) = restoredSelector s)))"
proof -
  obtain w1 where w1: "Reconcile_Maintenance mmu req w0 = (Ret (), w1)" "wellNamed (view w1)"
    "\<forall>n. rel_option (maintained True) (view w0 n) (view w1 n)"
    using maintenance_environment.reconcile_run [OF assms(1,2,4), of req] assms(3) by auto
  have t: "\<exists>t. view w1 n = Some t \<and> maintained True s t" if "view w0 n = Some s" for n s
    using w1(3) [rule_format, of n] that by (cases "view w1 n") simp_all
  have "\<exists>w3. Reconcile_Maintenance mmu req w2 = (Ret (), w3) \<and>
      (\<forall>n s. view w0 n = Some s \<longrightarrow> (\<exists>u. view w3 n = Some u \<and> ss_Selector (svc_spec u) = restoredSelector s))"
    if w2: "view w2 = view w1" "\<not> active (other w2)"
      "\<forall>s. view w2 (om_Name (svc_meta s)) = Some s \<longrightarrow> inOrder (other w2) s" for w2
  proof -
    obtain w3 where w3: "Reconcile_Maintenance mmu req w2 = (Ret (), w3)"
      "\<forall>n. rel_option (maintained False) (view w1 n) (view w3 n)"
      using maintenance_environment.reconcile_run [OF assms(1), of w2 req] w1(2) w2 by auto
    have "\<exists>u. view w3 n = Some u \<and> ss_Selector (svc_spec u) = restoredSelector s" if s: "view w0 n = Some s" for n s
    proof -
      obtain t where "view w1 n = Some t" "maintained True s t" using t [OF s] by blast
      with w3(2) [rule_format, of n] show ?thesis by (cases "view w3 n") (simp_all add: maintained_round_trip)
    qed
    with w3(1) show ?thesis by blast
  qed
  with that w1(1) t show thesis by blast
qed

text \<open>
  Property C11. A reconcile of the maintenance mode succeeds when all services are in order.  Every
  ces service that a service announces, with no other service announcing the same name, is then routed
  as the mode says (to the maintenance page, when it is active), other ingresses stay as they are, and
  exactly the services that dogus expose themselves get the selector of the mode.
\<close>

theorem maintenance_mode_reconciled:
  assumes "maintenance_environment cl view put adm mmu sw other sy_maintenance (ingressInOrder json) viewI
      (ingressEffect json i)"
    and "wellNamed (view w)" and "\<And>s. view w (om_Name (svc_meta s)) = Some s \<Longrightarrow> ingressInOrder json (other w) s"
    and "\<And>s t n. view w (om_Name (svc_meta s)) = Some s \<Longrightarrow> view w (om_Name (svc_meta t)) = Some t \<Longrightarrow>
      n \<in> announced json s \<Longrightarrow> n \<in> announced json t \<Longrightarrow> t = s"
  shows "\<exists>w'. Reconcile_Maintenance mmu req w = (Ret (), w') \<and>
    (\<forall>n. rel_option (maintained (sy_maintenance (other w))) (view w n) (view w' n)) \<and>
    (\<forall>m s c n. view w m = Some s \<longrightarrow> find (\<lambda>c. cs_Name c = n) (rev (cesOf json s)) = Some c \<longrightarrow>
       (\<exists>y. viewI w' n = Some y \<and> serves y
          (if sy_maintenance (other w) then staticRoute i ''maintenance-mode'' c
           else wantedRoute json i (other w) s c))) \<and>
    (\<forall>n. (\<forall>m s. view w m = Some s \<longrightarrow> n \<notin> announced json s) \<longrightarrow> viewI w' n = viewI w n)"
proof -
  obtain w' ss where run: "Reconcile_Maintenance mmu req w = (Ret (), w')"
    "\<forall>n. rel_option (maintained (sy_maintenance (other w))) (view w n) (view w' n)" "distinct ss"
    and ss: "\<forall>s. s \<in> set ss \<longleftrightarrow> view w (om_Name (svc_meta s)) = Some s"
    and eff: "effects (ingressEffect json i) (other w) ss (viewI w) (viewI w')"
    using maintenance_environment.reconcile_run [OF assms(1-3), of req] by blast
  have listed: "s \<in> set ss" if "view w m = Some s" for m s
    using that assms(2) ss by (simp add: wellNamed_def)
  have "\<exists>y. viewI w' n = Some y \<and> serves y (if sy_maintenance (other w) then staticRoute i ''maintenance-mode'' c
      else wantedRoute json i (other w) s c)"
    if s: "view w m = Some s" and c: "find (\<lambda>c. cs_Name c = n) (rev (cesOf json s)) = Some c" for m s c n
  proof -
    have "n \<in> announced json s" using c find_announced [of n json s] by auto
    then have "\<exists>y. viewI w' n = Some y \<and> serves y (wantedRoute json i (other w) s c)"
      using effects_routed [OF eff run(3) listed [OF s] _ c] assms(4) ss listed [OF s] by blast
    then show ?thesis by (auto simp: wantedRoute_def routeFor_def)
  qed
  moreover have "viewI w' n = viewI w n" if "\<forall>m s. view w m = Some s \<longrightarrow> n \<notin> announced json s" for n
    using effects_untouched [OF eff, of n] that ss by blast
  ultimately show ?thesis using run(1,2) by blast
qed

definition exposedService :: Service where
  "exposedService = emptyService
     \<lparr>svc_meta := emptyMeta\<lparr>om_Name := ''scm-exposed'', om_Labels := fmap_of_list [(DoguLabelName, ''scm'')]\<rparr>,
      svc_spec := (svc_spec emptyService)\<lparr>ss_Type := ServiceTypeLoadBalancer,
        ss_Selector := fmap_of_list [(DoguLabelName, ''scm'')]\<rparr>\<rparr>"

definition maintenanceCluster :: cluster where
  "maintenanceCluster = emptyCluster\<lparr>k_maintenance := True, k_services := fmap_of_list [(''scm-exposed'', exposedService)]\<rparr>"

lemma maintenanceCluster_facts:
  "wellNamed (serviceView maintenanceCluster)" "sy_maintenance (clusterSys maintenanceCluster)"
  "serviceView maintenanceCluster n = Some s \<longleftrightarrow> n = ''scm-exposed'' \<and> s = exposedService"
  "om_Annotations (svc_meta exposedService) = None"
  "guarded exposedService"
  by (auto simp: wellNamed_def serviceView_def maintenanceCluster_def clusterSys_def exposedService_def
      emptyMeta_def guarded_def isServiceNginxRelated_def hasPrefix_def kube_constants split: if_splits)

lemma without_annotations:
  "om_Annotations (svc_meta s) = None \<Longrightarrow> ingressInOrder json x s"
  "om_Annotations (svc_meta s) = None \<Longrightarrow> announced json s = {}"
  by (simp_all add: ingressInOrder_def announced_def cesOf_def getCesServices_def)

theorem maintenance_mode_reconciled_witness:
  "\<exists>w' s'. Reconcile_Maintenance exampleMaintenanceController (''ecosystem'', ''maintenance'') maintenanceCluster =
       (Ret (), w') \<and> serviceView w' ''scm-exposed'' = Some s' \<and>
     ss_Selector (svc_spec s') = fmap_of_list [(DoguLabelName, ''deactivatedDuringMaintenance'')]"
proof -
  obtain w' where w': "Reconcile_Maintenance exampleMaintenanceController (''ecosystem'', ''maintenance'')
      maintenanceCluster = (Ret (), w')"
    "\<forall>n. rel_option (maintained True) (serviceView maintenanceCluster n) (serviceView w' n)"
    using maintenance_mode_reconciled [OF upkeep.maintenance_environment_axioms, OF maintenanceCluster_facts(1),
        of "(''ecosystem'', ''maintenance'')"] maintenanceCluster_facts(2-4)
    by (auto simp: without_annotations)
  have "serviceView maintenanceCluster ''scm-exposed'' = Some exposedService" by (simp add: maintenanceCluster_facts)
  with w'(2) [rule_format, of "''scm-exposed''"] obtain s' where
    "serviceView w' ''scm-exposed'' = Some s'" "maintained True exposedService s'"
    by (cases "serviceView w' ''scm-exposed''") simp_all
  with w'(1) maintenanceCluster_facts(5) show ?thesis by (auto simp: maintained_def maintainedSelector_def)
qed

text \<open>
  Property C22. A maintenance and its end, with the services left alone in between: a service has its
  selector back exactly when the controller does not touch it or when the selector was the dogu label
  of the service and nothing more.
\<close>

theorem maintenance_round_trip:
  assumes "maintenance_environment cl view put adm mmu sw other active inOrder viewI effect"
    and "wellNamed (view w0)" and "active (other w0)"
    and "\<And>s. view w0 (om_Name (svc_meta s)) = Some s \<Longrightarrow> inOrder (other w0) s"
  shows "\<exists>w1. Reconcile_Maintenance mmu req w0 = (Ret (), w1) \<and>
    (\<forall>w2. view w2 = view w1 \<longrightarrow> \<not> active (other w2) \<longrightarrow>
       (\<forall>s. view w2 (om_Name (svc_meta s)) = Some s \<longrightarrow> inOrder (other w2) s) \<longrightarrow>
       (\<exists>w3. Reconcile_Maintenance mmu req w2 = (Ret (), w3) \<and>
          (\<forall>n s. view w0 n = Some s \<longrightarrow> (\<exists>u. view w3 n = Some u \<and>
             (ss_Selector (svc_spec u) = ss_Selector (svc_spec s) \<longleftrightarrow>
              \<not> guarded s \<or> ss_Selector (svc_spec s) =
                fmap_of_list [(DoguLabelName, mapIndex (om_Labels (svc_meta s)) DoguLabelName)])))))"
proof -
  obtain w1 where w1: "Reconcile_Maintenance mmu req w0 = (Ret (), w1)"
    "\<forall>n s. view w0 n = Some s \<longrightarrow> (\<exists>t. view w1 n = Some t \<and> maintained True s t)"
    "\<forall>w2. view w2 = view w1 \<longrightarrow> \<not> active (other w2) \<longrightarrow>
       (\<forall>s. view w2 (om_Name (svc_meta s)) = Some s \<longrightarrow> inOrder (other w2) s) \<longrightarrow>
       (\<exists>w3. Reconcile_Maintenance mmu req w2 = (Ret (), w3) \<and>
         (\<forall>n s. view w0 n = Some s \<longrightarrow> (\<exists>u. view w3 n = Some u \<and> ss_Selector (svc_spec u) = restoredSelector s)))"
    by (rule switch_twice [OF assms, of req]) (assumption, rule that)
  have same: "restoredSelector s = ss_Selector (svc_spec s) \<longleftrightarrow> \<not> guarded s \<or> ss_Selector (svc_spec s) =
      fmap_of_list [(DoguLabelName, mapIndex (om_Labels (svc_meta s)) DoguLabelName)]" for s
    by (auto simp: restoredSelector_def)
  show ?thesis
  proof (rule exI [of _ w1], rule conjI [OF w1(1)], intro allI impI, goal_cases)
    case (1 w2)
    then obtain w3 where w3: "Reconcile_Maintenance mmu req w2 = (Ret (), w3)"
      "\<forall>n s. view w0 n = Some s \<longrightarrow> (\<exists>u. view w3 n = Some u \<and> ss_Selector (svc_spec u) = restoredSelector s)"
      using w1(3) [rule_format, of w2] by blast
    then show ?case using same by (intro exI [of _ w3]) fastforce
  qed
qed

theorem maintenance_round_trip_witness:
  "\<exists>w1 w3 u. Reconcile_Maintenance exampleMaintenanceController (''ecosystem'', ''maintenance'') maintenanceCluster =
       (Ret (), w1) \<and>
     Reconcile_Maintenance exampleMaintenanceController (''ecosystem'', ''maintenance'') (w1\<lparr>k_maintenance := False\<rparr>) =
       (Ret (), w3) \<and>
     serviceView w3 ''scm-exposed'' = Some u \<and> ss_Selector (svc_spec u) = ss_Selector (svc_spec exposedService)"
proof -
  obtain w1 where w1: "Reconcile_Maintenance exampleMaintenanceController (''ecosystem'', ''maintenance'')
      maintenanceCluster = (Ret (), w1)"
    and restored: "\<forall>w2. serviceView w2 = serviceView w1 \<longrightarrow> \<not> sy_maintenance (clusterSys w2) \<longrightarrow>
      (\<forall>s. serviceView w2 (om_Name (svc_meta s)) = Some s \<longrightarrow> ingressInOrder exampleIngressJson (clusterSys w2) s) \<longrightarrow>
      (\<exists>w3. Reconcile_Maintenance exampleMaintenanceController (''ecosystem'', ''maintenance'') w2 = (Ret (), w3) \<and>
        (\<forall>n s. serviceView maintenanceCluster n = Some s \<longrightarrow> (\<exists>u. serviceView w3 n = Some u \<and>
          (ss_Selector (svc_spec u) = ss_Selector (svc_spec s) \<longleftrightarrow> \<not> guarded s \<or> ss_Selector (svc_spec s) =
            fmap_of_list [(DoguLabelName, mapIndex (om_Labels (svc_meta s)) DoguLabelName)]))))"
    using maintenance_round_trip [OF upkeep.maintenance_environment_axioms, OF maintenanceCluster_facts(1,2),
        of "(''ecosystem'', ''maintenance'')"] maintenanceCluster_facts(3,4)
    by (auto simp: without_annotations)
  have ok: "\<forall>s. serviceView (w1\<lparr>k_maintenance := False\<rparr>) (om_Name (svc_meta s)) = Some s \<longrightarrow>
      ingressInOrder exampleIngressJson (clusterSys (w1\<lparr>k_maintenance := False\<rparr>)) s"
  proof (intro allI impI without_annotations)
    fix s assume s: "serviceView (w1\<lparr>k_maintenance := False\<rparr>) (om_Name (svc_meta s)) = Some s"
    have "\<forall>n. rel_option (maintained True) (serviceView maintenanceCluster n) (serviceView w1 n)"
      using upkeep.reconcile_run [OF maintenanceCluster_facts(1), of "(''ecosystem'', ''maintenance'')"] w1
        maintenanceCluster_facts(2-4) by (auto simp: without_annotations)
    moreover have "serviceView w1 (om_Name (svc_meta s)) = Some s" using s by (simp add: serviceView_def)
    ultimately obtain t where "serviceView maintenanceCluster (om_Name (svc_meta s)) = Some t" "maintained True t s"
      by (metis (no_types, lifting) option.rel_cases option.distinct(1) option.inject)
    then show "om_Annotations (svc_meta s) = None" by (simp add: maintenanceCluster_facts(3,4) maintained_def)
  qed
  have "serviceView (w1\<lparr>k_maintenance := False\<rparr>) = serviceView w1"
    "\<not> sy_maintenance (clusterSys (w1\<lparr>k_maintenance := False\<rparr>))"
    by (simp_all add: serviceView_def clusterSys_def fun_eq_iff)
  then obtain w3 where w3: "Reconcile_Maintenance exampleMaintenanceController (''ecosystem'', ''maintenance'')
      (w1\<lparr>k_maintenance := False\<rparr>) = (Ret (), w3)"
    and "\<forall>n s. serviceView maintenanceCluster n = Some s \<longrightarrow> (\<exists>u. serviceView w3 n = Some u \<and>
          (ss_Selector (svc_spec u) = ss_Selector (svc_spec s) \<longleftrightarrow> \<not> guarded s \<or> ss_Selector (svc_spec s) =
            fmap_of_list [(DoguLabelName, mapIndex (om_Labels (svc_meta s)) DoguLabelName)]))"
    using restored [rule_format, of "w1\<lparr>k_maintenance := False\<rparr>"] ok by auto
  from this(2) [rule_format, of "''scm-exposed''" exposedService] obtain u where
    "serviceView w3 ''scm-exposed'' = Some u" "ss_Selector (svc_spec u) = ss_Selector (svc_spec exposedService)"
    by (auto simp: maintenanceCluster_facts(3)) (simp_all add: exposedService_def)
  with w1 w3 show ?thesis by blast
qed

lemma created_loadbalancer:
  fixes deps :: "'w Dependencies"
  assumes "maintenance_environment cl view put adm mmu sw other active inOrder viewI effect"
    and "selector = GetSelector (ParseIngressController deps)"
    and "lb = adm v (CreateLoadBalancer a ns cfg ports selector)"
  shows "guarded lb \<longleftrightarrow> dep_Controller deps = ''traefik''" and "ss_Selector (svc_spec lb) = selector"
    and "mapIndex (om_Labels (svc_meta lb)) DoguLabelName = []"
proof -
  note keeps = maintenance_environment.keeps [OF assms(1)]
  show sel: "ss_Selector (svc_spec lb) = selector" "mapIndex (om_Labels (svc_meta lb)) DoguLabelName = []"
    unfolding assms(3)
    by (simp_all add: keeps CreateLoadBalancer_def GetAppLabel_def mapIndex_def appLabelKey_def DoguLabelName_def)
  have type: "ss_Type (svc_spec lb) \<noteq> ServiceTypeClusterIP"
    unfolding assms(3) by (simp add: keeps CreateLoadBalancer_def kube_constants)
  have "mapIndex selector DoguLabelName = (if dep_Controller deps = ''traefik'' then ''traefik'' else [])"
    unfolding assms(2)
    by (simp add: GetSelector_def ParseIngressController_def NewTraefikController_def mapStringToControllerType_def
        selectorMap_def gateway_def ingress_def mapIndex_def GatewayControllerName_def IngressControllerName_def
        DefaultIngressController_def componentLabelKey_def DoguLabelName_def)
  then show "guarded lb \<longleftrightarrow> dep_Controller deps = ''traefik''"
    using type by (simp add: guarded_def isServiceNginxRelated_def sel hasPrefix_def)
qed

text \<open>
  Property C26. The load balancer and a maintenance: the load balancer that was created for the ingress
  controller \<open>traefik\<close> selects it by a dogu label, so maintenance mode cuts it off from the ingress
  controller; and because it has no dogu label of its own, the end of the maintenance leaves it with an
  empty selector value.  For any other configured controller it keeps its selector.
\<close>

theorem maintenance_cuts_off_loadbalancer:
  assumes "maintenance_environment cl view put adm mmu sw other active inOrder viewI effect"
    and "wellNamed (view w0)" and "active (other w0)"
    and "\<And>s. view w0 (om_Name (svc_meta s)) = Some s \<Longrightarrow> inOrder (other w0) s"
    and "view w0 ''ces-loadbalancer'' =
      Some (adm v (CreateLoadBalancer a ns cfg ports (GetSelector (ParseIngressController deps))))"
    and "selector = GetSelector (ParseIngressController deps)"
  shows "\<exists>w1 t. Reconcile_Maintenance mmu req w0 = (Ret (), w1) \<and> view w1 ''ces-loadbalancer'' = Some t \<and>
    ss_Selector (svc_spec t) = (if dep_Controller deps = ''traefik''
      then fmap_of_list [(DoguLabelName, ''deactivatedDuringMaintenance'')] else selector) \<and>
    (\<forall>w2. view w2 = view w1 \<longrightarrow> \<not> active (other w2) \<longrightarrow>
       (\<forall>s. view w2 (om_Name (svc_meta s)) = Some s \<longrightarrow> inOrder (other w2) s) \<longrightarrow>
       (\<exists>w3 u. Reconcile_Maintenance mmu req w2 = (Ret (), w3) \<and> view w3 ''ces-loadbalancer'' = Some u \<and>
          ss_Selector (svc_spec u) =
            (if dep_Controller deps = ''traefik'' then fmap_of_list [(DoguLabelName, [])] else selector)))"
proof -
  obtain w1 where w1: "Reconcile_Maintenance mmu req w0 = (Ret (), w1)"
    "\<forall>n s. view w0 n = Some s \<longrightarrow> (\<exists>t. view w1 n = Some t \<and> maintained True s t)"
    "\<forall>w2. view w2 = view w1 \<longrightarrow> \<not> active (other w2) \<longrightarrow>
       (\<forall>s. view w2 (om_Name (svc_meta s)) = Some s \<longrightarrow> inOrder (other w2) s) \<longrightarrow>
       (\<exists>w3. Reconcile_Maintenance mmu req w2 = (Ret (), w3) \<and>
         (\<forall>n s. view w0 n = Some s \<longrightarrow> (\<exists>u. view w3 n = Some u \<and> ss_Selector (svc_spec u) = restoredSelector s)))"
    by (rule switch_twice [OF assms(1-4), of req]) (assumption, rule that)
  define lb where "lb = adm v (CreateLoadBalancer a ns cfg ports selector)"
  note lb = created_loadbalancer [OF assms(1,6) lb_def]
  have stored: "view w0 ''ces-loadbalancer'' = Some lb" using assms(5,6) by (simp add: lb_def)
  obtain t where t: "view w1 ''ces-loadbalancer'' = Some t" "maintained True lb t" using w1(2) stored by blast
  have cut: "ss_Selector (svc_spec t) = (if dep_Controller deps = ''traefik''
      then fmap_of_list [(DoguLabelName, ''deactivatedDuringMaintenance'')] else selector)"
    using t(2) lb by (simp add: maintained_def maintainedSelector_def)
  have back_lb: "restoredSelector lb =
      (if dep_Controller deps = ''traefik'' then fmap_of_list [(DoguLabelName, [])] else selector)"
    using lb by (simp add: restoredSelector_def)
  have again: "\<exists>w3 u. Reconcile_Maintenance mmu req w2 = (Ret (), w3) \<and> view w3 ''ces-loadbalancer'' = Some u \<and>
      ss_Selector (svc_spec u) =
        (if dep_Controller deps = ''traefik'' then fmap_of_list [(DoguLabelName, [])] else selector)"
    if w2: "view w2 = view w1" "\<not> active (other w2)"
      "\<forall>s. view w2 (om_Name (svc_meta s)) = Some s \<longrightarrow> inOrder (other w2) s" for w2
  proof -
    obtain w3 where "Reconcile_Maintenance mmu req w2 = (Ret (), w3)"
      "\<forall>n s. view w0 n = Some s \<longrightarrow> (\<exists>u. view w3 n = Some u \<and> ss_Selector (svc_spec u) = restoredSelector s)"
      using w1(3) w2 by blast
    with stored show ?thesis unfolding back_lb [symmetric] by blast
  qed
  show ?thesis
    by (rule exI [of _ w1], rule exI [of _ t], rule conjI [OF w1(1)], rule conjI [OF t(1)], rule conjI [OF cut])
      (use again in simp)
qed

definition traefikSelector :: strmap where
  "traefikSelector = GetSelector (ParseIngressController (exampleDependencies ''traefik''))"

definition traefikBalancer :: Service where
  "traefikBalancer = admService emptyCluster (CreateLoadBalancer 0 ''ecosystem'' exampleConfig [] traefikSelector)"

definition traefikCluster :: cluster where
  "traefikCluster = emptyCluster\<lparr>k_maintenance := True, k_services := fmap_of_list [(''ces-loadbalancer'', traefikBalancer)]\<rparr>"

lemma traefikCluster_facts:
  "serviceView traefikCluster n = Some s \<longleftrightarrow> n = ''ces-loadbalancer'' \<and> s = traefikBalancer"
  "wellNamed (serviceView traefikCluster)" "sy_maintenance (clusterSys traefikCluster)"
  "ingressInOrder exampleIngressJson x traefikBalancer"
proof -
  show view: "serviceView traefikCluster n = Some s \<longleftrightarrow> n = ''ces-loadbalancer'' \<and> s = traefikBalancer" for n s
    by (auto simp: serviceView_def traefikCluster_def)
  have "om_Name (svc_meta traefikBalancer) = ''ces-loadbalancer''"
    by (simp add: traefikBalancer_def admService_name CreateLoadBalancer_def LoadbalancerName_def)
  then show "wellNamed (serviceView traefikCluster)" by (simp add: wellNamed_def view)
  show "sy_maintenance (clusterSys traefikCluster)" by (simp add: clusterSys_def traefikCluster_def)
  have "lookupNil (om_Annotations (svc_meta traefikBalancer)) CesServiceAnnotation = None"
    unfolding traefikBalancer_def admService_keeps_selector CreateLoadBalancer_def by simp code_simp
  then show "ingressInOrder exampleIngressJson x traefikBalancer"
    by (simp add: ingressInOrder_def getCesServices_def)
qed

theorem maintenance_cuts_off_loadbalancer_witness:
  "\<exists>w1 t. Reconcile_Maintenance exampleMaintenanceController (''ecosystem'', ''maintenance'') traefikCluster = (Ret (), w1) \<and>
     serviceView w1 ''ces-loadbalancer'' = Some t \<and>
     ss_Selector (svc_spec t) = fmap_of_list [(DoguLabelName, ''deactivatedDuringMaintenance'')]"
proof -
  have ok: "ingressInOrder exampleIngressJson (clusterSys traefikCluster) s"
    if "serviceView traefikCluster (om_Name (svc_meta s)) = Some s" for s
    using that traefikCluster_facts(4) by (simp add: traefikCluster_facts(1))
  have lb: "serviceView traefikCluster ''ces-loadbalancer'' = Some (admService emptyCluster (CreateLoadBalancer 0 ''ecosystem''
      exampleConfig [] (GetSelector (ParseIngressController (exampleDependencies ''traefik'')))))"
    by (simp add: traefikCluster_facts(1) traefikBalancer_def traefikSelector_def)
  have "dep_Controller (exampleDependencies ''traefik'') = ''traefik''" by (simp add: exampleDependencies_def)
  then show ?thesis
    using maintenance_cuts_off_loadbalancer [OF upkeep.maintenance_environment_axioms,
        OF traefikCluster_facts(2,3) ok lb refl, of "(''ecosystem'', ''maintenance'')"] by auto
qed

end
