(* ===== verification/Certificates_Correct.thy ===== *)
theory Certificates_Correct
  imports Certificates
begin

section \<open>Correctness of the certificate components\<close>

text \<open>
  The specification reads the two stores directly: \<open>storedCertificate\<close> is the certificate in the secret,
  \<open>wantedNames\<close> are the names it has to cover by the configuration.  The locale
  \<open>certificate_environment\<close> joins the repository of the configuration, the store of secrets and the
  generator of certificates, of which it says that a generated certificate is for what was asked.
\<close>

subsection \<open>Specification\<close>

definition storedCertificate :: "x509Lib \<Rightarrow> (string \<Rightarrow> Secret option) \<Rightarrow> error + x509Certificate" where
  "storedCertificate lib secrets =
     (case secrets ''ecosystem-certificate'' of
        None \<Rightarrow> Inl (Wrap ''failed to get secret for ssl read'' (Api NotFound))
      | Some secret \<Rightarrow>
          (case fmlookup (sec_Data secret) ''tls.crt'' of
             None \<Rightarrow> Inl (Msg ''could not find certificate in ecosystem certificate secret'')
           | Some cert \<Rightarrow>
               if cert = [] then Inl (Msg ''could not find certificate in ecosystem certificate secret'')
               else (case xl_Decode lib cert of
                       None \<Rightarrow> Inl (Msg ''failed to parse certificate PEM of previous certificate'')
                     | Some block \<Rightarrow>
                         (case xl_ParseCertificate lib block of
                            Inl err \<Rightarrow> Inl (Wrap ''failed to parse previous certificate'' err)
                          | Inr crt \<Rightarrow> Inr crt))))"

definition textAt :: "(string \<Rightarrow> string option) \<Rightarrow> string \<Rightarrow> string option" where
  "textAt G k = (case G k of None \<Rightarrow> None | Some v \<Rightarrow> if ContainsChars v then Some v else None)"

definition alternativeNames :: "(string \<Rightarrow> string option) \<Rightarrow> string list" where
  "alternativeNames G =
     (case G ''alternativeFQDNs'' of
        None \<Rightarrow> []
      | Some s \<Rightarrow> map af_FQDN (filter (\<lambda>a. \<not> HasCertificate a) (ParseAlternativeFQDNsFromConfigString s)))"

text \<open>The configuration asks for a self-signed certificate of this host and this organization.\<close>

definition asksFor :: "(string \<Rightarrow> string option) \<Rightarrow> string \<Rightarrow> string \<Rightarrow> bool" where
  "asksFor G fqdn domain \<longleftrightarrow>
     G ''certificate/type'' = Some ''selfsigned'' \<and> textAt G ''fqdn'' = Some fqdn \<and> textAt G ''domain'' = Some domain"

definition covers :: "x509Certificate \<Rightarrow> string set \<Rightarrow> bool" where
  "covers crt names \<longleftrightarrow> names \<subseteq> set (crt_DNSNames crt)"

definition certifies ::
  "x509Lib \<Rightarrow> string \<Rightarrow> string \<Rightarrow> string \<Rightarrow> int \<Rightarrow> string \<Rightarrow> string \<Rightarrow> string \<Rightarrow> string list \<Rightarrow> bool" where
  "certifies lib cert fqdn domain days country province locality alts \<longleftrightarrow>
     (\<exists>block crt. xl_Decode lib cert = Some block \<and> xl_ParseCertificate lib block = Inr crt \<and>
        crt_Organization crt = [domain] \<and> crt_Country crt = [country] \<and> crt_Province crt = [province] \<and>
        crt_Locality crt = [locality] \<and> crt_NotAfter crt - crt_NotBefore crt = days * 86400 \<and>
        covers crt (insert fqdn (set alts)))"

text \<open>The certificate the updater starts from: the stored one or else a fresh template.\<close>

definition previousCertificate :: "x509Lib \<Rightarrow> (string \<Rightarrow> Secret option) \<Rightarrow> x509Certificate" where
  "previousCertificate lib secrets =
     (case storedCertificate lib secrets of Inl _ \<Rightarrow> newCertificateTemplate 0 | Inr crt \<Rightarrow> crt)"

text \<open>There is no certificate yet, or a readable one that is valid for at least a day.\<close>

definition renewable :: "x509Lib \<Rightarrow> (string \<Rightarrow> Secret option) \<Rightarrow> bool" where
  "renewable lib secrets \<longleftrightarrow> secrets ''ecosystem-certificate'' = None \<or>
     (\<not> isl (storedCertificate lib secrets) \<and> 0 < expireDaysOf (previousCertificate lib secrets))"

text \<open>The certificate that should replace it.\<close>

definition renewed ::
  "x509Lib \<Rightarrow> (string \<Rightarrow> string option) \<Rightarrow> x509Certificate \<Rightarrow> x509Certificate \<Rightarrow> bool" where
  "renewed lib G old new \<longleftrightarrow>
     (\<exists>fqdn domain. asksFor G fqdn domain \<and> crt_Organization new = [domain] \<and>
        covers new (insert fqdn (set (alternativeNames G)))) \<and>
     expireDaysOf new = expireDaysOf old \<and>
     crt_Country new = [getFirstOrDefault (crt_Country old) (xl_Country lib)] \<and>
     crt_Province new = [getFirstOrDefault (crt_Province old) (xl_Province lib)] \<and>
     crt_Locality new = [getFirstOrDefault (crt_Locality old) (xl_Locality lib)]"

subsection \<open>Names and validity\<close>

lemma certificateHasDNSName_iff [simp]: "certificateHasDNSName crt n \<longleftrightarrow> n \<in> set (crt_DNSNames crt)"
proof -
  have "certificateHasDNSNameIn ns n \<longleftrightarrow> n \<in> set ns" for ns
    by (induction ns) auto
  then show ?thesis by (simp add: certificateHasDNSName_def)
qed

lemma certificateHasAllDNSNames_iff [simp]: "certificateHasAllDNSNames crt ns \<longleftrightarrow> covers crt (set ns)"
  by (induction ns) (simp_all add: covers_def)

lemma expireDaysOf_bounds: "- 106751 \<le> expireDaysOf crt" "expireDaysOf crt \<le> 106751"
proof -
  define d where "d = clamp64 ((crt_NotAfter crt - crt_NotBefore crt) * 10 ^ 9)"
  have d: "\<bar>d\<bar> \<le> 2 ^ 63" by (simp add: d_def clamp64_def)
  then have "\<bar>d\<bar> div (24 * 3600 * 10 ^ 9) \<le> 2 ^ 63 div (24 * 3600 * 10 ^ 9)"
    by (intro zdiv_mono1) simp_all
  then have "\<bar>d\<bar> div (24 * 3600 * 10 ^ 9) \<le> 106751" by simp
  moreover have "0 \<le> \<bar>d\<bar> div (24 * 3600 * 10 ^ 9)" by (simp add: pos_imp_zdiv_nonneg_iff)
  moreover have "expireDaysOf crt = sgn d * (\<bar>d\<bar> div (24 * 3600 * 10 ^ 9))"
    by (simp add: expireDaysOf_def Let_def d_def)
  ultimately show "- 106751 \<le> expireDaysOf crt" "expireDaysOf crt \<le> 106751"
    by (cases "d = 0"; cases "0 < d"; simp)+
qed

lemma expireDaysOf_days:
  assumes "crt_NotAfter crt - crt_NotBefore crt = days * 86400" and "0 < days" and "days \<le> 106751"
  shows "expireDaysOf crt = days"
proof -
  have "days * 86400 * 10 ^ 9 \<le> 2 ^ 63 - 1" using assms(3) by simp
  then have "clamp64 (days * 86400 * 10 ^ 9) = days * 86400 * 10 ^ 9"
    using assms(2) by (simp add: clamp64_def)
  then show ?thesis using assms(2) by (simp add: expireDaysOf_def Let_def assms(1) sgn_mult)
qed

lemma expireDaysOf_new [simp]: "expireDaysOf (newCertificateTemplate now) = 365"
  by (rule expireDaysOf_days) (simp_all add: newCertificateTemplate_def defaultExpireDays_def)

subsection \<open>Reading the configuration\<close>

lemma configText_view: "configText cfg g k = textAt (gc_Get cfg g) k"
  by (simp add: configText_def textAt_def)

lemma getAlternativeFQDNs_view: "getAlternativeFQDNs cfg g = alternativeNames (gc_Get cfg g)"
  by (simp add: getAlternativeFQDNs_def alternativeNames_def alternativeFQDNsPath_def)

lemma isSelfSigned_asked: "asksFor (gc_Get cfg g) fqdn domain \<Longrightarrow> isSelfSignedCertificate cfg g = Inr True"
  by (simp add: isSelfSignedCertificate_def configText_view asksFor_def textAt_def
      serverCertificateTypePath_def selfsignedCertificateType_def ContainsChars_iff isSpace_def)

lemma asksFor_texts:
  "asksFor G fqdn domain \<Longrightarrow> textAt G ''fqdn'' = Some fqdn"
  "asksFor G fqdn domain \<Longrightarrow> textAt G ''domain'' = Some domain"
  "asksFor G fqdn domain \<Longrightarrow> G ''domain'' = Some domain"
  "asksFor G fqdn domain \<Longrightarrow> ContainsChars fqdn"
  by (auto simp: asksFor_def textAt_def split: option.splits if_splits)

subsection \<open>The environment\<close>

locale certificate_environment =
  config_repository cfg repo viewG current viewS +
  secrets: object_store cl viewS putS sec_meta admS
  for cfg :: "'g configOps" and repo :: "('w, 'g) GlobalConfigRepository"
    and viewG :: "'w \<Rightarrow> string \<Rightarrow> string option" and current and viewS :: "'w \<Rightarrow> string \<Rightarrow> Secret option"
    and cl putS admS +
  fixes lib :: x509Lib and generate :: "'w certGenerator"
  assumes frameS: "viewG (putS n v w) = viewG w"
    and keepsS: "sec_Data (admS w x) = sec_Data x"
    and generate_law: "0 < days \<Longrightarrow> \<exists>cert key w'. generate fqdn domain days country province locality alts w =
        (Ret (cert, key), w') \<and> viewS w' = viewS w \<and> viewG w' = viewG w \<and> cert \<noteq> [] \<and>
        certifies lib cert fqdn domain days country province locality alts"
begin

abbreviation scu :: "(string list \<Rightarrow> ('w, unit) io) \<Rightarrow> ('w \<Rightarrow> int) \<Rightarrow> string \<Rightarrow> ('w, 'g) selfsignedCertificateUpdater" where
  "scu watch now ns \<equiv> NewSelfsignedCertificateUpdater cfg generate watch now ns repo cl"

lemma getCurrentCertificate_run:
  "getCurrentCertificate lib (scu watch now ns) w =
     (case storedCertificate lib (viewS w) of Inl err \<Rightarrow> (Fail err, w) | Inr crt \<Rightarrow> (Ret crt, w))"
  by (auto simp: getCurrentCertificate_def storedCertificate_def NewSelfsignedCertificateUpdater_def
      ecosystemCertificateName_def TLSCertKey_def Let_def io_simps secrets.get_law
      split: option.split sum.split)

lemma write_run:
  "\<exists>w' x. WriteCertificate (NewSSLWriter cl ns) cert key w = (Ret (), w') \<and>
     viewS w' = (viewS w)(''ecosystem-certificate'' \<mapsto> x) \<and> viewG w' = viewG w \<and>
     fmlookup (sec_Data x) ''tls.crt'' = Some cert"
proof -
  let ?x = "createCertificateSecret (NewSSLWriter cl ns) cert key"
  have x: "om_Name (sec_meta ?x) = ''ecosystem-certificate''" "om_ResourceVersion (sec_meta ?x) = []"
    "fmlookup (sec_Data ?x) ''tls.crt'' = Some cert"
    by (simp_all add: createCertificateSecret_def certificateSecretName_def emptyMeta_def TLSCertKey_def)
  have "WriteCertificate (NewSSLWriter cl ns) cert key w =
      (Ret (), putS ''ecosystem-certificate'' (Some (admS w ?x)) w)"
  proof (cases "viewS w ''ecosystem-certificate''")
    case None
    then show ?thesis
      using x by (simp add: WriteCertificate_def Let_def io_simps secrets.store_runs)
  next
    case (Some old)
    then show ?thesis
      using x secrets.update_fresh [of w ?x old] by (simp add: WriteCertificate_def Let_def io_simps)
  qed
  then show ?thesis using x(3) by (auto simp: secrets.view_put frameS keepsS)
qed

lemma create_run:
  assumes "asksFor (viewG w) fqdn domain" and "0 < days"
  shows "\<exists>w' cert. su_CreateAndSafeCertificate (scu watch now ns) days country province locality alts w = (Ret (), w') \<and>
    viewG w' = viewG w \<and> (\<forall>n. n \<noteq> ''ecosystem-certificate'' \<longrightarrow> viewS w' n = viewS w n) \<and>
    (\<exists>x. viewS w' ''ecosystem-certificate'' = Some x \<and> fmlookup (sec_Data x) ''tls.crt'' = Some cert) \<and>
    cert \<noteq> [] \<and> certifies lib cert fqdn domain days country province locality alts"
proof -
  obtain g where g: "gcr_Get repo w = (Ret g, w)" "gc_Get cfg g = viewG w" by (rule get_values)
  obtain cert key w1 where w1: "generate fqdn domain days country province locality alts w = (Ret (cert, key), w1)"
    "viewS w1 = viewS w" "viewG w1 = viewG w" "cert \<noteq> []"
    "certifies lib cert fqdn domain days country province locality alts"
    using generate_law [OF assms(2)] by blast
  obtain w2 x where w2: "WriteCertificate (NewSSLWriter cl ns) cert key w1 = (Ret (), w2)"
    "viewS w2 = (viewS w1)(''ecosystem-certificate'' \<mapsto> x)" "viewG w2 = viewG w1"
    "fmlookup (sec_Data x) ''tls.crt'' = Some cert"
    using write_run by blast
  have "su_CreateAndSafeCertificate (scu watch now ns) days country province locality alts w = (Ret (), w2)"
    using g w1(1) w2(1) asksFor_texts(1,2) [OF assms(1)]
    by (simp add: NewSelfsignedCertificateUpdater_def NewCreator_def CreateAndSafeCertificate_def io_simps
        configText_view)
  then show ?thesis using w1 w2 by auto
qed

lemma handle_calls_creator:
  assumes "asksFor (viewG w) fqdn domain" and "renewable lib (viewS w)"
  shows "handleFqdnChange cfg lib (scu watch now ns) w =
    wrapErr ''failed to regenerate and safe selfsigned certificate''
      (su_CreateAndSafeCertificate (scu watch now ns) (expireDaysOf (previousCertificate lib (viewS w)))
         (getFirstOrDefault (crt_Country (previousCertificate lib (viewS w))) (xl_Country lib))
         (getFirstOrDefault (crt_Province (previousCertificate lib (viewS w))) (xl_Province lib))
         (getFirstOrDefault (crt_Locality (previousCertificate lib (viewS w))) (xl_Locality lib))
         (alternativeNames (viewG w))) w"
proof -
  obtain g where g: "gcr_Get repo w = (Ret g, w)" "gc_Get cfg g = viewG w" by (rule get_values)
  have run: "su_globalConfigRepo (scu watch now ns) = repo" by (simp add: NewSelfsignedCertificateUpdater_def)
  note self = isSelfSigned_asked [of cfg g fqdn domain, unfolded g(2), OF assms(1)]
  show ?thesis
  proof (cases "storedCertificate lib (viewS w)")
    case (Inl err)
    with assms(2) have none: "viewS w ''ecosystem-certificate'' = None" by (auto simp: renewable_def)
    then have "isNotFound err" using Inl by (auto simp: storedCertificate_def)
    then show ?thesis
      using g self run Inl getCurrentCertificate_run [of watch now ns w]
      by (simp add: handleFqdnChange_def io_simps Let_def getAlternativeFQDNs_view previousCertificate_def)
        (simp add: newCertificateTemplate_def)
  next
    case (Inr crt)
    then show ?thesis
      using g self run getCurrentCertificate_run [of watch now ns w]
      by (simp add: handleFqdnChange_def io_simps Let_def getAlternativeFQDNs_view previousCertificate_def)
  qed
qed

lemma renewable_days: "renewable lib (viewS w) \<Longrightarrow> 0 < expireDaysOf (previousCertificate lib (viewS w))"
  by (auto simp: renewable_def previousCertificate_def storedCertificate_def)

lemma handle_run:
  assumes "asksFor (viewG w) fqdn domain" and "renewable lib (viewS w)"
  shows "\<exists>w' crt. handleFqdnChange cfg lib (scu watch now ns) w = (Ret (), w') \<and> viewG w' = viewG w \<and>
    (\<forall>n. n \<noteq> ''ecosystem-certificate'' \<longrightarrow> viewS w' n = viewS w n) \<and> storedCertificate lib (viewS w') = Inr crt \<and>
    renewed lib (viewG w) (previousCertificate lib (viewS w)) crt"
proof -
  let ?old = "previousCertificate lib (viewS w)"
  let ?country = "getFirstOrDefault (crt_Country ?old) (xl_Country lib)"
    and ?province = "getFirstOrDefault (crt_Province ?old) (xl_Province lib)"
    and ?locality = "getFirstOrDefault (crt_Locality ?old) (xl_Locality lib)"
  have days: "0 < expireDaysOf ?old" by (rule renewable_days [OF assms(2)])
  obtain w' cert x where w': "handleFqdnChange cfg lib (scu watch now ns) w = (Ret (), w')" "viewG w' = viewG w"
    "\<forall>n. n \<noteq> ''ecosystem-certificate'' \<longrightarrow> viewS w' n = viewS w n"
    "viewS w' ''ecosystem-certificate'' = Some x" "fmlookup (sec_Data x) ''tls.crt'' = Some cert" "cert \<noteq> []"
    and crt: "certifies lib cert fqdn domain (expireDaysOf ?old) ?country ?province ?locality (alternativeNames (viewG w))"
    using create_run [OF assms(1) days, of watch now ns ?country ?province ?locality "alternativeNames (viewG w)"]
      handle_calls_creator [OF assms, of watch now ns] by (auto simp: io_simps)
  from crt obtain block c where c: "xl_Decode lib cert = Some block" "xl_ParseCertificate lib block = Inr c"
    "crt_NotAfter c - crt_NotBefore c = expireDaysOf ?old * 86400" and rest: "crt_Organization c = [domain]"
    "covers c (insert fqdn (set (alternativeNames (viewG w))))" "crt_Country c = [?country]"
    "crt_Province c = [?province]" "crt_Locality c = [?locality]"
    by (auto simp: certifies_def)
  have "storedCertificate lib (viewS w') = Inr c" using w'(4-6) c(1,2) by (simp add: storedCertificate_def)
  moreover have "expireDaysOf c = expireDaysOf ?old" by (rule expireDaysOf_days [OF c(3) days expireDaysOf_bounds(2)])
  ultimately show ?thesis using w'(1-3) rest assms(1) unfolding renewed_def by blast
qed

text \<open>The check, in terms of the two stores.\<close>

lemma should_run:
  assumes "asksFor (viewG w) fqdn domain"
  shows "shouldUpdateCurrentCertificate cfg lib (scu watch now ns) w =
    (case storedCertificate lib (viewS w) of
       Inl err \<Rightarrow> if isNotFound err then (Ret True, w) else (Fail (Wrap ''failed to get current certificate'' err), w)
     | Inr crt \<Rightarrow> (Ret (\<not> (covers crt (insert fqdn (set (alternativeNames (viewG w)))) \<and>
         domain = getFirstOrDefault (crt_Organization crt) [])), w))"
proof -
  obtain g where g: "gcr_Get repo w = (Ret g, w)" "gc_Get cfg g = viewG w" by (rule get_values)
  have run: "su_globalConfigRepo (scu watch now ns) = repo" by (simp add: NewSelfsignedCertificateUpdater_def)
  have "insert fqdn (set (alternativeNames (viewG w))) = set (alternativeNames (viewG w) @ [fqdn])" by auto
  with g run isSelfSigned_asked [of cfg g fqdn domain, unfolded g(2), OF assms] asksFor_texts [OF assms]
    getCurrentCertificate_run [of watch now ns w]
  show ?thesis
    by (cases "storedCertificate lib (viewS w)")
      (simp_all add: shouldUpdateCurrentCertificate_def io_simps Let_def configText_view getAlternativeFQDNs_view
        globalFqdnPath_def globalDomainPath_def)
qed

lemma settled:
  assumes "storedCertificate lib (viewS w) = Inr crt" and "renewed lib (viewG w) old crt"
  shows "shouldUpdateCurrentCertificate cfg lib (scu watch now ns) w = (Ret False, w)"
proof -
  obtain fqdn domain where "asksFor (viewG w) fqdn domain" "crt_Organization crt = [domain]"
    "covers crt (insert fqdn (set (alternativeNames (viewG w))))"
    using assms(2) by (auto simp: renewed_def)
  then show ?thesis using should_run [of w fqdn domain watch now ns] assms(1) by simp
qed

lemma start_after_check:
  assumes "shouldUpdateCurrentCertificate cfg lib u w = (Ret b, w) \<or>
      (\<exists>e. shouldUpdateCurrentCertificate cfg lib u w = (Fail e, w)) \<and> \<not> b"
    and "if b then handleFqdnChange cfg lib u w = (Ret (), w1) else w1 = w"
  shows "Start_Updater cfg lib u w = startGlobalConfigWatch u w1"
proof -
  have "onErr (shouldUpdateCurrentCertificate cfg lib u) (\<lambda>err. ret False) ret w = (Ret b, w)"
    using assms(1) by (auto simp: io_simps)
  moreover have "(if b then onErr (handleFqdnChange cfg lib u) (\<lambda>err. ret ()) (\<lambda>_. ret ()) else ret ()) w = (Ret (), w1)"
    using assms(2) by (cases b) (simp_all add: io_simps)
  ultimately show ?thesis by (simp add: Start_Updater_def bindIO_run(1))
qed

text \<open>The last thing the start does; its outcome is that of the start.\<close>

abbreviation goWatch :: "(string list \<Rightarrow> ('w, unit) io) \<Rightarrow> ('w, unit) io" where
  "goWatch watch \<equiv> wrapErr ''failed to create fqdn watch'' (watch [''fqdn'', ''alternativeFQDNs'', ''domain''])"

lemma goWatch_start: "startGlobalConfigWatch (scu watch now ns) = goWatch watch"
  by (simp add: startGlobalConfigWatch_def NewSelfsignedCertificateUpdater_def globalFqdnPath_def alternativeFQDNsPath_def
      globalDomainPath_def)

lemma start_run:
  assumes "asksFor (viewG w) fqdn domain" and "renewable lib (viewS w)"
  shows "\<exists>w1 crt. Start_Updater cfg lib (scu watch now ns) w = goWatch watch w1 \<and> viewG w1 = viewG w \<and>
    (\<forall>n. n \<noteq> ''ecosystem-certificate'' \<longrightarrow> viewS w1 n = viewS w n) \<and>
    storedCertificate lib (viewS w1) = Inr crt \<and> covers crt (insert fqdn (set (alternativeNames (viewG w)))) \<and>
    getFirstOrDefault (crt_Organization crt) [] = domain"
proof -
  let ?good = "\<lambda>crt. covers crt (insert fqdn (set (alternativeNames (viewG w)))) \<and> domain = getFirstOrDefault (crt_Organization crt) []"
  show ?thesis
  proof (cases "\<exists>crt. storedCertificate lib (viewS w) = Inr crt \<and> ?good crt")
    case True
    then obtain crt where crt: "storedCertificate lib (viewS w) = Inr crt" "?good crt" by blast
    then have "shouldUpdateCurrentCertificate cfg lib (scu watch now ns) w = (Ret False, w)"
      using should_run [OF assms(1), of watch now ns] by simp
    then have "Start_Updater cfg lib (scu watch now ns) w = goWatch watch w"
      using start_after_check [of "scu watch now ns" w False w] by (simp add: goWatch_start)
    with crt show ?thesis by (intro exI [of _ w] exI [of _ crt]) simp
  next
    case False
    have "shouldUpdateCurrentCertificate cfg lib (scu watch now ns) w = (Ret True, w)"
      using should_run [OF assms(1), of watch now ns] False assms(2)
      by (cases "storedCertificate lib (viewS w)") (auto simp: renewable_def storedCertificate_def)
    moreover obtain w1 crt where w1: "handleFqdnChange cfg lib (scu watch now ns) w = (Ret (), w1)" "viewG w1 = viewG w"
      "\<forall>n. n \<noteq> ''ecosystem-certificate'' \<longrightarrow> viewS w1 n = viewS w n"
      "storedCertificate lib (viewS w1) = Inr crt" "renewed lib (viewG w) (previousCertificate lib (viewS w)) crt"
      using handle_run [OF assms(1,2), of watch now ns] by blast
    ultimately have "Start_Updater cfg lib (scu watch now ns) w = goWatch watch w1"
      using start_after_check [of "scu watch now ns" w True w1] by (simp add: goWatch_start)
    moreover have "?good crt" using w1(5) assms(1) by (auto simp: renewed_def asksFor_def)
    ultimately show ?thesis using w1(2-4) by (intro exI [of _ w1] exI [of _ crt]) simp
  qed
qed

lemma start_unreadable:
  assumes "asksFor (viewG w) fqdn domain" and "storedCertificate lib (viewS w) = Inl err" and "\<not> isNotFound err"
  shows "Start_Updater cfg lib (scu watch now ns) w = goWatch watch w"
proof -
  have "shouldUpdateCurrentCertificate cfg lib (scu watch now ns) w =
      (Fail (Wrap ''failed to get current certificate'' err), w)"
    using should_run [OF assms(1), of watch now ns] assms(2,3) by simp
  then show ?thesis
    using start_after_check [of "scu watch now ns" w False w] by (simp add: goWatch_start)
qed

end

subsection \<open>The synchronizer\<close>

locale synchronizer_environment =
  config_repository cfg repo viewG current viewS +
  secrets: object_store cl viewS putS sec_meta admS
  for cfg :: "'g configOps" and repo :: "('w, 'g) GlobalConfigRepository"
    and viewG :: "'w \<Rightarrow> string \<Rightarrow> string option" and current and viewS :: "'w \<Rightarrow> string \<Rightarrow> Secret option"
    and cl putS admS +
  fixes retry :: "'w retryLib"
  assumes on_error: "(\<And>e w'. body w = (Fail e, w') \<Longrightarrow> \<not> rl_IsConflictError retry e) \<Longrightarrow>
      rl_OnError retry n (rl_IsConflictError retry) body w = body w"
    and set_error: "gc_Set cfg g k v = Inl err \<Longrightarrow>
      \<not> rl_IsConflictError retry (Wrap ''failed to set ecosystem certificate in global config object'' err)"
begin

lemma publish_run:
  assumes read: "gcr_Get repo w = (Ret g, w)"
  shows "case gc_Set cfg g ''certificate/server.crt'' cert of
     Inl err \<Rightarrow> updateInGlobalConfig cfg retry (NewCertificateSynchronizer cl repo) cert w =
       (Fail (Wrap ''failed to set ecosystem certificate in global config object'' err), w)
   | Inr _ \<Rightarrow> \<exists>w'. updateInGlobalConfig cfg retry (NewCertificateSynchronizer cl repo) cert w = (Ret (), w') \<and>
       viewG w' = (viewG w)(''certificate/server.crt'' \<mapsto> cert, ''certificate/server.key'' := None) \<and> viewS w' = viewS w"
proof -
  let ?s = "NewCertificateSynchronizer cl repo"
  have g: "gc_Get cfg g = viewG w" "current w g" using get_repo [of w] read by auto
  show ?thesis
  proof (cases "gc_Set cfg g ''certificate/server.crt'' cert")
    case (Inl err)
    then have "updateInGlobalConfigOnce cfg ?s cert w =
        (Fail (Wrap ''failed to set ecosystem certificate in global config object'' err), w)"
      using read by (simp add: updateInGlobalConfigOnce_def NewCertificateSynchronizer_def io_simps serverCertificateID_def)
    then show ?thesis
      using Inl set_error [OF Inl] unfolding updateInGlobalConfig_def by (subst on_error) simp_all
  next
    case g1: (Inr g1)
    have cur: "current w (gc_Delete cfg g1 ''certificate/server.key'')"
      by (rule current_delete [OF current_set [OF g(2) g1]])
    obtain g2 w' where up: "gcr_Update repo (gc_Delete cfg g1 ''certificate/server.key'') w = (Ret g2, w')"
      "viewG w' = gc_Get cfg (gc_Delete cfg g1 ''certificate/server.key'')" "viewS w' = viewS w"
      using update_repo [OF cur] by blast
    have once: "updateInGlobalConfigOnce cfg ?s cert w = (Ret (), w')"
      using read g1 up(1)
      by (simp add: updateInGlobalConfigOnce_def NewCertificateSynchronizer_def io_simps serverCertificateID_def
          serverCertificateKeyID_def)
    then have "updateInGlobalConfig cfg retry ?s cert w = (Ret (), w')"
      unfolding updateInGlobalConfig_def by (subst on_error) simp_all
    with up(2,3) set_then_delete [OF g1] g(1) g1 show ?thesis by auto
  qed
qed

lemma synchronize_run:
  assumes read: "gcr_Get repo w = (Ret g, w)"
  shows "case viewS w ''ecosystem-certificate'' of
     None \<Rightarrow> Synchronize cfg retry (NewCertificateSynchronizer cl repo) w = (Ret (), w)
   | Some x \<Rightarrow>
       (case fmlookup (sec_Data x) ''tls.crt'' of
          None \<Rightarrow> Synchronize cfg retry (NewCertificateSynchronizer cl repo) w =
            (Fail (Msg ''could not find certificate in ecosystem certificate secret''), w)
        | Some cert \<Rightarrow>
            (case gc_Set cfg g ''certificate/server.crt'' cert of
               Inl err \<Rightarrow> Synchronize cfg retry (NewCertificateSynchronizer cl repo) w =
                 (Fail (Wrap ''failed to update ecosystem certificate in global config''
                    (Wrap ''failed to set ecosystem certificate in global config object'' err)), w)
             | Inr _ \<Rightarrow> \<exists>w'. Synchronize cfg retry (NewCertificateSynchronizer cl repo) w = (Ret (), w') \<and>
                 viewG w' = (viewG w)(''certificate/server.crt'' \<mapsto> cert, ''certificate/server.key'' := None) \<and>
                 viewS w' = viewS w))"
proof -
  have s: "sy_secretInterface (NewCertificateSynchronizer cl repo) = cl" by (simp add: NewCertificateSynchronizer_def)
  show ?thesis
  proof (cases "viewS w ''ecosystem-certificate''")
    case None
    then show ?thesis by (simp add: Synchronize_def s io_simps secrets.get_law certificateSecretName_def)
  next
    case (Some x)
    show ?thesis
    proof (cases "fmlookup (sec_Data x) ''tls.crt''")
      case None
      with Some show ?thesis
        by (simp add: Synchronize_def s io_simps secrets.get_law certificateSecretName_def TLSCertKey_def)
    next
      case cert: (Some cert)
      have "Synchronize cfg retry (NewCertificateSynchronizer cl repo) w =
          wrapErr ''failed to update ecosystem certificate in global config''
            (updateInGlobalConfig cfg retry (NewCertificateSynchronizer cl repo) cert) w"
        using Some cert by (simp add: Synchronize_def s io_simps secrets.get_law certificateSecretName_def TLSCertKey_def)
      with Some cert publish_run [OF read, of cert] show ?thesis
        by (cases "gc_Set cfg g ''certificate/server.crt'' cert") (auto simp: io_simps)
    qed
  qed
qed

end

subsection \<open>The watch loop\<close>

fun changesSeen :: "watchEvent list \<Rightarrow> nat" where
  "changesSeen (WatchResult None # events) = Suc (changesSeen events)"
| "changesSeen (WatchResult (Some err) # events) = changesSeen events"
| "changesSeen events = 0"

definition stops :: "watchEvent list \<Rightarrow> bool" where
  "stops events \<longleftrightarrow> ContextDone \<in> set events \<or> ChannelClosed \<in> set events"

lemma noPanic_handleFqdnChange:
  assumes "noPanic (gcr_Get (su_globalConfigRepo scu))" and "\<And>n. noPanic (c_get (su_secretClient scu) n)"
    and "\<And>d c p l a. noPanic (su_CreateAndSafeCertificate scu d c p l a)"
  shows "noPanic (handleFqdnChange cfg lib scu)"
proof -
  have cert: "noPanic (getCurrentCertificate lib scu)"
    unfolding getCurrentCertificate_def Let_def
    by (intro no_panic assms) (auto split: option.split intro!: no_panic)
  have "noPanic (\<lambda>w. wrapErr s (su_CreateAndSafeCertificate scu (expireDaysOf (newCertificateTemplate (su_Now scu w)))
      (getFirstOrDefault (crt_Country (newCertificateTemplate (su_Now scu w))) (xl_Country lib))
      (getFirstOrDefault (crt_Province (newCertificateTemplate (su_Now scu w))) (xl_Province lib))
      (getFirstOrDefault (crt_Locality (newCertificateTemplate (su_Now scu w))) (xl_Locality lib)) a) w)" for s a
    by (rule noPanic_read) (intro no_panic assms(3))
  then show ?thesis
    unfolding handleFqdnChange_def Let_def
    by (intro no_panic assms) (auto split: sum.split intro!: no_panic assms cert)
qed

subsection \<open>The reference cluster with an example generator\<close>

definition encodeStrings :: "string list \<Rightarrow> nat list" where
  "encodeStrings ss = concat (map (\<lambda>s. length s # map of_char s) ss)"

fun decodeStrings :: "nat \<Rightarrow> nat list \<Rightarrow> string list" where
  "decodeStrings (Suc n) (k # ns) = map char_of (take k ns) # decodeStrings n (drop k ns)"
| "decodeStrings _ _ = []"

lemma decodeStrings_encodeStrings [simp]: "decodeStrings (length ss) (encodeStrings ss) = ss"
  by (induction ss) (simp_all add: encodeStrings_def comp_def)

definition exampleGenerate :: "cluster certGenerator" where
  "exampleGenerate fqdn domain days country province locality alts w =
     (let ss = country # province # locality # domain # fqdn # alts
      in (Ret (encodeNats (nat days # length ss # encodeStrings ss), ''secret''), w))"

definition exampleX509 :: x509Lib where
  "exampleX509 =
     \<lparr>xl_Decode = Some,
      xl_ParseCertificate = (\<lambda>s. case decodeNats s of
        days # n # ns \<Rightarrow>
          (case decodeStrings n ns of
             country # province # locality # domain # names \<Rightarrow>
               Inr \<lparr>crt_NotBefore = 0, crt_NotAfter = int days * 86400, crt_Country = [country],
                 crt_Province = [province], crt_Locality = [locality], crt_Organization = [domain],
                 crt_DNSNames = names\<rparr>
           | _ \<Rightarrow> Inl (Msg ''malformed certificate''))
      | _ \<Rightarrow> Inl (Msg ''malformed certificate'')),
      xl_Country = ''DE'', xl_Province = ''Lower Saxony'', xl_Locality = ''Brunswick''\<rparr>"

lemma encodeNats_nonempty: "encodeNats (n # m # ns) \<noteq> []"
  by (simp add: encodeNats_def)

lemma exampleGenerate_certifies:
  assumes "0 < days"
  shows "\<exists>cert. exampleGenerate fqdn domain days country province locality alts w = (Ret (cert, ''secret''), w) \<and>
    cert \<noteq> [] \<and> certifies exampleX509 cert fqdn domain days country province locality alts"
proof -
  let ?ss = "country # province # locality # domain # fqdn # alts"
  let ?cert = "encodeNats (nat days # length ?ss # encodeStrings ?ss)"
  have "decodeStrings (length ?ss) (encodeStrings ?ss) = ?ss" by (rule decodeStrings_encodeStrings)
  then have "certifies exampleX509 ?cert fqdn domain days country province locality alts"
    using assms by (simp del: decodeStrings.simps add: certifies_def exampleX509_def covers_def) blast
  then show ?thesis
    by (intro exI [of _ ?cert] conjI) (simp only: exampleGenerate_def Let_def, rule encodeNats_nonempty)
qed

definition exampleRetry :: "cluster retryLib" where
  "exampleRetry = \<lparr>rl_OnError = (\<lambda>n _. retryTimes n), rl_IsConflictError = isConflict\<rparr>"

interpretation certs: certificate_environment clusterConfigOps clusterConfigRepo configView currentConfig
    k_secrets secretClient putSecret admSecret exampleX509 exampleGenerate
proof (intro certificate_environment.intro certificate_environment_axioms.intro)
  show "config_repository clusterConfigOps clusterConfigRepo configView currentConfig k_secrets"
    by (rule configs.config_repository_axioms)
  show "object_store secretClient k_secrets putSecret sec_meta admSecret" by (rule secs.object_store_axioms)
  show "\<exists>cert key w'. exampleGenerate fqdn domain days country province locality alts w = (Ret (cert, key), w') \<and>
      k_secrets w' = k_secrets w \<and> configView w' = configView w \<and> cert \<noteq> [] \<and>
      certifies exampleX509 cert fqdn domain days country province locality alts"
    if "0 < days" for days fqdn domain country province locality alts w
    using exampleGenerate_certifies [OF that] by blast
qed (simp_all add: configView_def cluster_ops)

interpretation synced: synchronizer_environment clusterConfigOps clusterConfigRepo configView currentConfig
    k_secrets secretClient putSecret admSecret exampleRetry
proof (intro synchronizer_environment.intro synchronizer_environment_axioms.intro)
  show "config_repository clusterConfigOps clusterConfigRepo configView currentConfig k_secrets"
    by (rule configs.config_repository_axioms)
  show "object_store secretClient k_secrets putSecret sec_meta admSecret" by (rule secs.object_store_axioms)
  show "rl_OnError exampleRetry n (rl_IsConflictError exampleRetry) body w = body w"
    if "\<And>e w'. body w = (Fail e, w') \<Longrightarrow> \<not> rl_IsConflictError exampleRetry e" for body w n
    using retriesConflicts_apply [OF retriesConflicts_retryTimes [of n], of body w] that by (simp add: exampleRetry_def)
  show "\<not> rl_IsConflictError exampleRetry (Wrap ''failed to set ecosystem certificate in global config object'' err)"
    if "gc_Set clusterConfigOps g k v = Inl err" for g k v err
    using that by (auto simp: clusterConfigOps_def exampleRetry_def split: if_splits)
qed

subsection \<open>Properties\<close>

text \<open>
  Property C12. Where the configuration asks for a self-signed certificate and the stored one can be
  renewed, a change of the FQDN, the alternative FQDNs or the domain is handled without error and
  settles: the new certificate is for the domain, covers the FQDN and every alternative FQDN without a
  certificate of its own, keeps validity and subject of its predecessor, no other secret changes, and
  the updater's own check then asks for no further update.
\<close>

theorem certificate_settles:
  assumes "certificate_environment cfg repo viewG current viewS cl putS admS lib generate"
    and "asksFor (viewG w) fqdn domain" and "renewable lib (viewS w)"
    and "u = NewSelfsignedCertificateUpdater cfg generate watch now ns repo cl"
    and "old = previousCertificate lib (viewS w)"
  shows "\<exists>w' crt. handleFqdnChange cfg lib u w = (Ret (), w') \<and> viewG w' = viewG w \<and>
    (\<forall>n. n \<noteq> ''ecosystem-certificate'' \<longrightarrow> viewS w' n = viewS w n) \<and> storedCertificate lib (viewS w') = Inr crt \<and>
    crt_Organization crt = [domain] \<and> covers crt (insert fqdn (set (alternativeNames (viewG w)))) \<and>
    expireDaysOf crt = expireDaysOf old \<and>
    crt_Country crt = [getFirstOrDefault (crt_Country old) (xl_Country lib)] \<and>
    crt_Province crt = [getFirstOrDefault (crt_Province old) (xl_Province lib)] \<and>
    crt_Locality crt = [getFirstOrDefault (crt_Locality old) (xl_Locality lib)] \<and>
    shouldUpdateCurrentCertificate cfg lib u w' = (Ret False, w')"
proof -
  obtain w' crt where w': "handleFqdnChange cfg lib u w = (Ret (), w')" "viewG w' = viewG w"
    "\<forall>n. n \<noteq> ''ecosystem-certificate'' \<longrightarrow> viewS w' n = viewS w n" "storedCertificate lib (viewS w') = Inr crt"
    and new: "renewed lib (viewG w) old crt"
    using certificate_environment.handle_run [OF assms(1-3), of watch now ns] unfolding assms(4,5) by blast
  have "shouldUpdateCurrentCertificate cfg lib u w' = (Ret False, w')"
    using certificate_environment.settled [OF assms(1) w'(4), of old watch now ns] new w'(2) unfolding assms(4) by simp
  moreover have "crt_Organization crt = [domain]" "covers crt (insert fqdn (set (alternativeNames (viewG w))))"
    using new assms(2) by (auto simp: renewed_def asksFor_def)
  ultimately show ?thesis using w' new unfolding renewed_def by blast
qed

definition certCluster :: cluster where
  "certCluster = emptyCluster\<lparr>k_globalConfig := fmap_of_list [(''certificate/type'', ''selfsigned''),
     (''fqdn'', ''ces.org''), (''domain'', ''ces.local''), (''alternativeFQDNs'', ''a.org,b.org:s''),
     (''certificate/server.key'', ''secret'')]\<rparr>"

definition clusterUpdater :: "(cluster, clusterConfig) selfsignedCertificateUpdater" where
  "clusterUpdater = NewSelfsignedCertificateUpdater clusterConfigOps exampleGenerate (\<lambda>_. ret ()) (\<lambda>w. int (k_revision w))
     ''ecosystem'' clusterConfigRepo secretClient"

lemma certCluster_facts:
  "asksFor (configView certCluster) ''ces.org'' ''ces.local''" "renewable exampleX509 (k_secrets certCluster)"
  "alternativeNames (configView certCluster) = [''a.org'']"
proof -
  have "ContainsChars ''ces.org''" "ContainsChars ''ces.local''" by code_simp+
  then show "asksFor (configView certCluster) ''ces.org'' ''ces.local''"
    by (simp add: asksFor_def textAt_def configView_def certCluster_def)
  show "renewable exampleX509 (k_secrets certCluster)" by (simp add: renewable_def certCluster_def emptyCluster_def)
  have "map af_FQDN (filter (\<lambda>a. \<not> HasCertificate a) (ParseAlternativeFQDNsFromConfigString ''a.org,b.org:s'')) = [''a.org'']"
    by code_simp
  then show "alternativeNames (configView certCluster) = [''a.org'']"
    by (simp add: alternativeNames_def configView_def certCluster_def)
qed

theorem certificate_settles_witness:
  "\<exists>w' crt. handleFqdnChange clusterConfigOps exampleX509 clusterUpdater certCluster = (Ret (), w') \<and>
     storedCertificate exampleX509 (k_secrets w') = Inr crt \<and> {''ces.org'', ''a.org''} \<subseteq> set (crt_DNSNames crt) \<and>
     expireDaysOf crt = 365"
proof -
  have "expireDaysOf (previousCertificate exampleX509 (k_secrets certCluster)) = 365"
    by (simp add: previousCertificate_def storedCertificate_def certCluster_def emptyCluster_def)
  then show ?thesis
    using certificate_settles [OF certs.certificate_environment_axioms, OF certCluster_facts(1,2) clusterUpdater_def refl]
    by (auto simp: covers_def certCluster_facts(3))
qed

text \<open>
  Property C13. The start of the updater, where the configuration asks for a self-signed certificate.  If
  none is stored or the stored one can be renewed, then afterwards the stored certificate is for the
  configured domain and covers the configured names, no other secret has changed, and then the watch
  on FQDN, alternative FQDNs and domain is set up: the outcome of the start is that of setting it up.
  If the stored certificate cannot be read, nothing is stored, and the watch is set up all the same.
\<close>

theorem updater_start_settles:
  assumes "certificate_environment cfg repo viewG current viewS cl putS admS lib generate"
    and "asksFor (viewG w) fqdn domain"
    and "u = NewSelfsignedCertificateUpdater cfg generate watch now ns repo cl"
    and "goWatch = wrapErr ''failed to create fqdn watch'' (watch [''fqdn'', ''alternativeFQDNs'', ''domain''])"
  shows "(renewable lib (viewS w) \<longrightarrow>
      (\<exists>w1 crt. Start_Updater cfg lib u w = goWatch w1 \<and> viewG w1 = viewG w \<and>
        (\<forall>n. n \<noteq> ''ecosystem-certificate'' \<longrightarrow> viewS w1 n = viewS w n) \<and>
        storedCertificate lib (viewS w1) = Inr crt \<and> covers crt (insert fqdn (set (alternativeNames (viewG w)))) \<and>
        getFirstOrDefault (crt_Organization crt) [] = domain)) \<and>
    (\<forall>err. storedCertificate lib (viewS w) = Inl err \<and> \<not> isNotFound err \<longrightarrow> Start_Updater cfg lib u w = goWatch w)"
  unfolding assms(3,4)
  using certificate_environment.start_run [OF assms(1,2), of watch now ns]
    certificate_environment.start_unreadable [OF assms(1,2), of _ watch now ns] by blast

text \<open>With a watch that leaves a trace in the event log.\<close>

theorem updater_start_settles_witness:
  "\<exists>w' crt. Start_Updater clusterConfigOps exampleX509 (NewSelfsignedCertificateUpdater clusterConfigOps exampleGenerate
       (\<lambda>keys. recordEvent (hd keys)) (\<lambda>w. int (k_revision w)) ''ecosystem'' clusterConfigRepo secretClient) certCluster =
         (Ret (), w') \<and>
     hd (k_events w') = ''fqdn'' \<and>
     storedCertificate exampleX509 (k_secrets w') = Inr crt \<and> {''ces.org'', ''a.org''} \<subseteq> set (crt_DNSNames crt)"
proof -
  obtain w1 crt where "Start_Updater clusterConfigOps exampleX509 (NewSelfsignedCertificateUpdater clusterConfigOps exampleGenerate
       (\<lambda>keys. recordEvent (hd keys)) (\<lambda>w. int (k_revision w)) ''ecosystem'' clusterConfigRepo secretClient) certCluster =
      wrapErr ''failed to create fqdn watch'' (recordEvent (hd [''fqdn'', ''alternativeFQDNs'', ''domain''])) w1"
    "storedCertificate exampleX509 (k_secrets w1) = Inr crt" "covers crt (insert ''ces.org'' {''a.org''})"
    using updater_start_settles [OF certs.certificate_environment_axioms, OF certCluster_facts(1) refl refl,
        of "\<lambda>keys. recordEvent (hd keys)" "\<lambda>w. int (k_revision w)" "''ecosystem''"] certCluster_facts(2,3) by auto
  then show ?thesis
    by (auto simp: covers_def io_simps recordEvent_def intro!: exI [of _ "w1\<lparr>k_events := ''fqdn'' # k_events w1\<rparr>"])
qed

text \<open>
  Property C25. The watch loop ends exactly when it sees the end of its context or of its channel, and
  until then it handles the configuration once for every result that is no error; a failure of the
  handler does not end it.
\<close>

theorem fqdn_watch_ends:
  assumes "noPanic (handleFqdnChange cfg lib u)"
  shows "startFQDNWatch cfg lib u events w =
    (if stops events then Some (Ret ()) else None,
     ((\<lambda>v. snd (handleFqdnChange cfg lib u v)) ^^ changesSeen events) w)"
proof (induction events arbitrary: w)
  case Nil
  then show ?case by (simp add: stops_def)
next
  case (Cons e events)
  show ?case
  proof (cases "e = WatchResult None")
    case True
    obtain r w' where r: "handleFqdnChange cfg lib u w = (r, w')" by (cases "handleFqdnChange cfg lib u w")
    moreover from this have "r \<noteq> Panic" using assms unfolding noPanic_def by (metis fst_conv)
    ultimately have "startFQDNWatch cfg lib u (e # events) w = startFQDNWatch cfg lib u events w'"
      using True by (cases r) simp_all
    moreover have "((\<lambda>v. snd (handleFqdnChange cfg lib u v)) ^^ Suc (changesSeen events)) w =
        ((\<lambda>v. snd (handleFqdnChange cfg lib u v)) ^^ changesSeen events) w'"
      by (simp only: funpow_Suc_right comp_apply r snd_conv)
    ultimately show ?thesis using Cons.IH [of w'] True by (simp del: startFQDNWatch.simps funpow.simps add: stops_def)
  next
    case False
    then show ?thesis
      using Cons.IH [of w] by (cases e) (auto simp: stops_def split: option.split)
  qed
qed

lemma noPanic_cluster:
  "noPanic (gcr_Get clusterConfigRepo)" "noPanic (c_get secretClient n)" "noPanic (c_create secretClient x)"
  "noPanic (c_update secretClient x)" "noPanic (exampleGenerate f d e c p l a)"
  by (simp_all add: noPanic_def clusterConfigRepo_def secretClient_def memClient_def exampleGenerate_def Let_def
      split: option.split)

lemma noPanic_clusterUpdater: "noPanic (handleFqdnChange clusterConfigOps exampleX509 clusterUpdater)"
proof (rule noPanic_handleFqdnChange)
  show "noPanic (su_CreateAndSafeCertificate clusterUpdater d c p l a)" for d c p l a
    unfolding clusterUpdater_def NewSelfsignedCertificateUpdater_def NewCreator_def CreateAndSafeCertificate_def
      WriteCertificate_def Let_def selfsignedCertificateUpdater.simps creator.simps sslWriter.simps
    by (auto split: option.split intro!: no_panic noPanic_cluster)
qed (simp_all add: clusterUpdater_def NewSelfsignedCertificateUpdater_def noPanic_cluster)

theorem fqdn_watch_ends_witness:
  "startFQDNWatch clusterConfigOps exampleX509 clusterUpdater
     [WatchResult (Some (Msg ''lost'')), WatchResult None, ChannelClosed, WatchResult None] certCluster =
   (Some (Ret ()), snd (handleFqdnChange clusterConfigOps exampleX509 clusterUpdater certCluster))"
  by (subst fqdn_watch_ends [OF noPanic_clusterUpdater]) (simp add: stops_def)

text \<open>
  Property C23. Synchronizing: without the secret nothing happens; a secret without certificate is an
  error that changes nothing; a configuration that refuses the certificate (as one does that already
  has entries below its key) is an error that changes nothing, so that a private key stays in it;
  otherwise the configuration holds exactly that certificate and no private key, whether or not there
  was one, and nothing else of it changes.
\<close>

theorem certificate_synchronized:
  assumes "synchronizer_environment cfg repo viewG current viewS cl putS admS retry"
    and "s = NewCertificateSynchronizer cl repo" and "gcr_Get repo w = (Ret g, w)"
  shows "case viewS w ''ecosystem-certificate'' of
     None \<Rightarrow> Synchronize cfg retry s w = (Ret (), w)
   | Some x \<Rightarrow>
       (case fmlookup (sec_Data x) ''tls.crt'' of
          None \<Rightarrow> Synchronize cfg retry s w =
            (Fail (Msg ''could not find certificate in ecosystem certificate secret''), w)
        | Some cert \<Rightarrow>
            (case gc_Set cfg g ''certificate/server.crt'' cert of
               Inl err \<Rightarrow> Synchronize cfg retry s w =
                 (Fail (Wrap ''failed to update ecosystem certificate in global config''
                    (Wrap ''failed to set ecosystem certificate in global config object'' err)), w)
             | Inr _ \<Rightarrow> \<exists>w'. Synchronize cfg retry s w = (Ret (), w') \<and>
                 viewG w' = (viewG w)(''certificate/server.crt'' \<mapsto> cert, ''certificate/server.key'' := None) \<and>
                 viewS w' = viewS w))"
  unfolding assms(2) by (rule synchronizer_environment.synchronize_run [OF assms(1,3)])

definition secretCluster :: cluster where
  "secretCluster = certCluster\<lparr>k_secrets := [''ecosystem-certificate'' \<mapsto>
     \<lparr>sec_meta = emptyMeta\<lparr>om_Name := ''ecosystem-certificate''\<rparr>, sec_Data = fmap_of_list [(''tls.crt'', ''cert'')]\<rparr>]\<rparr>"

definition blockedCluster :: cluster where
  "blockedCluster = secretCluster\<lparr>k_globalConfig := fmap_of_list [(''certificate/server.crt/sub'', [])]\<rparr>"

theorem certificate_synchronized_witness:
  "(\<exists>w'. Synchronize clusterConfigOps exampleRetry (NewCertificateSynchronizer secretClient clusterConfigRepo) secretCluster =
       (Ret (), w') \<and>
     configView w' ''certificate/server.crt'' = Some ''cert'' \<and> configView w' ''certificate/server.key'' = None) \<and>
   (\<exists>e. Synchronize clusterConfigOps exampleRetry (NewCertificateSynchronizer secretClient clusterConfigRepo) blockedCluster =
       (Fail e, blockedCluster))"
proof -
  have read: "gcr_Get clusterConfigRepo w = (Ret (k_globalConfig w, k_revision w), w)" for w
    by (simp add: clusterConfigRepo_def)
  have takes: "\<exists>g1. gc_Set clusterConfigOps (k_globalConfig secretCluster, n) ''certificate/server.crt'' ''cert'' = Inr g1" for n
    by (simp add: clusterConfigOps_def secretCluster_def certCluster_def hasPrefix_iff fmdom_of_list)
  have refuses: "\<exists>e. gc_Set clusterConfigOps (k_globalConfig blockedCluster, n) ''certificate/server.crt'' ''cert'' = Inl e" for n
    by (simp add: clusterConfigOps_def blockedCluster_def hasPrefix_iff fmdom_of_list)
  have secrets: "k_secrets blockedCluster = k_secrets secretCluster" by (simp add: blockedCluster_def)
  show ?thesis
    using certificate_synchronized [OF synced.synchronizer_environment_axioms, OF refl read, of secretCluster]
      certificate_synchronized [OF synced.synchronizer_environment_axioms, OF refl read, of blockedCluster]
      takes [of "k_revision secretCluster"] refuses [of "k_revision blockedCluster"] secrets
    by (auto simp: secretCluster_def)
qed




end
