(* ===== verification/Lb_Correct.thy ===== *)
theory Lb_Correct
  imports Lb_Controller Traefik_Correct
begin

section \<open>Correctness of the load balancer reconciler\<close>

text \<open>
  The environment of the reconciler is the locale \<open>lb_environment\<close>: a lawful service store whose
  admission only assigns node ports, resource versions and other server-side fields and leaves an
  unchanged object alone, a config map reader, a list call that honours the field index, and an
  ingress controller whose \<open>ExposePorts\<close> does not touch services.  Inside it: what one reconcile
  stores, and that a second reconcile changes nothing.
\<close>

subsection \<open>Owner references\<close>

text \<open>
  \<open>ctrl.SetControllerReference\<close> looks at the namespace and the owner references of the object and
  only writes the latter; setting the same controller again changes nothing.
\<close>

definition ownerLaw :: "ownerSetter \<Rightarrow> bool" where
  "ownerLaw f \<longleftrightarrow>
     (\<exists>g. (\<forall>m. f m = map_sum id (\<lambda>refs. m\<lparr>om_OwnerReferences := refs\<rparr>)
                      (g (om_Namespace m) (om_OwnerReferences m))) \<and>
          (\<forall>ns refs refs'. g ns refs = Inr refs' \<longrightarrow> g ns refs' = Inr refs'))"

definition owned :: "ownerSetter \<Rightarrow> Service \<Rightarrow> bool" where
  "owned f x \<longleftrightarrow> setOwnerReference f x = x"

lemma setOwnerReference_spec [simp]: "svc_spec (setOwnerReference f x) = svc_spec x"
  by (simp add: setOwnerReference_def split: sum.split)

lemma setOwnerReference_meta:
  assumes "ownerLaw f"
  obtains refs where "setOwnerReference f x = x\<lparr>svc_meta := (svc_meta x)\<lparr>om_OwnerReferences := refs\<rparr>\<rparr>"
proof -
  obtain g where g: "f m = map_sum id (\<lambda>refs. m\<lparr>om_OwnerReferences := refs\<rparr>)
      (g (om_Namespace m) (om_OwnerReferences m))" for m
    using assms unfolding ownerLaw_def by blast
  show ?thesis
  proof (cases "g (om_Namespace (svc_meta x)) (om_OwnerReferences (svc_meta x))")
    case (Inl e)
    then have "setOwnerReference f x =
        x\<lparr>svc_meta := (svc_meta x)\<lparr>om_OwnerReferences := om_OwnerReferences (svc_meta x)\<rparr>\<rparr>"
      by (simp add: setOwnerReference_def g)
    then show ?thesis by (rule that)
  next
    case (Inr refs)
    then have "setOwnerReference f x = x\<lparr>svc_meta := (svc_meta x)\<lparr>om_OwnerReferences := refs\<rparr>\<rparr>"
      by (simp add: setOwnerReference_def g)
    then show ?thesis by (rule that)
  qed
qed

lemma setOwnerReference_keeps:
  assumes "ownerLaw f"
  shows "om_Name (svc_meta (setOwnerReference f x)) = om_Name (svc_meta x)"
    "om_Annotations (svc_meta (setOwnerReference f x)) = om_Annotations (svc_meta x)"
    "om_ResourceVersion (svc_meta (setOwnerReference f x)) = om_ResourceVersion (svc_meta x)"
  by (rule setOwnerReference_meta [OF assms, of x], simp)+

lemma owned_setOwnerReference: "ownerLaw f \<Longrightarrow> owned f (setOwnerReference f x)"
proof -
  assume "ownerLaw f"
  then obtain g where g: "f m = map_sum id (\<lambda>refs. m\<lparr>om_OwnerReferences := refs\<rparr>)
      (g (om_Namespace m) (om_OwnerReferences m))"
      "g ns refs = Inr refs' \<Longrightarrow> g ns refs' = Inr refs'" for m ns refs refs'
    unfolding ownerLaw_def by blast
  show ?thesis
    using g(2) by (cases "g (om_Namespace (svc_meta x)) (om_OwnerReferences (svc_meta x))")
      (simp_all add: owned_def setOwnerReference_def g(1))
qed

lemma owned_cong:
  assumes "ownerLaw f" and "owned f x"
    and "om_Namespace (svc_meta y) = om_Namespace (svc_meta x)"
    and "om_OwnerReferences (svc_meta y) = om_OwnerReferences (svc_meta x)"
  shows "owned f y"
proof -
  obtain g where g: "f m = map_sum id (\<lambda>refs. m\<lparr>om_OwnerReferences := refs\<rparr>)
      (g (om_Namespace m) (om_OwnerReferences m))" for m
    using assms(1) unfolding ownerLaw_def by blast
  show ?thesis
  proof (cases "g (om_Namespace (svc_meta x)) (om_OwnerReferences (svc_meta x))")
    case (Inl e)
    with assms(3,4) show ?thesis by (simp add: owned_def setOwnerReference_def g)
  next
    case (Inr refs)
    with assms(2) have "svc_meta (x\<lparr>svc_meta := (svc_meta x)\<lparr>om_OwnerReferences := refs\<rparr>\<rparr>) = svc_meta x"
      by (simp add: owned_def setOwnerReference_def g del: Service.select_convs Service.update_convs)
    then have "om_OwnerReferences (svc_meta x) = refs" by (metis ObjectMeta.select_convs(5)
        ObjectMeta.surjective ObjectMeta.update_convs(5) Service.select_convs(3) Service.surjective
        Service.update_convs(3))
    with Inr assms(3,4) show ?thesis by (simp add: owned_def setOwnerReference_def g)
  qed
qed

subsection \<open>Configured load balancers\<close>

text \<open>
  What a reconcile makes of the load balancer: name and type, annotations with the configuration
  applied, the two policies, the ports up to their node ports, the owner.
\<close>

definition configured :: "ownerSetter \<Rightarrow> LoadbalancerConfig \<Rightarrow> ExposedPorts \<Rightarrow> Service \<Rightarrow> bool" where
  "configured f cfg ports x \<longleftrightarrow>
     om_Name (svc_meta x) = LoadbalancerName \<and> ss_Type (svc_spec x) = ServiceTypeLoadBalancer \<and>
     (\<exists>ann. om_Annotations (svc_meta x) = Some (appliedAnnotations cfg ann) \<and> fmlookup ann [] = None) \<and>
     ss_ExternalTrafficPolicy (svc_spec x) = lc_ExternalTrafficPolicy cfg \<and>
     map_option deref (ss_InternalTrafficPolicy (svc_spec x)) = Some (lc_InternalTrafficPolicy cfg) \<and>
     map (\<lambda>p. p\<lparr>sp_NodePort := 0\<rparr>) (ss_Ports (svc_spec x)) =
       map (\<lambda>ep. (ToServicePort ep)\<lparr>sp_NodePort := 0\<rparr>) ports \<and>
     owned f x"

lemma createConfigAnnotations_applied:
  "createConfigAnnotations (lc_Annotations cfg) = appliedAnnotations cfg fmempty"
  by (simp add: appliedAnnotations_def getConfigAnnotationKeys_def)

lemma configured_created:
  assumes "ownerLaw f"
  shows "configured f cfg ports (setOwnerReference f (CreateLoadBalancer a ns cfg ports sel))"
  using owned_setOwnerReference [OF assms, of "CreateLoadBalancer a ns cfg ports sel"]
  by (auto simp: configured_def setOwnerReference_keeps [OF assms] CreateLoadBalancer_def
      createConfigAnnotations_applied comp_def intro: exI [of _ fmempty])

lemma UpdateExposedPorts_ports:
  assumes "slice_sort sortSlice" and "distinct (map ep_Name ports)" and "sorted (map ep_Name ports)"
  shows "map (\<lambda>p. p\<lparr>sp_NodePort := 0\<rparr>) (ss_Ports (svc_spec (fst (UpdateExposedPorts sortSlice lb ports)))) =
    map (\<lambda>ep. (ToServicePort ep)\<lparr>sp_NodePort := 0\<rparr>) ports"
proof -
  let ?ps = "SetNodePorts ports (ss_Ports (svc_spec lb))"
  have "SortByName sortSlice ?ps = ?ps"
    by (rule SortByName_sorted [OF assms(1)]) (use assms in simp_all)
  then show ?thesis by (simp add: UpdateExposedPorts_eq SetNodePorts_map)
qed

lemma UpdateExposedPorts_keeps [simp]:
  "svc_meta (fst (UpdateExposedPorts sortSlice lb ports)) = svc_meta lb"
  "ss_Type (svc_spec (fst (UpdateExposedPorts sortSlice lb ports))) = ss_Type (svc_spec lb)"
  "ss_ExternalTrafficPolicy (svc_spec (fst (UpdateExposedPorts sortSlice lb ports))) =
     ss_ExternalTrafficPolicy (svc_spec lb)"
  "ss_InternalTrafficPolicy (svc_spec (fst (UpdateExposedPorts sortSlice lb ports))) =
     ss_InternalTrafficPolicy (svc_spec lb)"
  "ss_Selector (svc_spec (fst (UpdateExposedPorts sortSlice lb ports))) = ss_Selector (svc_spec lb)"
  by (simp_all add: UpdateExposedPorts_eq)

lemma configured_updated:
  assumes "ownerLaw f" and "slice_sort sortSlice"
    and "distinct (map ep_Name ports)" and "sorted (map ep_Name ports)"
    and "om_Name (svc_meta lb) = LoadbalancerName" and "ss_Type (svc_spec lb) = ServiceTypeLoadBalancer"
    and "fmlookup ann [] = None"
  shows "configured f cfg ports (setOwnerReference f (fst (UpdateExposedPorts sortSlice
    (withConfig a cfg (appliedAnnotations cfg ann) lb) ports)))"
  using assms(5-7) owned_setOwnerReference [OF assms(1), of "fst (UpdateExposedPorts sortSlice
    (withConfig a cfg (appliedAnnotations cfg ann) lb) ports)"]
    UpdateExposedPorts_ports [OF assms(2-4), of "withConfig a cfg (appliedAnnotations cfg ann) lb"]
  by (auto simp: configured_def setOwnerReference_keeps [OF assms(1)] withConfig_def)

lemma configured_ports:
  "configured f cfg ports x \<Longrightarrow> map (\<lambda>p. p\<lparr>sp_NodePort := 0\<rparr>) (ss_Ports (svc_spec x)) =
     map (\<lambda>ep. (ToServicePort ep)\<lparr>sp_NodePort := 0\<rparr>) ports"
  unfolding configured_def by (elim conjE)

lemma configured_names:
  assumes "configured f cfg ports x"
  shows "map sp_Name (ss_Ports (svc_spec x)) = map ep_Name ports"
proof -
  have "map sp_Name (map (\<lambda>p. p\<lparr>sp_NodePort := 0\<rparr>) (ss_Ports (svc_spec x))) =
      map sp_Name (map (\<lambda>ep. (ToServicePort ep)\<lparr>sp_NodePort := 0\<rparr>) ports)"
    by (simp only: configured_ports [OF assms])
  then show ?thesis by (simp add: comp_def ToServicePort_def)
qed

text \<open>A list of service ports that agrees with exposed ports up to node ports.\<close>

lemma ports_with_nodePorts:
  assumes same: "map (\<lambda>p. p\<lparr>sp_NodePort := 0\<rparr>) ps = map (\<lambda>ep. (ToServicePort ep)\<lparr>sp_NodePort := 0\<rparr>) eps"
    and "distinct eps"
  shows "\<exists>f. ps = map (\<lambda>ep. (ToServicePort ep)\<lparr>sp_NodePort := f ep\<rparr>) eps"
proof (intro exI nth_equalityI)
  let ?f = "\<lambda>ep. sp_NodePort (the (map_of (zip eps ps) ep))"
  have len: "length ps = length eps" using same by (metis length_map)
  then show "length ps = length (map (\<lambda>ep. (ToServicePort ep)\<lparr>sp_NodePort := ?f ep\<rparr>) eps)" by simp
  show "ps ! i = map (\<lambda>ep. (ToServicePort ep)\<lparr>sp_NodePort := ?f ep\<rparr>) eps ! i" if "i < length ps" for i
  proof -
    have "(ps ! i)\<lparr>sp_NodePort := 0\<rparr> = (ToServicePort (eps ! i))\<lparr>sp_NodePort := 0\<rparr>"
      using arg_cong [OF same, where f = "\<lambda>xs. xs ! i"] that len by simp
    then have "ps ! i = (ToServicePort (eps ! i))\<lparr>sp_NodePort := sp_NodePort (ps ! i)\<rparr>"
      by (cases "ps ! i") (simp add: ToServicePort_def)
    moreover have "map_of (zip eps ps) (eps ! i) = Some (ps ! i)"
      using map_of_zip_nth [of eps ps i] len that assms(2) by simp
    ultimately show ?thesis using len that by simp
  qed
qed

text \<open>Configuring a configured load balancer again changes only the address of one pointer.\<close>

lemma reconfigure_same:
  assumes conf: "configured f cfg ports x"
    and "slice_sort sortSlice" and "distinct (map ep_Name ports)" and "sorted (map ep_Name ports)"
    and "listableKeys (lc_Annotations cfg)" and "[] \<notin> fmdom' (lc_Annotations cfg)"
    and ann: "om_Annotations (svc_meta x) = Some ann" and "ownerLaw f"
  shows "wireService (setOwnerReference f (fst (UpdateExposedPorts sortSlice
    (withConfig a cfg (appliedAnnotations cfg ann) x) ports))) = wireService x"
proof -
  let ?x = "withConfig a cfg (appliedAnnotations cfg ann) x"
  obtain ann0 where ann0: "ann = appliedAnnotations cfg ann0" "fmlookup ann0 [] = None"
    using conf ann by (auto simp: configured_def)
  have idem: "appliedAnnotations cfg ann = ann"
    unfolding ann0(1) by (rule appliedAnnotations_idem [OF assms(5,6) ann0(2)])
  have meta: "svc_meta ?x = svc_meta x" using ann idem by (simp add: withConfig_def)
  have "distinct ports" using assms(3) by (metis distinct_map)
  with conf obtain np where "ss_Ports (svc_spec x) = map (\<lambda>ep. (ToServicePort ep)\<lparr>sp_NodePort := np ep\<rparr>) ports"
    using ports_with_nodePorts unfolding configured_def by blast
  then have "fst (UpdateExposedPorts sortSlice ?x ports) = ?x"
    by (intro UpdateExposedPorts_fixpoint [OF assms(2,3,4) refl, where f = np]) (simp add: withConfig_def)
  moreover have "setOwnerReference f ?x = ?x"
    using owned_cong [OF assms(8), of x ?x] conf meta by (simp add: configured_def owned_def)
  moreover have "wireService ?x = wireService x"
    using conf meta by (auto simp: configured_def wireService_def withConfig_def)
  ultimately show ?thesis by simp
qed


subsection \<open>Port names\<close>

lemma portsOf_wf:
  assumes "slice_sort (lib_sortSlice libs)" and "p \<in> set (portsOf libs s)"
  shows "wf_exposedPort p"
proof (cases "GetExposedPorts (lib_sortSlice libs) (lib_unmarshalPorts libs) s")
  case (Inl e)
  with assms(2) show ?thesis by (simp add: portsOf_def)
next
  case (Inr ps)
  with assms show ?thesis using GetExposedPorts_wf [OF assms(1) Inr] by (simp add: portsOf_def)
qed

lemma wf_not_default:
  assumes "wf_exposedPort p"
  shows "ep_Name p \<notin> ep_Name ` set CreateDefaultPorts"
proof
  assume "ep_Name p \<in> ep_Name ` set CreateDefaultPorts"
  then have "CHR ''-'' \<notin> set (ep_Name p)"
    by (auto simp: CreateDefaultPorts_def)
  with assms show False by (simp add: wf_exposedPort_def)
qed

text \<open>Distinct names of the dogu ports make the names of all ports of the load balancer distinct.\<close>

lemma lb_ports_distinct:
  assumes "slice_sort (lib_sortSlice libs)"
    and "eps = SortByName (lib_sortSlice libs) (concat (map (portsOf libs) xs))"
    and "distinct (map ep_Name (concat (map (portsOf libs) xs)))"
    and "createLoadBalancerExposedPorts libs eps = (ports, eps')"
  shows "distinct (map ep_Name eps)" and "distinct (map ep_Name ports)"
proof -
  show eps: "distinct (map ep_Name eps)"
    using assms(3) by (simp add: assms(2) distinct_names_SortByName [OF assms(1)])
  let ?kept = "filter (\<lambda>p. \<not> (ep_Port p = 80 \<or> ep_Port p = 443)) eps"
  have kept: "ep_Name p \<notin> ep_Name ` set CreateDefaultPorts" if "p \<in> set ?kept" for p
  proof -
    from that have "p \<in> set eps" by simp
    then have "p \<in> set (concat (map (portsOf libs) xs))"
      unfolding assms(2) using assms(1) by (simp only: set_SortByName)
    then obtain q where "p \<in> set (portsOf libs q)" by auto
    then show ?thesis by (rule wf_not_default [OF portsOf_wf [OF assms(1)]])
  qed
  have "ep_Name ` set CreateDefaultPorts \<inter> ep_Name ` set ?kept = {}"
  proof (rule Int_emptyI)
    fix n
    assume n: "n \<in> ep_Name ` set CreateDefaultPorts" and "n \<in> ep_Name ` set ?kept"
    then obtain p where "n = ep_Name p" and "p \<in> set ?kept" by (elim imageE)
    with kept [of p] n show False by (simp only: not_True_eq_False)
  qed
  moreover have "distinct (map ep_Name CreateDefaultPorts)" by (simp add: CreateDefaultPorts_def)
  ultimately have "distinct (map ep_Name (CreateDefaultPorts @ ?kept))"
    using eps by (simp add: distinct_map_filter)
  then show "distinct (map ep_Name ports)"
    using assms(4) distinct_names_SortByName [OF assms(1), of "CreateDefaultPorts @ ?kept"]
    by (simp add: createLoadBalancerExposedPorts_def deleteFunc_def Let_def)
qed

subsection \<open>Port types\<close>

text \<open>
  The ports a load balancer may carry: named, of a protocol Kubernetes knows, with a number and a
  numeric target that are not negative.  A configured load balancer has only such ports.
\<close>

definition wf_servicePort :: "ServicePort \<Rightarrow> bool" where
  "wf_servicePort p \<longleftrightarrow>
     sp_Name p \<noteq> [] \<and> sp_Protocol p \<in> {ProtocolTCP, ProtocolUDP, ProtocolSCTP} \<and> 0 \<le> sint (sp_Port p) \<and>
     (case sp_TargetPort p of IntVal t \<Rightarrow> 0 \<le> sint t | StrVal _ \<Rightarrow> False)"

lemma wf_servicePort_nodePort [simp]: "wf_servicePort (p\<lparr>sp_NodePort := n\<rparr>) = wf_servicePort p"
  by (simp add: wf_servicePort_def)

lemma wf_ToServicePort: "wf_exposedPort ep \<Longrightarrow> wf_servicePort (ToServicePort ep)"
  by (auto simp: wf_exposedPort_def wf_servicePort_def ToServicePort_def)

lemma wf_defaultPorts: "ep \<in> set CreateDefaultPorts \<Longrightarrow> wf_servicePort (ToServicePort ep)"
  by (auto simp: CreateDefaultPorts_def wf_servicePort_def ToServicePort_def httpPort_def httpsPort_def)

text \<open>Ports that are given exposed ports up to their order and their node ports.\<close>

definition portsFrom :: "ExposedPorts \<Rightarrow> ServicePort list \<Rightarrow> bool" where
  "portsFrom eps ps \<longleftrightarrow>
     image_mset (\<lambda>p. p\<lparr>sp_NodePort := 0\<rparr>) (mset ps) = image_mset (\<lambda>ep. (ToServicePort ep)\<lparr>sp_NodePort := 0\<rparr>) (mset eps)"

lemma portsFrom_elem:
  assumes "portsFrom eps ps" and "p \<in> set ps"
  obtains ep where "ep \<in> set eps" and "p\<lparr>sp_NodePort := 0\<rparr> = (ToServicePort ep)\<lparr>sp_NodePort := 0\<rparr>"
proof -
  have "p\<lparr>sp_NodePort := 0\<rparr> \<in># image_mset (\<lambda>ep. (ToServicePort ep)\<lparr>sp_NodePort := 0\<rparr>) (mset eps)"
    using assms by (simp flip: assms(1) [unfolded portsFrom_def])
  then show thesis using that by auto
qed

lemma portsFrom_wf:
  assumes "portsFrom eps ps" and "\<And>ep. ep \<in> set eps \<Longrightarrow> wf_servicePort (ToServicePort ep)"
  shows "list_all wf_servicePort ps"
  unfolding list_all_iff
proof
  fix p assume "p \<in> set ps"
  then obtain ep where "ep \<in> set eps" and same: "p\<lparr>sp_NodePort := 0\<rparr> = (ToServicePort ep)\<lparr>sp_NodePort := 0\<rparr>"
    by (rule portsFrom_elem [OF assms(1)])
  then have "wf_servicePort ((ToServicePort ep)\<lparr>sp_NodePort := 0\<rparr>)" using assms(2) by simp
  then show "wf_servicePort p" by (simp flip: same)
qed

lemma portsFrom_count:
  assumes "portsFrom eps ps"
  shows "length (filter (\<lambda>p. sp_Port p = n) ps) = size (filter_mset (\<lambda>ep. ep_Port ep = n) (mset eps))"
proof -
  have "image_mset sp_Port (mset ps) = image_mset ep_Port (mset eps)"
    using arg_cong [OF assms [unfolded portsFrom_def], where f = "image_mset sp_Port"]
    by (simp add: image_mset.compositionality comp_def ToServicePort_def)
  then have "size (filter_mset (\<lambda>q. q = n) (image_mset sp_Port (mset ps))) =
      size (filter_mset (\<lambda>q. q = n) (image_mset ep_Port (mset eps)))" by (rule arg_cong)
  then show ?thesis by (simp add: filter_mset_image_mset flip: mset_filter)
qed

lemma portsFrom_created: "portsFrom eps (map ToServicePort eps)"
  by (simp add: portsFrom_def image_mset.compositionality comp_def)

lemma portsFrom_updated:
  assumes "slice_sort sortSlice"
  shows "portsFrom eps (ss_Ports (svc_spec (fst (UpdateExposedPorts sortSlice lb eps))))"
  unfolding portsFrom_def UpdateExposedPorts_mset [OF assms]
  by (simp add: image_mset.compositionality comp_def)

subsection \<open>The environment\<close>

text \<open>
  The services a reconcile can start from: no load balancer, or one that can be parsed (an
  annotation with an empty key, which Kubernetes does not accept, is excluded).
\<close>

definition reconcilable :: "(string \<Rightarrow> Service option) \<Rightarrow> bool" where
  "reconcilable services \<longleftrightarrow>
     (case services LoadbalancerName of
        None \<Rightarrow> True
      | Some s \<Rightarrow> om_Name (svc_meta s) = LoadbalancerName \<and>
          ss_Type (svc_spec s) = ServiceTypeLoadBalancer \<and>
          lookupNil (om_Annotations (svc_meta s)) [] = None)"

definition exposedServices :: "(string \<Rightarrow> Service option) \<Rightarrow> Service set" where
  "exposedServices services =
     {s. \<exists>n. services n = Some s \<and> snd (isExposedPortService (ServiceObject s))}"

text \<open>The load balancer itself is never an exposed service.\<close>

lemma loadbalancer_not_exposed:
  "ss_Type (svc_spec s) = ServiceTypeLoadBalancer \<Longrightarrow> \<not> snd (isExposedPortService (ServiceObject s))"
  by (simp add: isExposedPortService_def ParseService_def kube_constants)

lemma exposedServices_put:
  assumes "reconcilable services" and "ss_Type (svc_spec x) = ServiceTypeLoadBalancer"
  shows "exposedServices (services(LoadbalancerName \<mapsto> x)) = exposedServices services"
proof -
  have "n \<noteq> LoadbalancerName"
    if "services n = Some s" "snd (isExposedPortService (ServiceObject s))" for n s
    using that assms(1) loadbalancer_not_exposed by (auto simp: reconcilable_def)
  moreover have "\<not> snd (isExposedPortService (ServiceObject x))"
    using assms(2) by (rule loadbalancer_not_exposed)
  ultimately have "(services(LoadbalancerName \<mapsto> x)) n = Some s \<and> snd (isExposedPortService (ServiceObject s)) \<longleftrightarrow>
      services n = Some s \<and> snd (isExposedPortService (ServiceObject s))" for n s
    by (cases "n = LoadbalancerName") auto
  then show ?thesis by (simp only: exposedServices_def)
qed

lemma configured_reconcilable:
  assumes "services LoadbalancerName = Some x" and "configured f cfg ports x"
    and "[] \<notin> fmdom' (lc_Annotations cfg)"
  shows "reconcilable services"
proof -
  have "configManagedAnnotationKey \<noteq> []" by (simp add: configManagedAnnotationKey_def)
  with assms show ?thesis
    by (auto simp: reconcilable_def configured_def appliedAnnotations_lookup)
qed

locale lb_environment =
  fixes libs :: libraries and r :: "'w LoadBalancerReconciler"
    and view :: "'w \<Rightarrow> string \<Rightarrow> Service option" and put adm
    and cmView :: "'w \<Rightarrow> string \<times> string \<Rightarrow> ConfigMap option"
  assumes sorter: "slice_sort (lib_sortSlice libs)"
    and svc: "object_store (lr_SvcClient r) view put svc_meta adm"
    and cm_law: "lr_GetConfigMap r k w =
      (case cmView w k of None \<Rightarrow> (Fail (Api NotFound), w) | Some cm \<Rightarrow> (Ret cm, w))"
    and cm_frame: "cmView (put n u w) = cmView w"
    and list_law: "\<exists>xs. lr_ListIndexed r idx v w = (Ret xs, w) \<and> distinct xs \<and>
      set xs = {s. \<exists>n. view w n = Some s \<and> v \<in> set (idx (ServiceObject s))}"
    and expose_law: "\<exists>w'. ic_ExposePorts (lr_IngressController r) ns ps w = (Ret (), w') \<and>
      view w' = view w \<and> cmView w' = cmView w"
    and owner: "ownerLaw (lr_SetControllerReference r cm)"
    and adm_meta: "om_Annotations (svc_meta (adm w x)) = om_Annotations (svc_meta x)"
      "om_Namespace (svc_meta (adm w x)) = om_Namespace (svc_meta x)"
      "om_OwnerReferences (svc_meta (adm w x)) = om_OwnerReferences (svc_meta x)"
    and adm_spec: "ss_Type (svc_spec (adm w x)) = ss_Type (svc_spec x)"
      "ss_ExternalTrafficPolicy (svc_spec (adm w x)) = ss_ExternalTrafficPolicy (svc_spec x)"
      "map_option deref (ss_InternalTrafficPolicy (svc_spec (adm w x))) =
         map_option deref (ss_InternalTrafficPolicy (svc_spec x))"
      "ss_Selector (svc_spec (adm w x)) = ss_Selector (svc_spec x)"
    and adm_ports: "map (\<lambda>p. p\<lparr>sp_NodePort := 0\<rparr>) (ss_Ports (svc_spec (adm w x))) =
      map (\<lambda>p. p\<lparr>sp_NodePort := 0\<rparr>) (ss_Ports (svc_spec x))"
    and adm_noop: "view w (om_Name (svc_meta x)) = Some old \<Longrightarrow> wireService x = wireService old \<Longrightarrow>
      adm w x = old"
begin

abbreviation setOwner :: "ConfigMap \<Rightarrow> Service \<Rightarrow> Service" where
  "setOwner cm \<equiv> setOwnerReference (lr_SetControllerReference r cm)"

lemma configured_adm:
  assumes "configured (lr_SetControllerReference r cm) cfg ports x"
  shows "configured (lr_SetControllerReference r cm) cfg ports (adm w x)"
  using assms owned_cong [OF owner, of cm x "adm w x"] object_store.adm_name [OF svc, of w x]
  by (simp add: configured_def adm_meta adm_spec adm_ports)

lemma upsert_creates:
  assumes "view w LoadbalancerName = None"
  shows "upsertLoadBalancer libs a r ns cfg ports (setOwner cm) w =
    (Ret (), put LoadbalancerName (Some (adm w (setOwner cm (CreateLoadBalancer a ns cfg ports
       (ic_GetSelector (lr_IngressController r)))))) w)"
proof -
  let ?x = "setOwner cm (CreateLoadBalancer a ns cfg ports (ic_GetSelector (lr_IngressController r)))"
  have "om_Name (svc_meta ?x) = LoadbalancerName"
    by (simp add: setOwnerReference_keeps [OF owner] CreateLoadBalancer_def)
  then show ?thesis
    using assms by (simp add: upsertLoadBalancer_def Let_def io_simps object_store.get_missing [OF svc]
        object_store.create_free [OF svc])
qed

lemma upsert_updates:
  assumes "view w LoadbalancerName = Some s" and "om_Name (svc_meta s) = LoadbalancerName"
    and "ss_Type (svc_spec s) = ServiceTypeLoadBalancer"
    and "om_Annotations (svc_meta (ensureAnnotations s)) = Some ann"
  shows "upsertLoadBalancer libs a r ns cfg ports (setOwner cm) w =
    (Ret (), put LoadbalancerName (Some (adm w (setOwner cm (fst (UpdateExposedPorts (lib_sortSlice libs)
       (withConfig a cfg (appliedAnnotations cfg ann) (ensureAnnotations s)) ports))))) w)"
proof -
  let ?lb = "withConfig a cfg (appliedAnnotations cfg ann) (ensureAnnotations s)"
  let ?x = "setOwner cm (fst (UpdateExposedPorts (lib_sortSlice libs) ?lb ports))"
  have parse: "snd (ParseLoadBalancer (ServiceObject s)) = Some (ensureAnnotations s)"
    using assms(2,3) by (simp add: ParseLoadBalancer_Some_iff)
  have "om_Name (svc_meta ?x) = LoadbalancerName"
    "om_ResourceVersion (svc_meta ?x) = om_ResourceVersion (svc_meta s)"
    using assms(2) by (simp_all add: setOwnerReference_keeps [OF owner] withConfig_def
        ensureAnnotations_def split: option.split)
  with assms(1) have "c_update (lr_SvcClient r) ?x w =
      (Ret (adm w ?x), put LoadbalancerName (Some (adm w ?x)) w)"
    using object_store.update_fresh [OF svc, of w ?x s] by simp
  then show ?thesis
    using assms(1,4) parse
    by (simp add: upsertLoadBalancer_def Let_def io_simps object_store.get_found [OF svc] ApplyConfig_Some)
qed

lemma upsert_fails_type:
  assumes "view w LoadbalancerName = Some s"
    and "\<not> (om_Name (svc_meta s) = LoadbalancerName \<and> ss_Type (svc_spec s) = ServiceTypeLoadBalancer)"
  shows "\<exists>e. upsertLoadBalancer libs a r ns cfg ports own w = (Fail e, w)"
proof -
  have "snd (ParseLoadBalancer (ServiceObject s)) = None"
    using assms(2) by (auto simp: ParseLoadBalancer_def)
  then show ?thesis
    using assms(1) by (simp add: upsertLoadBalancer_def io_simps object_store.get_found [OF svc])
qed

text \<open>Whatever is stored: an upsert fails and stores nothing, or stores the given ports.\<close>

lemma upsert_any:
  assumes "upsertLoadBalancer libs a r ns cfg ports (setOwner cm) w = (res, w')"
  shows "(\<exists>e. res = Fail e) \<and> w' = w \<or>
    (\<exists>x. res = Ret () \<and> w' = put LoadbalancerName (Some x) w \<and> portsFrom ports (ss_Ports (svc_spec x)))"
proof -
  have adm: "\<exists>y. put LoadbalancerName (Some (adm w x)) w = put LoadbalancerName (Some y) w \<and> portsFrom ports (ss_Ports (svc_spec y))"
    if "portsFrom ports (ss_Ports (svc_spec x))" for x
    using that arg_cong [OF adm_ports [of w x], where f = mset] by (intro exI [of _ "adm w x"]) (simp add: portsFrom_def)
  show ?thesis
  proof (cases "view w LoadbalancerName")
    case None
    have "portsFrom ports (ss_Ports (svc_spec (CreateLoadBalancer a ns cfg ports sel)))" for sel
      by (simp add: CreateLoadBalancer_def portsFrom_created)
    with upsert_creates [OF None, of a ns cfg ports cm] assms adm show ?thesis by simp
  next
    case (Some s)
    show ?thesis
    proof (cases "om_Name (svc_meta s) = LoadbalancerName \<and> ss_Type (svc_spec s) = ServiceTypeLoadBalancer")
      case True
      obtain ann where ann: "om_Annotations (svc_meta (ensureAnnotations s)) = Some ann"
        by (cases "om_Annotations (svc_meta s)") (simp_all add: ensureAnnotations_def)
      show ?thesis
        using upsert_updates [OF Some _ _ ann, of a ns cfg ports cm] True assms adm
        by (simp add: portsFrom_updated [OF sorter])
    next
      case False
      then show ?thesis using upsert_fails_type [OF Some, of a ns cfg ports "setOwner cm"] assms by auto
    qed
  qed
qed

lemma upsert_configures:
  assumes "reconcilable (view w)" and "distinct (map ep_Name ports)" and "sorted (map ep_Name ports)"
  shows "\<exists>x. upsertLoadBalancer libs a r ns cfg ports (setOwner cm) w =
      (Ret (), put LoadbalancerName (Some x) w) \<and>
    configured (lr_SetControllerReference r cm) cfg ports x"
proof (cases "view w LoadbalancerName")
  case None
  then show ?thesis
    using upsert_creates configured_adm [OF configured_created [OF owner]] by blast
next
  case (Some s)
  obtain ann where ann: "om_Annotations (svc_meta (ensureAnnotations s)) = Some ann"
    using ensureAnnotations_props(1) [of s] by blast
  have "fmlookup ann [] = None"
    using assms(1) Some ensureAnnotations_props(2) [of s "[]"]
    by (simp add: reconcilable_def ann del: ensureAnnotations_props)
  moreover have nm: "om_Name (svc_meta s) = LoadbalancerName" "ss_Type (svc_spec s) = ServiceTypeLoadBalancer"
    using assms(1) Some by (simp_all add: reconcilable_def)
  ultimately have "configured (lr_SetControllerReference r cm) cfg ports (setOwner cm (fst (UpdateExposedPorts
      (lib_sortSlice libs) (withConfig a cfg (appliedAnnotations cfg ann) (ensureAnnotations s)) ports)))"
    by (intro configured_updated [OF owner sorter assms(2,3)]) simp_all
  with upsert_updates [OF Some nm ann] show ?thesis by (blast intro: configured_adm)
qed

lemma upsert_again:
  assumes x: "view w LoadbalancerName = Some x" "configured (lr_SetControllerReference r cm) cfg ports x"
    and "distinct (map ep_Name ports)" and "sorted (map ep_Name ports)"
    and "listableKeys (lc_Annotations cfg)" and "[] \<notin> fmdom' (lc_Annotations cfg)"
  shows "upsertLoadBalancer libs a r ns cfg ports (setOwner cm) w = (Ret (), put LoadbalancerName (Some x) w)"
proof -
  have nm: "om_Name (svc_meta x) = LoadbalancerName" "ss_Type (svc_spec x) = ServiceTypeLoadBalancer"
    using x(2) by (simp_all add: configured_def)
  obtain ann where ann: "om_Annotations (svc_meta x) = Some ann"
    using x(2) by (auto simp: configured_def)
  then have ens: "ensureAnnotations x = x" by (simp add: ensureAnnotations_def)
  let ?y = "setOwner cm (fst (UpdateExposedPorts (lib_sortSlice libs)
    (withConfig a cfg (appliedAnnotations cfg ann) x) ports))"
  have same: "wireService ?y = wireService x"
    by (rule reconfigure_same [OF x(2) sorter assms(3-6) ann owner])
  then have "svc_meta ?y = svc_meta x" by (metis wireService_meta)
  then have "adm w ?y = x" using adm_noop [OF _ same] x(1) nm by simp
  then show ?thesis using upsert_updates [OF x(1) nm] ann by (simp add: ens)
qed

lemma getExposedServices_run:
  "\<exists>xs. getExposedServices r w = (Ret xs, w) \<and> distinct xs \<and> set xs = exposedServices (view w)"
proof -
  have "''true'' \<in> set (createExposedServiceIndex (ServiceObject s)) \<longleftrightarrow>
      snd (isExposedPortService (ServiceObject s))" for s
    by (simp add: createExposedServiceIndex_def)
  then show ?thesis
    using list_law [of createExposedServiceIndex "''true''" w]
    by (auto simp: getExposedServices_def io_simps exposedServices_def)
qed

lemma mset_exposed:
  assumes "distinct xs" and "set xs = exposedServices (view w)"
    and "distinct ys" and "set ys = exposedServices (view w')"
    and "exposedServices (view w') = exposedServices (view w)"
  shows "mset ys = mset xs"
  using assms by (metis set_eq_iff_mset_eq_distinct)

lemma lb_ports:
  assumes "createLoadBalancerExposedPorts libs eps = (ports, eps')"
  shows "sorted (map ep_Name ports)"
    and "mset ports = mset CreateDefaultPorts + filter_mset (\<lambda>p. ep_Port p \<noteq> 80 \<and> ep_Port p \<noteq> 443) (mset eps)"
  using assms SortByName_spec [OF sorter]
  by (auto simp: createLoadBalancerExposedPorts_def deleteFunc_def Let_def)

text \<open>What a reconcile collects, for any enumeration of the exposed services.\<close>

lemma reconcile_inputs:
  assumes "distinct xs" and "set xs = exposedServices (view w)" and "list_all (readable libs) xs"
    and "distinct (map ep_Name (concat (map (portsOf libs) xs)))"
  shows "\<exists>ys eps ports eps'. getExposedServices r w = (Ret ys, w) \<and> getExposedDoguPorts libs ys = Inr eps \<and>
    createLoadBalancerExposedPorts libs eps = (ports, eps') \<and> distinct (map ep_Name ports) \<and>
    distinct (map ep_Name eps) \<and> mset eps = mset (concat (map (portsOf libs) xs))"
proof -
  obtain ys where ys: "getExposedServices r w = (Ret ys, w)" "distinct ys" "set ys = exposedServices (view w)"
    using getExposedServices_run by blast
  have ms: "mset ys = mset xs" using ys assms(1,2) by (metis set_eq_iff_mset_eq_distinct)
  define eps where "eps = SortByName (lib_sortSlice libs) (concat (map (portsOf libs) xs))"
  have xeps: "getExposedDoguPorts libs xs = Inr eps"
    using assms(3) by (simp add: getExposedDoguPorts_eq eps_def)
  obtain ports eps' where ports: "createLoadBalancerExposedPorts libs eps = (ports, eps')"
    by (cases "createLoadBalancerExposedPorts libs eps")
  note dist = lb_ports_distinct [OF sorter eps_def assms(4) ports]
  have "getExposedDoguPorts libs ys = Inr eps"
    by (rule getExposedDoguPorts_perm [OF sorter _ xeps dist(1)]) (simp add: ms)
  moreover have "mset eps = mset (concat (map (portsOf libs) xs))"
    by (simp only: eps_def SortByName_spec(1) [OF sorter])
  ultimately show ?thesis using ys(1) ports dist by blast
qed

text \<open>A reconcile from any state: it fails and stores nothing, or stores ports of the exposed services.\<close>

lemma reconcile_any:
  assumes "Reconcile_LoadBalancer libs a r req w = (res, w')"
  shows "(\<exists>e. res = Fail e) \<and> view w' = view w \<or>
    (\<exists>x eps ports eps'. res = Ret () \<and> view w' = (view w)(LoadbalancerName \<mapsto> x) \<and>
       (\<forall>ep \<in> set eps. wf_exposedPort ep) \<and> createLoadBalancerExposedPorts libs eps = (ports, eps') \<and>
       portsFrom ports (ss_Ports (svc_spec x)))"
proof -
  obtain ys where ys: "getExposedServices r w = (Ret ys, w)" using getExposedServices_run by blast
  show ?thesis
  proof (cases "cmView w req")
    case None
    with assms show ?thesis by (auto simp: Reconcile_LoadBalancer_def io_simps cm_law)
  next
    case (Some cm)
    show ?thesis
    proof (cases "ParseLoadbalancerConfig (lib_unmarshalConfig libs) cm")
      case (Inl e)
      with Some assms show ?thesis by (auto simp: Reconcile_LoadBalancer_def io_simps cm_law)
    next
      case (Inr cfg)
      show ?thesis
      proof (cases "getExposedDoguPorts libs ys")
        case (Inl e)
        with Some Inr ys assms show ?thesis by (auto simp: Reconcile_LoadBalancer_def io_simps cm_law)
      next
        case eps: (Inr eps)
        obtain ports eps' where ports: "createLoadBalancerExposedPorts libs eps = (ports, eps')"
          by (cases "createLoadBalancerExposedPorts libs eps")
        obtain ures w1 where up: "upsertLoadBalancer libs a r (fst req) cfg ports (setOwner cm) w = (ures, w1)"
          by (cases "upsertLoadBalancer libs a r (fst req) cfg ports (setOwner cm) w")
        obtain w2 where w2: "ic_ExposePorts (lr_IngressController r) (fst req) eps' w1 = (Ret (), w2)" "view w2 = view w1"
          using expose_law by blast
        have "\<forall>ep \<in> set eps. wf_exposedPort ep"
          using eps portsOf_wf [OF sorter] by (auto simp: getExposedDoguPorts_eq set_SortByName [OF sorter])
        moreover have "Reconcile_LoadBalancer libs a r req w =
            (case ures of Ret _ \<Rightarrow> (Ret (), w2) | Fail e \<Rightarrow> (Fail (Wrap ''failed to update loadbalancer'' e), w1) | Panic \<Rightarrow> (Panic, w1))"
          using Some Inr ys eps ports up w2(1)
          by (cases ures) (simp_all add: Reconcile_LoadBalancer_def io_simps cm_law)
        moreover from upsert_any [OF up] have "(\<exists>e. ures = Fail e) \<and> view w1 = view w \<or>
            (\<exists>x. ures = Ret () \<and> view w2 = (view w)(LoadbalancerName \<mapsto> x) \<and> portsFrom ports (ss_Ports (svc_spec x)))"
          by (auto simp: w2(2) object_store.view_put [OF svc])
        ultimately show ?thesis using assms ports by (elim disjE exE conjE) (simp, auto)
      qed
    qed
  qed
qed

text \<open>One reconcile from a state it can start from.\<close>

lemma reconcile_run:
  assumes cm: "cmView w req = Some cm" "ParseLoadbalancerConfig (lib_unmarshalConfig libs) cm = Inr cfg"
    and xs: "getExposedServices r w = (Ret xs, w)" "getExposedDoguPorts libs xs = Inr eps"
    and ports: "createLoadBalancerExposedPorts libs eps = (ports, eps')" "distinct (map ep_Name ports)"
    and up: "upsertLoadBalancer libs a r (fst req) cfg ports (setOwner cm) w =
      (Ret (), put LoadbalancerName (Some x) w)"
  shows "\<exists>w'. Reconcile_LoadBalancer libs a r req w = (Ret (), w') \<and>
    view w' = (view w)(LoadbalancerName \<mapsto> x) \<and> cmView w' = cmView w"
proof -
  obtain w' where w': "ic_ExposePorts (lr_IngressController r) (fst req) eps' (put LoadbalancerName (Some x) w) = (Ret (), w')"
    "view w' = view (put LoadbalancerName (Some x) w)" "cmView w' = cmView (put LoadbalancerName (Some x) w)"
    using expose_law by blast
  have "Reconcile_LoadBalancer libs a r req w = (Ret (), w')"
    using cm xs ports(1) up w'(1) by (simp add: Reconcile_LoadBalancer_def io_simps cm_law)
  with w'(2,3) show ?thesis
    by (simp add: object_store.view_put [OF svc] cm_frame)
qed

lemma reconcile_configures:
  assumes cm: "cmView w req = Some cm" "ParseLoadbalancerConfig (lib_unmarshalConfig libs) cm = Inr cfg"
    and xs: "getExposedServices r w = (Ret xs, w)" "getExposedDoguPorts libs xs = Inr eps"
    and ports: "createLoadBalancerExposedPorts libs eps = (ports, eps')" "distinct (map ep_Name ports)"
    and rec: "reconcilable (view w)"
  shows "\<exists>w' x. Reconcile_LoadBalancer libs a r req w = (Ret (), w') \<and>
    view w' = (view w)(LoadbalancerName \<mapsto> x) \<and> cmView w' = cmView w \<and>
    configured (lr_SetControllerReference r cm) cfg ports x"
proof -
  obtain x where "upsertLoadBalancer libs a r (fst req) cfg ports (setOwner cm) w =
      (Ret (), put LoadbalancerName (Some x) w)"
    and "configured (lr_SetControllerReference r cm) cfg ports x"
    using upsert_configures [OF rec ports(2) lb_ports(1) [OF ports(1)]] by blast
  with reconcile_run [OF cm xs ports] show ?thesis by blast
qed

text \<open>Both together: what is stored, for any enumeration of the exposed services.\<close>

lemma reconcile_stores:
  assumes cm: "cmView w req = Some cm" "ParseLoadbalancerConfig (lib_unmarshalConfig libs) cm = Inr cfg"
    and rec: "reconcilable (view w)"
    and xs: "distinct xs" "set xs = exposedServices (view w)" "list_all (readable libs) xs"
      "distinct (map ep_Name (concat (map (portsOf libs) xs)))"
  obtains w' x ports where "Reconcile_LoadBalancer libs a r req w = (Ret (), w')"
    and "view w' = (view w)(LoadbalancerName \<mapsto> x)" and "cmView w' = cmView w"
    and "configured (lr_SetControllerReference r cm) cfg ports x"
    and "sorted (map ep_Name ports)" and "distinct (map ep_Name ports)"
    and "mset ports = mset CreateDefaultPorts +
      filter_mset (\<lambda>p. ep_Port p \<noteq> 80 \<and> ep_Port p \<noteq> 443) (mset (concat (map (portsOf libs) xs)))"
proof -
  obtain ys eps ports eps' where ys: "getExposedServices r w = (Ret ys, w)"
    "getExposedDoguPorts libs ys = Inr eps" "createLoadBalancerExposedPorts libs eps = (ports, eps')"
    and dist: "distinct (map ep_Name ports)"
    and eps: "mset eps = mset (concat (map (portsOf libs) xs))"
    using reconcile_inputs [OF xs] by blast
  obtain w' x where w': "Reconcile_LoadBalancer libs a r req w = (Ret (), w')"
      "view w' = (view w)(LoadbalancerName \<mapsto> x)" "cmView w' = cmView w"
    and x: "configured (lr_SetControllerReference r cm) cfg ports x"
    using reconcile_configures [OF cm ys dist rec] by blast
  show thesis
    using that [OF w' x lb_ports(1) [OF ys(3)] dist] lb_ports(2) [OF ys(3)] by (simp only: eps)
qed

lemma reconcile_again:
  assumes cm: "cmView w req = Some cm" "ParseLoadbalancerConfig (lib_unmarshalConfig libs) cm = Inr cfg"
    and xs: "getExposedServices r w = (Ret xs, w)" "getExposedDoguPorts libs xs = Inr eps"
    and ports: "createLoadBalancerExposedPorts libs eps = (ports, eps')" "distinct (map ep_Name ports)"
    and "distinct (map ep_Name eps)"
    and rec: "reconcilable (view w)"
    and keys: "listableKeys (lc_Annotations cfg)" "[] \<notin> fmdom' (lc_Annotations cfg)"
  shows "\<exists>w1 w2. Reconcile_LoadBalancer libs a r req w = (Ret (), w1) \<and>
    Reconcile_LoadBalancer libs b r req w1 = (Ret (), w2) \<and> view w2 = view w1"
proof -
  obtain w1 x where w1: "Reconcile_LoadBalancer libs a r req w = (Ret (), w1)"
    "view w1 = (view w)(LoadbalancerName \<mapsto> x)" "cmView w1 = cmView w"
    and x: "configured (lr_SetControllerReference r cm) cfg ports x"
    using reconcile_configures [OF cm xs ports rec] by blast
  obtain ys where ys: "getExposedServices r w1 = (Ret ys, w1)" "distinct ys" "set ys = exposedServices (view w1)"
    using getExposedServices_run by blast
  have "distinct xs" "set xs = exposedServices (view w)"
    using getExposedServices_run [of w] xs(1) by auto
  moreover have "exposedServices (view w1) = exposedServices (view w)"
    unfolding w1(2) by (rule exposedServices_put [OF rec]) (use x in \<open>simp add: configured_def\<close>)
  ultimately have "mset xs = mset ys" using mset_exposed ys by metis
  then have eps: "getExposedDoguPorts libs ys = Inr eps"
    using getExposedDoguPorts_perm [OF sorter _ xs(2) assms(7)] by blast
  have "upsertLoadBalancer libs b r (fst req) cfg ports (setOwner cm) w1 =
      (Ret (), put LoadbalancerName (Some x) w1)"
    by (rule upsert_again [OF _ x ports(2) lb_ports(1) [OF ports(1)] keys]) (simp add: w1(2))
  then obtain w2 where "Reconcile_LoadBalancer libs b r req w1 = (Ret (), w2)"
    "view w2 = (view w1)(LoadbalancerName \<mapsto> x)"
    using reconcile_run [OF _ cm(2) ys(1) eps ports] cm(1) w1(3) by metis
  with w1 show ?thesis by auto
qed

end

subsection \<open>The reconciler on the reference cluster\<close>

definition exampleLibraries :: libraries where
  "exampleLibraries =
     \<lparr>lib_sortSlice = insertionSort, lib_unmarshalConfig = (\<lambda>_. Inr exampleConfig),
      lib_unmarshalPorts = (\<lambda>_. Inr exampleDTOs)\<rparr>"

definition exampleOwner :: "ConfigMap \<Rightarrow> ownerSetter" where
  "exampleOwner cm m = Inr (m\<lparr>om_OwnerReferences :=
     [\<lparr>or_APIVersion = ''v1'', or_Kind = ''ConfigMap'', or_Name = om_Name (cm_meta cm),
       or_UID = om_UID (cm_meta cm), or_Controller = Some True, or_BlockOwnerDeletion = Some False\<rparr>]\<rparr>)"

definition exampleLbReconciler :: "cluster LoadBalancerReconciler" where
  "exampleLbReconciler =
     \<lparr>lr_GetConfigMap = getConfigMap, lr_ListIndexed = listServices,
      lr_SetControllerReference = exampleOwner,
      lr_IngressController = asIngressController sortedOrder exampleController,
      lr_SvcClient = serviceClient\<rparr>"

lemma exampleOwner_law: "ownerLaw (exampleOwner cm)"
  unfolding ownerLaw_def exampleOwner_def
  by (rule exI [of _ "\<lambda>_ _. Inr [\<lparr>or_APIVersion = ''v1'', or_Kind = ''ConfigMap'',
    or_Name = om_Name (cm_meta cm), or_UID = om_UID (cm_meta cm), or_Controller = Some True,
    or_BlockOwnerDeletion = Some False\<rparr>]"]) simp

lemma listServices_law:
  "\<exists>xs. listServices idx v w = (Ret xs, w) \<and> distinct xs \<and>
     set xs = {s. \<exists>n. serviceView w n = Some s \<and> v \<in> set (idx (ServiceObject s))}"
  by (force simp: listServices_def serviceView_def fmlookup_dom'_iff fmdom'_alt_def [symmetric]
      sorted_list_of_fset.rep_eq image_iff)

lemma exposePorts_keeps_services:
  "\<exists>w'. ic_ExposePorts (asIngressController sortedOrder exampleController) ns ps w = (Ret (), w') \<and>
     serviceView w' = serviceView w \<and> configMapView w' = configMapView w"
proof -
  obtain w' where "ExposePorts (tc_PortExposer exampleController) ns ps w = (Ret (), w')"
    using exposer.ExposePorts_run by blast
  moreover have "serviceView (snd (ExposePorts (tc_PortExposer exampleController) ns ps w)) = serviceView w"
    by (rule exposer.ExposePorts_frame)
      (simp_all add: serviceView_def putRouteTCP_def putRouteUDP_def bump_def)
  moreover have "configMapView (snd (ExposePorts (tc_PortExposer exampleController) ns ps w)) = configMapView w"
    by (rule exposer.ExposePorts_frame)
      (simp_all add: configMapView_def putRouteTCP_def putRouteUDP_def bump_def fun_eq_iff)
  ultimately show ?thesis by (simp add: asIngressController_def)
qed

lemma assignNodePorts_zero:
  "map (\<lambda>p. p\<lparr>sp_NodePort := 0\<rparr>) (assignNodePorts n ps) = map (\<lambda>p. p\<lparr>sp_NodePort := 0\<rparr>) ps"
  by (induction n ps rule: assignNodePorts.induct) auto

lemma admService_keeps:
  "om_Annotations (svc_meta (admService w x)) = om_Annotations (svc_meta x)"
  "om_Namespace (svc_meta (admService w x)) = om_Namespace (svc_meta x)"
  "om_OwnerReferences (svc_meta (admService w x)) = om_OwnerReferences (svc_meta x)"
  "ss_Type (svc_spec (admService w x)) = ss_Type (svc_spec x)"
  "ss_ExternalTrafficPolicy (svc_spec (admService w x)) = ss_ExternalTrafficPolicy (svc_spec x)"
  "map_option deref (ss_InternalTrafficPolicy (svc_spec (admService w x))) =
     map_option deref (ss_InternalTrafficPolicy (svc_spec x))"
  "ss_Selector (svc_spec (admService w x)) = ss_Selector (svc_spec x)"
  "map (\<lambda>p. p\<lparr>sp_NodePort := 0\<rparr>) (ss_Ports (svc_spec (admService w x))) =
     map (\<lambda>p. p\<lparr>sp_NodePort := 0\<rparr>) (ss_Ports (svc_spec x))"
proof -
  have fresh: "om_Annotations (svc_meta (freshService w x)) = om_Annotations (svc_meta x)"
    "om_Namespace (svc_meta (freshService w x)) = om_Namespace (svc_meta x)"
    "om_OwnerReferences (svc_meta (freshService w x)) = om_OwnerReferences (svc_meta x)"
    "ss_Type (svc_spec (freshService w x)) = ss_Type (svc_spec x)"
    "ss_ExternalTrafficPolicy (svc_spec (freshService w x)) = ss_ExternalTrafficPolicy (svc_spec x)"
    "map_option deref (ss_InternalTrafficPolicy (svc_spec (freshService w x))) =
       map_option deref (ss_InternalTrafficPolicy (svc_spec x))"
    "ss_Selector (svc_spec (freshService w x)) = ss_Selector (svc_spec x)"
    "map (\<lambda>p. p\<lparr>sp_NodePort := 0\<rparr>) (ss_Ports (svc_spec (freshService w x))) =
       map (\<lambda>p. p\<lparr>sp_NodePort := 0\<rparr>) (ss_Ports (svc_spec x))"
    by (simp_all add: freshService_def Let_def wireService_def stamp_def assignNodePorts_zero
        option.map_comp comp_def)
  have old: "svc_meta y = svc_meta x" "ss_Type (svc_spec y) = ss_Type (svc_spec x)"
    "ss_ExternalTrafficPolicy (svc_spec y) = ss_ExternalTrafficPolicy (svc_spec x)"
    "map_option deref (ss_InternalTrafficPolicy (svc_spec y)) =
       map_option deref (ss_InternalTrafficPolicy (svc_spec x))"
    "ss_Selector (svc_spec y) = ss_Selector (svc_spec x)" "ss_Ports (svc_spec y) = ss_Ports (svc_spec x)"
    if "wireService x = wireService y" for y
  proof -
    have s: "svc_spec (wireService x) = svc_spec (wireService y)" "svc_meta (wireService x) = svc_meta (wireService y)"
      using that by simp_all
    then have "map_option (\<lambda>p. Ptr 0 (deref p)) (ss_InternalTrafficPolicy (svc_spec x)) =
        map_option (\<lambda>p. Ptr 0 (deref p)) (ss_InternalTrafficPolicy (svc_spec y))"
      by (cases "svc_spec x"; cases "svc_spec y") (simp add: wireService_def)
    from arg_cong [OF this, where f = "map_option deref"] s
    show "svc_meta y = svc_meta x" "ss_Type (svc_spec y) = ss_Type (svc_spec x)"
      "ss_ExternalTrafficPolicy (svc_spec y) = ss_ExternalTrafficPolicy (svc_spec x)"
      "map_option deref (ss_InternalTrafficPolicy (svc_spec y)) =
         map_option deref (ss_InternalTrafficPolicy (svc_spec x))"
      "ss_Selector (svc_spec y) = ss_Selector (svc_spec x)" "ss_Ports (svc_spec y) = ss_Ports (svc_spec x)"
      by (cases "svc_spec x"; cases "svc_spec y"; simp add: wireService_def option.map_comp comp_def)+
  qed
  have "admService w x = freshService w x \<or> wireService x = wireService (admService w x)"
    by (simp add: admService_def split: option.split)
  then consider "admService w x = freshService w x" | "wireService x = wireService (admService w x)"
    by blast
  then show "om_Annotations (svc_meta (admService w x)) = om_Annotations (svc_meta x)"
    "om_Namespace (svc_meta (admService w x)) = om_Namespace (svc_meta x)"
    "om_OwnerReferences (svc_meta (admService w x)) = om_OwnerReferences (svc_meta x)"
    "ss_Type (svc_spec (admService w x)) = ss_Type (svc_spec x)"
    "ss_ExternalTrafficPolicy (svc_spec (admService w x)) = ss_ExternalTrafficPolicy (svc_spec x)"
    "map_option deref (ss_InternalTrafficPolicy (svc_spec (admService w x))) =
       map_option deref (ss_InternalTrafficPolicy (svc_spec x))"
    "ss_Selector (svc_spec (admService w x)) = ss_Selector (svc_spec x)"
    "map (\<lambda>p. p\<lparr>sp_NodePort := 0\<rparr>) (ss_Ports (svc_spec (admService w x))) =
       map (\<lambda>p. p\<lparr>sp_NodePort := 0\<rparr>) (ss_Ports (svc_spec x))"
    by (cases; simp only: fresh old [of "admService w x"])+
qed

lemma admService_noop:
  "serviceView w (om_Name (svc_meta x)) = Some old \<Longrightarrow> wireService x = wireService old \<Longrightarrow>
     admService w x = old"
  by (simp add: admService_def)

lemma configMapView_putService: "configMapView (putService n u w) = configMapView w"
  by (simp add: configMapView_def putService_def bump_def fun_eq_iff)

lemma exampleLbReconciler_parts:
  "lr_GetConfigMap exampleLbReconciler = getConfigMap"
  "lr_ListIndexed exampleLbReconciler = listServices"
  "lr_SetControllerReference exampleLbReconciler = exampleOwner"
  "lr_IngressController exampleLbReconciler = asIngressController sortedOrder exampleController"
  "lr_SvcClient exampleLbReconciler = serviceClient"
  by (simp_all add: exampleLbReconciler_def)

interpretation lbs: lb_environment exampleLibraries exampleLbReconciler serviceView putService
    admService configMapView
proof (rule lb_environment.intro)
  show "slice_sort (lib_sortSlice exampleLibraries)"
    by (simp add: exampleLibraries_def ins.slice_sort_axioms)
  show "object_store (lr_SvcClient exampleLbReconciler) serviceView putService svc_meta admService"
    by (simp add: exampleLbReconciler_def svcs.object_store_axioms)
qed (unfold exampleLbReconciler_parts, (rule listServices_law exposePorts_keeps_services exampleOwner_law
    admService_keeps admService_noop getConfigMap_def configMapView_putService | assumption)+)

subsection \<open>Properties\<close>

text \<open>
  Property C2. A reconcile from any state without a broken load balancer succeeds when the
  configuration is valid and every exposed dogu service has a readable port annotation, and it
  stores a load balancer with the configured policies and exactly these ports, sorted by name: 80
  and 443, and every exposed dogu port that is not 80 or 443.  No other service changes.
\<close>

theorem loadbalancer_reconciled:
  assumes "lb_environment libs r view put adm cmView"
    and "cmView w req = Some cm" and "ParseLoadbalancerConfig (lib_unmarshalConfig libs) cm = Inr cfg"
    and "reconcilable (view w)"
    and "distinct xs" and "set xs = exposedServices (view w)" and "list_all (readable libs) xs"
    and "distinct (map ep_Name (concat (map (portsOf libs) xs)))"
  shows "\<exists>w' x. Reconcile_LoadBalancer libs a r req w = (Ret (), w') \<and>
    view w' = (view w)(LoadbalancerName \<mapsto> x) \<and>
    ss_Type (svc_spec x) = ''LoadBalancer'' \<and>
    ss_ExternalTrafficPolicy (svc_spec x) = lc_ExternalTrafficPolicy cfg \<and>
    map_option deref (ss_InternalTrafficPolicy (svc_spec x)) = Some (lc_InternalTrafficPolicy cfg) \<and>
    sorted (map sp_Name (ss_Ports (svc_spec x))) \<and>
    image_mset (\<lambda>p. p\<lparr>sp_NodePort := 0\<rparr>) (mset (ss_Ports (svc_spec x))) =
      image_mset (\<lambda>ep. (ToServicePort ep)\<lparr>sp_NodePort := 0\<rparr>)
        (mset CreateDefaultPorts +
         filter_mset (\<lambda>p. ep_Port p \<noteq> 80 \<and> ep_Port p \<noteq> 443) (mset (concat (map (portsOf libs) xs))))"
proof -
  obtain w' x ports where w': "Reconcile_LoadBalancer libs a r req w = (Ret (), w')"
      "view w' = (view w)(LoadbalancerName \<mapsto> x)"
    and x: "configured (lr_SetControllerReference r cm) cfg ports x"
    and ports: "sorted (map ep_Name ports)" "mset ports = mset CreateDefaultPorts +
      filter_mset (\<lambda>p. ep_Port p \<noteq> 80 \<and> ep_Port p \<noteq> 443) (mset (concat (map (portsOf libs) xs)))"
    by (rule lb_environment.reconcile_stores [OF assms])
  have "sorted (map sp_Name (ss_Ports (svc_spec x)))"
    using ports(1) configured_names [OF x] by simp
  moreover have "image_mset (\<lambda>p. p\<lparr>sp_NodePort := 0\<rparr>) (mset (ss_Ports (svc_spec x))) =
      image_mset (\<lambda>ep. (ToServicePort ep)\<lparr>sp_NodePort := 0\<rparr>) (mset ports)"
    using arg_cong [OF configured_ports [OF x], where f = mset] by (simp only: mset_map)
  ultimately show ?thesis
    using w' x unfolding ports(2) by (intro exI [of _ w'] exI [of _ x]) (simp add: configured_def kube_constants)
qed

definition exampleCluster :: cluster where
  "exampleCluster = emptyCluster
     \<lparr>k_services := fmap_of_list [(''scm'', exampleDoguService)],
      k_configMaps := [''ces-loadbalancer-config'' \<mapsto> \<lparr>cm_meta = emptyMeta, cm_Data = fmempty\<rparr>]\<rparr>"

lemma exampleCluster_facts:
  "configMapView exampleCluster (''ecosystem'', ''ces-loadbalancer-config'') =
     Some \<lparr>cm_meta = emptyMeta, cm_Data = fmempty\<rparr>"
  "ParseLoadbalancerConfig (lib_unmarshalConfig exampleLibraries) cm = Inr exampleConfig"
  "reconcilable (serviceView exampleCluster)"
  "{exampleDoguService} = exposedServices (serviceView exampleCluster)"
  "portsOf exampleLibraries exampleDoguService = map (portOfDTO ''scm'') (rev exampleDTOs)"
  "readable exampleLibraries exampleDoguService"
proof -
  show "configMapView exampleCluster (''ecosystem'', ''ces-loadbalancer-config'') =
     Some \<lparr>cm_meta = emptyMeta, cm_Data = fmempty\<rparr>"
    by (simp add: configMapView_def exampleCluster_def)
  show "ParseLoadbalancerConfig (lib_unmarshalConfig exampleLibraries) cm = Inr exampleConfig"
    by (simp add: ParseLoadbalancerConfig_def exampleLibraries_def exampleConfig_def kube_constants Let_def)
  have lookup: "serviceView exampleCluster n = (if n = ''scm'' then Some exampleDoguService else None)" for n
    by (simp add: serviceView_def exampleCluster_def)
  then show "reconcilable (serviceView exampleCluster)"
    by (simp add: reconcilable_def LoadbalancerName_def)
  have "snd (isExposedPortService (ServiceObject exampleDoguService))"
    by (simp add: isExposedPortService_def ParseService_def exampleDoguService_def emptyService_def
        emptyMeta_def ensureAnnotations_def HasExposedPorts_def Let_def)
  then show "{exampleDoguService} = exposedServices (serviceView exampleCluster)"
    by (auto simp: exposedServices_def lookup)
  have valid: "list_all validDTO exampleDTOs"
    by (simp add: exampleDTOs_def validDTO_def maxInt32_def)
  have get: "GetExposedPorts insertionSort (\<lambda>_. Inr exampleDTOs) exampleDoguService =
      Inr (SortByName insertionSort (map (portOfDTO ''scm'') exampleDTOs))"
    using mapServiceExposedPorts_iff [of "''scm''" exampleDTOs "[]" "map (portOfDTO ''scm'') exampleDTOs"] valid
    by (simp add: GetExposedPorts_def exampleDoguService_def emptyMeta_def)
  have "SortByName insertionSort (map (portOfDTO ''scm'') exampleDTOs) = map (portOfDTO ''scm'') (rev exampleDTOs)"
    by code_simp
  with get show "portsOf exampleLibraries exampleDoguService = map (portOfDTO ''scm'') (rev exampleDTOs)"
    "readable exampleLibraries exampleDoguService"
    by (simp_all add: portsOf_def readable_def exampleLibraries_def)
qed

lemma exampleCluster_names:
  "distinct (map ep_Name (concat (map (portsOf exampleLibraries) [exampleDoguService])))"
proof -
  have "distinct (map ep_Name (map (portOfDTO ''scm'') (rev exampleDTOs)))" by code_simp
  then show ?thesis by (simp add: exampleCluster_facts(5) del: map_map)
qed

theorem loadbalancer_reconciled_witness:
  "\<exists>w' x. Reconcile_LoadBalancer exampleLibraries 7 exampleLbReconciler
       (''ecosystem'', ''ces-loadbalancer-config'') exampleCluster = (Ret (), w') \<and>
     serviceView w' ''ces-loadbalancer'' = Some x \<and> ss_ExternalTrafficPolicy (svc_spec x) = ''Local''"
  using loadbalancer_reconciled [OF lbs.lb_environment_axioms, OF exampleCluster_facts(1-3), of
      "[exampleDoguService]" 7] exampleCluster_facts(4,6) exampleCluster_names
  by (fastforce simp: LoadbalancerName_def exampleConfig_def)

text \<open>
  Property C9. The type of the stored load balancer, for any state of the cluster, with an API server and
  an ingress controller that do not fail themselves: a reconcile that fails (on what it reads) leaves
  every service as it was; one that succeeds stores a load balancer all of whose ports have a name, a protocol Kubernetes knows and a number and a target that are not negative,
  whatever ports it had before and although the annotations are decoded to 64 bit integers and narrowed
  to 32; ports 80 and 443 are there exactly once.
\<close>

theorem loadbalancer_ports_well_typed:
  assumes "lb_environment libs r view put adm cmView" and "Reconcile_LoadBalancer libs a r req w = (res, w')"
  shows "(\<exists>e. res = Fail e) \<and> view w' = view w \<or>
    res = Ret () \<and> (\<exists>x. view w' = (view w)(LoadbalancerName \<mapsto> x) \<and>
      list_all wf_servicePort (ss_Ports (svc_spec x)) \<and>
      length (filter (\<lambda>p. sp_Port p = 80) (ss_Ports (svc_spec x))) = 1 \<and>
      length (filter (\<lambda>p. sp_Port p = 443) (ss_Ports (svc_spec x))) = 1)"
  using lb_environment.reconcile_any [OF assms]
proof (elim disjE exE conjE)
  fix x eps ports eps'
  assume res: "res = Ret ()" "view w' = (view w)(LoadbalancerName \<mapsto> x)"
    and wf: "\<forall>ep \<in> set eps. wf_exposedPort ep" and ports: "createLoadBalancerExposedPorts libs eps = (ports, eps')"
    and given: "portsFrom ports (ss_Ports (svc_spec x))"
  note split = lb_environment.lb_ports(2) [OF assms(1) ports]
  have "ep \<in> set CreateDefaultPorts \<or> ep \<in> set eps" if "ep \<in> set ports" for ep
    using that arg_cong [OF split, where f = set_mset] by auto
  then have "list_all wf_servicePort (ss_Ports (svc_spec x))"
    using portsFrom_wf [OF given] wf_defaultPorts wf_ToServicePort wf by blast
  moreover have "length (filter (\<lambda>p. sp_Port p = n) (ss_Ports (svc_spec x))) = 1" if "n = 80 \<or> n = 443" for n
    unfolding portsFrom_count [OF given] split using that
    by (auto simp: CreateDefaultPorts_def httpPort_def httpsPort_def filter_filter_mset)
  ultimately show ?thesis using res by (intro disjI2 conjI exI [of _ x]) simp_all
qed simp

theorem loadbalancer_ports_well_typed_witness:
  "\<exists>w' x. Reconcile_LoadBalancer exampleLibraries 7 exampleLbReconciler
       (''ecosystem'', ''ces-loadbalancer-config'') exampleCluster = (Ret (), w') \<and>
     serviceView w' ''ces-loadbalancer'' = Some x \<and> list_all wf_servicePort (ss_Ports (svc_spec x)) \<and>
     length (filter (\<lambda>p. sp_Port p = 443) (ss_Ports (svc_spec x))) = 1"
proof -
  obtain w' where run: "Reconcile_LoadBalancer exampleLibraries 7 exampleLbReconciler
      (''ecosystem'', ''ces-loadbalancer-config'') exampleCluster = (Ret (), w')"
  proof (rule lbs.reconcile_stores [OF exampleCluster_facts(1-3)])
    show "distinct [exampleDoguService]" "set [exampleDoguService] = exposedServices (serviceView exampleCluster)"
      "list_all (readable exampleLibraries) [exampleDoguService]"
      "distinct (map ep_Name (concat (map (portsOf exampleLibraries) [exampleDoguService])))"
      using exampleCluster_names by (simp_all add: exampleCluster_facts(4,6))
  qed blast
  then show ?thesis
    using loadbalancer_ports_well_typed [OF lbs.lb_environment_axioms run] by (auto simp: LoadbalancerName_def)
qed

text \<open>
  Property C1. Reconciliation is idempotent: under the same conditions, with configuration keys
  that can be listed in the managed annotation, a second reconcile succeeds as well and leaves
  every service as the first one stored it, for any node ports the server assigned.
\<close>

theorem loadbalancer_reconcile_idempotent:
  assumes "lb_environment libs r view put adm cmView"
    and "cmView w req = Some cm" and "ParseLoadbalancerConfig (lib_unmarshalConfig libs) cm = Inr cfg"
    and "reconcilable (view w)"
    and "distinct xs" and "set xs = exposedServices (view w)" and "list_all (readable libs) xs"
    and "distinct (map ep_Name (concat (map (portsOf libs) xs)))"
    and "listableKeys (lc_Annotations cfg)" and "[] \<notin> fmdom' (lc_Annotations cfg)"
  shows "\<exists>w1 w2. Reconcile_LoadBalancer libs a1 r req w = (Ret (), w1) \<and>
    Reconcile_LoadBalancer libs a2 r req w1 = (Ret (), w2) \<and> view w2 = view w1"
proof -
  obtain ys eps ports eps' where ys: "getExposedServices r w = (Ret ys, w)"
    "getExposedDoguPorts libs ys = Inr eps" "createLoadBalancerExposedPorts libs eps = (ports, eps')"
    and dist: "distinct (map ep_Name ports)" "distinct (map ep_Name eps)"
    and eps: "mset eps = mset (concat (map (portsOf libs) xs))"
    using lb_environment.reconcile_inputs [OF assms(1,5-8)] by blast
  show ?thesis
    by (rule lb_environment.reconcile_again [OF assms(1-3) ys dist assms(4,9,10)])
qed

theorem loadbalancer_reconcile_idempotent_witness:
  "\<exists>w1 w2. Reconcile_LoadBalancer exampleLibraries 7 exampleLbReconciler
       (''ecosystem'', ''ces-loadbalancer-config'') exampleCluster = (Ret (), w1) \<and>
     Reconcile_LoadBalancer exampleLibraries 8 exampleLbReconciler
       (''ecosystem'', ''ces-loadbalancer-config'') w1 = (Ret (), w2) \<and> serviceView w2 = serviceView w1"
proof (rule loadbalancer_reconcile_idempotent [OF lbs.lb_environment_axioms, OF exampleCluster_facts(1-3)])
  show "distinct [exampleDoguService]" by simp
  show "set [exampleDoguService] = exposedServices (serviceView exampleCluster)"
    by (simp add: exampleCluster_facts(4))
  show "list_all (readable exampleLibraries) [exampleDoguService]"
    by (simp add: exampleCluster_facts(6))
  show "distinct (map ep_Name (concat (map (portsOf exampleLibraries) [exampleDoguService])))"
    by (rule exampleCluster_names)
  show "listableKeys (lc_Annotations exampleConfig)" "[] \<notin> fmdom' (lc_Annotations exampleConfig)"
    by (simp_all add: listableKeys_def exampleConfig_def fmdom'_of_list configManagedAnnotationKeySeparator_def)
qed

text \<open>
  Property C39. The ingress controller gets the slice that the load balancer's port list was made
  from, after \<open>slices.DeleteFunc\<close> has shifted its elements and zeroed its tail.  The effect on the
  routes is that of the dogu ports other than 80 and 443: no dogu port 80 or 443 is routed, and the
  zero ports do nothing.
\<close>

theorem exposed_routes_without_default_ports:
  assumes "exposer_stores p ns viewT putT admT viewU putU admU viewI putI admI"
  shows "\<exists>w1 w2. ExposePorts p ns (snd (createLoadBalancerExposedPorts libs eps)) w = (Ret (), w1) \<and>
    ExposePorts p ns (filter (\<lambda>q. ep_Port q \<noteq> 80 \<and> ep_Port q \<noteq> 443) eps) w = (Ret (), w2) \<and>
    (\<forall>n. map_option tcpContent (viewT w1 n) = map_option tcpContent (viewT w2 n) \<and>
         map_option udpContent (viewU w1 n) = map_option udpContent (viewU w2 n))"
proof -
  let ?kept = "filter (\<lambda>q. ep_Port q \<noteq> 80 \<and> ep_Port q \<noteq> 443) eps"
  have caller: "snd (createLoadBalancerExposedPorts libs eps) =
      ?kept @ replicate (length eps - length ?kept) zeroExposedPort"
    by (simp add: createLoadBalancerExposedPorts_def deleteFunc_def Let_def)
  have skip: "find P (rev (?kept @ replicate k zeroExposedPort)) = find P (rev ?kept)"
    if "\<not> P zeroExposedPort" for P k
  proof -
    have "find P (replicate k zeroExposedPort) = None" using that by (simp add: find_None_iff)
    then show ?thesis by (simp add: find_append)
  qed
  have zero: "find (\<lambda>q. ep_Protocol q = ProtocolTCP \<and> tcpRouteName q = n)
      (rev (?kept @ replicate k zeroExposedPort)) = find (\<lambda>q. ep_Protocol q = ProtocolTCP \<and> tcpRouteName q = n) (rev ?kept)"
    "find (\<lambda>q. ep_Protocol q = ProtocolUDP \<and> udpRouteName q = n)
      (rev (?kept @ replicate k zeroExposedPort)) = find (\<lambda>q. ep_Protocol q = ProtocolUDP \<and> udpRouteName q = n) (rev ?kept)"
    for n k
    by (rule skip; simp add: zeroExposedPort_def kube_constants)+
  show ?thesis
    using exposer_stores.ExposePorts_run [OF assms, of "snd (createLoadBalancerExposedPorts libs eps)" w]
      exposer_stores.ExposePorts_run [OF assms, of ?kept w]
    unfolding caller zero by force
qed

theorem exposed_routes_without_default_ports_witness:
  "\<exists>w1. ExposePorts (tc_PortExposer exampleController) ''ecosystem''
     (snd (createLoadBalancerExposedPorts exampleLibraries CreateDefaultPorts)) emptyCluster = (Ret (), w1)"
  using exposed_routes_without_default_ports [OF exposer.exposer_stores_axioms,
      of "''ecosystem''" exampleLibraries CreateDefaultPorts emptyCluster] by blast

text \<open>
  Property C38. When an update of a service leads to a reconcile of the load balancer.  If only one of
  the two objects is a dogu service: always; if none is: never.  Between two dogu services: always
  when the port annotation comes or goes; never when it is there before and after but cannot be read on
  either side, not even when it was just repaired; between readable annotations always when they
  stand for different collections of ports, and never when they stand for the same ports in
  another order, provided the port names are distinct.  (Ports of equal name keep no fixed order
  under \<open>sort.Slice\<close>, so that nothing is said of the last case for them.)
\<close>

theorem service_update_triggers:
  assumes "slice_sort (lib_sortSlice libs)" and "triggers = pf_Update (exposedPortServicePredicate libs) objectOld objectNew"
  shows "case (snd (ParseService objectOld), snd (ParseService objectNew)) of
     (Some old, Some new) \<Rightarrow>
       if HasExposedPorts old \<noteq> HasExposedPorts new then triggers
       else if \<not> readable libs old \<or> \<not> readable libs new then \<not> triggers
       else if mset (portsOf libs old) \<noteq> mset (portsOf libs new) then triggers
       else distinct (map ep_Name (portsOf libs old)) \<longrightarrow> \<not> triggers
   | (None, None) \<Rightarrow> \<not> triggers
   | _ \<Rightarrow> triggers"
proof (cases "snd (ParseService objectOld)"; cases "snd (ParseService objectNew)")
  fix old new assume parsed: "snd (ParseService objectOld) = Some old" "snd (ParseService objectNew) = Some new"
  let ?sort = "SortByName (lib_sortSlice libs)"
  have decided: "triggers \<longleftrightarrow> HasExposedPorts old \<noteq> HasExposedPorts new \<or>
      readable libs old \<and> readable libs new \<and> ?sort (portsOf libs old) \<noteq> ?sort (portsOf libs new)"
    unfolding assms(2) using parsed
    by (auto simp: exposedPortServicePredicate_def Equals_ExposedPorts_def Let_def readable_def portsOf_def split: sum.splits)
  have "mset (?sort (portsOf libs old)) \<noteq> mset (?sort (portsOf libs new))"
    if "mset (portsOf libs old) \<noteq> mset (portsOf libs new)"
    using that SortByName_spec(1) [OF assms(1)] by simp
  then have differ: "?sort (portsOf libs old) \<noteq> ?sort (portsOf libs new)" if "mset (portsOf libs old) \<noteq> mset (portsOf libs new)"
    using that by metis
  have same: "?sort (portsOf libs old) = ?sort (portsOf libs new)"
    if "mset (portsOf libs old) = mset (portsOf libs new)" "distinct (map ep_Name (portsOf libs old))"
    using that SortByName_spec [OF assms(1), of "portsOf libs new"]
    by (intro SortByName_unique [OF assms(1) that(2)]) simp_all
  show ?thesis using parsed decided differ same by auto
qed (simp_all add: assms(2) exposedPortServicePredicate_def)

text \<open>An annotation that appears is noticed, an object that did not change is not.\<close>

theorem service_update_triggers_witness:
  "pf_Update (exposedPortServicePredicate exampleLibraries)
     (ServiceObject (exampleDoguService\<lparr>svc_meta := (svc_meta exampleDoguService)\<lparr>om_Annotations := Some fmempty\<rparr>\<rparr>))
     (ServiceObject exampleDoguService) \<and>
   \<not> pf_Update (exposedPortServicePredicate exampleLibraries)
     (ServiceObject exampleDoguService) (ServiceObject exampleDoguService)"
proof -
  let ?bare = "exampleDoguService\<lparr>svc_meta := (svc_meta exampleDoguService)\<lparr>om_Annotations := Some fmempty\<rparr>\<rparr>"
  have parsed: "snd (ParseService (ServiceObject exampleDoguService)) = Some exampleDoguService"
    "snd (ParseService (ServiceObject ?bare)) = Some ?bare"
    by (simp_all add: ParseService_def exampleDoguService_def emptyService_def emptyMeta_def
        ensureAnnotations_def Let_def)
  have "HasExposedPorts exampleDoguService" "\<not> HasExposedPorts ?bare"
    by (simp_all add: HasExposedPorts_def exampleDoguService_def emptyMeta_def)
  then show ?thesis
    using service_update_triggers [OF lbs.sorter refl, of "ServiceObject ?bare" "ServiceObject exampleDoguService"]
      service_update_triggers [OF lbs.sorter refl, of "ServiceObject exampleDoguService" "ServiceObject exampleDoguService"]
      parsed exampleCluster_facts(6) exampleCluster_names by simp
qed

text \<open>
  An update event of the load balancer whose old and new object were decoded
  separately (their internal traffic policies are different pointers) always leads to a reconcile,
  also when nothing of interest has changed.
\<close>

lemma loadbalancer_update_always_triggers:
  assumes "snd (ParseLoadBalancer objectOld) = Some old" and "snd (ParseLoadBalancer objectNew) = Some new"
    and "ss_InternalTrafficPolicy (svc_spec old) = Some q1"
    and "ss_InternalTrafficPolicy (svc_spec new) = Some q2" and "addr q1 \<noteq> addr q2"
  shows "pf_Update loadbalancerServicePredicate objectOld objectNew"
  using assms by (simp add: loadbalancerServicePredicate_def Equals_LoadBalancer_def)

lemma loadbalancer_update_always_triggers_example:
  "pf_Update loadbalancerServicePredicate (ServiceObject exampleLoadBalancer)
     (ServiceObject (exampleLoadBalancer\<lparr>svc_spec := (svc_spec exampleLoadBalancer)
        \<lparr>ss_InternalTrafficPolicy := Some (Ptr 8 ''Cluster'')\<rparr>\<rparr>))"
proof -
  let ?new = "exampleLoadBalancer\<lparr>svc_spec := (svc_spec exampleLoadBalancer)
        \<lparr>ss_InternalTrafficPolicy := Some (Ptr 8 ''Cluster'')\<rparr>\<rparr>"
  have "snd (ParseLoadBalancer (ServiceObject ?new)) = Some ?new"
    by (simp add: ParseLoadBalancer_def exampleLoadBalancer_def CreateLoadBalancer_def Let_def
      ensureAnnotations_def emptyService_def emptyMeta_def)
  moreover have "ss_InternalTrafficPolicy (svc_spec exampleLoadBalancer) = Some (Ptr 7 ''Cluster'')"
    by (simp add: exampleLoadBalancer_def CreateLoadBalancer_def exampleConfig_def)
  ultimately show ?thesis
    using loadbalancer_update_always_triggers [OF ParseLoadBalancer_example, of _ ?new] by simp
qed

end
