(* ===== verification/Manager_Correct.thy ===== *)
theory Manager_Correct
  imports Manager Maintenance_Correct Certificates_Correct Network_Policy_Correct Lb_Correct
begin

section \<open>The order of the start-up\<close>

text \<open>
  The manager is observed through a log of what it was given.  A program \<open>extends\<close> the log by a
  sequence when it appends the whole sequence if it returns, and a beginning of it if it fails.  The
  property composes: the start-up as a whole follows one sequence, whatever fails.
\<close>

subsection \<open>Programs that follow a sequence\<close>

named_theorems extending \<open>closure of the programs that follow a sequence\<close>

definition extends :: "('w \<Rightarrow> 'e list) \<Rightarrow> ('w, 'a) io \<Rightarrow> 'e list \<Rightarrow> bool" where
  "extends log m xs \<longleftrightarrow>
     (\<forall>w. \<exists>k. log (snd (m w)) = log w @ take k xs \<and> (\<forall>x. fst (m w) = Ret x \<longrightarrow> length xs \<le> k))"

lemma extends_ret [extending]: "extends log (ret x) []"
  by (simp add: extends_def ret_run)

lemma extends_fail [extending]: "extends log (fail e) xs"
  unfolding extends_def by (auto simp: fail_run intro: exI [of _ 0])

lemma extends_bindIO:
  assumes m: "extends log m xs" and k: "\<And>w x w'. m w = (Ret x, w') \<Longrightarrow> extends log (k x) ys"
  shows "extends log (bindIO m k) (xs @ ys)"
  unfolding extends_def
proof
  fix w
  obtain r w1 where run: "m w = (r, w1)" by (cases "m w")
  obtain i where i: "log w1 = log w @ take i xs" "\<forall>x. r = Ret x \<longrightarrow> length xs \<le> i"
    using m run unfolding extends_def by (metis fst_conv snd_conv)
  show "\<exists>j. log (snd (bindIO m k w)) = log w @ take j (xs @ ys) \<and>
      (\<forall>x. fst (bindIO m k w) = Ret x \<longrightarrow> length (xs @ ys) \<le> j)"
  proof (cases r)
    case (Ret x)
    with i have full: "log w1 = log w @ xs" by simp
    obtain j where j: "log (snd (k x w1)) = log w1 @ take j ys" "\<forall>y. fst (k x w1) = Ret y \<longrightarrow> length ys \<le> j"
      using k run Ret unfolding extends_def by metis
    then show ?thesis
      using run Ret full by (intro exI [of _ "length xs + j"]) (simp add: io_simps)
  next
    case (Fail e)
    with run i(1) show ?thesis
      by (intro exI [of _ "min i (length xs)"]) (simp add: io_simps min_def)
  next
    case Panic
    with run i(1) show ?thesis
      by (intro exI [of _ "min i (length xs)"]) (simp add: io_simps min_def)
  qed
qed

lemma extends_wrapErr [extending]: "extends log m xs \<Longrightarrow> extends log (wrapErr s m) xs"
  unfolding extends_def
proof
  fix w assume "\<forall>w. \<exists>k. log (snd (m w)) = log w @ take k xs \<and> (\<forall>x. fst (m w) = Ret x \<longrightarrow> length xs \<le> k)"
  then obtain k where "log (snd (m w)) = log w @ take k xs" "\<forall>x. fst (m w) = Ret x \<longrightarrow> length xs \<le> k" by blast
  then show "\<exists>k. log (snd (wrapErr s m w)) = log w @ take k xs \<and> (\<forall>x. fst (wrapErr s m w) = Ret x \<longrightarrow> length xs \<le> k)"
    by (intro exI [of _ k]) (metis snd_wrapErr wrapErr_Ret prod.collapse fst_conv)
qed

lemma extends_quiet: "(\<And>w. log (snd (m w)) = log w) \<Longrightarrow> extends log m []"
  by (simp add: extends_def)

lemma extends_one:
  "(\<And>w. log (snd (m w)) = log w \<and> (\<forall>x. fst (m w) \<noteq> Ret x) \<or> log (snd (m w)) = log w @ [x]) \<Longrightarrow> extends log m [x]"
  unfolding extends_def
proof
  fix w assume "\<And>w. log (snd (m w)) = log w \<and> (\<forall>x. fst (m w) \<noteq> Ret x) \<or> log (snd (m w)) = log w @ [x]"
  then consider "log (snd (m w)) = log w" "\<forall>x. fst (m w) \<noteq> Ret x" | "log (snd (m w)) = log w @ [x]" by blast
  then show "\<exists>k. log (snd (m w)) = log w @ take k [x] \<and> (\<forall>y. fst (m w) = Ret y \<longrightarrow> length [x] \<le> k)"
    by cases (auto intro: exI [of _ 0] exI [of _ 1])
qed

subsection \<open>A platform under observation\<close>

fun kindName :: "objectKind \<Rightarrow> string" where
  "kindName ConfigMapKind = ''configmap''"
| "kindName ServiceKind = ''service''"
| "kindName SecretKind = ''secret''"
| "kindName DeploymentKind = ''deployment''"
| "kindName IngressKind = ''ingress''"

text \<open>A controller without a name of its own is called by the kind it reconciles.\<close>

definition controllerLabel :: "'w controllerSpec \<Rightarrow> string" where
  "controllerLabel c = (case co_Named c of Some n \<Rightarrow> n | None \<Rightarrow> kindName (wa_kind (co_For c)))"

definition observed :: "('w \<Rightarrow> string list) \<Rightarrow> 'w k8sManager \<Rightarrow> bool" where
  "observed log mgr \<longleftrightarrow>
     (\<forall>c. extends log (mg_Complete mgr c) [controllerLabel c]) \<and>
     (\<forall>k n f. extends log (mg_IndexField mgr k n f) [''index'']) \<and>
     (\<forall>r. extends log (mg_Add mgr r) [''runnable'']) \<and>
     (\<forall>n. extends log (mg_AddHealthzCheck mgr n) [n]) \<and> (\<forall>n. extends log (mg_AddReadyzCheck mgr n) [n]) \<and>
     extends log (mg_Start mgr) [''start'']"

locale observed_platform =
  fixes pl :: "('w, 'g) platform" and log :: "'w \<Rightarrow> string list"
  assumes new_manager: "log (snd (pl_NewManager pl opts w)) = log w"
    and managers: "pl_NewManager pl opts w = (Ret mgr, w') \<Longrightarrow> observed log mgr"
    and new_clients: "log (snd (pl_NewForConfig pl w)) = log w" "log (snd (pl_NewTraefik pl w)) = log w"
      "log (snd (pl_NewDogus pl w)) = log w"
begin

lemma configureReconciler_extends:
  assumes "observed log mgr"
  shows "extends log (configureReconciler pl mgr cs repo ns ic up npu en sync ad)
    [''service'', ''deployment'', ''secret'', ''redirect'', ''index'', ''loadbalancer-configmap'', ''maintenance'']"
proof -
  have complete: "extends log (mg_Complete mgr c) [l]" if "controllerLabel c = l" for c l
    using assms that by (auto simp: observed_def)
  note steps = extends_bindIO extends_wrapErr
  have "extends log (configureReconciler pl mgr cs repo ns ic up npu en sync ad)
    ([''service''] @ [''deployment''] @ [''secret''] @ [''redirect''] @ ([''index''] @ [''loadbalancer-configmap'']) @
     [''maintenance''])"
    unfolding configureReconciler_def SetupWithManager_Service_def SetupWithManager_Deployment_def
      SetupWithManager_EcosystemCertificate_def SetupWithManager_Redirect_def SetupWithManager_LoadBalancer_def
      SetupWithManager_Maintenance_def
    by (intro steps complete) (use assms in \<open>auto simp: controllerLabel_def newController_def observed_def\<close>)
  then show ?thesis by simp
qed

lemma configureManager_extends:
  assumes "observed log mgr"
  shows "extends log (configureManager pl mgr cs repo ns ic up npu en sync ad)
    [''service'', ''deployment'', ''secret'', ''redirect'', ''index'', ''loadbalancer-configmap'', ''maintenance'',
     ''healthz'', ''readyz'']"
proof -
  have "extends log (configureManager pl mgr cs repo ns ic up npu en sync ad)
    ([''service'', ''deployment'', ''secret'', ''redirect'', ''index'', ''loadbalancer-configmap'', ''maintenance''] @
     ([''healthz''] @ [''readyz'']))"
    unfolding configureManager_def addChecks_def
    by (intro extends_bindIO extends_wrapErr configureReconciler_extends [OF assms])
      (use assms in \<open>auto simp: observed_def\<close>)
  then show ?thesis by simp
qed

lemma configureAndStart_extends:
  assumes "observed log mgr"
  shows "extends log (configureAndStart pl env ns mgr cs repo c u sync)
    ([''service'', ''deployment'', ''secret'', ''redirect'', ''index'', ''loadbalancer-configmap'', ''maintenance'',
      ''healthz'', ''readyz''] @ [''start''])"
  unfolding configureAndStart_def startK8sManager_def
  by (auto split: sum.split prod.split option.split
      intro!: extends_fail extends_bindIO extends_wrapErr configureManager_extends [OF assms] simp del: append.simps)
    (use assms in \<open>simp add: observed_def\<close>)

lemma startManager_extends:
  assumes "\<And>ns mgr cs repo c u sync. observed log mgr \<Longrightarrow> extends log (configureAndStart pl env ns mgr cs repo c u sync) xs"
  shows "extends log (startManager pl env) (''runnable'' # ''runnable'' # xs)"
proof (cases "ReadWatchNamespace env")
  case (Inl err)
  then show ?thesis by (simp add: startManager_def extending)
next
  case (Inr ns)
  have add: "extends log (mg_Add mgr r) [''runnable'']" if "pl_NewManager pl opts w = (Ret mgr, w')" for mgr r opts w w'
    using managers [OF that] by (simp add: observed_def)
  have quiet: "extends log (pl_NewManager pl opts) []" "extends log (pl_NewTraefik pl) []" "extends log (pl_NewDogus pl) []"
    for opts
    by (auto intro!: extends_quiet simp: new_manager new_clients)
  have "extends log (getK8sClientSet pl ns) ([] @ [])"
    unfolding getK8sClientSet_def
    by (rule extends_bindIO, rule extends_wrapErr, rule extends_quiet, rule new_clients, rule extends_ret)
  then have clients: "extends log (getK8sClientSet pl ns) []" by simp
  have "extends log (startManager pl env) ([] @ [] @ [] @ [''runnable''] @ [''runnable''] @ [] @ xs)"
    unfolding startManager_def Inr sum.case Let_def
      handleCertificateSynchronization_def handleSelfsignedCertificateUpdates_def
    by (intro extends_bindIO extends_wrapErr quiet clients assms) (auto intro: add managers)
  then show ?thesis by simp
qed

end

definition policyEnvironment :: "environment \<Rightarrow> bool" where
  "policyEnvironment env \<longleftrightarrow> env ''NETWORK_POLICIES_CIDR'' \<noteq> None \<and>
     (\<exists>s. env ''NETWORK_POLICIES_ENABLED'' = Some s \<and>
        s \<in> {''1'', ''t'', ''T'', ''TRUE'', ''true'', ''True'', ''0'', ''f'', ''F'', ''FALSE'', ''false'', ''False''})"

lemma policyEnvironment_read:
  "policyEnvironment env \<longleftrightarrow> \<not> isl (ReadNetworkPolicyCIDR env) \<and> snd (ReadNetworkPolicyEnabled env) = None"
  by (auto simp: policyEnvironment_def ReadNetworkPolicyCIDR_def networkPolicyCIDREnvVar_def
      ReadNetworkPolicyEnabled_def networkPolicyEnabledEnvVar_def parseBool_def split: option.split)

lemma configureAndStart_refuses:
  "\<not> policyEnvironment env \<Longrightarrow> \<exists>e. configureAndStart pl env ns mgr cs repo c u sync = fail e"
  by (auto simp: policyEnvironment_read configureAndStart_def split: sum.split prod.split option.split)

text \<open>A program that follows every sequence with a given beginning never returns.\<close>

lemma extends_any_fails:
  fixes log :: "'w \<Rightarrow> string list"
  assumes "\<And>xs. extends log m (ys @ xs)"
  shows "fst (m w) \<noteq> Ret x" and "\<exists>k \<le> length ys. log (snd (m w)) = log w @ take k ys"
proof -
  have full: "log (snd (m w)) = log w @ ys @ xs" if "fst (m w) = Ret x" for xs
    using assms [of xs] that unfolding extends_def by (metis take_all)
  then show "fst (m w) \<noteq> Ret x"
    by (metis append_Nil2 append_same_eq same_append_eq not_Cons_self2)
  obtain k where "log (snd (m w)) = log w @ take k ys"
    using assms [of "[]"] unfolding extends_def by auto
  then show "\<exists>k \<le> length ys. log (snd (m w)) = log w @ take k ys"
    by (intro exI [of _ "min k (length ys)"]) (simp add: min_def)
qed

lemma startManager_refuses:
  assumes "observed_platform pl log" and "env ''WATCH_NAMESPACE'' = None \<or> \<not> policyEnvironment env"
  shows "extends log (startManager pl env) ([''runnable'', ''runnable''] @ xs)"
  using assms(2)
proof
  assume "env ''WATCH_NAMESPACE'' = None"
  then show ?thesis by (simp add: startManager_def ReadWatchNamespace_def namespaceEnvVar_def extending)
next
  assume bad: "\<not> policyEnvironment env"
  have "extends log (configureAndStart pl env ns mgr cs repo c u sync) xs" for ns mgr cs repo c u sync
    using configureAndStart_refuses [OF bad, of pl ns mgr cs repo c u sync] by (auto simp: extending)
  then show ?thesis using observed_platform.startManager_extends [OF assms(1)] by simp
qed

subsection \<open>The platform of the reference cluster\<close>

text \<open>The manager notes what it is given as an event.\<close>

definition clusterManager :: "cluster k8sManager" where
  "clusterManager =
     \<lparr>mg_Complete = (\<lambda>c. recordEvent (controllerLabel c)), mg_IndexField = (\<lambda>_ _ _. recordEvent ''index''),
      mg_Add = (\<lambda>_. recordEvent ''runnable''), mg_AddHealthzCheck = recordEvent, mg_AddReadyzCheck = recordEvent,
      mg_Start = recordEvent ''start'',
      mg_GetClient =
        \<lparr>cl_GetService = (\<lambda>(_, n). readObject serviceView n), cl_GetDeployment = (\<lambda>(_, n). readObject k_deployments n),
         cl_GetConfigMap = getConfigMap, cl_ListIndexed = listServices, cl_ListServices = listAllServices,
         cl_UpdateService = c_update serviceClient, cl_SetControllerReference = exampleOwner\<rparr>,
      mg_EventfDogu = (\<lambda>_ e. recordEvent (ev_message e)), mg_EventfService = (\<lambda>_ e. recordEvent (ev_message e))\<rparr>"

definition clusterClients :: "cluster kubernetesClients" where
  "clusterClients =
     \<lparr>kc_Secrets = (\<lambda>_. secretClient), kc_Services = (\<lambda>_. serviceClient), kc_Ingresses = (\<lambda>_. ingressClient),
      kc_NetworkPolicies = (\<lambda>_. networkPolicyClient), kc_Deployments = (\<lambda>_. readObject k_deployments), kc_WatchDeployments = (\<lambda>_ _. ret ())\<rparr>"

definition clusterPlatform :: "(cluster, clusterConfig) platform" where
  "clusterPlatform =
     \<lparr>pl_NewManager = (\<lambda>_. ret clusterManager), pl_NewForConfig = ret clusterClients,
      pl_NewTraefik = ret clusterTraefik, pl_NewDogus = ret (\<lambda>_. readObject k_dogus),
      pl_NewGlobalConfigRepository = (\<lambda>_. clusterConfigRepo), pl_WatchGlobalConfig = (\<lambda>_ _. ret ()),
      pl_NewMaintenanceModeAdapter = (\<lambda>_ _. maintenanceStatus), pl_MaintenanceConfigMapName = ''maintenance'',
      pl_AnnotationChangedPredicate = globalConfigPredicate, pl_configOps = clusterConfigOps, pl_x509 = exampleX509,
      pl_generate = exampleGenerate, pl_Now = (\<lambda>w. int (k_revision w)), pl_retry = exampleRetry,
      pl_onConflict = retryTimes 3, pl_portsJson = exampleJson, pl_ingressJson = exampleIngressJson,
      pl_libraries = exampleLibraries, pl_mapOrder = sortedOrder, pl_newAddress = 0\<rparr>"

definition eventLog :: "cluster \<Rightarrow> string list" where
  "eventLog w = rev (k_events w)"

interpretation startup: observed_platform clusterPlatform eventLog
proof unfold_locales
  have note_event: "extends eventLog (recordEvent x) [x]" for x
    by (rule extends_one) (simp add: recordEvent_def eventLog_def)
  show "observed eventLog mgr" if "pl_NewManager clusterPlatform opts w = (Ret mgr, w')" for opts w mgr w'
    using that by (auto simp: clusterPlatform_def ret_run observed_def clusterManager_def intro: note_event)
qed (simp_all add: clusterPlatform_def ret_run)

definition clusterClientSet :: "string \<Rightarrow> cluster k8sClientSet" where
  "clusterClientSet ns =
     \<lparr>ks_namespace = ns, ks_k8sClient = clusterClients, ks_secretClient = secretClient,
      ks_serviceClient = serviceClient, ks_ingressClient = ingressClient, ks_networkPolicyClient = networkPolicyClient\<rparr>"

text \<open>
  What the start-up assembles from these clients are the components that the interpretations of the
  other theories are about.
\<close>

lemma assembled_components:
  "assembledController ''k8s-ces-gateway'' ''ecosystem'' (clusterClientSet ''ecosystem'') clusterTraefik = exampleController"
  "assembledUpdater clusterPlatform ''ecosystem'' clusterManager (clusterClientSet ''ecosystem'') clusterTraefik
     (\<lambda>_. readObject k_dogus) exampleController = exampleUpdater"
  "NewSelfsignedCertificateUpdater (pl_configOps clusterPlatform) (pl_generate clusterPlatform)
     (pl_WatchGlobalConfig clusterPlatform ''ecosystem'') (pl_Now clusterPlatform) ''ecosystem'' clusterConfigRepo
     (ks_secretClient (clusterClientSet ''ecosystem'')) = clusterUpdater"
  "getK8sClientSet clusterPlatform ns = ret (clusterClientSet ns)"
  by (simp_all add: assembledController_def exampleController_def exampleDependencies_def clusterClientSet_def
      clusterTraefik_def IngressClassName_def assembledUpdater_def NewIngressUpdater_def NewDeploymentReadyChecker_def clusterChecker_def exampleUpdater_def
      NewMiddlewareManager_def exampleManager_def clusterPlatform_def clusterManager_def clusterClients_def
      clusterUpdater_def getK8sClientSet_def fun_eq_iff io_simps ret_run)

subsection \<open>Property\<close>

lemma startManager_sequence:
  assumes "observed_platform pl log"
  shows "\<exists>k. log (snd (startManager pl env w)) = log w @ take k [''runnable'', ''runnable'', ''service'', ''deployment'',
        ''secret'', ''redirect'', ''index'', ''loadbalancer-configmap'', ''maintenance'', ''healthz'', ''readyz'', ''start''] \<and>
      (fst (startManager pl env w) = Ret () \<longrightarrow> k = 12) \<and>
      (env ''WATCH_NAMESPACE'' = None \<or> \<not> policyEnvironment env \<longrightarrow> k \<le> 2 \<and> fst (startManager pl env w) \<noteq> Ret ())"
proof (cases "env ''WATCH_NAMESPACE'' = None \<or> \<not> policyEnvironment env")
  case True
  obtain k where k: "k \<le> length [''runnable'', ''runnable'']"
    "log (snd (startManager pl env w)) = log w @ take k [''runnable'', ''runnable'']"
    using extends_any_fails(2) [OF startManager_refuses [OF assms True]] by blast
  moreover have "fst (startManager pl env w) \<noteq> Ret ()"
    by (rule extends_any_fails(1) [OF startManager_refuses [OF assms True]])
  moreover have "k \<in> {0, 1, 2}" using k(1) by auto
  ultimately show ?thesis by (intro exI [of _ k]) auto
next
  case False
  obtain k where "log (snd (startManager pl env w)) = log w @ take k [''runnable'', ''runnable'', ''service'', ''deployment'',
      ''secret'', ''redirect'', ''index'', ''loadbalancer-configmap'', ''maintenance'', ''healthz'', ''readyz'', ''start'']"
    "fst (startManager pl env w) = Ret () \<longrightarrow> 12 \<le> k"
    using observed_platform.startManager_extends [OF assms observed_platform.configureAndStart_extends [OF assms]]
    unfolding extends_def by force
  then show ?thesis using False by (intro exI [of _ "min k 12"]) (auto simp: min_def)
qed

definition exampleEnvironment :: environment where
  "exampleEnvironment = [''WATCH_NAMESPACE'' \<mapsto> ''ecosystem'', ''INGRESS_CONTROLLER'' \<mapsto> ''k8s-ces-gateway'',
     ''NETWORK_POLICIES_CIDR'' \<mapsto> ''0.0.0.0/0'', ''NETWORK_POLICIES_ENABLED'' \<mapsto> ''true'']"

lemma startup_environment:
  "ReadWatchNamespace exampleEnvironment = Inr ''ecosystem''" "ReadNetworkPolicyCIDR exampleEnvironment = Inr ''0.0.0.0/0''"
  "ReadNetworkPolicyEnabled exampleEnvironment = (True, None)"
  by (simp_all add: ReadWatchNamespace_def namespaceEnvVar_def ReadNetworkPolicyCIDR_def networkPolicyCIDREnvVar_def
      ReadNetworkPolicyEnabled_def networkPolicyEnabledEnvVar_def parseBool_def exampleEnvironment_def)

lemma clusterPlatform_run:
  "pl_NewManager clusterPlatform opts = ret clusterManager" "pl_NewTraefik clusterPlatform = ret clusterTraefik"
  "pl_NewDogus clusterPlatform = ret (\<lambda>_. readObject k_dogus)"
  by (simp_all add: clusterPlatform_def)

lemma clusterManager_run:
  "mg_Complete clusterManager c = recordEvent (controllerLabel c)" "mg_IndexField clusterManager k n f = recordEvent ''index''"
  "mg_Add clusterManager r = recordEvent ''runnable''" "mg_AddHealthzCheck clusterManager n = recordEvent n"
  "mg_AddReadyzCheck clusterManager n = recordEvent n" "mg_Start clusterManager = recordEvent ''start''"
  by (simp_all add: clusterManager_def)

text \<open>
  Property C14. Whatever fails, the process follows one order: the two background jobs, the six
  controllers (the load balancer controller after the index it needs), the health checks, and only
  then the manager starts; it ends with status 0 only if all of it happened.  Without
  \<open>WATCH_NAMESPACE\<close>, \<open>NETWORK_POLICIES_CIDR\<close> or a \<open>NETWORK_POLICIES_ENABLED\<close> that is a boolean, it
  does not get as far as the first controller, and with a \<open>LOG_LEVEL\<close> that is no level it ends with
  status 1 before anything happened.
\<close>

theorem startup_sequence:
  assumes "observed_platform pl log"
  shows "\<exists>k. log (snd (process parseLevel lvl newLogger pl env w)) = log w @ take k [''runnable'', ''runnable'', ''service'',
        ''deployment'', ''secret'', ''redirect'', ''index'', ''loadbalancer-configmap'', ''maintenance'', ''healthz'', ''readyz'',
        ''start''] \<and>
      (fst (process parseLevel lvl newLogger pl env w) = Ret 0 \<longrightarrow> k = 12) \<and>
      (env ''WATCH_NAMESPACE'' = None \<or> \<not> policyEnvironment env \<longrightarrow>
         k \<le> 2 \<and> fst (process parseLevel lvl newLogger pl env w) \<noteq> Ret 0) \<and>
      ((\<exists>s. env ''LOG_LEVEL'' = Some s \<and> isl (parseLevel s)) \<longrightarrow>
         k = 0 \<and> fst (process parseLevel lvl newLogger pl env w) = Ret 1)"
proof (cases "\<exists>s. env ''LOG_LEVEL'' = Some s \<and> isl (parseLevel s)")
  case True
  then have "fst (ConfigureLogger parseLevel lvl newLogger env \<lparr>lo_controller = None, lo_library = None\<rparr>) \<noteq> None"
    by (simp only: ConfigureLogger_fails_iff)
  then have "process parseLevel lvl newLogger pl env = ret 1" by (auto simp only: process_def init_def option.case)
  then show ?thesis by (intro exI [of _ 0]) (simp add: ret_run)
next
  case False
  then have "\<not> (fst (ConfigureLogger parseLevel lvl newLogger env \<lparr>lo_controller = None, lo_library = None\<rparr>) \<noteq> None)"
    by (subst ConfigureLogger_fails_iff)
  then have run: "process parseLevel lvl newLogger pl env = main pl env"
    by (simp only: process_def init_def not_not option.case)
  have "snd (main pl env w) = snd (startManager pl env w)"
    "fst (main pl env w) = Ret 0 \<longleftrightarrow> fst (startManager pl env w) = Ret ()"
    by (cases "startManager pl env w"; cases "fst (startManager pl env w)"; simp add: main_def io_simps)+
  with startManager_sequence [OF assms, of env w] False show ?thesis unfolding run by (simp only: simp_thms)
qed

theorem startup_sequence_witness:
  "\<exists>w'. process Inr ''error'' (\<lambda>_ _ _. ret ()) clusterPlatform exampleEnvironment emptyCluster = (Ret 0, w') \<and>
     eventLog w' = [''runnable'', ''runnable'', ''service'', ''deployment'', ''secret'', ''redirect'', ''index'',
       ''loadbalancer-configmap'', ''maintenance'', ''healthz'', ''readyz'', ''start'']"
proof -
  have run: "fst (startManager clusterPlatform exampleEnvironment emptyCluster) = Ret ()"
    by (simp add: startManager_def startup_environment clusterPlatform_run assembled_components(4) clusterManager_run
        handleCertificateSynchronization_def handleSelfsignedCertificateUpdates_def configureAndStart_def
        configureManager_def configureReconciler_def SetupWithManager_Service_def SetupWithManager_Deployment_def
        SetupWithManager_EcosystemCertificate_def SetupWithManager_Redirect_def SetupWithManager_LoadBalancer_def
        SetupWithManager_Maintenance_def addChecks_def startK8sManager_def Let_def io_simps recordEvent_def)
  then have "fst (process Inr ''error'' (\<lambda>_ _ _. ret ()) clusterPlatform exampleEnvironment emptyCluster) = Ret 0"
    by (cases "startManager clusterPlatform exampleEnvironment emptyCluster")
      (simp add: process_def init_def ConfigureLogger_def getLogLevelFromEnv_def namespaceLogLevel_def
        exampleEnvironment_def main_def Let_def io_simps)
  then show ?thesis
    using startup_sequence [OF startup.observed_platform_axioms, of Inr "''error''" "\<lambda>_ _ _. ret ()" exampleEnvironment emptyCluster]
    by (cases "process Inr ''error'' (\<lambda>_ _ _. ret ()) clusterPlatform exampleEnvironment emptyCluster")
      (auto simp: eventLog_def emptyCluster_def)
qed

end
