(* ===== verification/Panic_Free.thy ===== *)
theory Panic_Free
  imports Manager_Correct
begin

section \<open>No reconcile panics\<close>

text \<open>
  The reconcilers work on objects that anybody may have written: annotations, config maps, services.
  Whatever they find there, and whatever the API server answers, they return or report an error.
  The locale \<open>steady_platform\<close> says that the clients and the library do not panic of themselves; the
  closure rules of \<open>no_panic\<close> carry this through every component.

  The exception is the network policy handler: it indexes the first rule and the first peer of the
  stored policy without looking (lemma \<open>ruleless_policy_panics\<close>), and is in order as long as the
  policy has the shape that the handler itself gives it (\<open>wfPolicy\<close>).
\<close>

subsection \<open>Closure\<close>

lemma noPanic_forEach [no_panic]: "(\<And>x. noPanic (body x)) \<Longrightarrow> noPanic (forEach body xs)"
  by (induction xs) (simp_all add: no_panic)

lemma noPanic_if [no_panic]: "noPanic a \<Longrightarrow> noPanic b \<Longrightarrow> noPanic (if c then a else b)"
  by simp

lemma noPanic_option [no_panic]: "noPanic a \<Longrightarrow> (\<And>x. noPanic (f x)) \<Longrightarrow> noPanic (case x of None \<Rightarrow> a | Some x \<Rightarrow> f x)"
  by (cases x) simp_all

lemma noPanic_sum [no_panic]: "(\<And>e. noPanic (f e)) \<Longrightarrow> (\<And>x. noPanic (g x)) \<Longrightarrow> noPanic (case s of Inl e \<Rightarrow> f e | Inr x \<Rightarrow> g x)"
  by (cases s) simp_all

lemma noPanic_prod [no_panic]: "(\<And>x y. noPanic (f x y)) \<Longrightarrow> noPanic (case p of (x, y) \<Rightarrow> f x y)"
  by (cases p) simp

definition steadyClient :: "('w, 'o) client \<Rightarrow> bool" where
  "steadyClient c \<longleftrightarrow>
     (\<forall>n x. noPanic (c_get c n) \<and> noPanic (c_create c x) \<and> noPanic (c_update c x) \<and> noPanic (c_delete c n))"

lemma steadyClientD [no_panic]:
  assumes "steadyClient c"
  shows "noPanic (c_get c n)" "noPanic (c_create c x)" "noPanic (c_update c x)" "noPanic (c_delete c n)"
  using assms by (auto simp: steadyClient_def)

text \<open>A configuration is applied to a load balancer whose annotations were set up when it was parsed.\<close>

lemma noPanic_upsertLoadBalancer:
  assumes "steadyClient (lr_SvcClient r)"
  shows "noPanic (upsertLoadBalancer libs a r ns cfg ports setOwner)"
proof -
  have applied: "\<exists>lb'. ApplyConfig a cfg lb = Ret lb'" if parsed: "snd (ParseLoadBalancer obj) = Some lb" for obj lb
    using ParseLoadBalancer_annotations [OF parsed] by (auto simp: ApplyConfig_def Let_def)
  have existing: "noPanic (case snd (ParseLoadBalancer (ServiceObject lbObj)) of
      None \<Rightarrow> fail e
    | Some lb \<Rightarrow> (case ApplyConfig a cfg lb of Panic \<Rightarrow> panic | Fail e \<Rightarrow> fail e | Ret lb1 \<Rightarrow> m lb1))"
    if "\<And>lb. noPanic (m lb)" for lbObj e m
    using applied [of "ServiceObject lbObj"] that by (fastforce intro: no_panic split: option.split outcome.split)
  show ?thesis
    unfolding upsertLoadBalancer_def Let_def
    by (rule noPanic_onErr, rule steadyClientD [OF assms], intro no_panic assms, rule existing, intro no_panic assms)
qed

lemma noPanic_ExposePorts [no_panic]:
  assumes "steadyClient (pe_ingressInterface p)" "\<And>ns. steadyClient (pe_IngressRouteTCPs p ns)"
    "\<And>ns. steadyClient (pe_IngressRouteUDPs p ns)"
  shows "noPanic (ExposePorts p ns ports)"
  unfolding ExposePorts_def exposePort_def getIngressRouteOwner_def upsertIngressRouteTCP_def upsertIngressRouteUDP_def
  by (intro no_panic assms)

lemma noPanic_upsertMiddleware [no_panic]: "steadyClient (mm_client m) \<Longrightarrow> noPanic (upsertMiddleware m c u x)"
  unfolding upsertMiddleware_def Let_def by (intro no_panic)

lemma noPanic_RedirectAlternativeFQDN [no_panic]:
  assumes "steadyClient (rd_ingressInterface i)" "steadyClient (rd_Middlewares i (rd_namespace i))"
  shows "noPanic (RedirectAlternativeFQDN ord i ns name fqdn alts setOwner)"
  unfolding RedirectAlternativeFQDN_def upsertIngress_def createRedirectMiddleware_def Let_def
    CreateOrUpdateAlternativeFQDNRedirectMiddleware_def
  by (intro no_panic assms) (simp add: assms)

lemma noPanic_UpsertIngressForService [no_panic]:
  assumes "steadyClient (iu_ingressInterface i)" "\<And>n. noPanic (iu_IsReady i n)" "\<And>d m. noPanic (iu_Eventf i d m)"
    "\<And>n. noPanic (iu_getDogu i n)" "\<And>n c os. noPanic (iu_createOrUpdateReplacePathMiddleware i n c os)"
    "noPanic (iu_GetStatus i)" "\<And>m. noPanic m \<Longrightarrow> noPanic (onConflict m)"
  shows "noPanic (UpsertIngressForService json onConflict i service)"
  unfolding UpsertIngressForService_def upsertIngressForCesService_def upsertMaintenanceModeIngressObject_def
    upsertDoguIsStartingIngressObject_def upsertDoguIngressObject_def rewriteOfCesService_def upsertIngressObject_def
    upsertIngressOnce_def Let_def
  by (intro no_panic assms)

lemma noPanic_rewrite [no_panic]:
  assumes "\<And>s. noPanic (sw_Update sw s)" "\<And>s m. noPanic (sw_Eventf sw s m)"
  shows "noPanic (rewrite sw ss active)"
proof -
  have "noPanic (rewriteServices sw ss active)"
    by (induction ss) (unfold rewriteServices.simps rewriteNonSimpleServiceRoute_def Let_def, intro no_panic assms; assumption)+
  then show ?thesis unfolding rewrite_def by (intro no_panic)
qed

subsection \<open>A platform that does not panic of itself\<close>

locale steady_platform =
  fixes pl :: "('w, 'g) platform" and mgr :: "'w k8sManager" and cs :: "'w k8sClientSet" and tk :: "'w traefikInterface"
    and repo :: "('w, 'g) GlobalConfigRepository" and dogus :: "string \<Rightarrow> string \<Rightarrow> ('w, Dogu) io"
  assumes api: "\<And>x. noPanic (cl_GetService (mg_GetClient mgr) x)" "\<And>x. noPanic (cl_GetDeployment (mg_GetClient mgr) x)"
      "\<And>x. noPanic (cl_GetConfigMap (mg_GetClient mgr) x)" "\<And>f v. noPanic (cl_ListIndexed (mg_GetClient mgr) f v)"
      "\<And>n. noPanic (cl_ListServices (mg_GetClient mgr) n)" "\<And>s. noPanic (cl_UpdateService (mg_GetClient mgr) s)"
    and events: "\<And>d m. noPanic (mg_EventfDogu mgr d m)" "\<And>s m. noPanic (mg_EventfService mgr s m)"
    and kube: "steadyClient (ks_secretClient cs)" "steadyClient (ks_serviceClient cs)" "steadyClient (ks_ingressClient cs)"
      "steadyClient (ks_networkPolicyClient cs)"
      "\<And>ns n. noPanic (kc_Deployments (ks_k8sClient cs) ns n)"
    and traefik: "\<And>ns. steadyClient (tk_IngressRouteTCPs tk ns)" "\<And>ns. steadyClient (tk_IngressRouteUDPs tk ns)"
      "\<And>ns. steadyClient (tk_Middlewares tk ns)"
    and configuration: "noPanic (gcr_Get repo)" "\<And>g. noPanic (gcr_Update repo g)"
    and dogu: "\<And>ns n. noPanic (dogus ns n)"
    and maintenance: "\<And>owner ns. noPanic (pl_NewMaintenanceModeAdapter pl owner ns)"
    and conflicts: "\<And>m. noPanic m \<Longrightarrow> noPanic (pl_onConflict pl m)"
    and retries: "\<And>n f m. noPanic m \<Longrightarrow> noPanic (rl_OnError (pl_retry pl) n f m)"
begin

lemma noPanic_updater:
  "noPanic (UpsertIngressForService json (pl_onConflict pl) (assembledUpdater pl ns mgr cs tk dogus c) service)"
  unfolding assembledUpdater_def NewIngressUpdater_def NewMiddlewareManager_def NewDeploymentReadyChecker_def
    IngressUpdaterDependencies.select_convs deploymentReadyChecker.select_convs
  by (rule noPanic_UpsertIngressForService, unfold ingressUpdater.select_convs IsReady_def deploymentReadyChecker.select_convs
      createOrUpdateReplacePathMiddleware_def)
    (intro no_panic kube events dogu maintenance conflicts; simp add: traefik)+

lemma noPanic_synchronize:
  "noPanic (Synchronize cfg (pl_retry pl) (NewCertificateSynchronizer (ks_secretClient cs) repo))"
  unfolding Synchronize_def updateInGlobalConfig_def updateInGlobalConfigOnce_def NewCertificateSynchronizer_def
    certificateSynchronizer.select_convs
  by (intro no_panic kube configuration retries)

lemma controller_clients:
  fixes name ns :: string
  defines "c \<equiv> assembledController name ns cs tk"
  shows "steadyClient (rd_ingressInterface (tc_IngressRedirector c))"
    "steadyClient (rd_Middlewares (tc_IngressRedirector c) (rd_namespace (tc_IngressRedirector c)))"
    "steadyClient (pe_ingressInterface (tc_PortExposer c))" "steadyClient (pe_IngressRouteTCPs (tc_PortExposer c) ns')"
    "steadyClient (pe_IngressRouteUDPs (tc_PortExposer c) ns')"
  by (simp_all add: c_def assembledController_def ParseIngressController_def NewTraefikController_def kube traefik Let_def)

lemma noPanic_service:
  assumes "\<And>s. noPanic (u s)" and "steadyClient (nph_networkPolicyInterface nph)"
  shows "noPanic (Reconcile_Service (NewServiceReconciler (cl_GetService (mg_GetClient mgr)) u
    (asNetworkPolicyUpdater json onConflict nph) False) req)"
  unfolding Reconcile_Service_def getService_def afterLookup_def dispatch_def handleUpsert_def handleDelete_def
    NewServiceReconciler_def asNetworkPolicyUpdater_def RemoveNetworkPolicy_def getNetworkPolicy_def
    serviceReconciler.select_convs NetworkPolicyUpdater.select_convs if_False simp_thms if_True
  by (intro no_panic api assms)

lemma noPanic_deployment:
  "(\<And>s. noPanic (u s)) \<Longrightarrow> noPanic (Reconcile_Deployment (NewDeploymentReconciler (mg_GetClient mgr) u) req)"
  unfolding Reconcile_Deployment_def getDeployment_def getDeploymentService_def NewDeploymentReconciler_def
    deploymentReconciler.select_convs
  by (intro no_panic api)

lemma noPanic_redirect:
  assumes "\<And>ns name fqdn alts own. noPanic (redirect ns name fqdn alts own)"
  shows "noPanic (Reconcile_Redirect cfg \<lparr>rr_GetConfigMap = cl_GetConfigMap (mg_GetClient mgr),
    rr_SetControllerReference = owner, rr_GlobalConfigGetter = repo, rr_RedirectAlternativeFQDN = redirect,
    rr_Namespace = ns\<rparr> req)"
  unfolding Reconcile_Redirect_def RedirectReconciler.select_convs Let_def
  by (intro no_panic api configuration assms)

lemma noPanic_loadbalancer:
  assumes "\<And>ns ports. noPanic (ic_ExposePorts ic ns ports)"
  shows "noPanic (Reconcile_LoadBalancer libs a \<lparr>lr_GetConfigMap = cl_GetConfigMap (mg_GetClient mgr),
    lr_ListIndexed = cl_ListIndexed (mg_GetClient mgr), lr_SetControllerReference = owner,
    lr_IngressController = ic, lr_SvcClient = ks_serviceClient cs\<rparr> req)"
  unfolding Reconcile_LoadBalancer_def getExposedServices_def LoadBalancerReconciler.select_convs Let_def
  by (intro no_panic noPanic_upsertLoadBalancer api assms) (simp add: kube)

lemma noPanic_maintenance:
  assumes "\<And>s. noPanic (u s)"
  shows "noPanic (Reconcile_Maintenance (NewMaintenanceModeController (cl_ListServices (mg_GetClient mgr))
    (cl_UpdateService (mg_GetClient mgr)) ns u (pl_NewMaintenanceModeAdapter pl o' ns) (mg_EventfService mgr)) req)"
  unfolding Reconcile_Maintenance_def handleMaintenanceModeUpdate_def setMaintenanceMode_def getAllServices_def
    NewMaintenanceModeController_def maintenanceModeController.select_convs Let_def
  by (intro no_panic api assms maintenance) (simp_all add: api events)

end

subsection \<open>The reference cluster\<close>

lemma steadyClient_memClient: "steadyClient (memClient view put meta adm)"
  by (simp add: steadyClient_def noPanic_def memClient_def split: option.split)

lemma noPanic_retryTimes [no_panic]: "noPanic m \<Longrightarrow> noPanic (retryTimes n m)"
proof (induction n)
  case 0
  then show ?case by (simp add: noPanic_def)
next
  case (Suc n)
  then have rest: "fst (retryTimes n m v) \<noteq> Panic" for v by (simp add: noPanic_def)
  show ?case
    unfolding noPanic_def
  proof
    fix w
    obtain r w' where "m w = (r, w')" by (cases "m w")
    with rest [of w'] Suc.prems show "fst (retryTimes (Suc n) m w) \<noteq> Panic"
      by (cases r) (auto simp: noPanic_def dest: spec [of _ w])
  qed
qed

lemma noPanic_readers [no_panic]:
  "noPanic (readObject view n)" "noPanic (getConfigMap x)" "noPanic (listServices f v)" "noPanic (listAllServices ns)"
  "noPanic (recordEvent m)" "noPanic maintenanceStatus" "noPanic (gcr_Update clusterConfigRepo g)"
  by (simp_all add: noPanic_def readObject_def getConfigMap_def listServices_def listAllServices_def recordEvent_def
      maintenanceStatus_def clusterConfigRepo_def split: option.split prod.split)

interpretation steady: steady_platform clusterPlatform clusterManager "clusterClientSet ns" clusterTraefik clusterConfigRepo
    "\<lambda>_. readObject k_dogus"
proof unfold_locales
  have clients: "steadyClient secretClient" "steadyClient serviceClient" "steadyClient ingressClient"
    "steadyClient networkPolicyClient" "steadyClient routeTCPClient" "steadyClient routeUDPClient"
    "steadyClient middlewareClient"
    by (simp_all add: secretClient_def serviceClient_def ingressClient_def networkPolicyClient_def routeTCPClient_def
        routeUDPClient_def middlewareClient_def steadyClient_memClient)
  show "steadyClient (ks_secretClient (clusterClientSet ns))" "steadyClient (ks_serviceClient (clusterClientSet ns))"
    "steadyClient (ks_ingressClient (clusterClientSet ns))" "steadyClient (ks_networkPolicyClient (clusterClientSet ns))"
    "steadyClient (tk_IngressRouteTCPs clusterTraefik n)" "steadyClient (tk_IngressRouteUDPs clusterTraefik n)"
    "steadyClient (tk_Middlewares clusterTraefik n)" for n
    by (simp_all add: clusterClientSet_def clusterTraefik_def clients)
  show "noPanic (cl_UpdateService (mg_GetClient clusterManager) x)" for x
    using clients by (simp add: clusterManager_def steadyClientD)
qed (auto simp: clusterManager_def clusterClientSet_def clusterClients_def clusterPlatform_def clusterChecker_def
    exampleRetry_def noPanic_cluster intro: no_panic)

subsection \<open>Property\<close>

text \<open>
  Property C5. Of the six reconcilers as the start-up assembles them, none panics on any request in
  any state of the cluster, however malformed the stored objects, annotations and configuration
  values are and whatever the API server answers; for the service reconciler this is stated with
  network policies disabled.
\<close>

theorem reconciles_never_panic:
  assumes "steady_platform pl mgr cs tk repo dogus"
    and "c = assembledController name ns cs tk" and "ic = asIngressController (pl_mapOrder pl) c"
    and "u = UpsertIngressForService (pl_ingressJson pl) (pl_onConflict pl) (assembledUpdater pl ns mgr cs tk dogus c)"
    and "nph = NewNetworkPolicyHandler (ks_networkPolicyClient cs) (GetName c) cidr"
  shows "noPanic (Reconcile_Service (NewServiceReconciler (cl_GetService (mg_GetClient mgr)) u
      (asNetworkPolicyUpdater (pl_portsJson pl) (pl_onConflict pl) nph) False) req) \<and>
    noPanic (Reconcile_Deployment (NewDeploymentReconciler (mg_GetClient mgr) u) req) \<and>
    noPanic (Reconcile_EcosystemCertificate (NewEcosystemCertificateReconciler
      (Synchronize (pl_configOps pl) (pl_retry pl) (NewCertificateSynchronizer (ks_secretClient cs) repo))) req) \<and>
    noPanic (Reconcile_Redirect (pl_configOps pl) \<lparr>rr_GetConfigMap = cl_GetConfigMap (mg_GetClient mgr),
      rr_SetControllerReference = cl_SetControllerReference (mg_GetClient mgr), rr_GlobalConfigGetter = repo,
      rr_RedirectAlternativeFQDN = ic_RedirectAlternativeFQDN ic, rr_Namespace = ns\<rparr> req) \<and>
    noPanic (Reconcile_LoadBalancer (pl_libraries pl) (pl_newAddress pl)
      \<lparr>lr_GetConfigMap = cl_GetConfigMap (mg_GetClient mgr), lr_ListIndexed = cl_ListIndexed (mg_GetClient mgr),
       lr_SetControllerReference = cl_SetControllerReference (mg_GetClient mgr), lr_IngressController = ic,
       lr_SvcClient = ks_serviceClient cs\<rparr> req) \<and>
    noPanic (Reconcile_Maintenance (NewMaintenanceModeController (cl_ListServices (mg_GetClient mgr))
      (cl_UpdateService (mg_GetClient mgr)) ns u (pl_NewMaintenanceModeAdapter pl ServiceDiscoveryMaintenanceOwner ns)
      (mg_EventfService mgr)) req)"
proof -
  note clients = steady_platform.controller_clients [OF assms(1), of name ns, folded assms(2)]
  have u: "noPanic (u s)" for s
    unfolding assms(4) by (rule steady_platform.noPanic_updater [OF assms(1)])
  have ic: "noPanic (ic_RedirectAlternativeFQDN ic n m f as own)" "noPanic (ic_ExposePorts ic n ps)" for n m f as own ps
    unfolding assms(3) asIngressController_def IngressController.select_convs by (intro no_panic clients)+
  have nph: "steadyClient (nph_networkPolicyInterface nph)"
    using steady_platform.kube(4) [OF assms(1)] by (simp add: assms(5) NewNetworkPolicyHandler_def)
  show ?thesis
    unfolding Reconcile_EcosystemCertificate_def NewEcosystemCertificateReconciler_def
      ecosystemCertificateReconciler.select_convs
    by (intro conjI steady_platform.noPanic_service [OF assms(1) u nph] steady_platform.noPanic_deployment [OF assms(1) u]
        steady_platform.noPanic_synchronize [OF assms(1)] steady_platform.noPanic_redirect [OF assms(1) ic(1)]
        steady_platform.noPanic_loadbalancer [OF assms(1) ic(2)] steady_platform.noPanic_maintenance [OF assms(1) u])
qed

theorem reconciles_never_panic_witness:
  "noPanic (Reconcile_LoadBalancer exampleLibraries 0 exampleLbReconciler (''ecosystem'', ''ces-loadbalancer-config''))"
proof -
  have lb: "\<lparr>lr_GetConfigMap = cl_GetConfigMap (mg_GetClient clusterManager),
      lr_ListIndexed = cl_ListIndexed (mg_GetClient clusterManager),
      lr_SetControllerReference = cl_SetControllerReference (mg_GetClient clusterManager),
      lr_IngressController = asIngressController sortedOrder exampleController,
      lr_SvcClient = ks_serviceClient (clusterClientSet ''ecosystem'')\<rparr> = exampleLbReconciler"
    by (simp add: exampleLbReconciler_def clusterManager_def clusterClientSet_def)
  have pl: "pl_libraries clusterPlatform = exampleLibraries" "pl_newAddress clusterPlatform = 0"
    "pl_mapOrder clusterPlatform = sortedOrder"
    by (simp_all add: clusterPlatform_def)
  show ?thesis
    using reconciles_never_panic [OF steady.steady_platform_axioms assembled_components(1) [symmetric] refl refl refl,
        unfolded pl lb] by blast
qed

subsection \<open>Where a panic remains\<close>

lemma ruleless_policy_panics:
  assumes "policy_store json onConflict nph view put adm" and "view w (policyName nph) = Some P" and "np_Ingress P = []"
    and "annotation P (getServicePortMappingAnnotationKey serviceName) = None" and "ports \<noteq> []"
  shows "updateNetworkPolicyOnce json nph serviceName ports w = (Panic, w)"
proof -
  obtain out where "js_marshal json ports = Inr out" using portsCodecD [OF policy_store.codec [OF assms(1)]] by blast
  then show ?thesis
    using assms object_store.get_found [OF policy_store.store [OF assms(1)]]
    by (simp add: updateNetworkPolicyOnce_def getNetworkPolicy_def createMappingAnnotation_def Let_def io_simps)
qed

end
