(* ===== verification/Write_Sets.thy ===== *)
theory Write_Sets
  imports Panic_Free
begin

section \<open>What the reconcilers write\<close>

text \<open>
  The reconcilers share one cluster.  Which kinds of objects each of them may change is stated by
  frames: a program leaves a view of the world alone (\<open>leaves\<close>) if the view is the same after it
  ran, whatever its outcome.  The locale \<open>quiet_reads\<close> says that reading does not change what is
  viewed; the rules of the collection \<open>frame\<close> then reduce a whole reconcile to the few write calls it
  is made of.
\<close>

subsection \<open>Frames\<close>

definition leaves :: "('w \<Rightarrow> 'f) \<Rightarrow> ('w, 'a) io \<Rightarrow> bool" where
  "leaves f m \<longleftrightarrow> (\<forall>w. f (snd (m w)) = f w)"

named_theorems frame \<open>closure of the programs that leave a view of the world alone\<close>

lemma leaves_ret [frame]: "leaves f (ret x)"
  by (simp add: leaves_def ret_run)

lemma leaves_fail [frame]: "leaves f (fail e)"
  by (simp add: leaves_def fail_run)

lemma leaves_panic [frame]: "leaves f panic"
  by (simp add: leaves_def panic_def)

lemma leaves_onErr [frame]:
  assumes "leaves f m" and "\<And>e. leaves f (h e)" and "\<And>x. leaves f (k x)"
  shows "leaves f (onErr m h k)"
  unfolding leaves_def
proof
  fix w
  obtain r w' where run: "m w = (r, w')" by (cases "m w")
  then have "f w' = f w" using assms(1) by (metis leaves_def snd_conv)
  with run assms(2,3) show "f (snd (onErr m h k w)) = f w"
    unfolding leaves_def by (cases r) (simp_all add: io_simps)
qed

lemma leaves_bindIO [frame]: "leaves f m \<Longrightarrow> (\<And>x. leaves f (k x)) \<Longrightarrow> leaves f (bindIO m k)"
  unfolding bindIO_def by (intro frame)

lemma leaves_wrapErr [frame]: "leaves f m \<Longrightarrow> leaves f (wrapErr s m)"
  unfolding wrapErr_def by (intro frame)

lemma leaves_liftSum [frame]: "leaves f (liftSum r)"
  by (cases r) (simp_all add: frame)

lemma leaves_forEach [frame]: "(\<And>x. leaves f (body x)) \<Longrightarrow> leaves f (forEach body xs)"
  by (induction xs) (simp_all add: frame)

lemma leaves_if [frame]: "leaves f a \<Longrightarrow> leaves f b \<Longrightarrow> leaves f (if c then a else b)"
  by simp

lemma leaves_option [frame]: "leaves f a \<Longrightarrow> (\<And>x. leaves f (g x)) \<Longrightarrow> leaves f (case x of None \<Rightarrow> a | Some x \<Rightarrow> g x)"
  by (cases x) simp_all

lemma leaves_sum [frame]: "(\<And>e. leaves f (g e)) \<Longrightarrow> (\<And>x. leaves f (h x)) \<Longrightarrow> leaves f (case s of Inl e \<Rightarrow> g e | Inr x \<Rightarrow> h x)"
  by (cases s) simp_all

lemma leaves_prod [frame]: "(\<And>x y. leaves f (g x y)) \<Longrightarrow> leaves f (case p of (x, y) \<Rightarrow> g x y)"
  by (cases p) simp

lemma leaves_list [frame]: "leaves f a \<Longrightarrow> (\<And>x xs. leaves f (g x xs)) \<Longrightarrow> leaves f (case xs of [] \<Rightarrow> a | x # xs \<Rightarrow> g x xs)"
  by (cases xs) simp_all

lemma leaves_outcome [frame]:
  "leaves f a \<Longrightarrow> (\<And>e. leaves f (g e)) \<Longrightarrow> (\<And>x. leaves f (h x)) \<Longrightarrow>
     leaves f (case r of Panic \<Rightarrow> a | Fail e \<Rightarrow> g e | Ret x \<Rightarrow> h x)"
  by (cases r) simp_all

text \<open>The write calls of a client: storing (create or update) and deleting.\<close>

definition leavesStores :: "('w \<Rightarrow> 'f) \<Rightarrow> ('w, 'o) client \<Rightarrow> bool" where
  "leavesStores f c \<longleftrightarrow> (\<forall>x. leaves f (c_create c x) \<and> leaves f (c_update c x))"

lemma leavesStoresD [frame]:
  assumes "leavesStores f c"
  shows "leaves f (c_create c x)" "leaves f (c_update c x)"
  using assms by (auto simp: leavesStores_def)

subsection \<open>The components\<close>

lemma leaves_upsertLoadBalancer [frame]:
  "leaves f (c_get (lr_SvcClient r) LoadbalancerName) \<Longrightarrow> leavesStores f (lr_SvcClient r) \<Longrightarrow>
     leaves f (upsertLoadBalancer libs a r ns cfg ports setOwner)"
  unfolding upsertLoadBalancer_def Let_def by (intro frame)

lemma leaves_ExposePorts [frame]:
  assumes "\<And>n. leaves f (c_get (pe_ingressInterface p) n)"
    "\<And>n. leaves f (c_get (pe_IngressRouteTCPs p ns) n)" "\<And>n. leaves f (c_get (pe_IngressRouteUDPs p ns) n)"
    "leavesStores f (pe_IngressRouteTCPs p ns)" "leavesStores f (pe_IngressRouteUDPs p ns)"
  shows "leaves f (ExposePorts p ns ports)"
  unfolding ExposePorts_def exposePort_def getIngressRouteOwner_def upsertIngressRouteTCP_def upsertIngressRouteUDP_def
  by (intro frame assms)

lemma leaves_upsertMiddleware [frame]:
  "(\<And>n. leaves f (c_get (mm_client m) n)) \<Longrightarrow> leavesStores f (mm_client m) \<Longrightarrow> leaves f (upsertMiddleware m c u x)"
  unfolding upsertMiddleware_def Let_def by (intro frame)

lemma leaves_RedirectAlternativeFQDN [frame]:
  assumes "\<And>n. leaves f (c_get (rd_ingressInterface i) n)" "\<And>n. leaves f (c_get (rd_Middlewares i (rd_namespace i)) n)"
    "leavesStores f (rd_ingressInterface i)" "\<And>n. leaves f (c_delete (rd_ingressInterface i) n)"
    "leavesStores f (rd_Middlewares i (rd_namespace i))"
  shows "leaves f (RedirectAlternativeFQDN ord i ns name fqdn alts setOwner)"
  unfolding RedirectAlternativeFQDN_def upsertIngress_def createRedirectMiddleware_def Let_def
    CreateOrUpdateAlternativeFQDNRedirectMiddleware_def
  by (intro frame assms) (simp_all add: assms)

lemma leaves_UpsertIngressForService [frame]:
  assumes "\<And>n. leaves f (c_get (iu_ingressInterface i) n)" "\<And>n. leaves f (iu_IsReady i n)"
    "\<And>n. leaves f (iu_getDogu i n)" "leaves f (iu_GetStatus i)" "\<And>m. leaves f m \<Longrightarrow> leaves f (onConflict m)"
    "leavesStores f (iu_ingressInterface i)" "\<And>d m. leaves f (iu_Eventf i d m)"
    "\<And>n c os. leaves f (iu_createOrUpdateReplacePathMiddleware i n c os)"
  shows "leaves f (UpsertIngressForService json onConflict i service)"
  unfolding UpsertIngressForService_def upsertIngressForCesService_def upsertMaintenanceModeIngressObject_def
    upsertDoguIsStartingIngressObject_def upsertDoguIngressObject_def rewriteOfCesService_def upsertIngressObject_def
    upsertIngressOnce_def Let_def
  by (intro frame assms)

lemma leaves_rewrite [frame]:
  assumes "\<And>s. leaves f (sw_Update sw s)" "\<And>s m. leaves f (sw_Eventf sw s m)"
  shows "leaves f (rewrite sw ss active)"
proof -
  have "leaves f (rewriteServices sw ss active)"
    by (induction ss) (unfold rewriteServices.simps rewriteNonSimpleServiceRoute_def Let_def, intro frame assms; assumption)+
  then show ?thesis unfolding rewrite_def by (intro frame)
qed

text \<open>The network policy handler.\<close>

lemma leaves_UpsertNetworkPolicies [frame]:
  assumes "\<And>n. leaves f (c_get (nph_networkPolicyInterface nph) n)" "leavesStores f (nph_networkPolicyInterface nph)"
    "\<And>m. leaves f m \<Longrightarrow> leaves f (onConflict m)"
  shows "leaves f (UpsertNetworkPoliciesForService json onConflict nph service)"
  unfolding UpsertNetworkPoliciesForService_def createNetworkPolicy_def updateNetworkPolicy_def
    updateNetworkPolicyOnce_def sendUpdate_def getNetworkPolicy_def Let_def
  by (intro frame assms)

lemma leaves_RemoveExposedPorts [frame]:
  assumes "\<And>n. leaves f (c_get (nph_networkPolicyInterface nph) n)" "leavesStores f (nph_networkPolicyInterface nph)"
    "\<And>m. leaves f m \<Longrightarrow> leaves f (onConflict m)"
  shows "leaves f (RemoveExposedPorts json onConflict nph n)"
  unfolding RemoveExposedPorts_def removeExposedPortsOnce_def getNetworkPolicy_def Let_def
  by (intro frame assms)

lemma leaves_RemoveNetworkPolicy [frame]:
  assumes "\<And>n. leaves f (c_get (nph_networkPolicyInterface nph) n)" "\<And>n. leaves f (c_delete (nph_networkPolicyInterface nph) n)"
  shows "leaves f (RemoveNetworkPolicy nph)"
  unfolding RemoveNetworkPolicy_def getNetworkPolicy_def by (intro frame assms)

subsection \<open>The reconcilers\<close>

locale quiet_reads =
  fixes pl :: "('w, 'g) platform" and mgr :: "'w k8sManager" and cs :: "'w k8sClientSet" and tk :: "'w traefikInterface"
    and repo :: "('w, 'g) GlobalConfigRepository" and dogus :: "string \<Rightarrow> string \<Rightarrow> ('w, Dogu) io" and f :: "'w \<Rightarrow> 'f"
  assumes api: "\<And>x. leaves f (cl_GetService (mg_GetClient mgr) x)" "\<And>x. leaves f (cl_GetDeployment (mg_GetClient mgr) x)"
      "\<And>x. leaves f (cl_GetConfigMap (mg_GetClient mgr) x)" "\<And>g v. leaves f (cl_ListIndexed (mg_GetClient mgr) g v)"
      "\<And>n. leaves f (cl_ListServices (mg_GetClient mgr) n)"
    and kube: "\<And>n. leaves f (c_get (ks_secretClient cs) n)" "\<And>n. leaves f (c_get (ks_serviceClient cs) n)"
      "\<And>n. leaves f (c_get (ks_ingressClient cs) n)" "\<And>n. leaves f (c_get (ks_networkPolicyClient cs) n)"
      "\<And>ns n. leaves f (kc_Deployments (ks_k8sClient cs) ns n)"
    and traefik: "\<And>ns n. leaves f (c_get (tk_IngressRouteTCPs tk ns) n)" "\<And>ns n. leaves f (c_get (tk_IngressRouteUDPs tk ns) n)"
      "\<And>ns n. leaves f (c_get (tk_Middlewares tk ns) n)"
    and configuration: "leaves f (gcr_Get repo)"
    and dogu: "\<And>ns n. leaves f (dogus ns n)"
    and maintenance: "\<And>owner ns. leaves f (pl_NewMaintenanceModeAdapter pl owner ns)"
    and conflicts: "\<And>m. leaves f m \<Longrightarrow> leaves f (pl_onConflict pl m)"
    and retries: "\<And>n c m. leaves f m \<Longrightarrow> leaves f (rl_OnError (pl_retry pl) n c m)"
begin

lemma leaves_updater:
  assumes "leavesStores f (ks_ingressClient cs)" "\<And>ns. leavesStores f (tk_Middlewares tk ns)"
    "\<And>d m. leaves f (mg_EventfDogu mgr d m)"
  shows "leaves f (UpsertIngressForService json (pl_onConflict pl) (assembledUpdater pl ns mgr cs tk dogus c) service)"
  unfolding assembledUpdater_def NewIngressUpdater_def NewMiddlewareManager_def NewDeploymentReadyChecker_def
    IngressUpdaterDependencies.select_convs deploymentReadyChecker.select_convs
  by (rule leaves_UpsertIngressForService, unfold ingressUpdater.select_convs IsReady_def deploymentReadyChecker.select_convs
      createOrUpdateReplacePathMiddleware_def)
    (intro frame kube dogu maintenance conflicts assms; simp add: traefik assms)+

lemma leaves_synchronize:
  "(\<And>g. leaves f (gcr_Update repo g)) \<Longrightarrow>
     leaves f (Synchronize cfg (pl_retry pl) (NewCertificateSynchronizer (ks_secretClient cs) repo))"
  unfolding Synchronize_def updateInGlobalConfig_def updateInGlobalConfigOnce_def NewCertificateSynchronizer_def
    certificateSynchronizer.select_convs
  by (intro frame kube configuration retries)

lemma leaves_service:
  assumes "\<And>s. leaves f (u s)" and "nph = NewNetworkPolicyHandler (ks_networkPolicyClient cs) n cidr"
    and "leavesStores f (ks_networkPolicyClient cs)" "\<And>n. leaves f (c_delete (ks_networkPolicyClient cs) n)"
  shows "leaves f (Reconcile_Service (NewServiceReconciler (cl_GetService (mg_GetClient mgr)) u
    (asNetworkPolicyUpdater json (pl_onConflict pl) nph) enabled) req)"
proof -
  have nph: "nph_networkPolicyInterface nph = ks_networkPolicyClient cs"
    by (simp add: assms(2) NewNetworkPolicyHandler_def)
  show ?thesis
    unfolding Reconcile_Service_def getService_def afterLookup_def dispatch_def handleUpsert_def handleDelete_def
      NewServiceReconciler_def asNetworkPolicyUpdater_def serviceReconciler.select_convs NetworkPolicyUpdater.select_convs
    by (intro frame api assms(1) conflicts; simp add: nph kube assms(3,4))
qed

lemma leaves_deployment:
  "(\<And>s. leaves f (u s)) \<Longrightarrow> leaves f (Reconcile_Deployment (NewDeploymentReconciler (mg_GetClient mgr) u) req)"
  unfolding Reconcile_Deployment_def getDeployment_def getDeploymentService_def NewDeploymentReconciler_def
    deploymentReconciler.select_convs
  by (intro frame api)

lemma leaves_redirect:
  assumes "\<And>ns name fqdn alts own. leaves f (redirect ns name fqdn alts own)"
  shows "leaves f (Reconcile_Redirect cfg \<lparr>rr_GetConfigMap = cl_GetConfigMap (mg_GetClient mgr),
    rr_SetControllerReference = owner, rr_GlobalConfigGetter = repo, rr_RedirectAlternativeFQDN = redirect,
    rr_Namespace = ns\<rparr> req)"
  unfolding Reconcile_Redirect_def RedirectReconciler.select_convs Let_def
  by (intro frame api configuration assms)

lemma leaves_loadbalancer:
  assumes "\<And>ns ports. leaves f (ic_ExposePorts ic ns ports)" and "leavesStores f (ks_serviceClient cs)"
  shows "leaves f (Reconcile_LoadBalancer libs a \<lparr>lr_GetConfigMap = cl_GetConfigMap (mg_GetClient mgr),
    lr_ListIndexed = cl_ListIndexed (mg_GetClient mgr), lr_SetControllerReference = owner,
    lr_IngressController = ic, lr_SvcClient = ks_serviceClient cs\<rparr> req)"
  unfolding Reconcile_LoadBalancer_def getExposedServices_def LoadBalancerReconciler.select_convs Let_def
  by (intro frame api assms) (simp_all add: kube assms)

lemma leaves_maintenance:
  assumes "\<And>s. leaves f (u s)" "\<And>s. leaves f (cl_UpdateService (mg_GetClient mgr) s)" "\<And>s m. leaves f (mg_EventfService mgr s m)"
  shows "leaves f (Reconcile_Maintenance (NewMaintenanceModeController (cl_ListServices (mg_GetClient mgr))
    (cl_UpdateService (mg_GetClient mgr)) ns u (pl_NewMaintenanceModeAdapter pl o' ns) (mg_EventfService mgr)) req)"
  unfolding Reconcile_Maintenance_def handleMaintenanceModeUpdate_def setMaintenanceMode_def getAllServices_def
    NewMaintenanceModeController_def maintenanceModeController.select_convs Let_def
  by (intro frame api assms maintenance) (simp_all add: assms)

text \<open>The two halves of the ingress controller the reconcilers are given.\<close>

lemma leaves_controller:
  fixes name ns :: string
  defines "c \<equiv> assembledController name ns cs tk"
  shows "leavesStores f (ks_ingressClient cs) \<Longrightarrow> (\<And>n. leaves f (c_delete (ks_ingressClient cs) n)) \<Longrightarrow>
      (\<And>ns. leavesStores f (tk_Middlewares tk ns)) \<Longrightarrow>
      leaves f (ic_RedirectAlternativeFQDN (asIngressController ord c) ns' rname fqdn alts own)"
    and "(\<And>ns. leavesStores f (tk_IngressRouteTCPs tk ns)) \<Longrightarrow> (\<And>ns. leavesStores f (tk_IngressRouteUDPs tk ns)) \<Longrightarrow>
      leaves f (ic_ExposePorts (asIngressController ord c) ns' ports)"
  unfolding asIngressController_def IngressController.select_convs
  by (intro frame; simp add: c_def assembledController_def ParseIngressController_def NewTraefikController_def
      kube traefik Let_def)+

end

subsection \<open>The reference cluster\<close>

lemma leaves_retryTimes [frame]: "leaves f m \<Longrightarrow> leaves f (retryTimes n m)"
proof (induction n)
  case 0
  then show ?case by (simp add: leaves_def)
next
  case (Suc n)
  show ?case
    unfolding leaves_def
  proof
    fix w
    obtain r w' where "m w = (r, w')" by (cases "m w")
    moreover from this have "f w' = f w" using Suc.prems by (metis leaves_def snd_conv)
    moreover have "f (snd (retryTimes n m v)) = f v" for v using Suc by (simp add: leaves_def)
    ultimately show "f (snd (retryTimes (Suc n) m w)) = f w" by (cases r) auto
  qed
qed

lemma leaves_memClient:
  "leaves f (c_get (memClient view put meta adm) n)"
  "(\<And>n x w. f (put n x w) = f w) \<Longrightarrow> leavesStores f (memClient view put meta adm)"
  "(\<And>n x w. f (put n x w) = f w) \<Longrightarrow> leaves f (c_delete (memClient view put meta adm) n)"
  by (simp_all add: leaves_def leavesStores_def memClient_def split: option.split)

lemma leaves_readers [frame]:
  "leaves f (readObject view n)" "leaves f (getConfigMap x)" "leaves f (listServices g v)" "leaves f (listAllServices ns)"
  "leaves f maintenanceStatus" "leaves f (gcr_Get clusterConfigRepo)"
  by (simp_all add: leaves_def readObject_def getConfigMap_def listServices_def listAllServices_def
      maintenanceStatus_def clusterConfigRepo_def split: option.split)

interpretation quiet: quiet_reads clusterPlatform clusterManager "clusterClientSet ns" clusterTraefik clusterConfigRepo
    "\<lambda>_. readObject k_dogus" f
  by unfold_locales (auto simp: clusterManager_def clusterClientSet_def clusterClients_def clusterPlatform_def clusterChecker_def
    exampleRetry_def clusterTraefik_def secretClient_def serviceClient_def ingressClient_def networkPolicyClient_def
    routeTCPClient_def routeUDPClient_def middlewareClient_def intro: frame leaves_memClient)

subsection \<open>Property\<close>

text \<open>
  Property C10. What each reconciler, as the start-up assembles it, can change, whatever it finds and
  whatever its outcome.  Any part of the world that storing ingresses and middlewares and recording
  dogu events leave alone is left alone by the deployment reconciler; if storing and deleting
  network policies leaves it alone too, by the service reconciler; the load balancer reconciler
  only stores services and routes, the redirect reconciler only stores or deletes ingresses and
  stores middlewares, the maintenance mode adds the update of services to the writes of the
  ingresses, and the certificate reconciler only updates the global configuration.  In particular none of
  them deletes a service, a route or a middleware, and none writes a secret.
\<close>

theorem reconcilers_write_sets:
  assumes "quiet_reads pl mgr cs tk repo dogus f"
    and "c = assembledController name ns cs tk" and "ic = asIngressController (pl_mapOrder pl) c"
    and "u = UpsertIngressForService (pl_ingressJson pl) (pl_onConflict pl) (assembledUpdater pl ns mgr cs tk dogus c)"
    and "nph = NewNetworkPolicyHandler (ks_networkPolicyClient cs) (GetName c) cidr"
    and "ingressesApart \<longleftrightarrow> leavesStores f (ks_ingressClient cs) \<and> (\<forall>ns. leavesStores f (tk_Middlewares tk ns))"
    and "eventsApart \<longleftrightarrow> (\<forall>d m. leaves f (mg_EventfDogu mgr d m))"
  shows "(ingressesApart \<and> eventsApart \<and> leavesStores f (ks_networkPolicyClient cs) \<and>
        (\<forall>n. leaves f (c_delete (ks_networkPolicyClient cs) n)) \<longrightarrow>
      leaves f (Reconcile_Service (NewServiceReconciler (cl_GetService (mg_GetClient mgr)) u
        (asNetworkPolicyUpdater (pl_portsJson pl) (pl_onConflict pl) nph) enabled) req)) \<and>
    (ingressesApart \<and> eventsApart \<longrightarrow>
      leaves f (Reconcile_Deployment (NewDeploymentReconciler (mg_GetClient mgr) u) req)) \<and>
    ((\<forall>g. leaves f (gcr_Update repo g)) \<longrightarrow>
      leaves f (Reconcile_EcosystemCertificate (NewEcosystemCertificateReconciler
        (Synchronize (pl_configOps pl) (pl_retry pl) (NewCertificateSynchronizer (ks_secretClient cs) repo))) req)) \<and>
    (ingressesApart \<and> (\<forall>n. leaves f (c_delete (ks_ingressClient cs) n)) \<longrightarrow>
      leaves f (Reconcile_Redirect (pl_configOps pl) \<lparr>rr_GetConfigMap = cl_GetConfigMap (mg_GetClient mgr),
        rr_SetControllerReference = cl_SetControllerReference (mg_GetClient mgr), rr_GlobalConfigGetter = repo,
        rr_RedirectAlternativeFQDN = ic_RedirectAlternativeFQDN ic, rr_Namespace = ns\<rparr> req)) \<and>
    (leavesStores f (ks_serviceClient cs) \<and>
        (\<forall>ns. leavesStores f (tk_IngressRouteTCPs tk ns) \<and> leavesStores f (tk_IngressRouteUDPs tk ns)) \<longrightarrow>
      leaves f (Reconcile_LoadBalancer (pl_libraries pl) (pl_newAddress pl)
        \<lparr>lr_GetConfigMap = cl_GetConfigMap (mg_GetClient mgr), lr_ListIndexed = cl_ListIndexed (mg_GetClient mgr),
         lr_SetControllerReference = cl_SetControllerReference (mg_GetClient mgr), lr_IngressController = ic,
         lr_SvcClient = ks_serviceClient cs\<rparr> req)) \<and>
    (ingressesApart \<and> eventsApart \<and> (\<forall>s. leaves f (cl_UpdateService (mg_GetClient mgr) s)) \<and>
        (\<forall>s m. leaves f (mg_EventfService mgr s m)) \<longrightarrow>
      leaves f (Reconcile_Maintenance (NewMaintenanceModeController (cl_ListServices (mg_GetClient mgr))
        (cl_UpdateService (mg_GetClient mgr)) ns u (pl_NewMaintenanceModeAdapter pl ServiceDiscoveryMaintenanceOwner ns)
        (mg_EventfService mgr)) req))"
proof -
  have u: "leaves f (u s)" if "ingressesApart" "eventsApart" for s
    unfolding assms(4) by (rule quiet_reads.leaves_updater [OF assms(1)]) (use that assms(6,7) in simp_all)
  have redirect: "leaves f (ic_RedirectAlternativeFQDN ic n m fq as own)"
    if "ingressesApart" "\<forall>n. leaves f (c_delete (ks_ingressClient cs) n)" for n m fq as own
    unfolding assms(2,3) by (rule quiet_reads.leaves_controller(1) [OF assms(1)]) (use that assms(6) in simp_all)
  have expose: "leaves f (ic_ExposePorts ic n ps)"
    if "\<forall>ns. leavesStores f (tk_IngressRouteTCPs tk ns) \<and> leavesStores f (tk_IngressRouteUDPs tk ns)" for n ps
    unfolding assms(2,3) by (rule quiet_reads.leaves_controller(2) [OF assms(1)]) (use that in simp_all)
  show ?thesis
    unfolding Reconcile_EcosystemCertificate_def NewEcosystemCertificateReconciler_def
      ecosystemCertificateReconciler.select_convs
    by (intro conjI impI; (elim conjE)?; (rule quiet_reads.leaves_service [OF assms(1) u assms(5)]
        quiet_reads.leaves_deployment [OF assms(1) u] quiet_reads.leaves_synchronize [OF assms(1)]
        quiet_reads.leaves_redirect [OF assms(1) redirect] quiet_reads.leaves_loadbalancer [OF assms(1) expose]
        quiet_reads.leaves_maintenance [OF assms(1) u])) simp_all
qed

text \<open>On the reference cluster: services, secrets and the global configuration after a service reconcile.\<close>

theorem reconcilers_write_sets_witness:
  "leaves (\<lambda>w. (k_services w, k_secrets w, k_globalConfig w)) (Reconcile_Service (NewServiceReconciler
     (cl_GetService (mg_GetClient clusterManager))
     (UpsertIngressForService (pl_ingressJson clusterPlatform) (pl_onConflict clusterPlatform)
       (assembledUpdater clusterPlatform ''ecosystem'' clusterManager (clusterClientSet ''ecosystem'') clusterTraefik
          (\<lambda>_. readObject k_dogus) (assembledController ''k8s-ces-gateway'' ''ecosystem'' (clusterClientSet ''ecosystem'') clusterTraefik)))
     (asNetworkPolicyUpdater (pl_portsJson clusterPlatform) (pl_onConflict clusterPlatform)
       (NewNetworkPolicyHandler (ks_networkPolicyClient (clusterClientSet ''ecosystem''))
         (GetName (assembledController ''k8s-ces-gateway'' ''ecosystem'' (clusterClientSet ''ecosystem'') clusterTraefik)) ''0.0.0.0/0''))
     True) (''ecosystem'', ''scm''))"
proof -
  let ?f = "\<lambda>w. (k_services w, k_secrets w, k_globalConfig w)"
  have "leavesStores ?f (ks_ingressClient (clusterClientSet ''ecosystem''))"
    "leavesStores ?f (tk_Middlewares clusterTraefik ns)"
    "leavesStores ?f (ks_networkPolicyClient (clusterClientSet ''ecosystem''))"
    "leaves ?f (c_delete (ks_networkPolicyClient (clusterClientSet ''ecosystem'')) n)" for ns n
    by (simp_all add: clusterClientSet_def clusterTraefik_def ingressClient_def middlewareClient_def networkPolicyClient_def
        leaves_memClient cluster_ops)
  moreover have "leaves ?f (mg_EventfDogu clusterManager d m)" for d m
    by (simp add: clusterManager_def recordEvent_def leaves_def)
  ultimately show ?thesis
    using reconcilers_write_sets [OF quiet.quiet_reads_axioms refl refl refl refl refl refl,
        where f = ?f and ns = "''ecosystem''" and name = "''k8s-ces-gateway''" and cidr = "''0.0.0.0/0''" and
          enabled = True and req = "(''ecosystem'', ''scm'')"] by simp
qed

end
