(* ===== verification/System.thy ===== *)
theory System
  imports Port_Registry Write_Sets
begin

section \<open>Reconcilers on one cluster\<close>

text \<open>
  The service reconciler and the load balancer reconciler work on the same cluster and are started
  independently, in any order and any number of times.  The locale \<open>settling_jobs\<close> is the contract of
  such jobs; \<open>shared_system\<close> is a cluster on which both reconcilers meet it.
\<close>

subsection \<open>Jobs that settle\<close>

locale settling_jobs =
  fixes job :: "'j \<Rightarrow> ('w, unit) io" and ready :: "'w \<Rightarrow> bool" and settled :: "'j \<Rightarrow> 'w \<Rightarrow> bool"
  assumes run: "ready w \<Longrightarrow> \<exists>w'. job j w = (Ret (), w') \<and> ready w' \<and> settled j w' \<and> (\<forall>k. settled k w \<longrightarrow> settled k w')"
begin

lemma schedule_settles:
  "ready w \<Longrightarrow> \<exists>w'. forEach job js w = (Ret (), w') \<and> ready w' \<and> (\<forall>j. j \<in> set js \<or> settled j w \<longrightarrow> settled j w')"
proof (induction js arbitrary: w)
  case Nil
  then show ?case by (simp add: ret_run)
next
  case (Cons j js)
  obtain w1 where w1: "job j w = (Ret (), w1)" "ready w1" "settled j w1" "\<forall>k. settled k w \<longrightarrow> settled k w1"
    using run [OF Cons.prems] by blast
  obtain w2 where "forEach job js w1 = (Ret (), w2)" "ready w2" "\<forall>k. k \<in> set js \<or> settled k w1 \<longrightarrow> settled k w2"
    using Cons.IH [OF w1(2)] by blast
  with w1 show ?case by (auto simp: io_simps)
qed

end

subsection \<open>The frame of the load balancer reconciler\<close>

context lb_environment
begin

lemma reconcile_leaves:
  assumes "\<And>n u w. f (put n u w) = f w" and "\<And>ns ps. leaves f (ic_ExposePorts (lr_IngressController r) ns ps)"
  shows "leaves f (Reconcile_LoadBalancer libs a r req)"
proof -
  have client: "leaves f (c_get (lr_SvcClient r) n)" "leavesStores f (lr_SvcClient r)" for n
    using assms(1) by (simp_all add: leaves_def leavesStores_def object_store.get_keeps_world [OF svc]
        object_store.create_law [OF svc] object_store.update_law [OF svc] split: option.split)
  have readers: "leaves f (lr_GetConfigMap r k)" "leaves f (lr_ListIndexed r idx v)" for k idx v
    using list_law [of idx v] by (auto simp: leaves_def cm_law split: option.split) (metis snd_conv)
  show ?thesis
    unfolding Reconcile_LoadBalancer_def getExposedServices_def Let_def
    by (intro frame client readers assms(2))
qed

end

subsection \<open>The two reconcilers together\<close>

datatype task = Publish | Balance nat

fun taskOf :: "('w, unit) io \<Rightarrow> (nat \<Rightarrow> ('w, unit) io) \<Rightarrow> task \<Rightarrow> ('w, unit) io" where
  "taskOf publish balance Publish = publish"
| "taskOf publish balance (Balance a) = balance a"

text \<open>What the two reconcilers are to reach, in terms of what is stored.\<close>

definition published ::
  "ingressJson \<Rightarrow> 'w ingressUpdater \<Rightarrow> 'w networkPolicyHandler \<Rightarrow> Service \<Rightarrow> CesService list \<Rightarrow> strmap \<Rightarrow> utilExposedPorts
     \<Rightarrow> 'a sysState_scheme \<Rightarrow> (string \<Rightarrow> Ingress option) \<Rightarrow> (string \<Rightarrow> NetworkPolicy option) \<Rightarrow> bool" where
  "published json i nph service cess additional ports st ingresses policies \<longleftrightarrow>
     (\<forall>n c. find (\<lambda>c. cs_Name c = n) (rev cess) = Some c \<longrightarrow>
        (\<exists>x. ingresses n = Some x \<and> serves x (routeFor json i service additional (sy_maintenance st)
           (sy_ready st (om_Name (svc_meta service))) c))) \<and>
     (ports = [] \<or> (\<exists>P. policies (policyName nph) = Some P \<and> portKey ` set ports \<subseteq> openKeys P))"

definition balanced :: "ownerSetter \<Rightarrow> LoadbalancerConfig \<Rightarrow> ExposedPort list \<Rightarrow> (string \<Rightarrow> Service option) \<Rightarrow> bool" where
  "balanced own cfg dogus services \<longleftrightarrow>
     (\<exists>x ports. services LoadbalancerName = Some x \<and> configured own cfg ports x \<and> sorted (map ep_Name ports) \<and>
        mset ports = mset CreateDefaultPorts + filter_mset (\<lambda>p. ep_Port p \<noteq> 80 \<and> ep_Port p \<noteq> 443) (mset dogus))"

lemma sysState_truncate_eqD:
  assumes "sysState.truncate a = sysState.truncate b"
  shows "sy_maintenance a = sy_maintenance b" "sy_ready a = sy_ready b" "sy_dogus a = sy_dogus b"
  using assms by (simp_all add: sysState.truncate_def)

locale shared_system =
  ingress_environment i viewI sys json onConflict putI admI +
  pol: policy_store pjson onConflict nph viewP putP admP +
  lb: lb_environment libs r viewS putS admS cmView
  for i :: "'w ingressUpdater" and viewI and sys :: "'w \<Rightarrow> ((string \<Rightarrow> NetworkPolicy option) \<times> (string \<Rightarrow> Service option) \<times>
        (string \<times> string \<Rightarrow> ConfigMap option)) sysState_scheme"
    and json onConflict putI admI pjson and nph :: "'w networkPolicyHandler" and viewP putP admP libs
    and r :: "'w LoadBalancerReconciler" and viewS putS admS cmView +
  fixes get :: "string \<times> string \<Rightarrow> ('w, Service) io"
  assumes get_law: "get req w = (case viewS w (snd req) of None \<Rightarrow> (Fail (Api NotFound), w) | Some s \<Rightarrow> (Ret s, w))"
    and apart: "sysState.more (sys w) = (viewP w, viewS w, cmView w)"
    and putP_apart: "viewI (putP n p w) = viewI w" "viewS (putP n p w) = viewS w" "cmView (putP n p w) = cmView w"
      "sysState.truncate (sys (putP n p w)) = sysState.truncate (sys w)"
    and putS_apart: "viewI (putS n s w) = viewI w" "viewP (putS n s w) = viewP w"
      "sysState.truncate (sys (putS n s w)) = sysState.truncate (sys w)"
    and expose_apart: "leaves (\<lambda>w. (viewI w, viewP w, sysState.truncate (sys w))) (ic_ExposePorts (lr_IngressController r) ns ps)"
begin

abbreviation publish :: "string \<times> string \<Rightarrow> ('w, unit) io" where
  "publish \<equiv> Reconcile_Service (NewServiceReconciler get (UpsertIngressForService json onConflict i)
     (asNetworkPolicyUpdater pjson onConflict nph) True)"

text \<open>One run of the service reconciler.\<close>

lemma publish_run:
  assumes service: "viewS w (snd req) = Some service" "getCesServices json service = Inr (cess, True)"
      "sy_dogus (sys w) (om_Name (svc_meta service)) \<noteq> None"
      "getAdditionalIngressAnnotations json service = Inr additional"
      "\<And>ces. ces \<in> set cess \<Longrightarrow> cs_Rewrite ces \<noteq> [] \<Longrightarrow> \<not> isl (ij_rewrite json (cs_Rewrite ces))"
    and policy: "policyOK pjson nph (viewP w)" "parseExposedPortsFromService pjson service = Inr ports"
      "\<And>P. viewP w (policyName nph) = Some P \<Longrightarrow> unshared pjson P (om_Name (svc_meta service)) ports"
  obtains w' where "publish req w = (Ret (), w')"
    and "published json i nph service cess additional ports (sys w) (viewI w') (viewP w')"
    and "\<forall>n. find (\<lambda>c. cs_Name c = n) (rev cess) = None \<longrightarrow> viewI w' n = viewI w n"
    and "viewS w' = viewS w" "cmView w' = cmView w" "sysState.truncate (sys w') = sysState.truncate (sys w)"
    and "\<forall>n. n \<noteq> policyName nph \<longrightarrow> viewP w' n = viewP w n"
    and "policyOK pjson nph (viewP w')"
    and "\<forall>P. viewP w' (policyName nph) = Some P \<longrightarrow> unshared pjson P (om_Name (svc_meta service)) ports"
proof -
  obtain w1 where w1: "UpsertIngressForService json onConflict i service w = (Ret (), w1)" "sys w1 = sys w"
    "\<forall>n. case find (\<lambda>c. cs_Name c = n) (rev cess) of
       None \<Rightarrow> viewI w1 n = viewI w n
     | Some c \<Rightarrow> \<exists>x. viewI w1 n = Some x \<and> serves x (routeFor json i service additional
         (sy_maintenance (sys w)) (sy_ready (sys w) (om_Name (svc_meta service))) c)"
    using upsert_run [OF service(2-5)] by blast
  have same: "viewP w1 = viewP w" "viewS w1 = viewS w" "cmView w1 = cmView w"
    using arg_cong [OF w1(2), where f = sysState.more] by (simp_all add: apart)
  obtain w2 where w2: "UpsertNetworkPoliciesForService pjson onConflict nph service w1 = (Ret (), w2)"
    "w2 = w1 \<or> (\<exists>P'. w2 = putP (policyName nph) (Some P') w1)" "policyOK pjson nph (viewP w2)"
    "ports = [] \<or> (\<exists>P'. viewP w2 (policyName nph) = Some P' \<and> portKey ` set ports \<subseteq> openKeys P')"
    using pol.upsert_opens [of w1 service ports] policy same(1) by auto
  have frame2: "viewI w2 = viewI w1" "viewS w2 = viewS w1" "cmView w2 = cmView w1"
    "sysState.truncate (sys w2) = sysState.truncate (sys w1)"
    using w2(2) by (auto simp: putP_apart)
  have others: "\<forall>n. n \<noteq> policyName nph \<longrightarrow> viewP w2 n = viewP w n"
    using w2(2) same(1) by (auto simp: object_store.view_put [OF pol.store])
  have ok1: "policyOK pjson nph (viewP w1)" using policy(1) same(1) by simp
  have mapped: "unshared pjson P (om_Name (svc_meta service)) ports" if "viewP w2 (policyName nph) = Some P" for P
    using arg_cong [OF pol.perform_upsert_registry(1) [OF ok1 w2(1)], where f = "\<lambda>g. g (mappingKey (om_Name (svc_meta service)))"]
      policy(2) registryOf_key [of "viewP w2", OF that] by (simp add: unshared_def Let_def)
  have "publish req w = (Ret (), w2)"
    using w1(1) w2(1) service(1)
    by (simp add: Reconcile_Service_def getService_def afterLookup_def dispatch_def handleUpsert_def
        NewServiceReconciler_def asNetworkPolicyUpdater_def get_law io_simps)
  moreover have "published json i nph service cess additional ports (sys w) (viewI w2) (viewP w2)"
    unfolding published_def frame2(1)
  proof (intro conjI allI impI)
    show "\<exists>x. viewI w1 n = Some x \<and> serves x (routeFor json i service additional (sy_maintenance (sys w))
        (sy_ready (sys w) (om_Name (svc_meta service))) c)"
      if "find (\<lambda>c. cs_Name c = n) (rev cess) = Some c" for n c
      using spec [OF w1(3), of n] that by simp
  qed (rule w2(4))
  moreover have "\<forall>n. find (\<lambda>c. cs_Name c = n) (rev cess) = None \<longrightarrow> viewI w2 n = viewI w n"
  proof (intro allI impI)
    fix n assume "find (\<lambda>c. cs_Name c = n) (rev cess) = None"
    then show "viewI w2 n = viewI w n" using spec [OF w1(3), of n] by (simp add: frame2(1))
  qed
  moreover have "viewS w2 = viewS w" "cmView w2 = cmView w" "sysState.truncate (sys w2) = sysState.truncate (sys w)"
    by (simp_all add: frame2 same w1(2))
  ultimately show thesis using that others w2(3) mapped by simp
qed

text \<open>One run of the load balancer reconciler.\<close>

lemma balance_run:
  assumes cm: "cmView w req = Some cm" "ParseLoadbalancerConfig (lib_unmarshalConfig libs) cm = Inr cfg"
    and keys: "[] \<notin> fmdom' (lc_Annotations cfg)"
    and rec: "reconcilable (viewS w)"
    and xs: "distinct xs" "set xs = exposedServices (viewS w)" "list_all (readable libs) xs"
      "distinct (map ep_Name (concat (map (portsOf libs) xs)))"
  obtains w' where "Reconcile_LoadBalancer libs a r req w = (Ret (), w')"
    and "balanced (lr_SetControllerReference r cm) cfg (concat (map (portsOf libs) xs)) (viewS w')"
    and "\<forall>n. n \<noteq> LoadbalancerName \<longrightarrow> viewS w' n = viewS w n"
    and "exposedServices (viewS w') = exposedServices (viewS w)" "reconcilable (viewS w')"
    and "cmView w' = cmView w" "viewI w' = viewI w" "viewP w' = viewP w"
      "sysState.truncate (sys w') = sysState.truncate (sys w)"
proof -
  obtain w' x ports where w': "Reconcile_LoadBalancer libs a r req w = (Ret (), w')"
      "viewS w' = (viewS w)(LoadbalancerName \<mapsto> x)" "cmView w' = cmView w"
    and x: "configured (lr_SetControllerReference r cm) cfg ports x"
    and ports: "sorted (map ep_Name ports)" "mset ports = mset CreateDefaultPorts +
      filter_mset (\<lambda>p. ep_Port p \<noteq> 80 \<and> ep_Port p \<noteq> 443) (mset (concat (map (portsOf libs) xs)))"
    by (rule lb.reconcile_stores [OF cm rec xs])
  have "leaves (\<lambda>w. (viewI w, viewP w, sysState.truncate (sys w))) (Reconcile_LoadBalancer libs a r req)"
    by (rule lb.reconcile_leaves) (simp_all add: putS_apart expose_apart)
  then have "viewI w' = viewI w" "viewP w' = viewP w" "sysState.truncate (sys w') = sysState.truncate (sys w)"
    using w'(1) by (simp_all add: leaves_def) (metis snd_conv)+
  moreover have "balanced (lr_SetControllerReference r cm) cfg (concat (map (portsOf libs) xs)) (viewS w')"
    unfolding balanced_def w'(2) by (intro exI conjI, rule fun_upd_same, rule x) (rule ports)+
  moreover have "exposedServices (viewS w') = exposedServices (viewS w)"
    unfolding w'(2) by (rule exposedServices_put [OF rec]) (use x in \<open>simp add: configured_def\<close>)
  moreover have "reconcilable (viewS w')"
    unfolding w'(2) by (rule configured_reconcilable [OF fun_upd_same x keys])
  moreover have "\<forall>n. n \<noteq> LoadbalancerName \<longrightarrow> viewS w' n = viewS w n" using w'(2) by simp
  ultimately show thesis using w'(1,3) that by simp
qed

text \<open>
  Both settle, from any state that agrees with a given one in what they are told: the service and
  every other service but the load balancer, the configuration, the state of the system.
\<close>

lemma tasks_settle:
  assumes service: "viewS w0 (snd reqS) = Some service" "snd reqS \<noteq> LoadbalancerName"
      "getCesServices json service = Inr (cess, True)"
      "sy_dogus (sys w0) (om_Name (svc_meta service)) \<noteq> None"
      "getAdditionalIngressAnnotations json service = Inr additional"
      "\<And>ces. ces \<in> set cess \<Longrightarrow> cs_Rewrite ces \<noteq> [] \<Longrightarrow> \<not> isl (ij_rewrite json (cs_Rewrite ces))"
      "parseExposedPortsFromService pjson service = Inr ports"
    and cm: "cmView w0 reqL = Some cm" "ParseLoadbalancerConfig (lib_unmarshalConfig libs) cm = Inr cfg"
      "[] \<notin> fmdom' (lc_Annotations cfg)"
    and xs: "distinct xs" "set xs = exposedServices (viewS w0)" "list_all (readable libs) xs"
      "distinct (map ep_Name (concat (map (portsOf libs) xs)))"
  shows "settling_jobs (taskOf (publish reqS) (\<lambda>a. Reconcile_LoadBalancer libs a r reqL))
    (\<lambda>w. (\<forall>n. n \<noteq> LoadbalancerName \<longrightarrow> viewS w n = viewS w0 n) \<and>
       (\<forall>n. find (\<lambda>c. cs_Name c = n) (rev cess) = None \<longrightarrow> viewI w n = viewI w0 n) \<and>
       (\<forall>n. n \<noteq> policyName nph \<longrightarrow> viewP w n = viewP w0 n) \<and>
       reconcilable (viewS w) \<and> exposedServices (viewS w) = exposedServices (viewS w0) \<and> cmView w = cmView w0 \<and>
       sysState.truncate (sys w) = sysState.truncate (sys w0) \<and> policyOK pjson nph (viewP w) \<and>
       (\<forall>P. viewP w (policyName nph) = Some P \<longrightarrow> unshared pjson P (om_Name (svc_meta service)) ports))
    (\<lambda>t w. case t of
       Publish \<Rightarrow> published json i nph service cess additional ports (sys w0) (viewI w) (viewP w)
     | Balance _ \<Rightarrow> balanced (lr_SetControllerReference r cm) cfg (concat (map (portsOf libs) xs)) (viewS w))"
    (is "settling_jobs ?job ?ready ?settled")
proof
  fix w t assume ready: "?ready w"
  have sys: "sy_dogus (sys w) = sy_dogus (sys w0)" "sy_maintenance (sys w) = sy_maintenance (sys w0)"
    "sy_ready (sys w) = sy_ready (sys w0)"
    using ready sysState_truncate_eqD [of "sys w" "sys w0"] by simp_all
  show "\<exists>w'. ?job t w = (Ret (), w') \<and> ?ready w' \<and> ?settled t w' \<and> (\<forall>k. ?settled k w \<longrightarrow> ?settled k w')"
  proof (cases t)
    case Publish
    have at: "viewS w (snd reqS) = Some service" "sy_dogus (sys w) (om_Name (svc_meta service)) \<noteq> None"
      "policyOK pjson nph (viewP w)" "\<And>P. viewP w (policyName nph) = Some P \<Longrightarrow> unshared pjson P (om_Name (svc_meta service)) ports"
      using ready service(1,2,4) sys(1) by simp_all
    obtain w' where w': "publish reqS w = (Ret (), w')"
      "published json i nph service cess additional ports (sys w) (viewI w') (viewP w')"
      "\<forall>n. find (\<lambda>c. cs_Name c = n) (rev cess) = None \<longrightarrow> viewI w' n = viewI w n"
      "viewS w' = viewS w" "cmView w' = cmView w" "sysState.truncate (sys w') = sysState.truncate (sys w)"
      "\<forall>n. n \<noteq> policyName nph \<longrightarrow> viewP w' n = viewP w n" "policyOK pjson nph (viewP w')"
      "\<forall>P. viewP w' (policyName nph) = Some P \<longrightarrow> unshared pjson P (om_Name (svc_meta service)) ports"
      by (rule publish_run [OF at(1) service(3) at(2) service(5,6) at(3) service(7) at(4)])
    have done1: "published json i nph service cess additional ports (sys w0) (viewI w') (viewP w')"
      using w'(2) by (simp add: published_def sys)
    have "?ready w'" using ready w'(3-9) by simp
    with w'(1,4) done1 Publish show ?thesis by (intro exI [of _ w']) (auto split: task.split)
  next
    case (Balance a)
    have at: "cmView w reqL = Some cm" "reconcilable (viewS w)" "set xs = exposedServices (viewS w)"
      using ready cm(1) xs(2) by simp_all
    obtain w' where w': "Reconcile_LoadBalancer libs a r reqL w = (Ret (), w')"
      "balanced (lr_SetControllerReference r cm) cfg (concat (map (portsOf libs) xs)) (viewS w')"
      "\<forall>n. n \<noteq> LoadbalancerName \<longrightarrow> viewS w' n = viewS w n"
      "exposedServices (viewS w') = exposedServices (viewS w)" "reconcilable (viewS w')"
      "cmView w' = cmView w" "viewI w' = viewI w" "viewP w' = viewP w"
      "sysState.truncate (sys w') = sysState.truncate (sys w)"
      by (rule balance_run [OF at(1) cm(2,3) at(2) xs(1) at(3) xs(3,4)])
    have "?ready w'" using ready w'(3-9) by simp
    with w'(1,2,7,8) Balance show ?thesis by (intro exI [of _ w']) (auto split: task.split)
  qed
qed

end

end
