(* ===== verification/Policy_Shape.thy ===== *)
theory Policy_Shape
  imports Write_Sets
begin

section \<open>No panic with network policies enabled\<close>

text \<open>
  The network policy handler indexes the first rule and the first peer of the stored policy.  It is
  in order as long as the stored policy has that shape (\<open>wfPolicy\<close>), and it keeps the shape: this
  is a partial-correctness argument over an invariant of the world, for which \<open>safe\<close> is the triple.
  It assumes nothing of the annotations, which may be missing, not decodable or wrong, and nothing of
  conflicts and retries.
\<close>

subsection \<open>Triples\<close>

definition safe :: "('w \<Rightarrow> bool) \<Rightarrow> ('w, 'a) io \<Rightarrow> ('a \<Rightarrow> bool) \<Rightarrow> bool" where
  "safe I m Q \<longleftrightarrow>
     (\<forall>w. I w \<longrightarrow> I (snd (m w)) \<and> (case fst (m w) of Panic \<Rightarrow> False | Fail _ \<Rightarrow> True | Ret x \<Rightarrow> Q x))"

named_theorems triple \<open>rules for the programs that keep an invariant and do not panic\<close>

lemma safe_ret [triple]: "Q x \<Longrightarrow> safe I (ret x) Q"
  by (simp add: safe_def ret_run)

lemma safe_fail [triple]: "safe I (fail e) Q"
  by (simp add: safe_def fail_run)

lemma safe_onErr:
  assumes "safe I m P" and "\<And>e. safe I (h e) Q" and "\<And>x. P x \<Longrightarrow> safe I (k x) Q"
  shows "safe I (onErr m h k) Q"
  unfolding safe_def
proof (intro allI impI)
  fix w assume "I w"
  obtain r w' where run: "m w = (r, w')" by (cases "m w")
  with assms(1) \<open>I w\<close> have "I w'" "case r of Panic \<Rightarrow> False | Fail _ \<Rightarrow> True | Ret x \<Rightarrow> P x"
    unfolding safe_def by (metis snd_conv, metis fst_conv)
  with run assms(2,3) show "I (snd (onErr m h k w)) \<and>
      (case fst (onErr m h k w) of Panic \<Rightarrow> False | Fail _ \<Rightarrow> True | Ret x \<Rightarrow> Q x)"
    unfolding safe_def by (cases r) (simp_all add: io_simps)
qed

lemma safe_bindIO: "safe I m P \<Longrightarrow> (\<And>x. P x \<Longrightarrow> safe I (k x) Q) \<Longrightarrow> safe I (bindIO m k) Q"
  unfolding bindIO_def by (rule safe_onErr [where P = P]) (simp_all add: triple)

lemma safe_wrapErr [triple]: "safe I m Q \<Longrightarrow> safe I (wrapErr s m) Q"
  unfolding wrapErr_def by (rule safe_onErr [where P = Q]) (simp_all add: triple)

lemma safe_if [triple]: "(c \<Longrightarrow> safe I a Q) \<Longrightarrow> (\<not> c \<Longrightarrow> safe I b Q) \<Longrightarrow> safe I (if c then a else b) Q"
  by simp

lemma safe_option [triple]:
  "(x = None \<Longrightarrow> safe I a Q) \<Longrightarrow> (\<And>y. x = Some y \<Longrightarrow> safe I (g y) Q) \<Longrightarrow> safe I (case x of None \<Rightarrow> a | Some y \<Rightarrow> g y) Q"
  by (cases x) simp_all

lemma safe_sum [triple]:
  "(\<And>e. s = Inl e \<Longrightarrow> safe I (g e) Q) \<Longrightarrow> (\<And>x. s = Inr x \<Longrightarrow> safe I (h x) Q) \<Longrightarrow>
     safe I (case s of Inl e \<Rightarrow> g e | Inr x \<Rightarrow> h x) Q"
  by (cases s) simp_all

lemma safe_list [triple]:
  "(xs = [] \<Longrightarrow> safe I a Q) \<Longrightarrow> (\<And>y ys. xs = y # ys \<Longrightarrow> safe I (g y ys) Q) \<Longrightarrow>
     safe I (case xs of [] \<Rightarrow> a | y # ys \<Rightarrow> g y ys) Q"
  by (cases xs) simp_all

lemma safe_apart: "noPanic m \<Longrightarrow> leaves I m \<Longrightarrow> safe I m (\<lambda>_. True)"
  unfolding safe_def noPanic_def leaves_def by (auto split: outcome.split)

subsection \<open>The handler\<close>

text \<open>The stored policy of the handler has the shape while \<open>I\<close> holds, and storing policies of the shape keeps \<open>I\<close>.\<close>

definition keepsShape :: "('w \<Rightarrow> bool) \<Rightarrow> 'w networkPolicyHandler \<Rightarrow> bool" where
  "keepsShape I nph \<longleftrightarrow>
     safe I (getNetworkPolicy nph) wfPolicy \<and>
     (\<forall>P. wfPolicy P \<longrightarrow> safe I (c_create (nph_networkPolicyInterface nph) P) (\<lambda>_. True) \<and>
        safe I (c_update (nph_networkPolicyInterface nph) P) (\<lambda>_. True))"

lemma keepsShapeD:
  assumes "keepsShape I nph"
  shows "safe I (getNetworkPolicy nph) wfPolicy"
    and "wfPolicy P \<Longrightarrow> safe I (c_create (nph_networkPolicyInterface nph) P) (\<lambda>_. True)"
    and "wfPolicy P \<Longrightarrow> safe I (c_update (nph_networkPolicyInterface nph) P) (\<lambda>_. True)"
  using assms by (simp_all add: keepsShape_def)

text \<open>Every policy the handler sends has the shape.\<close>

lemma safe_sendUpdate:
  assumes "keepsShape I nph" and "wfPolicy Q"
  shows "safe I (sendUpdate nph (updateCIDR nph Q)) (\<lambda>_. True)"
proof -
  obtain R where R: "updateCIDR nph Q = Some R" "wfPolicy R" using updateCIDR_wf [OF assms(2)] by blast
  show ?thesis
    unfolding R(1) sendUpdate_def option.simps
    by (rule safe_bindIO [OF keepsShapeD(3) [OF assms(1) R(2)]]) (simp add: triple)
qed

lemma safe_updateOnce:
  assumes "keepsShape I nph"
  shows "safe I (updateNetworkPolicyOnce json nph serviceName ports) (\<lambda>_. True)"
  unfolding updateNetworkPolicyOnce_def
proof (rule safe_bindIO [OF keepsShapeD(1) [OF assms]], goal_cases)
  case (1 P)
  note P = 1
  then obtain rule rules where rule: "np_Ingress P = rule # rules" "list_all wfPort (npi_Ports rule)"
    by (auto simp: wfPolicy_def)
  have more: "list_all wfPort (npi_Ports rule @ getNetworkPolicyPortsFromExposedPorts ports)"
    using rule(2) by (auto simp: list_all_iff getNetworkPolicyPortsFromExposedPorts_def)
  have copied: "wfPolicy (copyAnnotations new Q)" if "wfPolicy Q" for new Q
    using that by (simp add: wfPolicy_def)
  let ?merged = "\<lambda>ds. Option.bind (deleteIngressPorts (npi_Ports rule) ds) (\<lambda>ps. addIngressPorts ps ports)"
  have "\<exists>qs. ?merged ds = Some qs \<and> list_all wfPort qs" for ds
    using addIngressPorts_wf [of "filter (\<lambda>p. npKey p \<notin> portKey ` set ds) (npi_Ports rule)" ports] rule(2)
    by (auto simp: deleteIngressPorts_wf list_all_iff)
  then have merged: "?merged ds \<noteq> None" "?merged ds = Some qs \<Longrightarrow> list_all wfPort qs" for ds qs
    by (metis option.distinct(1), metis option.inject)
  show ?case
    by (intro triple) (auto simp: rule(1) merged
        intro!: safe_sendUpdate [OF assms] setFirstRulePorts_wf(1) copied P more dest: merged(2))
qed

lemma safe_removeOnce:
  assumes "keepsShape I nph"
  shows "safe I (removeExposedPortsOnce json nph serviceName) (\<lambda>_. True)"
  unfolding removeExposedPortsOnce_def Let_def
proof (rule safe_onErr [OF keepsShapeD(1) [OF assms]], goal_cases)
  case (1 e)
  show ?case by (intro triple TrueI)
next
  case (2 P)
  then obtain rule rules where rule: "np_Ingress P = rule # rules" "list_all wfPort (npi_Ports rule)"
    by (auto simp: wfPolicy_def)
  have closed: "wfPolicy (setFirstRulePorts ps P\<lparr>np_meta := m\<rparr>)"
    if "deleteIngressPorts (npi_Ports rule) ds = Some ps" for ps ds m
  proof -
    have "list_all wfPort ps" using that rule(2) by (auto simp: deleteIngressPorts_wf list_all_iff)
    then show ?thesis using setFirstRulePorts_wf(1) [OF 2] by (simp add: wfPolicy_def)
  qed
  show ?case
    by (intro triple safe_bindIO [OF keepsShapeD(3) [OF assms]] TrueI)
      (use rule closed in \<open>auto simp: deleteIngressPorts_wf\<close>)
qed

lemma safe_create:
  assumes "keepsShape I nph"
  shows "safe I (createNetworkPolicy json nph serviceName name ports ns) (\<lambda>_. True)"
  unfolding createNetworkPolicy_def Let_def
  by (intro triple safe_onErr [OF keepsShapeD(2) [OF assms]] TrueI)
    (simp add: wfPolicy_def list_all_iff getNetworkPolicyPortsFromExposedPorts_def)

text \<open>The operations, with any retry loop that does not break what its body keeps.\<close>

lemma safe_Upsert:
  assumes "keepsShape I nph" and "\<And>m. safe I m (\<lambda>_. True) \<Longrightarrow> safe I (onConflict m) (\<lambda>_. True)"
  shows "safe I (UpsertNetworkPoliciesForService json onConflict nph service) (\<lambda>_. True)"
  unfolding UpsertNetworkPoliciesForService_def updateNetworkPolicy_def
  by (intro triple safe_onErr [OF keepsShapeD(1) [OF assms(1)]] safe_create safe_updateOnce assms)

lemma safe_RemoveExposedPorts:
  assumes "keepsShape I nph" and "\<And>m. safe I m (\<lambda>_. True) \<Longrightarrow> safe I (onConflict m) (\<lambda>_. True)"
  shows "safe I (RemoveExposedPorts json onConflict nph serviceName) (\<lambda>_. True)"
  unfolding RemoveExposedPorts_def by (intro triple assms safe_removeOnce)

lemma safe_Reconcile_Service:
  assumes "keepsShape I nph" and "\<And>m. safe I m (\<lambda>_. True) \<Longrightarrow> safe I (onConflict m) (\<lambda>_. True)"
    and "safe I (get req) (\<lambda>_. True)" and "\<And>s. safe I (u s) (\<lambda>_. True)"
  shows "safe I (Reconcile_Service (NewServiceReconciler get u (asNetworkPolicyUpdater json onConflict nph) True) req) (\<lambda>_. True)"
proof -
  have upsert: "safe I (handleUpsert (NewServiceReconciler get u (asNetworkPolicyUpdater json onConflict nph) True) s) (\<lambda>_. True)" for s
    unfolding handleUpsert_def NewServiceReconciler_def asNetworkPolicyUpdater_def serviceReconciler.select_convs
      NetworkPolicyUpdater.select_convs if_True
    by (intro triple safe_bindIO [OF safe_wrapErr [OF assms(4)]] safe_Upsert assms)
  have delete: "safe I (handleDelete (NewServiceReconciler get u (asNetworkPolicyUpdater json onConflict nph) True) req) (\<lambda>_. True)"
    unfolding handleDelete_def NewServiceReconciler_def asNetworkPolicyUpdater_def serviceReconciler.select_convs
      NetworkPolicyUpdater.select_convs if_True
    by (intro triple safe_onErr [OF safe_RemoveExposedPorts [OF assms(1,2)]] TrueI)
  have enabled: "svr_networkPoliciesEnabled (NewServiceReconciler get u (asNetworkPolicyUpdater json onConflict nph) True)"
    by (simp add: NewServiceReconciler_def)
  have look: "safe I (getService (NewServiceReconciler get u (asNetworkPolicyUpdater json onConflict nph) True) req) (\<lambda>_. True)"
    unfolding getService_def NewServiceReconciler_def serviceReconciler.select_convs
    by (intro triple assms(3))
  show ?thesis
    unfolding Reconcile_Service_def afterLookup_def dispatch_def
    by (intro triple safe_onErr [OF look] upsert delete) (simp_all add: enabled)
qed

lemma safe_sequence:
  assumes "\<And>q. safe I (body q) Q" and "I w"
  shows "I (fold (\<lambda>q v. snd (body q v)) qs w)"
  using assms(2) by (induction qs arbitrary: w) (use assms(1) in \<open>auto simp: safe_def\<close>)

subsection \<open>Property\<close>

text \<open>
  Property C8. With network policies enabled the service reconciler, as the start-up assembles it,
  never panics either: while the stored policy has a first rule with a first peer and with ports
  that carry a number and a protocol, no reconcile after any sequence of reconciles, successful or
  not, panics, whatever the annotations of services and policy are and however often updates conflict.
\<close>

theorem enabled_policies_never_panic:
  assumes "steady_platform pl mgr cs tk repo dogus" and "quiet_reads pl mgr cs tk repo dogus I"
    and "c = assembledController name ns cs tk"
    and "u = UpsertIngressForService (pl_ingressJson pl) (pl_onConflict pl) (assembledUpdater pl ns mgr cs tk dogus c)"
    and "nph = NewNetworkPolicyHandler (ks_networkPolicyClient cs) (GetName c) cidr"
    and "leavesStores I (ks_ingressClient cs)" and "\<And>ns. leavesStores I (tk_Middlewares tk ns)"
    and "\<And>d m. leaves I (mg_EventfDogu mgr d m)"
    and "keepsShape I nph" and "\<And>m. safe I m (\<lambda>_. True) \<Longrightarrow> safe I (pl_onConflict pl m) (\<lambda>_. True)"
    and "rec = Reconcile_Service (NewServiceReconciler (cl_GetService (mg_GetClient mgr)) u
      (asNetworkPolicyUpdater (pl_portsJson pl) (pl_onConflict pl) nph) True)"
    and "I w"
  shows "fst (rec req (fold (\<lambda>q v. snd (rec q v)) reqs w)) \<noteq> Panic"
proof -
  have u: "safe I (u s) (\<lambda>_. True)" for s
    unfolding assms(4)
    by (intro safe_apart steady_platform.noPanic_updater [OF assms(1)] quiet_reads.leaves_updater [OF assms(2)] assms(6-8))
  have get: "safe I (cl_GetService (mg_GetClient mgr) q) (\<lambda>_. True)" for q
    by (intro safe_apart steady_platform.api [OF assms(1)] quiet_reads.api [OF assms(2)])
  have rec: "safe I (rec q) (\<lambda>_. True)" for q
    unfolding assms(11) by (rule safe_Reconcile_Service [OF assms(9,10) get u])
  have "I (fold (\<lambda>q v. snd (rec q v)) reqs w)" by (rule safe_sequence [OF rec assms(12)])
  with rec [of req] show ?thesis unfolding safe_def by (auto split: outcome.splits)
qed

text \<open>On the reference cluster, where no policy is stored at first.\<close>

definition wellShaped :: "cluster \<Rightarrow> bool" where
  "wellShaped w \<longleftrightarrow> (\<forall>n P. k_networkPolicies w n = Some P \<longrightarrow> wfPolicy P)"

lemma safe_retryTimes:
  assumes "safe I m (\<lambda>_. True)"
  shows "safe I (retryTimes n m) (\<lambda>_. True)"
proof (induction n)
  case 0
  then show ?case using assms by simp
next
  case (Suc n)
  show ?case
    unfolding safe_def
  proof (intro allI impI)
    fix w assume "I w"
    obtain r w' where run: "m w = (r, w')" by (cases "m w")
    with assms \<open>I w\<close> have "I w'" "r \<noteq> Panic" unfolding safe_def by (metis snd_conv, metis fst_conv outcome.simps)
    with run Suc show "I (snd (retryTimes (Suc n) m w)) \<and>
        (case fst (retryTimes (Suc n) m w) of Panic \<Rightarrow> False | Fail _ \<Rightarrow> True | Ret _ \<Rightarrow> True)"
      unfolding safe_def by (cases r) auto
  qed
qed

theorem enabled_policies_never_panic_witness:
  "fst (Reconcile_Service (NewServiceReconciler (cl_GetService (mg_GetClient clusterManager))
     (UpsertIngressForService (pl_ingressJson clusterPlatform) (pl_onConflict clusterPlatform)
       (assembledUpdater clusterPlatform ''ecosystem'' clusterManager (clusterClientSet ''ecosystem'') clusterTraefik
          (\<lambda>_. readObject k_dogus) (assembledController ''k8s-ces-gateway'' ''ecosystem'' (clusterClientSet ''ecosystem'') clusterTraefik)))
     (asNetworkPolicyUpdater (pl_portsJson clusterPlatform) (pl_onConflict clusterPlatform)
       (NewNetworkPolicyHandler (ks_networkPolicyClient (clusterClientSet ''ecosystem''))
         (GetName (assembledController ''k8s-ces-gateway'' ''ecosystem'' (clusterClientSet ''ecosystem'') clusterTraefik)) ''0.0.0.0/0''))
     True) (''ecosystem'', ''scm'') doguCluster) \<noteq> Panic"
proof -
  let ?cs = "clusterClientSet ''ecosystem''"
  have clients: "leavesStores wellShaped (ks_ingressClient ?cs)" "\<And>ns. leavesStores wellShaped (tk_Middlewares clusterTraefik ns)"
    "\<And>d m. leaves wellShaped (mg_EventfDogu clusterManager d m)"
    by (simp_all add: clusterClientSet_def clusterTraefik_def ingressClient_def middlewareClient_def clusterManager_def
        recordEvent_def leaves_memClient) (simp_all add: leaves_def leavesStores_def memClient_def wellShaped_def cluster_ops
        recordEvent_def split: option.split)
  have shape: "keepsShape wellShaped (NewNetworkPolicyHandler (ks_networkPolicyClient ?cs) n cidr)" for n cidr
    by (auto simp: keepsShape_def safe_def getNetworkPolicy_def NewNetworkPolicyHandler_def clusterClientSet_def
        networkPolicyClient_def memClient_def wellShaped_def cluster_ops wfPolicy_def split: option.split)
  have conflicts: "safe wellShaped (pl_onConflict clusterPlatform m) (\<lambda>_. True)" if "safe wellShaped m (\<lambda>_. True)" for m
    using safe_retryTimes [OF that] by (simp add: clusterPlatform_def)
  have start: "wellShaped doguCluster" by (simp add: wellShaped_def doguCluster_def emptyCluster_def)
  show ?thesis
    using enabled_policies_never_panic [OF steady.steady_platform_axioms quiet.quiet_reads_axioms refl refl refl clients
        shape conflicts refl start, where reqs = "[]"] by simp
qed

end
