(* ===== verification/Spec2Isabelle.thy ===== *)
theory Spec2Isabelle
  imports Contention System Policy_Shape
begin

text \<open>
  A verification development of k8s-service-discovery, the operator that makes the services of a
  Cloudogu EcoSystem reachable from outside of its cluster.

  \<^bold>\<open>The program.\<close>  \<open>main.go\<close> reads the environment, creates clients and registers six reconcilers and
  two background jobs with a controller manager.  The service reconciler gives every dogu service its
  ingresses (ingress updater) and opens its ports in one network policy (network policy handler); the
  deployment reconciler refreshes the ingresses when a dogu becomes ready.  The load balancer
  reconciler keeps the service \<open>ces-loadbalancer\<close> in step with its config map and with the exposed ports
  of all services, and hands the ports to the ingress controller (Traefik), which keeps a route per
  port.  The redirect reconciler keeps an ingress that redirects the alternative FQDNs.  The
  maintenance mode controller points every ingress to a static page and cuts off services that dogus
  expose themselves.  A self-signed certificate follows the FQDNs in the global configuration
  (certificate updater) and is copied back there from its secret (synchronizer, with a reconciler).

  \<^bold>\<open>How it is modelled.\<close>  A function that talks to the cluster is an \<open>io\<close>: it takes a world of any type
  and gives an outcome (a value, an error, a panic) and a world.  A Go struct is a record, its
  interfaces are fields that hold functions; error values keep their wrapping; \<open>int32\<close> and \<open>int\<close> are
  words; a map is a finite map, and one that may be \<open>nil\<close> an option of it; where Go ranges over a map,
  the order is an argument; where pointers are compared, a pointer carries its address.  The API
  server, the decoders, \<open>sort.Slice\<close>, the retry loops, the X.509 library, the clock and the controller
  manager are arguments.  What is relied on is stated in locales, and \<open>Cluster\<close> is a concrete world on
  which all of them are interpreted.

  \<^bold>\<open>Theories, with the files under src/ they model.\<close>
  \<^item> \<open>Go_Prelude\<close>, \<open>Go_Strings\<close>: effects, errors, loops, retries; the functions of \<open>strings\<close>, \<open>strconv\<close>, \<open>slices\<close>
    and \<open>path\<close> in use; the contract of a sort (locale \<open>slice_sort\<close>).
  \<^item> \<open>Kube\<close>: API objects and clients; what a client promises (locale \<open>object_store\<close>).
  \<^item> \<open>Util_Pkg\<close>: controllers/util/util.go.
  \<^item> \<open>Exposed_Port\<close>, \<open>Dogu_Service\<close>, \<open>Load_Balancer\<close>, \<open>Alternative_FQDN\<close>: internal/types.
  \<^item> \<open>Middleware_Manager\<close>, \<open>Ingress_Updater\<close>, \<open>Network_Policy\<close>: controllers/expose.
  \<^item> \<open>Traefik\<close>: controllers/expose/ingressController.
  \<^item> \<open>Lb_Controller\<close>, \<open>Service_Controller\<close>, \<open>Redirect_Controller\<close>, \<open>Maintenance\<close>: the reconcilers of
    controllers/ (loadbalancerController.go; serviceController.go and deploymentController.go;
    redirectController.go; maintenanceModeController.go).
  \<^item> \<open>Dogu_Health\<close>: controllers/dogustart/doguHealthChecker.go.
  \<^item> \<open>Global_Config\<close>: the repository of the global configuration (controllers/interfaces.go), whose
    implementation is a library.
  \<^item> \<open>Certificates\<close>: controllers/selfsignedCertificateUpdater.go, ecosystemCertificateReconciler.go, ssl/.
  \<^item> \<open>Logging\<close>, \<open>Manager\<close>: controllers/logging, controllers/config, main.go.
  \<^item> \<open>Cluster\<close>: the reference world; \<open>Traefik_Correct\<close>, \<open>Network_Policy_Correct\<close>, \<open>Ingress_Correct\<close>,
    \<open>Lb_Correct\<close>, \<open>Maintenance_Correct\<close>, \<open>Certificates_Correct\<close>, \<open>Manager_Correct\<close>: locales of the
    components' environments, their interpretations, and the properties.
  \<^item> \<open>Port_Registry\<close>: the network policy handler as a refinement of an abstract registry of ports.
  \<^item> \<open>Contention\<close>: the handler beside other writers of the same network policy.
  \<^item> \<open>Panic_Free\<close>: no reconcile panics; \<open>Policy_Shape\<close>: nor does the service reconciler with network
    policies enabled, by triples over an invariant of the stored policy.
  \<^item> \<open>Write_Sets\<close>: the frames of the reconcilers; \<open>System\<close>: jobs that settle in any schedule, and the
    service and load balancer reconcilers as such jobs.

  \<^bold>\<open>What is shown.\<close>
  \<^item> Data types: which port annotations and load balancer configurations are accepted, with their
    bounds; ports keep their node port; a configuration replaces an earlier one; the parser of the
    alternative FQDNs and its round trip; what \<open>Equals\<close> decides.
  \<^item> Load balancer: one reconcile stores exactly the configured policies and the ports of all
    services, all of them well typed, a second one changes nothing, and the ingress controller routes
    the dogu ports.
  \<^item> Ingresses: every announced ces service is routed as maintenance mode and readiness say.
  \<^item> Network policy: over any sequence of calls no port is open that no service is mapped to; as long as
    no two services hold one port, the open ports are exactly those mapped and the handler refines a
    registry; where two services share a port, it may be closed for one of them.  Beside other
    writers a call with enough retries acts as one atomic change of the registry and loses none of
    their writes.
  \<^item> Redirects, maintenance mode, certificates: one reconcile reaches the state the configuration asks
    for; maintenance and back; the watch loop ends exactly when it is told to; starting the updater
    leaves a certificate that covers the configured names where the stored one can be read or is
    missing, and sets up the watch in any case; the synchronizer on a configuration that takes the
    certificate and on one that refuses it.
  \<^item> Readiness: the callback of a wait runs once if the deployment is ever seen ready, and otherwise not.
  \<^item> Start-up: one order of registration, whatever fails; nothing is registered in an incomplete
    environment; no reconcile panics, and each changes only its own kinds of objects.
  \<^item> Below: the service reconciler with its ingress updater and its network policy handler at once;
    the service reconciler and the load balancer reconciler on one cluster, in any schedule; the service
    reconciler on a service that is gone.

  \<^bold>\<open>Loops and bounds.\<close>  Loops over slices are structural recursion.  The two loops over a \<open>select\<close> are a
  step relation (\<open>waitStep\<close>) and a recursion over the sequence of events seen (\<open>startFQDNWatch\<close>).
  Retries are an argument that behaves like the call itself unless it fails with a conflict
  (\<open>retriesConflicts\<close>); \<open>retryTimes\<close> is an instance.  Where no other party steps in, any number of
  tries is enough; in \<open>Contention\<close>, as many as the others still have writes.

  \<^bold>\<open>Not modelled.\<close>  Interleaving of the reconcilers within a reconcile, except for the writers of the
  network policy (elsewhere a reconcile runs to its end and other parties act between reconciles);
  what the components write to their logs; contexts and their cancellation, except where a loop
  selects on them; characters beyond ASCII in \<open>strings.ToUpper\<close>, \<open>strings.EqualFold\<close> and
  \<open>strings.TrimSpace\<close>; the difference between a \<open>nil\<close> and an empty slice (both are the empty list);
  strings that the JSON codec does not reproduce, such as invalid UTF-8 (the round trip is assumed for
  all lists of ports); the Helm chart, build files and generated mocks.  The interface declarations of the
  packages have no behaviour: they are the record and function types of the model.
\<close>

section \<open>Properties that span components\<close>

subsection \<open>The service reconciler with its ingress updater and its network policy handler\<close>

text \<open>The state of the ingress updater's world, extended by the network policies.\<close>

interpretation updaterP: ingress_environment exampleUpdater k_ingresses "clusterSysWith k_networkPolicies"
    exampleIngressJson "retryTimes 3" putIngress admIngress
  by (rule exampleUpdater_environment) (simp add: untouchedByUpdater_def cluster_ops)

text \<open>
  Property C3. A reconcile of an existing service, with network policies enabled, from a state in
  order: it succeeds; every ces service of the service is routed as the state of the system says and
  no other ingress changes; the network policy stays coherent and opens the exposed ports of the
  service.
\<close>

theorem service_reconciled_end_to_end:
  assumes "ingress_environment i viewI sys onConflict putI admI"
    and "policy_store pjson onConflict nph viewP putP admP"
    and "\<And>v. sysState.more (sys v) = viewP v" and "\<And>n u v. viewI (putP n u v) = viewI v"
    and "get req w = (Ret service, w)"
    and "getCesServices json service = Inr (cess, True)"
    and "sy_dogus (sys w) (om_Name (svc_meta service)) \<noteq> None"
    and "getAdditionalIngressAnnotations json service = Inr additional"
    and "\<And>ces. ces \<in> set cess \<Longrightarrow> cs_Rewrite ces \<noteq> [] \<Longrightarrow> \<not> isl (ij_rewrite json (cs_Rewrite ces))"
    and "policyOK pjson nph (viewP w)" and "parseExposedPortsFromService pjson service = Inr ports"
    and "\<And>P. viewP w (policyName nph) = Some P \<Longrightarrow> unshared pjson P (om_Name (svc_meta service)) ports"
  shows "\<exists>w'. Reconcile_Service (NewServiceReconciler get (UpsertIngressForService json onConflict i)
      (asNetworkPolicyUpdater pjson onConflict nph) True) req w = (Ret (), w') \<and>
    (\<forall>n. case find (\<lambda>c. cs_Name c = n) (rev cess) of
       None \<Rightarrow> viewI w' n = viewI w n
     | Some c \<Rightarrow> \<exists>x. viewI w' n = Some x \<and> serves x (routeFor json i service additional
         (sy_maintenance (sys w)) (sy_ready (sys w) (om_Name (svc_meta service))) c)) \<and>
    policyOK pjson nph (viewP w') \<and>
    (ports = [] \<or> (\<exists>P'. viewP w' (policyName nph) = Some P' \<and> portKey ` set ports \<subseteq> openKeys P'))"
proof -
  obtain w1 where w1: "UpsertIngressForService json onConflict i service w = (Ret (), w1)" "sys w1 = sys w"
    "\<forall>n. case find (\<lambda>c. cs_Name c = n) (rev cess) of
       None \<Rightarrow> viewI w1 n = viewI w n
     | Some c \<Rightarrow> \<exists>x. viewI w1 n = Some x \<and> serves x (routeFor json i service additional
         (sy_maintenance (sys w)) (sy_ready (sys w) (om_Name (svc_meta service))) c)"
    using ingress_environment.upsert_run [OF assms(1,6-9)] by blast
  have viewP: "viewP w1 = viewP w" using w1(2) assms(3) by metis
  obtain w2 where w2: "UpsertNetworkPoliciesForService pjson onConflict nph service w1 = (Ret (), w2)"
    "w2 = w1 \<or> (\<exists>P'. w2 = putP (policyName nph) (Some P') w1)" "policyOK pjson nph (viewP w2)"
    "ports = [] \<or> (\<exists>P'. viewP w2 (policyName nph) = Some P' \<and> portKey ` set ports \<subseteq> openKeys P')"
    using policy_store.upsert_opens [OF assms(2), of w1 service ports] assms(10-12) viewP by auto
  have "viewI w2 = viewI w1" using w2(2) assms(4) by auto
  moreover have "Reconcile_Service (NewServiceReconciler get (UpsertIngressForService json onConflict i)
      (asNetworkPolicyUpdater pjson onConflict nph) True) req w = (Ret (), w2)"
    using w1(1) w2(1) assms(5)
    by (simp add: Reconcile_Service_def getService_def afterLookup_def dispatch_def handleUpsert_def
        NewServiceReconciler_def asNetworkPolicyUpdater_def io_simps)
  ultimately show ?thesis using w1(3) w2(3,4) by (intro exI [of _ w2]) (simp only: simp_thms)
qed

definition exampleHost :: Service where
  "exampleHost = emptyService
     \<lparr>svc_meta := emptyMeta\<lparr>om_Name := ''scm'', om_Namespace := ''ecosystem'',
        om_Labels := fmap_of_list [(DoguLabelName, ''scm'')],
        om_Annotations := Some (fmap_of_list [(CesServiceAnnotation, ''x''),
          (cesExposedPortsAnnotation, encodePorts [examplePort])])\<rparr>,
      svc_spec := (svc_spec emptyService)\<lparr>ss_Ports := [\<lparr>sp_Name = ''ssh'', sp_Protocol = ''TCP'',
        sp_Port = 2222, sp_TargetPort = IntVal 22, sp_NodePort = 0\<rparr>], ss_Type := ServiceTypeClusterIP\<rparr>\<rparr>"

lemma exampleHost_facts:
  "om_Name (svc_meta exampleHost) = ''scm''" "HasDoguLabel (svc_meta exampleHost)"
  "getCesServices exampleIngressJson exampleHost = Inr ([exampleCesService], True)"
  "getAdditionalIngressAnnotations exampleIngressJson exampleHost = Inr fmempty"
  "parseExposedPortsFromService exampleJson exampleHost = Inr [examplePort]"
proof -
  have keys: "CesServiceAnnotation \<noteq> cesExposedPortsAnnotation" by code_simp
  have fold: "equalFold ''TCP'' ''tcp''" by code_simp
  show "om_Name (svc_meta exampleHost) = ''scm''" "HasDoguLabel (svc_meta exampleHost)"
    by (simp_all add: exampleHost_def HasDoguLabel_iff)
  show "getCesServices exampleIngressJson exampleHost = Inr ([exampleCesService], True)"
    using keys by (simp add: getCesServices_def exampleHost_def exampleIngressJson_def emptyMeta_def)
  show "getAdditionalIngressAnnotations exampleIngressJson exampleHost = Inr fmempty"
    by (simp add: getAdditionalIngressAnnotations_def exampleHost_def exampleIngressJson_def emptyMeta_def
        CesServiceAnnotation_def cesExposedPortsAnnotation_def)
  show "parseExposedPortsFromService exampleJson exampleHost = Inr [examplePort]"
    using fold keys
    by (simp add: parseExposedPortsFromService_def exampleHost_def emptyMeta_def exampleJson_def
        readPorts_encodePorts equalsServicePortExposedPort_def examplePort_def)
qed

theorem service_reconciled_end_to_end_witness:
  "\<exists>w' P'. Reconcile_Service (NewServiceReconciler (\<lambda>_. ret exampleHost)
       (UpsertIngressForService exampleIngressJson (retryTimes 3) exampleUpdater)
       (asNetworkPolicyUpdater exampleJson (retryTimes 3) exampleHandler) True) (''ecosystem'', ''scm'') doguCluster =
         (Ret (), w') \<and>
     k_networkPolicies w' (policyName exampleHandler) = Some P' \<and> portKey examplePort \<in> openKeys P'"
proof -
  have sys: "sy_dogus (clusterSysWith k_networkPolicies doguCluster) (om_Name (svc_meta exampleHost)) \<noteq> None"
    by (simp add: clusterSys_def doguCluster_def exampleHost_facts)
  have none: "k_networkPolicies doguCluster = Map.empty" by (simp add: doguCluster_def emptyCluster_def)
  have frame: "k_ingresses (putNetworkPolicy n u v) = k_ingresses v" for n u v
    by (simp add: putNetworkPolicy_def bump_def)
  obtain w' where "Reconcile_Service (NewServiceReconciler (\<lambda>_. ret exampleHost)
       (UpsertIngressForService exampleIngressJson (retryTimes 3) exampleUpdater)
       (asNetworkPolicyUpdater exampleJson (retryTimes 3) exampleHandler) True) (''ecosystem'', ''scm'') doguCluster =
         (Ret (), w')"
    "[examplePort] = [] \<or> (\<exists>P'. k_networkPolicies w' (policyName exampleHandler) = Some P' \<and>
       portKey ` set [examplePort] \<subseteq> openKeys P')"
    using service_reconciled_end_to_end [OF updaterP.ingress_environment_axioms policies.policy_store_axioms,
        OF clusterSysWith_fields(4) frame, where get = "\<lambda>_. ret exampleHost" and req = "(''ecosystem'', ''scm'')" and
          w = doguCluster and service = exampleHost and json = exampleIngressJson,
        OF ret_run exampleHost_facts(3) sys exampleHost_facts(4) _ _ exampleHost_facts(5)]
    by (elim meta_impE exE conjE) (auto simp: exampleCesService_def policyOK_def none)
  then show ?thesis by auto
qed

subsection \<open>A service that is gone\<close>

text \<open>
  Property C20. A reconcile of a service that is gone, from any state in which the stored policy has the
  shape the handler gives it and its mappings decode.  With network policies enabled it closes exactly
  the ports the service was mapped to and drops its mapping; every other mapping stays.  With network
  policies disabled it deletes the policy.  Both succeed, and nothing else in the world changes: no
  ingress is written for the service, although with network policies disabled the ingress updater is
  called with an empty one.
\<close>

theorem missing_service_reconciled:
  assumes "policy_store pjson onConflict nph view put adm" and "get req w = (Fail err, w)" and "isNotFound err"
    and "\<forall>v. \<exists>desc active. iu_GetStatus i v = (Ret (desc, active), v)"
    and "\<forall>P. view w (policyName nph) = Some P \<longrightarrow> om_Name (np_meta P) = policyName nph \<and> wfPolicy P \<and> decodable pjson P"
    and "key = getServicePortMappingAnnotationKey (snd req)"
    and "rec = (\<lambda>enabled. Reconcile_Service (NewServiceReconciler get (UpsertIngressForService json onConflict i)
      (asNetworkPolicyUpdater pjson onConflict nph) enabled) req)"
  shows "case view w (policyName nph) of
     None \<Rightarrow> rec True w = (Ret (), w) \<and> rec False w = (Ret (), w)
   | Some P \<Rightarrow>
       (\<exists>w' P'. rec True w = (Ret (), w') \<and> (w' = w \<or> w' = put (policyName nph) (Some P') w) \<and>
          view w' = (view w)(policyName nph \<mapsto> P') \<and> annotation P' key = None \<and>
          (\<forall>k. k \<noteq> key \<longrightarrow> annotation P' k = annotation P k) \<and>
          openKeys P' = openKeys P - portKey ` set (portsOfAnnotation pjson P key)) \<and>
       (\<exists>w'. rec False w = (Ret (), w') \<and> (w' = w \<or> w' = put (policyName nph) None w) \<and>
          view w' = (view w)(policyName nph := None))"
proof -
  have on: "rec True w = (Ret (), w')" if "RemoveExposedPorts pjson onConflict nph (snd req) w = (Ret (), w')" for w'
    unfolding assms(7) using that assms(2,3)
    by (simp add: Reconcile_Service_def getService_def afterLookup_def dispatch_def handleDelete_def NewServiceReconciler_def
        asNetworkPolicyUpdater_def io_simps)
  have "UpsertIngressForService json onConflict i emptyService v = (Ret (), v)" for v
    using assms(4) by (auto simp: UpsertIngressForService_def getCesServices_def emptyService_def io_simps dest!: spec [of _ v])
  then have off: "rec False w = (Ret (), w')" if "RemoveNetworkPolicy nph w = (Ret (), w')" for w'
    unfolding assms(7) using that assms(2,3)
    by (simp add: Reconcile_Service_def getService_def afterLookup_def dispatch_def handleUpsert_def NewServiceReconciler_def
        asNetworkPolicyUpdater_def io_simps)
  have named: "\<forall>P. view w (policyName nph) = Some P \<longrightarrow> om_Name (np_meta P) = policyName nph" using assms(5) by blast
  obtain w1 where w1: "RemoveNetworkPolicy nph w = (Ret (), w1)" "w1 = w \<or> w1 = put (policyName nph) None w"
    "view w1 = (view w)(policyName nph := None)"
    using policy_store.drop_run [OF assms(1) named] by blast
  show ?thesis
  proof (cases "view w (policyName nph)")
    case None
    have "RemoveNetworkPolicy nph w = (Ret (), w)"
      using object_store.get_missing [OF policy_store.store [OF assms(1)] None]
      by (simp add: RemoveNetworkPolicy_def getNetworkPolicy_def io_simps)
    with None show ?thesis using on off policy_store.remove_missing [OF assms(1) None, of "snd req"] by simp
  next
    case (Some P)
    then obtain w' P' where "RemoveExposedPorts pjson onConflict nph (snd req) w = (Ret (), w')"
      "w' = w \<or> w' = put (policyName nph) (Some P') w" "view w' = (view w)(policyName nph \<mapsto> P')"
      "remapped pjson key [] P P'" "annotation P' key = None"
      using policy_store.remove_existing [OF assms(1) Some, of "snd req"] assms(5) unfolding assms(6) by blast
    with Some on off w1 show ?thesis by (auto simp: remapped_def)
  qed
qed

theorem missing_service_reconciled_witness:
  "\<exists>w' P'. Reconcile_Service (NewServiceReconciler (\<lambda>_. fail (Api NotFound))
       (UpsertIngressForService exampleIngressJson (retryTimes 3) exampleUpdater)
       (asNetworkPolicyUpdater exampleJson (retryTimes 3) exampleHandler) True) (''ecosystem'', ''scm'') policyCluster =
         (Ret (), w') \<and>
     k_networkPolicies w' (policyName exampleHandler) = Some P' \<and> portKey examplePort \<notin> openKeys P' \<and>
     annotation P' (getServicePortMappingAnnotationKey ''git'') = Some (encodePorts [examplePort])"
proof -
  have gone: "isNotFound (Api NotFound)" by simp
  have status: "\<forall>v. \<exists>desc active. iu_GetStatus exampleUpdater v = (Ret (desc, active), v)"
    by (simp add: exampleUpdater_def maintenanceStatus_def)
  have stored: "\<forall>P. k_networkPolicies policyCluster (policyName exampleHandler) = Some P \<longrightarrow>
      om_Name (np_meta P) = policyName exampleHandler \<and> wfPolicy P \<and> decodable exampleJson P"
    using examplePolicy_facts(1-4) by simp
  have git: "annotation examplePolicy (getServicePortMappingAnnotationKey ''git'') = Some (encodePorts [examplePort])"
    using example_keys by (simp add: examplePolicy_def)
  have "\<exists>w' P'. Reconcile_Service (NewServiceReconciler (\<lambda>_. fail (Api NotFound))
       (UpsertIngressForService exampleIngressJson (retryTimes 3) exampleUpdater)
       (asNetworkPolicyUpdater exampleJson (retryTimes 3) exampleHandler) True) (''ecosystem'', ''scm'') policyCluster =
         (Ret (), w') \<and>
      k_networkPolicies w' = (k_networkPolicies policyCluster)(policyName exampleHandler \<mapsto> P') \<and>
      (\<forall>k. k \<noteq> getServicePortMappingAnnotationKey ''scm'' \<longrightarrow> annotation P' k = annotation examplePolicy k) \<and>
      openKeys P' = openKeys examplePolicy - {portKey examplePort}"
    using missing_service_reconciled [OF policies.policy_store_axioms, where get = "\<lambda>_. fail (Api NotFound)" and
        w = policyCluster and req = "(''ecosystem'', ''scm'')" and json = exampleIngressJson, OF fail_run gone status stored refl refl]
    by (auto simp: examplePolicy_facts(1,5))
  then show ?thesis using git example_keys by (metis Diff_iff fun_upd_same insertI1)
qed

subsection \<open>The service reconciler and the load balancer reconciler on one cluster\<close>

abbreviation publishedParts ::
  "cluster \<Rightarrow> (string \<Rightarrow> NetworkPolicy option) \<times> (string \<Rightarrow> Service option) \<times> (string \<times> string \<Rightarrow> ConfigMap option)" where
  "publishedParts w \<equiv> (k_networkPolicies w, serviceView w, configMapView w)"

lemma publishedParts_apart: "untouchedByUpdater publishedParts"
  by (simp add: untouchedByUpdater_def cluster_ops serviceView_def configMapView_def fun_eq_iff)

interpretation pair: shared_system exampleUpdater k_ingresses "clusterSysWith publishedParts" exampleIngressJson "retryTimes 3"
    putIngress admIngress exampleJson exampleHandler k_networkPolicies putNetworkPolicy admNetworkPolicy
    exampleLibraries exampleLbReconciler serviceView putService admService configMapView "\<lambda>req. readObject serviceView (snd req)"
proof (rule shared_system.intro)
  show "ingress_environment exampleUpdater k_ingresses (clusterSysWith publishedParts) (retryTimes 3) putIngress admIngress"
    by (rule exampleUpdater_environment [OF publishedParts_apart])
  show "policy_store exampleJson (retryTimes 3) exampleHandler k_networkPolicies putNetworkPolicy admNetworkPolicy"
    by (rule policies.policy_store_axioms)
  show "lb_environment exampleLibraries exampleLbReconciler serviceView putService admService configMapView"
    by (rule lbs.lb_environment_axioms)
  have "leaves (\<lambda>w. (k_ingresses w, k_networkPolicies w, sysState.truncate (clusterSysWith publishedParts w)))
      (ic_ExposePorts (lr_IngressController exampleLbReconciler) ns ps)" for ns ps
    by (simp add: exampleLbReconciler_def asIngressController_def)
      (rule leaves_ExposePorts; simp add: ingressClient_def routeTCPClient_def routeUDPClient_def leaves_memClient
        cluster_ops sysState.truncate_def clusterSys_def)
  then show "shared_system_axioms k_ingresses (clusterSysWith publishedParts) k_networkPolicies putNetworkPolicy
      exampleLbReconciler serviceView putService configMapView (\<lambda>req. readObject serviceView (snd req))"
    by unfold_locales (simp_all add: readObject_def sysState.truncate_def clusterSys_def
        cluster_ops putService_def serviceView_def configMapView_def fun_eq_iff)
qed

text \<open>
  Property C6. The service reconciler and the load balancer reconciler settle side by side.  However
  often and in whatever order the two are started on one cluster, from a state in order: every
  run succeeds, and once each of them has run, the ingresses and the network policy publish the
  service, the load balancer carries the configuration and the ports of all exposed services, and of
  the ingresses, the network policies and the services no other one has changed.
\<close>

theorem reconcilers_settle_side_by_side:
  assumes "shared_system i viewI sys onConflict putI admI pjson nph viewP putP admP libs r viewS putS admS cmView get"
    and "viewS w (snd reqS) = Some service" and "snd reqS \<noteq> LoadbalancerName"
    and "getCesServices json service = Inr (cess, True)"
    and "sy_dogus (sys w) (om_Name (svc_meta service)) \<noteq> None"
    and "getAdditionalIngressAnnotations json service = Inr additional"
    and "\<And>ces. ces \<in> set cess \<Longrightarrow> cs_Rewrite ces \<noteq> [] \<Longrightarrow> \<not> isl (ij_rewrite json (cs_Rewrite ces))"
    and "parseExposedPortsFromService pjson service = Inr ports" and "policyOK pjson nph (viewP w)"
    and "\<forall>P. viewP w (policyName nph) = Some P \<longrightarrow> unshared pjson P (om_Name (svc_meta service)) ports"
    and "cmView w reqL = Some cm" and "ParseLoadbalancerConfig (lib_unmarshalConfig libs) cm = Inr cfg"
    and "[] \<notin> fmdom' (lc_Annotations cfg)" and "reconcilable (viewS w)"
    and "distinct xs" and "set xs = exposedServices (viewS w)" and "list_all (readable libs) xs"
    and "distinct (map ep_Name (concat (map (portsOf libs) xs)))"
    and "Publish \<in> set tasks" and "Balance a \<in> set tasks"
  shows "\<exists>w'. forEach (taskOf
      (Reconcile_Service (NewServiceReconciler get (UpsertIngressForService json onConflict i)
        (asNetworkPolicyUpdater pjson onConflict nph) True) reqS)
      (\<lambda>a. Reconcile_LoadBalancer libs a r reqL)) tasks w = (Ret (), w') \<and>
    published json i nph service cess additional ports (sys w) (viewI w') (viewP w') \<and>
    balanced (lr_SetControllerReference r cm) cfg (concat (map (portsOf libs) xs)) (viewS w') \<and>
    policyOK pjson nph (viewP w') \<and>
    (\<forall>n. find (\<lambda>c. cs_Name c = n) (rev cess) = None \<longrightarrow> viewI w' n = viewI w n) \<and>
    (\<forall>n. n \<noteq> policyName nph \<longrightarrow> viewP w' n = viewP w n) \<and>
    (\<forall>n. n \<noteq> LoadbalancerName \<longrightarrow> viewS w' n = viewS w n)"
proof -
  note jobs = shared_system.tasks_settle [OF assms(1-8,11-13,15-18)]
  obtain w' where w': "forEach (taskOf
      (Reconcile_Service (NewServiceReconciler get (UpsertIngressForService json onConflict i)
        (asNetworkPolicyUpdater pjson onConflict nph) True) reqS)
      (\<lambda>a. Reconcile_LoadBalancer libs a r reqL)) tasks w = (Ret (), w')"
    and ready: "(\<forall>n. n \<noteq> LoadbalancerName \<longrightarrow> viewS w' n = viewS w n) \<and>
       (\<forall>n. find (\<lambda>c. cs_Name c = n) (rev cess) = None \<longrightarrow> viewI w' n = viewI w n) \<and>
       (\<forall>n. n \<noteq> policyName nph \<longrightarrow> viewP w' n = viewP w n) \<and>
       reconcilable (viewS w') \<and> exposedServices (viewS w') = exposedServices (viewS w) \<and> cmView w' = cmView w \<and>
       sysState.truncate (sys w') = sysState.truncate (sys w) \<and> policyOK pjson nph (viewP w') \<and>
       (\<forall>P. viewP w' (policyName nph) = Some P \<longrightarrow> unshared pjson P (om_Name (svc_meta service)) ports)"
    and settled: "\<forall>t. t \<in> set tasks \<or> (case t of
         Publish \<Rightarrow> published json i nph service cess additional ports (sys w) (viewI w) (viewP w)
       | Balance _ \<Rightarrow> balanced (lr_SetControllerReference r cm) cfg (concat (map (portsOf libs) xs)) (viewS w)) \<longrightarrow>
      (case t of
         Publish \<Rightarrow> published json i nph service cess additional ports (sys w) (viewI w') (viewP w')
       | Balance _ \<Rightarrow> balanced (lr_SetControllerReference r cm) cfg (concat (map (portsOf libs) xs)) (viewS w'))"
    using settling_jobs.schedule_settles [OF jobs, of w tasks] assms(9,10,14) by auto
  show ?thesis
    using w' ready spec [OF settled, of Publish] spec [OF settled, of "Balance a"] assms(19,20) by simp
qed

definition hostCluster :: cluster where
  "hostCluster = exampleCluster
     \<lparr>k_services := fmap_of_list [(''scm'', exampleHost)], k_dogus := [''scm'' \<mapsto> \<lparr>dogu_meta = emptyMeta\<rparr>]\<rparr>"

lemma hostCluster_services:
  "serviceView hostCluster n = (if n = ''scm'' then Some exampleHost else None)"
  by (simp add: serviceView_def hostCluster_def)

lemma hostCluster_facts:
  "configMapView hostCluster (''ecosystem'', ''ces-loadbalancer-config'') = Some \<lparr>cm_meta = emptyMeta, cm_Data = fmempty\<rparr>"
  "reconcilable (serviceView hostCluster)" "{exampleHost} = exposedServices (serviceView hostCluster)"
  "k_networkPolicies hostCluster = Map.empty" "k_dogus hostCluster ''scm'' \<noteq> None"
proof -
  show "configMapView hostCluster (''ecosystem'', ''ces-loadbalancer-config'') = Some \<lparr>cm_meta = emptyMeta, cm_Data = fmempty\<rparr>"
    "k_networkPolicies hostCluster = Map.empty" "k_dogus hostCluster ''scm'' \<noteq> None"
    by (simp_all add: configMapView_def hostCluster_def exampleCluster_def emptyCluster_def)
  show "reconcilable (serviceView hostCluster)"
    by (simp add: reconcilable_def hostCluster_services LoadbalancerName_def)
  have "snd (isExposedPortService (ServiceObject exampleHost))"
    by (simp add: isExposedPortService_def ParseService_def exampleHost_def emptyService_def
        emptyMeta_def ensureAnnotations_def HasExposedPorts_def Let_def cesExposedPortsAnnotation_def
        exposedPortServiceAnnotation_def CesServiceAnnotation_def)
  then show "{exampleHost} = exposedServices (serviceView hostCluster)"
    by (auto simp: exposedServices_def hostCluster_services split: if_splits)
qed

lemma exampleHost_ports:
  "readable exampleLibraries exampleHost" "portsOf exampleLibraries exampleHost = map (portOfDTO ''scm'') (rev exampleDTOs)"
proof -
  have "GetExposedPorts insertionSort (\<lambda>_. Inr exampleDTOs) exampleHost =
      GetExposedPorts insertionSort (\<lambda>_. Inr exampleDTOs) exampleDoguService"
    by (simp add: GetExposedPorts_def exampleHost_def exampleDoguService_def emptyMeta_def cesExposedPortsAnnotation_def
        exposedPortServiceAnnotation_def CesServiceAnnotation_def)
  then show "readable exampleLibraries exampleHost" "portsOf exampleLibraries exampleHost = map (portOfDTO ''scm'') (rev exampleDTOs)"
    using exampleCluster_facts(5,6) by (simp_all add: readable_def portsOf_def exampleLibraries_def)
qed

lemma exampleHost_names: "distinct (map ep_Name (concat (map (portsOf exampleLibraries) [exampleHost])))"
  using exampleCluster_names by (simp add: exampleHost_ports(2) exampleCluster_facts(5))

text \<open>The contract of the jobs, met by the two reconcilers on this cluster.\<close>

interpretation hosted: settling_jobs "taskOf (pair.publish (''ecosystem'', ''scm''))
      (\<lambda>a. Reconcile_LoadBalancer exampleLibraries a exampleLbReconciler (''ecosystem'', ''ces-loadbalancer-config''))"
    "\<lambda>w. (\<forall>n. n \<noteq> LoadbalancerName \<longrightarrow> serviceView w n = serviceView hostCluster n) \<and>
       (\<forall>n. find (\<lambda>c. cs_Name c = n) (rev [exampleCesService]) = None \<longrightarrow> k_ingresses w n = k_ingresses hostCluster n) \<and>
       (\<forall>n. n \<noteq> policyName exampleHandler \<longrightarrow> k_networkPolicies w n = k_networkPolicies hostCluster n) \<and>
       reconcilable (serviceView w) \<and> exposedServices (serviceView w) = exposedServices (serviceView hostCluster) \<and>
       configMapView w = configMapView hostCluster \<and>
       sysState.truncate (clusterSysWith publishedParts w) = sysState.truncate (clusterSysWith publishedParts hostCluster) \<and>
       policyOK exampleJson exampleHandler (k_networkPolicies w) \<and>
       (\<forall>P. k_networkPolicies w (policyName exampleHandler) = Some P \<longrightarrow>
          unshared exampleJson P (om_Name (svc_meta exampleHost)) [examplePort])"
    "\<lambda>t w. case t of
       Publish \<Rightarrow> published exampleIngressJson exampleUpdater exampleHandler exampleHost [exampleCesService] fmempty [examplePort]
         (clusterSysWith publishedParts hostCluster) (k_ingresses w) (k_networkPolicies w)
     | Balance _ \<Rightarrow> balanced (lr_SetControllerReference exampleLbReconciler \<lparr>cm_meta = emptyMeta, cm_Data = fmempty\<rparr>) exampleConfig
         (concat (map (portsOf exampleLibraries) [exampleHost])) (serviceView w)"
  by (rule pair.tasks_settle)
    (simp_all add: hostCluster_services LoadbalancerName_def exampleHost_facts hostCluster_facts clusterSys_def
      exampleCesService_def exampleCluster_facts(2) exampleHost_ports(1) exampleHost_names [simplified] exampleConfig_def fmdom'_of_list)

theorem reconcilers_settle_side_by_side_witness:
  "\<exists>w' P x. forEach (taskOf
      (Reconcile_Service (NewServiceReconciler (\<lambda>req. readObject serviceView (snd req))
        (UpsertIngressForService exampleIngressJson (retryTimes 3) exampleUpdater)
        (asNetworkPolicyUpdater exampleJson (retryTimes 3) exampleHandler) True) (''ecosystem'', ''scm''))
      (\<lambda>a. Reconcile_LoadBalancer exampleLibraries a exampleLbReconciler (''ecosystem'', ''ces-loadbalancer-config'')))
      [Balance 7, Publish, Balance 8] hostCluster = (Ret (), w') \<and>
    k_networkPolicies w' (policyName exampleHandler) = Some P \<and> portKey examplePort \<in> openKeys P \<and>
    serviceView w' LoadbalancerName = Some x"
proof -
  have dogu: "sy_dogus (clusterSysWith publishedParts hostCluster) (om_Name (svc_meta exampleHost)) \<noteq> None"
    using hostCluster_facts(5) by (simp add: clusterSys_def exampleHost_facts)
  have keys: "[] \<notin> fmdom' (lc_Annotations exampleConfig)" by (simp add: exampleConfig_def fmdom'_of_list)
  have host: "serviceView hostCluster (snd (''ecosystem'', ''scm'')) = Some exampleHost"
    "snd (''ecosystem'', ''scm'') \<noteq> LoadbalancerName"
    by (simp_all add: hostCluster_services LoadbalancerName_def)
  have paths: "\<not> isl (ij_rewrite exampleIngressJson (cs_Rewrite ces))"
    if "ces \<in> set [exampleCesService]" "cs_Rewrite ces \<noteq> []" for ces
    using that by (simp add: exampleCesService_def)
  have policy: "policyOK exampleJson exampleHandler (k_networkPolicies hostCluster)"
    "\<forall>P. k_networkPolicies hostCluster (policyName exampleHandler) = Some P \<longrightarrow>
       unshared exampleJson P (om_Name (svc_meta exampleHost)) [examplePort]"
    by (simp_all add: policyOK_def hostCluster_facts(4))
  have exposed: "distinct [exampleHost]" "set [exampleHost] = exposedServices (serviceView hostCluster)"
    "list_all (readable exampleLibraries) [exampleHost]"
    by (simp_all add: hostCluster_facts(3) exampleHost_ports(1))
  have tasks: "Publish \<in> set [Balance 7, Publish, Balance 8]" "Balance 7 \<in> set [Balance 7, Publish, Balance 8]"
    by simp_all
  have "\<exists>w'. forEach (taskOf
      (Reconcile_Service (NewServiceReconciler (\<lambda>req. readObject serviceView (snd req))
        (UpsertIngressForService exampleIngressJson (retryTimes 3) exampleUpdater)
        (asNetworkPolicyUpdater exampleJson (retryTimes 3) exampleHandler) True) (''ecosystem'', ''scm''))
      (\<lambda>a. Reconcile_LoadBalancer exampleLibraries a exampleLbReconciler (''ecosystem'', ''ces-loadbalancer-config'')))
      [Balance 7, Publish, Balance 8] hostCluster = (Ret (), w') \<and>
    published exampleIngressJson exampleUpdater exampleHandler exampleHost [exampleCesService] fmempty [examplePort]
      (clusterSysWith publishedParts hostCluster) (k_ingresses w') (k_networkPolicies w') \<and>
    balanced (lr_SetControllerReference exampleLbReconciler \<lparr>cm_meta = emptyMeta, cm_Data = fmempty\<rparr>) exampleConfig
      (concat (map (portsOf exampleLibraries) [exampleHost])) (serviceView w')"
    using reconcilers_settle_side_by_side [OF pair.shared_system_axioms, where w = hostCluster and reqS = "(''ecosystem'', ''scm'')"
        and service = exampleHost and json = exampleIngressJson and cess = "[exampleCesService]" and additional = fmempty
        and ports = "[examplePort]" and reqL = "(''ecosystem'', ''ces-loadbalancer-config'')"
        and cm = "\<lparr>cm_meta = emptyMeta, cm_Data = fmempty\<rparr>" and cfg = exampleConfig and xs = "[exampleHost]"
        and tasks = "[Balance 7, Publish, Balance 8]" and a = 7,
        OF host exampleHost_facts(3) dogu exampleHost_facts(4) paths exampleHost_facts(5) policy hostCluster_facts(1)
          exampleCluster_facts(2) keys hostCluster_facts(2) exposed exampleHost_names tasks]
    by blast
  then show ?thesis unfolding published_def balanced_def by auto
qed

end
